(* ===== verification/Prelude.thy ===== *)
theory Prelude
  imports "HOL-Library.Char_ord" "HOL-Library.Sublist" "HOL-Library.List_Lexorder"
begin

text \<open>
  Shared layer of the development: the Python values and string methods the scripts under
  \<open>src/my_socket/build_support/\<close> use, and the effect type of the lint checks.

  Text is \<^typ>\<open>string\<close>, a list of \<^typ>\<open>char\<close>: one \<^typ>\<open>char\<close> is one code point below 256
  (Latin-1), so every operation below agrees with Python 3's \<open>str\<close> on that alphabet. Integers are
  unbounded \<^typ>\<open>int\<close>, as in Python. A HOL string literal cannot contain a backslash; \<open>raw\<close> reads
  a backquote (which no constant of the scripts contains) as a backslash.
\<close>

named_theorems run_simps \<open>equations that evaluate the effect type\<close>
named_theorems py_simps \<open>evaluation rules of the Python string methods\<close>
named_theorems bounds \<open>length and index bounds of the string functions\<close>

section \<open>Characters\<close>

definition raw :: "string \<Rightarrow> string" where
  "raw = map (\<lambda>c. if c = CHR 0x60 then CHR 0x5C else c)"

abbreviation backslash :: char where "backslash \<equiv> CHR 0x5C"
abbreviation newline :: char where "newline \<equiv> CHR 0x0A"
abbreviation dquote :: char where "dquote \<equiv> CHR 0x22"
abbreviation squote :: char where "squote \<equiv> CHR 0x27"

definition py_digit :: "char \<Rightarrow> bool" where
  "py_digit c \<longleftrightarrow> CHR ''0'' \<le> c \<and> c \<le> CHR ''9''"

definition ascii_lower :: "char \<Rightarrow> bool" where
  "ascii_lower c \<longleftrightarrow> CHR ''a'' \<le> c \<and> c \<le> CHR ''z''"

definition ascii_upper :: "char \<Rightarrow> bool" where
  "ascii_upper c \<longleftrightarrow> CHR ''A'' \<le> c \<and> c \<le> CHR ''Z''"

definition ascii_alnum :: "char \<Rightarrow> bool" where
  "ascii_alnum c \<longleftrightarrow> ascii_lower c \<or> ascii_upper c \<or> py_digit c"

text \<open>\<open>\w\<close> of a \<open>str\<close> pattern: \<open>isalnum()\<close> or underscore, on Latin-1.\<close>

definition py_word :: "char \<Rightarrow> bool" where
  "py_word c \<longleftrightarrow> ascii_alnum c \<or> c = CHR ''_'' \<or>
     (CHR 0xAA \<le> c \<and> (c = CHR 0xAA \<or> c = CHR 0xB2 \<or> c = CHR 0xB3 \<or> c = CHR 0xB5 \<or>
       c = CHR 0xB9 \<or> c = CHR 0xBA \<or> (CHR 0xBC \<le> c \<and> c \<le> CHR 0xBE) \<or>
       (CHR 0xC0 \<le> c \<and> c \<noteq> CHR 0xD7 \<and> c \<noteq> CHR 0xF7)))"

text \<open>\<open>\s\<close> and \<open>isspace()\<close> on Latin-1.\<close>

definition py_space :: "char \<Rightarrow> bool" where
  "py_space c \<longleftrightarrow> c = CHR '' '' \<or> (CHR 0x09 \<le> c \<and> c \<le> CHR 0x0D) \<or>
     (CHR 0x1C \<le> c \<and> c \<le> CHR 0x1F) \<or> c = CHR 0x85 \<or> c = CHR 0xA0"

text \<open>\<open>lower()\<close> on Latin-1, and \<open>upper()\<close> on ASCII (all the scripts apply it to): the two cases
  differ in the bit of weight 32.\<close>

definition lower_char :: "char \<Rightarrow> char" where
  "lower_char c = (if ascii_upper c \<or> (CHR 0xC0 \<le> c \<and> c \<le> CHR 0xDE \<and> c \<noteq> CHR 0xD7)
     then (case c of Char b0 b1 b2 b3 b4 b5 b6 b7 \<Rightarrow> Char b0 b1 b2 b3 b4 True b6 b7) else c)"

definition upper_char :: "char \<Rightarrow> char" where
  "upper_char c = (if ascii_lower c
     then (case c of Char b0 b1 b2 b3 b4 b5 b6 b7 \<Rightarrow> Char b0 b1 b2 b3 b4 False b6 b7) else c)"

section \<open>Slices and indexing\<close>

text \<open>\<open>xs[a:b]\<close> with Python's treatment of negative and out-of-range bounds.\<close>

definition clip :: "nat \<Rightarrow> int \<Rightarrow> nat" where
  "clip n i = (if i < 0 then nat (int n + i) else min n (nat i))"

definition slice :: "'a list \<Rightarrow> int \<Rightarrow> int \<Rightarrow> 'a list" where
  "slice xs a b = (let i = clip (length xs) a; j = clip (length xs) b in take (j - i) (drop i xs))"

definition slice_from :: "'a list \<Rightarrow> int \<Rightarrow> 'a list" where
  "slice_from xs a = drop (clip (length xs) a) xs"

definition slice_to :: "'a list \<Rightarrow> int \<Rightarrow> 'a list" where
  "slice_to xs b = take (clip (length xs) b) xs"

definition py_len :: "'a list \<Rightarrow> int" where
  "py_len xs = int (length xs)"

section \<open>String methods\<close>

definition startswith :: "string \<Rightarrow> string \<Rightarrow> bool" where
  "startswith s p = prefix p s"

definition endswith :: "string \<Rightarrow> string \<Rightarrow> bool" where
  "endswith s p = suffix p s"

text \<open>\<open>s.find(sub)\<close>: the least index, or -1.\<close>

fun find_nat :: "string \<Rightarrow> string \<Rightarrow> nat option" where
  "find_nat sub [] = (if sub = [] then Some 0 else None)"
| "find_nat sub (c # cs) =
     (if prefix sub (c # cs) then Some 0 else map_option Suc (find_nat sub cs))"

definition py_find :: "string \<Rightarrow> string \<Rightarrow> int" where
  "py_find s sub = (case find_nat sub s of None \<Rightarrow> -1 | Some i \<Rightarrow> int i)"

definition py_find_from :: "string \<Rightarrow> string \<Rightarrow> int \<Rightarrow> int" where
  "py_find_from s sub a =
     (if int (length s) < a then -1
      else case find_nat sub (slice_from s a) of
        None \<Rightarrow> -1 | Some i \<Rightarrow> int (clip (length s) a + i))"

definition contains :: "string \<Rightarrow> string \<Rightarrow> bool" where
  "contains s sub \<longleftrightarrow> find_nat sub s \<noteq> None"

text \<open>\<open>s.rfind(c)\<close> for one character.\<close>

definition py_rfind :: "string \<Rightarrow> char \<Rightarrow> int" where
  "py_rfind s c = (if c \<in> set s then int (length s - 1 - length (takeWhile (\<lambda>d. d \<noteq> c) (rev s))) else -1)"

text \<open>\<open>s.count(sub)\<close> and \<open>s.replace(old, new)\<close>, both without overlaps.\<close>

function py_count :: "string \<Rightarrow> string \<Rightarrow> nat" where
  "py_count s sub =
     (if sub = [] then Suc (length s)
      else case s of [] \<Rightarrow> 0
        | c # cs \<Rightarrow> if prefix sub s then Suc (py_count (drop (length sub) s) sub) else py_count cs sub)"
  by pat_completeness auto
termination
  by (relation "measure (\<lambda>(s, sub). length s)") auto

function py_replace :: "string \<Rightarrow> string \<Rightarrow> string \<Rightarrow> string" where
  "py_replace s old new =
     (if old = [] then new @ concat (map (\<lambda>c. c # new) s)
      else case s of [] \<Rightarrow> []
        | c # cs \<Rightarrow> if prefix old s then new @ py_replace (drop (length old) s) old new
                   else c # py_replace cs old new)"
  by pat_completeness auto
termination
  by (relation "measure (\<lambda>(s, old, new). length s)") auto

declare py_count.simps [simp del] py_replace.simps [simp del]

definition lstrip_by :: "(char \<Rightarrow> bool) \<Rightarrow> string \<Rightarrow> string" where
  "lstrip_by P s = dropWhile P s"

definition rstrip_by :: "(char \<Rightarrow> bool) \<Rightarrow> string \<Rightarrow> string" where
  "rstrip_by P s = rev (dropWhile P (rev s))"

definition lstrip :: "string \<Rightarrow> string" where "lstrip = lstrip_by py_space"
definition rstrip :: "string \<Rightarrow> string" where "rstrip = rstrip_by py_space"
definition strip :: "string \<Rightarrow> string" where "strip s = rstrip (lstrip s)"

text \<open>\<open>s.split(c)\<close> for one separator character, and \<open>s.split()\<close> on whitespace.\<close>

fun split_on :: "char \<Rightarrow> string \<Rightarrow> string list" where
  "split_on c [] = [[]]"
| "split_on c (x # xs) =
     (if x = c then [] # split_on c xs
      else (case split_on c xs of [] \<Rightarrow> [[x]] | w # ws \<Rightarrow> (x # w) # ws))"

fun split_ws_from :: "string \<Rightarrow> string \<Rightarrow> string list" where
  "split_ws_from w [] = (if w = [] then [] else [rev w])"
| "split_ws_from w (x # xs) =
     (if py_space x then (if w = [] then split_ws_from [] xs else rev w # split_ws_from [] xs)
      else split_ws_from (x # w) xs)"

definition split_ws :: "string \<Rightarrow> string list" where
  "split_ws s = split_ws_from [] s"

text \<open>\<open>sep.join(xs)\<close> and \<open>s.partition(c)\<close>.\<close>

fun join :: "'a list \<Rightarrow> 'a list list \<Rightarrow> 'a list" where
  "join sep [] = []"
| "join sep [x] = x"
| "join sep (x # y # ys) = x @ sep @ join sep (y # ys)"

definition partition :: "string \<Rightarrow> char \<Rightarrow> string \<times> string \<times> string" where
  "partition s c = (let h = takeWhile (\<lambda>d. d \<noteq> c) s; t = dropWhile (\<lambda>d. d \<noteq> c) s
     in (h, take 1 t, drop 1 t))"

definition isspace :: "string \<Rightarrow> bool" where
  "isspace s \<longleftrightarrow> s \<noteq> [] \<and> list_all py_space s"

definition lower :: "string \<Rightarrow> string" where "lower = map lower_char"
definition upper :: "string \<Rightarrow> string" where "upper = map upper_char"

text \<open>\<open>'%d' % n\<close>.\<close>

fun digits_of :: "nat \<Rightarrow> string" where
  "digits_of n = (if n < 10 then [char_of (48 + n)] else digits_of (n div 10) @ [char_of (48 + n mod 10)])"

declare digits_of.simps [simp del]

definition str_int :: "int \<Rightarrow> string" where
  "str_int i = (if i < 0 then CHR ''-'' # digits_of (nat (- i)) else digits_of (nat i))"

text \<open>The value of a string of decimal digits.\<close>

definition digits_val :: "string \<Rightarrow> nat" where
  "digits_val ds = foldl (\<lambda>n d. 10 * n + (of_char d - 48)) 0 ds"

section \<open>Bounds\<close>

lemma py_find_bound [bounds]: "0 \<le> py_find s sub \<Longrightarrow> py_find s sub + py_len sub \<le> py_len s"
proof -
  have "find_nat sub s = Some i \<Longrightarrow> i + length sub \<le> length s" for i
    by (induction sub s arbitrary: i rule: find_nat.induct) (auto split: if_splits dest: prefix_length_le)
  then show "0 \<le> py_find s sub \<Longrightarrow> ?thesis"
    by (fastforce simp: py_find_def py_len_def split: option.splits)
qed

lemma length_slice_from [simp]: "length (slice_from xs a) = length xs - clip (length xs) a"
  by (simp add: slice_from_def)

lemma clip_nonneg: "0 \<le> i \<Longrightarrow> clip n i = min n (nat i)"
  by (simp add: clip_def)

lemma slice_nonneg:
  "0 \<le> a \<Longrightarrow> 0 \<le> b \<Longrightarrow> slice xs a b = take (nat b - nat a) (drop (nat a) xs)"
  by (cases "nat a \<le> length xs") (auto simp: slice_def clip_def Let_def min_def)

lemma length_rstrip_by [bounds]: "length (rstrip_by P s) \<le> length s"
  by (simp add: rstrip_by_def) (metis length_dropWhile_le length_rev)

lemma length_strip [bounds]: "length (strip s) \<le> length s"
  unfolding strip_def rstrip_def lstrip_def lstrip_by_def
  by (rule order_trans [OF length_rstrip_by length_dropWhile_le])

text \<open>All characters, for facts by evaluation.\<close>

definition chars_from :: "bool list \<Rightarrow> string" where
  "chars_from bs = [Char b0 b1 b2 b3 b4 b5 b6 b7. b0 \<leftarrow> bs, b1 \<leftarrow> bs, b2 \<leftarrow> bs, b3 \<leftarrow> bs, b4 \<leftarrow> bs, b5 \<leftarrow> bs, b6 \<leftarrow> bs, b7 \<leftarrow> bs]"

definition all_chars :: string where
  "all_chars = chars_from [False, True]"

lemma set_all_chars [simp]: "set all_chars = UNIV"
proof -
  have bs: "set [False, True] = UNIV" by auto
  have "set bs = UNIV \<Longrightarrow> c \<in> set (chars_from bs)" for c bs by (cases c) (simp add: chars_from_def image_iff)
  from this [OF bs] show ?thesis unfolding all_chars_def by blast
qed

end
