(* ===== verification/PyRegex.thy ===== *)
theory PyRegex
  imports Prelude
begin

text \<open>
  Python's \<open>re\<close>: the part of the pattern language the scripts use, as an abstract syntax, a parser
  from pattern strings, and a backtracking matcher. The matcher returns the list of all ways to match
  from a position, in the order the backtracking engine tries them, so a match is the head of the
  list. Positions are suffixes of the subject, and a capture is the pair of the suffixes where the
  group starts and ends.

  Supported syntax: literals, \<open>.\<close>, classes, the escapes \<open>\s \S \w \W \d \D \b \B \n \r \t \1..\9\<close>,
  \<open>^\<close>, \<open>$\<close>, groups \<open>( )\<close>, \<open>(?: )\<close>, \<open>(?= )\<close>, \<open>(?! )\<close>, the flag \<open>(?i)\<close>, alternation, and the
  quantifiers \<open>* + ? {m} {m,n}\<close>, greedy or lazy. The parser answers \<open>None\<close> for everything else, which
  is where Python raises \<open>re.error\<close> or uses syntax no pattern here has.
\<close>

section \<open>Syntax\<close>

datatype citem = CChr char | CRng char char | CWord | CNWord | CSpace | CNSpace | CDigit | CNDigit

fun citem_has :: "citem \<Rightarrow> char \<Rightarrow> bool" where
  "citem_has (CChr d) c = (c = d)"
| "citem_has (CRng a b) c = (a \<le> c \<and> c \<le> b)"
| "citem_has CWord c = py_word c"
| "citem_has CNWord c = (\<not> py_word c)"
| "citem_has CSpace c = py_space c"
| "citem_has CNSpace c = (\<not> py_space c)"
| "citem_has CDigit c = py_digit c"
| "citem_has CNDigit c = (\<not> py_digit c)"

text \<open>A class: negated or not, and its items.\<close>

definition cls_has :: "bool \<Rightarrow> citem list \<Rightarrow> char \<Rightarrow> bool" where
  "cls_has neg is c \<longleftrightarrow> list_ex (\<lambda>i. citem_has i c) is \<noteq> neg"

datatype regex =
    REmpty
  | RAny
  | RSet bool "citem list"
  | RSeq regex regex
  | RAlt regex regex
  | RRep bool nat "nat option" regex  \<comment> \<open>greedy?, least and greatest number of repetitions\<close>
  | RGrp nat regex
  | RBol
  | REol
  | RWordB
  | RNWordB
  | RAhead bool regex                 \<comment> \<open>negative?\<close>
  | RRef nat

abbreviation RLit :: "char \<Rightarrow> regex" where
  "RLit c \<equiv> RSet False [CChr c]"

section \<open>The matcher\<close>

type_synonym caps = "nat \<Rightarrow> (string \<times> string) option"

text \<open>The character before the position, the rest of the subject, the captures so far.\<close>

type_synonym mstate = "char option \<times> string \<times> caps"

definition word_at :: "char option \<Rightarrow> bool" where
  "word_at x = (case x of None \<Rightarrow> False | Some c \<Rightarrow> py_word c)"

definition hd_opt :: "'a list \<Rightarrow> 'a option" where
  "hd_opt xs = (case xs of [] \<Rightarrow> None | x # _ \<Rightarrow> Some x)"

definition boundary :: "char option \<Rightarrow> string \<Rightarrow> bool" where
  "boundary p s \<longleftrightarrow> word_at p \<noteq> word_at (hd_opt s)"

fun left_over :: "mstate \<Rightarrow> nat" where
  "left_over (p, s, c) = length s"

definition pred_opt :: "nat option \<Rightarrow> nat option" where
  "pred_opt = map_option (\<lambda>h. h - 1)"

primrec rsize :: "regex \<Rightarrow> nat" where
  "rsize REmpty = 1" | "rsize RAny = 1" | "rsize (RSet n cs) = 1"
| "rsize (RSeq a b) = Suc (rsize a + rsize b)" | "rsize (RAlt a b) = Suc (rsize a + rsize b)"
| "rsize (RRep g l h a) = Suc (rsize a)" | "rsize (RGrp n a) = Suc (rsize a)"
| "rsize RBol = 1" | "rsize REol = 1" | "rsize RWordB = 1" | "rsize RNWordB = 1"
| "rsize (RAhead n a) = Suc (rsize a)" | "rsize (RRef n) = 1"

text \<open>
  A repetition runs its mandatory rounds first; an optional round that consumes nothing ends the
  repetition, as the engine's check on the last position does.
\<close>

function (sequential) ends :: "regex \<Rightarrow> mstate \<Rightarrow> mstate list" where
  "ends REmpty st = [st]"
| "ends RAny (p, s, c) =
     (case s of [] \<Rightarrow> [] | x # xs \<Rightarrow> if x = newline then [] else [(Some x, xs, c)])"
| "ends (RSet neg is) (p, s, c) =
     (case s of [] \<Rightarrow> [] | x # xs \<Rightarrow> if cls_has neg is x then [(Some x, xs, c)] else [])"
| "ends (RSeq a b) st = concat (map (ends b) (ends a st))"
| "ends (RAlt a b) st = ends a st @ ends b st"
| "ends (RRep g lo hi a) st =
     (case lo of
       Suc lo' \<Rightarrow> concat (map (\<lambda>st'. ends (RRep g lo' (pred_opt hi) a) st') (ends a st))
     | 0 \<Rightarrow> if hi = Some 0 then [st]
        else let more = concat (map (\<lambda>st'. if left_over st' < left_over st
                           then ends (RRep g 0 (pred_opt hi) a) st' else [st']) (ends a st))
             in if g then more @ [st] else st # more)"
| "ends (RGrp n a) (p, s, c) = map (\<lambda>(p', s', c'). (p', s', c'(n := Some (s, s')))) (ends a (p, s, c))"
| "ends RBol (p, s, c) = (if p = None then [(p, s, c)] else [])"
| "ends REol (p, s, c) = (if s = [] \<or> s = [newline] then [(p, s, c)] else [])"
| "ends RWordB (p, s, c) = (if boundary p s then [(p, s, c)] else [])"
| "ends RNWordB (p, s, c) = (if boundary p s then [] else [(p, s, c)])"
| "ends (RAhead neg a) (p, s, c) =
     (case ends a (p, s, c) of
        [] \<Rightarrow> if neg then [(p, s, c)] else []
      | st # _ \<Rightarrow> if neg then [] else [(p, s, snd (snd st))])"
| "ends (RRef n) (p, s, c) =
     (case c n of None \<Rightarrow> []
      | Some (a, b) \<Rightarrow>
          let t = take (length a - length b) a
          in if t = [] then [(p, s, c)]
             else if prefix t s then [(Some (last t), drop (length t) s, c)] else [])"
  by pat_completeness auto
termination
  by (relation "measures [\<lambda>(r, st). rsize r,
      \<lambda>(r, st). case r of RRep g lo hi a \<Rightarrow> lo | _ \<Rightarrow> 0, \<lambda>(r, st). left_over st]") auto

text \<open>The equation of a repetition calls itself: it is unfolded by hand only.\<close>

lemmas ends_Rep = ends.simps(6)

declare ends.simps(6) [simp del]

lemma ends_Rep_Suc: "ends (RRep g (Suc lo) hi a) st = concat (map (ends (RRep g lo (pred_opt hi) a)) (ends a st))"
  by (simp add: ends_Rep)

lemma ends_Rep_0: "ends (RRep g 0 hi a) st =
    (if hi = Some 0 then [st]
     else let more = concat (map (\<lambda>st'. if left_over st' < left_over st
                        then ends (RRep g 0 (pred_opt hi) a) st' else [st']) (ends a st))
          in if g then more @ [st] else st # more)"
  by (subst ends_Rep) simp

lemma ends_Rep_self: "st \<in> set (ends (RRep g 0 hi a) st)"
  by (subst ends_Rep_0) (simp add: Let_def)

lemma ends_Rep_cases [consumes 1, case_names finished last_round more]:
  assumes "st' \<in> set (ends (RRep g lo hi a) st)"
  obtains "lo = 0" and "st' = st"
  | "lo = 0" and "hi \<noteq> Some 0" and "st' \<in> set (ends a st)" and "\<not> left_over st' < left_over st"
  | st1 where "st1 \<in> set (ends a st)" and "lo = 0 \<longrightarrow> hi \<noteq> Some 0 \<and> left_over st1 < left_over st"
      and "st' \<in> set (ends (RRep g (lo - 1) (pred_opt hi) a) st1)"
proof (cases lo)
  case 0
  from assms have "st' = st \<or> hi \<noteq> Some 0 \<and> (\<exists>st1 \<in> set (ends a st).
      if left_over st1 < left_over st then st' \<in> set (ends (RRep g 0 (pred_opt hi) a) st1) else st' = st1)"
    unfolding 0 ends_Rep_0 [of g hi a st] by (force simp: Let_def split: if_splits)
  then show thesis using that 0 by (auto split: if_splits)
next
  case (Suc lo')
  with assms that show thesis by (auto simp: ends_Rep_Suc)
qed

section \<open>Match objects and the functions of the module\<close>

record mtch =
  subject :: string
  at_start :: string   \<comment> \<open>the rest of the subject where the match starts\<close>
  at_end :: string     \<comment> \<open>and where it ends\<close>
  mcaps :: caps

definition no_caps :: caps where "no_caps = (\<lambda>_. None)"

definition span_text :: "string \<Rightarrow> string \<Rightarrow> string" where
  "span_text a b = take (length a - length b) a"

definition group_opt :: "mtch \<Rightarrow> nat \<Rightarrow> string option" where
  "group_opt m n = (if n = 0 then Some (span_text (at_start m) (at_end m))
     else map_option (\<lambda>(a, b). span_text a b) (mcaps m n))"

text \<open>\<open>group\<close> is for groups that take part in every match of their pattern.\<close>

definition group :: "mtch \<Rightarrow> nat \<Rightarrow> string" where
  "group m n = (case group_opt m n of None \<Rightarrow> [] | Some t \<Rightarrow> t)"

definition m_start :: "mtch \<Rightarrow> int" where
  "m_start m = int (length (subject m) - length (at_start m))"

definition m_end :: "mtch \<Rightarrow> int" where
  "m_end m = int (length (subject m) - length (at_end m))"

definition group_start :: "mtch \<Rightarrow> nat \<Rightarrow> int" where
  "group_start m n = (case mcaps m n of None \<Rightarrow> -1
     | Some (a, b) \<Rightarrow> int (length (subject m) - length a))"

definition re_match :: "regex \<Rightarrow> string \<Rightarrow> mtch option" where
  "re_match r s = (case ends r (None, s, no_caps) of [] \<Rightarrow> None
     | (p, t, c) # _ \<Rightarrow> Some \<lparr>subject = s, at_start = s, at_end = t, mcaps = c\<rparr>)"

fun search_at :: "regex \<Rightarrow> char option \<Rightarrow> string \<Rightarrow> (string \<times> mstate) option" where
  "search_at r p s =
     (case ends r (p, s, no_caps) of
        st # _ \<Rightarrow> Some (s, st)
      | [] \<Rightarrow> (case s of [] \<Rightarrow> None | x # xs \<Rightarrow> search_at r (Some x) xs))"

definition re_search :: "regex \<Rightarrow> string \<Rightarrow> mtch option" where
  "re_search r s = (case search_at r None s of None \<Rightarrow> None
     | Some (a, (p, t, c)) \<Rightarrow> Some \<lparr>subject = s, at_start = a, at_end = t, mcaps = c\<rparr>)"

declare search_at.simps [simp del]

text \<open>All matches from left to right, and the substitution over them.\<close>

function find_from :: "regex \<Rightarrow> string \<Rightarrow> char option \<Rightarrow> string \<Rightarrow> mtch list" where
  "find_from r subj p s =
     (case search_at r p s of None \<Rightarrow> []
      | Some (a, (q, b, c)) \<Rightarrow> \<lparr>subject = subj, at_start = a, at_end = b, mcaps = c\<rparr> #
          (if length b < length s then find_from r subj q b
           else case s of [] \<Rightarrow> [] | x # xs \<Rightarrow> find_from r subj (Some x) xs))"
  by pat_completeness auto
termination
  by (relation "measure (\<lambda>(r, subj, p, s). length s)") auto

definition re_finditer :: "regex \<Rightarrow> string \<Rightarrow> mtch list" where
  "re_finditer r s = find_from r s None s"

function sub_from :: "regex \<Rightarrow> (mtch \<Rightarrow> string) \<Rightarrow> string \<Rightarrow> char option \<Rightarrow> string \<Rightarrow> string" where
  "sub_from r f subj p s =
     (case search_at r p s of None \<Rightarrow> s
      | Some (a, (q, b, c)) \<Rightarrow> span_text s a @
          f \<lparr>subject = subj, at_start = a, at_end = b, mcaps = c\<rparr> @
          (if length b < length s then sub_from r f subj q b
           else case s of [] \<Rightarrow> [] | x # xs \<Rightarrow> x # sub_from r f subj (Some x) xs))"
  by pat_completeness auto
termination
  by (relation "measure (\<lambda>(r, f, subj, p, s). length s)") auto

declare find_from.simps [simp del] sub_from.simps [simp del]

definition re_sub :: "regex \<Rightarrow> (mtch \<Rightarrow> string) \<Rightarrow> string \<Rightarrow> string" where
  "re_sub r f s = sub_from r f s None s"

section \<open>The parser\<close>

datatype gkind = KTop | KCap nat | KNon | KAhead bool

text \<open>An open group: its kind, its finished alternatives and its current items, latest first.\<close>

type_synonym frame = "gkind \<times> regex list \<times> regex list"

definition seq_of :: "regex list \<Rightarrow> regex" where
  "seq_of rs = (case rs of [] \<Rightarrow> REmpty | x # xs \<Rightarrow> foldl (\<lambda>acc y. RSeq y acc) x xs)"

text \<open>Items Python does not let a quantifier follow.\<close>

fun unrepeatable :: "regex \<Rightarrow> bool" where
  "unrepeatable (RRep _ _ _ _) = True"
| "unrepeatable RBol = True"
| "unrepeatable REol = True"
| "unrepeatable RWordB = True"
| "unrepeatable RNWordB = True"
| "unrepeatable _ = False"

definition close_frame :: "frame \<Rightarrow> regex" where
  "close_frame f = (case f of (k, alts, sq) \<Rightarrow>
     (let body = foldl (\<lambda>acc a. RAlt a acc) (seq_of sq) alts in
      case k of KTop \<Rightarrow> body | KCap n \<Rightarrow> RGrp n body
        | KNon \<Rightarrow> (if unrepeatable body then RSeq body REmpty else body)
        | KAhead neg \<Rightarrow> RAhead neg body))"

fun push :: "regex \<Rightarrow> frame list \<Rightarrow> frame list" where
  "push a ((k, alts, sq) # fs) = (k, alts, a # sq) # fs"
| "push a [] = []"

fun quantify :: "bool \<Rightarrow> nat \<Rightarrow> nat option \<Rightarrow> frame list \<Rightarrow> frame list option" where
  "quantify g lo hi ((k, alts, a # sq) # fs) =
     (if unrepeatable a then None else Some ((k, alts, RRep g lo hi a # sq) # fs))"
| "quantify g lo hi _ = None"

definition class_escape :: "char \<Rightarrow> citem option" where
  "class_escape c =
     (if c = CHR ''s'' then Some CSpace else if c = CHR ''S'' then Some CNSpace
      else if c = CHR ''w'' then Some CWord else if c = CHR ''W'' then Some CNWord
      else if c = CHR ''d'' then Some CDigit else if c = CHR ''D'' then Some CNDigit
      else if c = CHR ''n'' then Some (CChr newline) else if c = CHR ''r'' then Some (CChr (CHR 0x0D))
      else if c = CHR ''t'' then Some (CChr (CHR 0x09))
      else if ascii_alnum c then None else Some (CChr c))"

definition escape_atom :: "char \<Rightarrow> regex option" where
  "escape_atom c =
     (if c = CHR ''b'' then Some RWordB else if c = CHR ''B'' then Some RNWordB
      else if CHR ''1'' \<le> c \<and> c \<le> CHR ''9'' then Some (RRef (of_char c - 48))
      else map_option (\<lambda>i. RSet False [i]) (class_escape c))"

definition lit_atom :: "bool \<Rightarrow> char \<Rightarrow> regex" where
  "lit_atom icase c = (if icase \<and> (ascii_lower c \<or> ascii_upper c)
     then RSet False [CChr (lower_char c), CChr (upper_char c)] else RLit c)"

text \<open>The inside of braces, after the opening one.\<close>

definition braces :: "string \<Rightarrow> (nat \<times> nat option \<times> string) option" where
  "braces cs =
     (let lo = takeWhile py_digit cs; r1 = dropWhile py_digit cs; l = digits_val lo in
      case r1 of [] \<Rightarrow> None
      | x # r2 \<Rightarrow>
          if x = CHR ''}'' then (if lo = [] then None else Some (l, Some l, r2))
          else if x = CHR '','' then
            (let hi = takeWhile py_digit r2; r3 = dropWhile py_digit r2 in
             case r3 of [] \<Rightarrow> None
             | y # r4 \<Rightarrow> if y = CHR ''}'' then Some (l, if hi = [] then None else Some (digits_val hi), r4)
                        else None)
          else None)"

definition quantifier :: "char \<Rightarrow> string \<Rightarrow> (nat \<times> nat option \<times> string) option" where
  "quantifier c cs =
     (if c = CHR ''*'' then Some (0, None, cs)
      else if c = CHR ''+'' then Some (1, None, cs)
      else if c = CHR ''?'' then Some (0, Some 1, cs)
      else if c = CHR ''{'' then braces cs else None)"

lemma length_dropWhile_lt: "x # ys = dropWhile P xs \<Longrightarrow> length ys < length xs"
  by (metis length_Cons length_dropWhile_le less_eq_Suc_le)

lemma braces_shorter: "braces cs = Some (l, h, r) \<Longrightarrow> length r < length cs"
  by (auto simp: braces_def Let_def split: list.splits if_splits
      dest!: length_dropWhile_lt [OF sym])

lemma quantifier_shorter: "quantifier c cs = Some (l, h, r) \<Longrightarrow> length r \<le> length cs"
  by (auto simp: quantifier_def split: if_splits dest!: braces_shorter)

text \<open>What may follow: the mark of a lazy quantifier, the mark of a non-capturing group, the end of a
  range in a class.\<close>

definition lazy_mark :: "string \<Rightarrow> bool \<times> string" where
  "lazy_mark cs = (case cs of [] \<Rightarrow> (True, cs) | q # r \<Rightarrow> if q = CHR ''?'' then (False, r) else (True, cs))"

definition group_mark :: "string \<Rightarrow> (char \<times> string) option" where
  "group_mark cs = (case cs of q # k # r \<Rightarrow> if q = CHR ''?'' then Some (k, r) else None | _ \<Rightarrow> None)"

definition group_kind :: "char \<Rightarrow> gkind option" where
  "group_kind k = (if k = CHR '':'' then Some KNon else if k = CHR ''='' then Some (KAhead False)
     else if k = CHR ''!'' then Some (KAhead True) else None)"

definition range_end :: "string \<Rightarrow> (char \<times> string) option" where
  "range_end cs = (case cs of d # e # r \<Rightarrow> if d = CHR ''-'' \<and> e \<noteq> CHR '']'' then Some (e, r) else None | _ \<Rightarrow> None)"

lemma marks_shorter:
  "lazy_mark cs = (g, r) \<Longrightarrow> length r \<le> length cs"
  "group_mark cs = Some (k, r) \<Longrightarrow> length r \<le> length cs"
  "range_end cs = Some (e, r) \<Longrightarrow> length r \<le> length cs"
  by (auto simp: lazy_mark_def group_mark_def range_end_def split: list.splits if_splits)

datatype pmode = InRe | InClass bool bool "citem list"  \<comment> \<open>negated?, before the first item?, items\<close>

function (sequential) parse :: "bool \<Rightarrow> pmode \<Rightarrow> nat \<Rightarrow> frame list \<Rightarrow> string \<Rightarrow> regex option" where
  "parse ic InRe n fs [] = (case fs of [f] \<Rightarrow> Some (close_frame f) | _ \<Rightarrow> None)"
| "parse ic (InClass ng first is) n fs [] = None"
| "parse ic InRe n fs (c # cs) =
    (case quantifier c cs of
       Some (lo, hi, cs') \<Rightarrow>
        (case lazy_mark cs' of (greedy, cs'') \<Rightarrow>
           (case quantify greedy lo hi fs of None \<Rightarrow> None | Some fs' \<Rightarrow> parse ic InRe n fs' cs''))
     | None \<Rightarrow>
       if c = backslash then
         (case cs of [] \<Rightarrow> None
          | e # cs' \<Rightarrow> (case escape_atom e of None \<Rightarrow> None | Some a \<Rightarrow> parse ic InRe n (push a fs) cs'))
       else if c = CHR ''['' then
         (if ic then None
          else case cs of [] \<Rightarrow> None
            | d # cs' \<Rightarrow> if d = CHR ''^'' then parse ic (InClass True True []) n fs cs'
                        else parse ic (InClass False True []) n fs cs)
       else if c = CHR ''('' then
         (case group_mark cs of
            None \<Rightarrow> parse ic InRe (Suc n) ((KCap n, [], []) # fs) cs
          | Some (k, cs') \<Rightarrow>
             (case group_kind k of None \<Rightarrow> None | Some gk \<Rightarrow> parse ic InRe n ((gk, [], []) # fs) cs'))
       else if c = CHR '')'' then
         (case fs of f # g # fs' \<Rightarrow> parse ic InRe n (push (close_frame f) (g # fs')) cs | _ \<Rightarrow> None)
       else if c = CHR ''|'' then
         (case fs of (k, alts, sq) # fs' \<Rightarrow> parse ic InRe n ((k, seq_of sq # alts, []) # fs') cs
          | [] \<Rightarrow> None)
       else if c = CHR ''^'' then parse ic InRe n (push RBol fs) cs
       else if c = CHR ''$'' then parse ic InRe n (push REol fs) cs
       else if c = CHR ''.'' then parse ic InRe n (push RAny fs) cs
       else parse ic InRe n (push (lit_atom ic c) fs) cs)"
| "parse ic (InClass ng first is) n fs (c # cs) =
    (if c = CHR '']'' \<and> \<not> first then parse ic InRe n (push (RSet ng (rev is)) fs) cs
     else if c = backslash then
       (case cs of [] \<Rightarrow> None
        | e # cs' \<Rightarrow> (case class_escape e of None \<Rightarrow> None
           | Some a \<Rightarrow> parse ic (InClass ng False (a # is)) n fs cs'))
     else (case range_end cs of
         Some (e, cs') \<Rightarrow>
           if e = backslash \<or> e < c then None else parse ic (InClass ng False (CRng c e # is)) n fs cs'
       | None \<Rightarrow> parse ic (InClass ng False (CChr c # is)) n fs cs))"
  by pat_completeness auto
termination
  by (relation "measure (\<lambda>(ic, md, n, fs, s). length s)") (auto dest!: quantifier_shorter marks_shorter [OF sym] marks_shorter)

declare parse.simps [simp del]

text \<open>\<open>sre_compile.compile(pattern)\<close>, with the leading \<open>(?i)\<close> one pattern has.\<close>

definition re_compile :: "string \<Rightarrow> regex option" where
  "re_compile p = (if prefix ''(?i)'' p then parse True InRe 1 [(KTop, [], [])] (drop 4 p)
     else parse False InRe 1 [(KTop, [], [])] p)"

definition re_compile_icase :: "string \<Rightarrow> regex option" where
  "re_compile_icase p = parse True InRe 1 [(KTop, [], [])] p"

text \<open>\<open>re.escape(s)\<close> (Python 3.7 and later).\<close>

definition re_special :: "char \<Rightarrow> bool" where
  "re_special c \<longleftrightarrow> c \<in> set ''()[]{}?*+-|^$.&~# '' \<or> c = backslash \<or> (CHR 0x09 \<le> c \<and> c \<le> CHR 0x0D)"

definition re_escape :: "string \<Rightarrow> string" where
  "re_escape s = concat (map (\<lambda>c. if re_special c then [backslash, c] else [c]) s)"

end
