(* ===== verification/Tables.thy ===== *)
theory Tables
  imports PyRegex
begin

text \<open>
  The constant tables of \<open>cpplint.py\<close>: categories, default filters, suppressed categories, the C++
  headers, the assertion macros and their replacements, the alternative tokens, the thread-unsafe
  functions, the headers that hold templates. Sets and dicts are lists here, in source order, with
  membership and \<open>map_of\<close> for lookup.
\<close>

section \<open>Categories and filters\<close>

definition ERROR_CATEGORIES :: "string list" where
  "ERROR_CATEGORIES = [
    ''build/class'', ''build/c++11'', ''build/c++14'', ''build/c++tr1'', ''build/deprecated'',
    ''build/endif_comment'', ''build/explicit_make_pair'', ''build/forward_decl'',
    ''build/header_guard'', ''build/include'', ''build/include_subdir'', ''build/include_alpha'',
    ''build/include_order'', ''build/include_what_you_use'', ''build/namespaces_literals'',
    ''build/namespaces'', ''build/printf_format'', ''build/storage_class'', ''legal/copyright'',
    ''readability/alt_tokens'', ''readability/braces'', ''readability/casting'',
    ''readability/check'', ''readability/constructors'', ''readability/fn_size'',
    ''readability/inheritance'', ''readability/multiline_comment'',
    ''readability/multiline_string'', ''readability/namespace'', ''readability/nolint'',
    ''readability/nul'', ''readability/strings'', ''readability/todo'', ''readability/utf8'',
    ''runtime/arrays'', ''runtime/casting'', ''runtime/explicit'', ''runtime/int'',
    ''runtime/init'', ''runtime/invalid_increment'', ''runtime/member_string_references'',
    ''runtime/memset'', ''runtime/indentation_namespace'', ''runtime/operator'',
    ''runtime/printf'', ''runtime/printf_format'', ''runtime/references'', ''runtime/string'',
    ''runtime/threadsafe_fn'', ''runtime/vlog'', ''whitespace/blank_line'', ''whitespace/braces'',
    ''whitespace/comma'', ''whitespace/comments'', ''whitespace/empty_conditional_body'',
    ''whitespace/empty_if_body'', ''whitespace/empty_loop_body'', ''whitespace/end_of_line'',
    ''whitespace/ending_newline'', ''whitespace/forcolon'', ''whitespace/indent'',
    ''whitespace/line_length'', ''whitespace/newline'', ''whitespace/operators'',
    ''whitespace/parens'', ''whitespace/semicolon'', ''whitespace/tab'', ''whitespace/todo'']"

definition LEGACY_ERROR_CATEGORIES :: "string list" where
  "LEGACY_ERROR_CATEGORIES = [''readability/streams'', ''readability/function'']"

definition DEFAULT_FILTERS :: "string list" where
  "DEFAULT_FILTERS = [''-build/include_alpha'']"

definition DEFAULT_C_SUPPRESSED_CATEGORIES :: "string list" where
  "DEFAULT_C_SUPPRESSED_CATEGORIES = [''readability/casting'']"

definition DEFAULT_KERNEL_SUPPRESSED_CATEGORIES :: "string list" where
  "DEFAULT_KERNEL_SUPPRESSED_CATEGORIES = [''whitespace/tab'']"

section \<open>Headers\<close>

definition CPP_HEADERS :: "string list" where
  "CPP_HEADERS = [
    ''algobase.h'', ''algo.h'', ''alloc.h'', ''builtinbuf.h'', ''bvector.h'', ''complex.h'',
    ''defalloc.h'', ''deque.h'', ''editbuf.h'', ''fstream.h'', ''function.h'', ''hash_map'',
    ''hash_map.h'', ''hash_set'', ''hash_set.h'', ''hashtable.h'', ''heap.h'', ''indstream.h'',
    ''iomanip.h'', ''iostream.h'', ''istream.h'', ''iterator.h'', ''list.h'', ''map.h'',
    ''multimap.h'', ''multiset.h'', ''ostream.h'', ''pair.h'', ''parsestream.h'', ''pfstream.h'',
    ''procbuf.h'', ''pthread_alloc'', ''pthread_alloc.h'', ''rope'', ''rope.h'', ''ropeimpl.h'',
    ''set.h'', ''slist'', ''slist.h'', ''stack.h'', ''stdiostream.h'', ''stl_alloc.h'',
    ''stl_relops.h'', ''streambuf.h'', ''stream.h'', ''strfile.h'', ''strstream.h'',
    ''tempbuf.h'', ''tree.h'', ''type_traits.h'', ''vector.h'', ''algorithm'', ''array'',
    ''atomic'', ''bitset'', ''chrono'', ''codecvt'', ''complex'', ''condition_variable'',
    ''deque'', ''exception'', ''forward_list'', ''fstream'', ''functional'', ''future'',
    ''initializer_list'', ''iomanip'', ''ios'', ''iosfwd'', ''iostream'', ''istream'',
    ''iterator'', ''limits'', ''list'', ''locale'', ''map'', ''memory'', ''mutex'', ''new'',
    ''numeric'', ''ostream'', ''queue'', ''random'', ''ratio'', ''regex'', ''scoped_allocator'',
    ''set'', ''sstream'', ''stack'', ''stdexcept'', ''streambuf'', ''string'', ''strstream'',
    ''system_error'', ''thread'', ''tuple'', ''typeindex'', ''typeinfo'', ''type_traits'',
    ''unordered_map'', ''unordered_set'', ''utility'', ''valarray'', ''vector'', ''shared_mutex'',
    ''any'', ''charconv'', ''codecvt'', ''execution'', ''filesystem'', ''memory_resource'',
    ''optional'', ''string_view'', ''variant'', ''cassert'', ''ccomplex'', ''cctype'', ''cerrno'',
    ''cfenv'', ''cfloat'', ''cinttypes'', ''ciso646'', ''climits'', ''clocale'', ''cmath'',
    ''csetjmp'', ''csignal'', ''cstdalign'', ''cstdarg'', ''cstdbool'', ''cstddef'', ''cstdint'',
    ''cstdio'', ''cstdlib'', ''cstring'', ''ctgmath'', ''ctime'', ''cuchar'', ''cwchar'',
    ''cwctype'']"

section \<open>Assertion macros\<close>

definition CHECK_MACROS :: "string list" where
  "CHECK_MACROS = [''DCHECK'', ''CHECK'', ''EXPECT_TRUE'', ''ASSERT_TRUE'', ''EXPECT_FALSE'', ''ASSERT_FALSE'']"

text \<open>The pairs of the two loops that fill \<open>_CHECK_REPLACEMENT\<close>.\<close>

definition check_replacements :: "(string \<times> string) list" where
  "check_replacements = [(''=='', ''EQ''), (''!='', ''NE''), (''>='', ''GE''), (''>'', ''GT''),
     (''<='', ''LE''), (''<'', ''LT'')]"

definition check_inv_replacements :: "(string \<times> string) list" where
  "check_inv_replacements = [(''=='', ''NE''), (''!='', ''EQ''), (''>='', ''LT''), (''>'', ''LE''),
     (''<='', ''GT''), (''<'', ''GE'')]"

definition with_prefix :: "string \<Rightarrow> (string \<times> string) list \<Rightarrow> (string \<times> string) list" where
  "with_prefix p = map (\<lambda>(op, rep). (op, p @ rep))"

definition CHECK_REPLACEMENT :: "(string \<times> (string \<times> string) list) list" where
  "CHECK_REPLACEMENT = [
     (''DCHECK'', with_prefix ''DCHECK_'' check_replacements),
     (''CHECK'', with_prefix ''CHECK_'' check_replacements),
     (''EXPECT_TRUE'', with_prefix ''EXPECT_'' check_replacements),
     (''ASSERT_TRUE'', with_prefix ''ASSERT_'' check_replacements),
     (''EXPECT_FALSE'', with_prefix ''EXPECT_'' check_inv_replacements),
     (''ASSERT_FALSE'', with_prefix ''ASSERT_'' check_inv_replacements)]"

section \<open>Alternative tokens\<close>

definition ALT_TOKEN_REPLACEMENT :: "(string \<times> string) list" where
  "ALT_TOKEN_REPLACEMENT = [
     (''and'', ''&&''), (''bitor'', ''|''), (''or'', ''||''), (''xor'', ''^''), (''compl'', ''~''),
     (''bitand'', ''&''), (''and_eq'', ''&=''), (''or_eq'', ''|=''), (''xor_eq'', ''^=''),
     (''not'', ''!''), (''not_eq'', ''!='')]"

definition ALT_TOKEN_REPLACEMENT_PATTERN :: string where
  "ALT_TOKEN_REPLACEMENT_PATTERN =
     ''[ =()]('' @ join ''|'' (map fst ALT_TOKEN_REPLACEMENT) @ '')(?=[ (]|$)''"

section \<open>Named patterns\<close>

definition TYPES :: string where
  "TYPES = raw (''^(?:'' @ ''(char(16_t|32_t)?)|wchar_t|'' @
     ''bool|short|int|long|signed|unsigned|float|double|'' @
     ''(ptrdiff_t|size_t|max_align_t|nullptr_t)|'' @
     ''(u?int(_fast|_least)?(8|16|32|64)_t)|'' @ ''(u?int(max|ptr)_t)|'' @ '')$'')"

definition THIRD_PARTY_HEADERS_PATTERN :: string where
  "THIRD_PARTY_HEADERS_PATTERN = raw ''^(?:[^/]*[A-Z][^/]*`.h|lua`.h|lauxlib`.h|lualib`.h)$''"

definition test_suffixes :: "string list" where
  "test_suffixes = [''_test'', ''_regtest'', ''_unittest'']"

definition TEST_FILE_SUFFIX :: string where
  "TEST_FILE_SUFFIX = ''('' @ join ''|'' test_suffixes @ '')$''"

definition EMPTY_CONDITIONAL_BODY_PATTERN :: string where
  "EMPTY_CONDITIONAL_BODY_PATTERN = raw ''^`s*$''"

definition MATCH_ASM :: string where
  "MATCH_ASM = raw ''^`s*(?:asm|_asm|__asm|__asm__)(?:`s+(volatile|__volatile__))?`s*[{(]''"

definition SEARCH_C_FILE :: string where
  "SEARCH_C_FILE = raw ''`b(?:LINT_C_FILE|vim?:`s*.*(`s*|:)filetype=c(`s*|:|$))''"

definition SEARCH_KERNEL_FILE :: string where
  "SEARCH_KERNEL_FILE = raw ''`b(?:LINT_KERNEL_FILE)''"

section \<open>Thread-unsafe functions\<close>

definition UNSAFE_FUNC_PREFIX :: string where
  "UNSAFE_FUNC_PREFIX = raw ''(?:[-+*/=%^&|(<]`s*|>`s+)''"

definition THREADING_LIST :: "(string \<times> string \<times> string) list" where
  "THREADING_LIST = [
    (''asctime('', ''asctime_r('', UNSAFE_FUNC_PREFIX @ raw ''asctime`([^)]+`)''),
    (''ctime('', ''ctime_r('', UNSAFE_FUNC_PREFIX @ raw ''ctime`([^)]+`)''),
    (''getgrgid('', ''getgrgid_r('', UNSAFE_FUNC_PREFIX @ raw ''getgrgid`([^)]+`)''),
    (''getgrnam('', ''getgrnam_r('', UNSAFE_FUNC_PREFIX @ raw ''getgrnam`([^)]+`)''),
    (''getlogin('', ''getlogin_r('', UNSAFE_FUNC_PREFIX @ raw ''getlogin`(`)''),
    (''getpwnam('', ''getpwnam_r('', UNSAFE_FUNC_PREFIX @ raw ''getpwnam`([^)]+`)''),
    (''getpwuid('', ''getpwuid_r('', UNSAFE_FUNC_PREFIX @ raw ''getpwuid`([^)]+`)''),
    (''gmtime('', ''gmtime_r('', UNSAFE_FUNC_PREFIX @ raw ''gmtime`([^)]+`)''),
    (''localtime('', ''localtime_r('', UNSAFE_FUNC_PREFIX @ raw ''localtime`([^)]+`)''),
    (''rand('', ''rand_r('', UNSAFE_FUNC_PREFIX @ raw ''rand`(`)''),
    (''strtok('', ''strtok_r('', UNSAFE_FUNC_PREFIX @ raw ''strtok`([^)]+`)''),
    (''ttyname('', ''ttyname_r('', UNSAFE_FUNC_PREFIX @ raw ''ttyname`([^)]+`)'')]"

section \<open>Headers that hold templates\<close>

definition HEADERS_CONTAINING_TEMPLATES :: "(string \<times> string list) list" where
  "HEADERS_CONTAINING_TEMPLATES = [
    (''<deque>'', [''deque'']),
    (''<functional>'', [
      ''unary_function'', ''binary_function'', ''plus'', ''minus'', ''multiplies'', ''divides'',
      ''modulus'', ''negate'', ''equal_to'', ''not_equal_to'', ''greater'', ''less'',
      ''greater_equal'', ''less_equal'', ''logical_and'', ''logical_or'', ''logical_not'',
      ''unary_negate'', ''not1'', ''binary_negate'', ''not2'', ''bind1st'', ''bind2nd'',
      ''pointer_to_unary_function'', ''pointer_to_binary_function'', ''ptr_fun'', ''mem_fun_t'',
      ''mem_fun'', ''mem_fun1_t'', ''mem_fun1_ref_t'', ''mem_fun_ref_t'', ''const_mem_fun_t'',
      ''const_mem_fun1_t'', ''const_mem_fun_ref_t'', ''const_mem_fun1_ref_t'', ''mem_fun_ref'']),
    (''<limits>'', [''numeric_limits'']),
    (''<list>'', [''list'']),
    (''<map>'', [''multimap'']),
    (''<memory>'', [
      ''allocator'', ''make_shared'', ''make_unique'', ''shared_ptr'', ''unique_ptr'',
      ''weak_ptr'']),
    (''<queue>'', [''queue'', ''priority_queue'']),
    (''<set>'', [''multiset'']),
    (''<stack>'', [''stack'']),
    (''<string>'', [''char_traits'', ''basic_string'']),
    (''<tuple>'', [''tuple'']),
    (''<unordered_map>'', [''unordered_map'', ''unordered_multimap'']),
    (''<unordered_set>'', [''unordered_set'', ''unordered_multiset'']),
    (''<utility>'', [''pair'']),
    (''<vector>'', [''vector'']),
    (''<hash_map>'', [''hash_map'', ''hash_multimap'']),
    (''<hash_set>'', [''hash_set'', ''hash_multiset'']),
    (''<slist>'', [''slist''])]"

definition HEADERS_MAYBE_TEMPLATES :: "(string \<times> string list) list" where
  "HEADERS_MAYBE_TEMPLATES = [
    (''<algorithm>'', [
      ''copy'', ''max'', ''min'', ''min_element'', ''sort'', ''transform'']),
    (''<utility>'', [''forward'', ''make_pair'', ''move'', ''swap''])]"

end
