(* ===== verification/Effects.thy ===== *)
theory Effects
  imports Prelude
begin

text \<open>
  Effects of the lint checks. A check of \<open>cpplint.py\<close> gets the callable \<open>error\<close> as an argument and
  may also call \<open>ParseNolintSuppressions\<close>; a check may stop with a Python exception. A \<open>run\<close> holds
  the calls made, in order, and then the exception or the value: the driver replays the calls on the
  module state (theory \<open>Lint_State\<close>), so the interleaving of reports and suppressions is kept.
\<close>

datatype exc = IndexError | ValueError | KeyError | AttributeError | NameError | AssertionError
  | ReError | ZeroDivisionError | OSError | CalledProcessError | SystemExit int
  | Diverges  \<comment> \<open>not an exception: the code does not return\<close>

datatype call =
    Report string "int option" string int string
      \<comment> \<open>\<open>error(filename, linenum, category, confidence, message)\<close>; the line is \<open>None\<close> where the
          code passes \<open>None\<close>\<close>
  | Nolint string string int
      \<comment> \<open>\<open>ParseNolintSuppressions(filename, raw_line, linenum, error)\<close>\<close>

type_synonym 'a run = "call list \<times> (exc + 'a)"

definition ret :: "'a \<Rightarrow> 'a run" where
  "ret x = ([], Inr x)"

definition raise :: "exc \<Rightarrow> 'a run" where
  "raise e = ([], Inl e)"

definition bind :: "'a run \<Rightarrow> ('a \<Rightarrow> 'b run) \<Rightarrow> 'b run" where
  "bind m f = (case m of (cs, Inl e) \<Rightarrow> (cs, Inl e)
     | (cs, Inr x) \<Rightarrow> (case f x of (ds, y) \<Rightarrow> (cs @ ds, y)))"

definition seq :: "unit run \<Rightarrow> 'b run \<Rightarrow> 'b run" where
  "seq m k = bind m (\<lambda>_. k)"

definition report :: "string \<Rightarrow> int \<Rightarrow> string \<Rightarrow> int \<Rightarrow> string \<Rightarrow> unit run" where
  "report fn n cat conf msg = ([Report fn (Some n) cat conf msg], Inr ())"

definition nolint :: "string \<Rightarrow> string \<Rightarrow> int \<Rightarrow> unit run" where
  "nolint fn l n = ([Nolint fn l n], Inr ())"

definition when_do :: "bool \<Rightarrow> unit run \<Rightarrow> unit run" where
  "when_do b m = (if b then m else ret ())"

fun for_each :: "('a \<Rightarrow> unit run) \<Rightarrow> 'a list \<Rightarrow> unit run" where
  "for_each f [] = ret ()"
| "for_each f (x # xs) = seq (f x) (for_each f xs)"

text \<open>\<open>xs[i]\<close>: negative indices count from the end, anything else out of range raises.\<close>

definition py_nth :: "'a list \<Rightarrow> int \<Rightarrow> 'a run" where
  "py_nth xs i = (let j = (if i < 0 then int (length xs) + i else i)
     in if 0 \<le> j \<and> j < int (length xs) then ret (xs ! nat j) else raise IndexError)"

definition calls :: "'a run \<Rightarrow> call list" where
  "calls m = fst m"

definition result :: "'a run \<Rightarrow> exc + 'a" where
  "result m = snd m"

definition returns :: "'a run \<Rightarrow> bool" where
  "returns m \<longleftrightarrow> (\<exists>x. result m = Inr x)"

lemma returns_code [code]: "returns m = (case snd m of Inl _ \<Rightarrow> False | Inr _ \<Rightarrow> True)"
  by (auto simp: returns_def result_def split: sum.splits)

section \<open>Laws\<close>

lemma bind_ret [simp, run_simps]: "bind (ret x) f = f x"
  by (simp add: bind_def ret_def)

lemma bind_raise [simp, run_simps]: "bind (raise e) f = raise e"
  by (simp add: bind_def raise_def)

lemma bind_ret_right [simp, run_simps]: "bind m ret = m"
  by (auto simp: bind_def ret_def split: prod.splits sum.splits)

lemma bind_assoc [run_simps]: "bind (bind m f) g = bind m (\<lambda>x. bind (f x) g)"
  by (auto simp: bind_def split: prod.splits sum.splits)

lemma seq_ret [simp, run_simps]: "seq (ret ()) k = k"
  by (simp add: seq_def)

lemma seq_raise [simp, run_simps]: "seq (raise e) k = raise e"
  by (simp add: seq_def)

lemma when_do_simps [simp, run_simps]: "when_do True m = m" "when_do False m = ret ()"
  by (simp_all add: when_do_def)

lemma ret_inject [simp]: "ret x = ret y \<longleftrightarrow> x = y"
  by (simp add: ret_def)

lemma ret_neq_raise [simp]: "ret x \<noteq> raise e" "raise e \<noteq> ret x"
  by (simp_all add: ret_def raise_def)

lemma calls_ret [simp, run_simps]: "calls (ret x) = []"
  by (simp add: calls_def ret_def)

lemma calls_raise [simp, run_simps]: "calls (raise e) = []"
  by (simp add: calls_def raise_def)

lemma calls_report [simp, run_simps]: "calls (report fn n c k msg) = [Report fn (Some n) c k msg]"
  by (simp add: calls_def report_def)

lemma result_ret [simp, run_simps]: "result (ret x) = Inr x"
  by (simp add: result_def ret_def)

lemma result_raise [simp, run_simps]: "result (raise e) = Inl e"
  by (simp add: result_def raise_def)

lemma result_report [simp, run_simps]: "result (report fn n c k msg) = Inr ()"
  by (simp add: result_def report_def)

lemma result_nolint [simp, run_simps]: "result (nolint fn l n) = Inr ()"
  by (simp add: result_def nolint_def)

lemma calls_nolint [simp, run_simps]: "calls (nolint fn l n) = [Nolint fn l n]"
  by (simp add: calls_def nolint_def)

lemma calls_bind:
  "calls (bind m f) = calls m @ (case result m of Inl _ \<Rightarrow> [] | Inr x \<Rightarrow> calls (f x))"
  by (auto simp: calls_def result_def bind_def split: prod.splits sum.splits)

lemma result_bind:
  "result (bind m f) = (case result m of Inl e \<Rightarrow> Inl e | Inr x \<Rightarrow> result (f x))"
  by (auto simp: result_def bind_def split: prod.splits sum.splits)

lemma run_eqI: "calls m = calls n \<Longrightarrow> result m = result n \<Longrightarrow> m = n"
  by (simp add: calls_def result_def prod_eq_iff)

lemma bind_eq_ret_conv: "bind m f = ret y \<longleftrightarrow> (\<exists>x. m = ret x \<and> f x = ret y)"
  by (auto simp: bind_def ret_def split: prod.splits sum.splits)

lemma returns_ret [simp]: "returns (ret x)"
  by (simp add: returns_def)

lemma returns_raise [simp]: "\<not> returns (raise e)"
  by (simp add: returns_def)

lemma returns_report [simp]: "returns (report fn n c k msg)"
  by (simp add: returns_def)

lemma returns_nolint [simp]: "returns (nolint fn l n)"
  by (simp add: returns_def)

lemma returns_bind: "returns (bind m f) \<longleftrightarrow> (\<exists>x. result m = Inr x \<and> returns (f x))"
  by (auto simp: returns_def result_bind split: sum.splits)

lemma returns_seq: "returns (seq m k) \<longleftrightarrow> returns m \<and> returns k"
  by (auto simp: seq_def returns_def result_bind split: sum.splits)

lemma returns_when_do: "returns (when_do b m) \<longleftrightarrow> (b \<longrightarrow> returns m)"
  by (simp add: when_do_def)

lemma returns_for_each: "(\<forall>x \<in> set xs. returns (f x)) \<Longrightarrow> returns (for_each f xs)"
  by (induction xs) (auto simp: returns_seq)

lemma calls_seq: "calls (seq m k) = calls m @ (if returns m then calls k else [])"
  by (auto simp: seq_def calls_bind returns_def split: sum.splits)

lemma calls_when_do: "calls (when_do b m) = (if b then calls m else [])"
  by (simp add: when_do_def)

lemma py_nth_nat [simp]: "i < length xs \<Longrightarrow> py_nth xs (int i) = ret (xs ! i)"
  by (simp add: py_nth_def)

lemma py_nth_ret: "0 \<le> i \<Longrightarrow> i < int (length xs) \<Longrightarrow> py_nth xs i = ret (xs ! nat i)"
  by (simp add: py_nth_def)

lemma calls_py_nth [simp]: "calls (py_nth xs i) = []"
  by (simp add: py_nth_def Let_def)

lemma py_nth_result: "result (py_nth xs i) = Inr x \<Longrightarrow> x \<in> set xs"
  by (auto simp: py_nth_def Let_def split: if_splits)

text \<open>A run that only computes: no call was made.\<close>

definition silent :: "'a run \<Rightarrow> bool" where
  "silent m \<longleftrightarrow> calls m = []"

lemma silent_ret [simp]: "silent (ret x)"
  by (simp add: silent_def)

lemma silent_raise [simp]: "silent (raise e)"
  by (simp add: silent_def)

lemma silent_bind: "silent m \<Longrightarrow> (\<And>x. silent (f x)) \<Longrightarrow> silent (bind m f)"
  by (auto simp: silent_def calls_bind split: sum.splits)

lemma silent_py_nth [simp]: "silent (py_nth xs i)"
  by (simp add: silent_def)

end
