(* ===== verification/Regex_Theory.thy ===== *)
theory Regex_Theory
  imports PyRegex
begin

text \<open>
  Facts about the matcher: every result is a later position of the same subject (\<open>ends_consumes\<close>),
  captures are spans of it (\<open>ends_caps\<close>), and on the patterns without assertions and back references
  the matcher decides the language of the pattern (\<open>ends_lang\<close>). The last section evaluates the
  shapes the scripts use most: a greedy run of one character class, a literal.
\<close>

section \<open>Results are positions of the subject\<close>

text \<open>The character before the position after consuming \<open>u\<close>.\<close>

definition adv :: "char option \<Rightarrow> string \<Rightarrow> char option" where
  "adv p u = (if u = [] then p else Some (last u))"

lemma adv_Nil [simp]: "adv p [] = p"
  by (simp add: adv_def)

lemma adv_append [simp]: "adv (adv p u) v = adv p (u @ v)"
  by (simp add: adv_def)

lemma adv_Cons: "adv (Some x) u = adv p (x # u)"
  by (simp add: adv_def)

definition reach :: "mstate \<Rightarrow> mstate \<Rightarrow> bool" where
  "reach st st' \<longleftrightarrow> (\<exists>u. fst (snd st) = u @ fst (snd st') \<and> fst st' = adv (fst st) u)"

lemma reach_refl [simp, intro]: "reach st st"
  by (auto simp: reach_def)

lemma reach_caps [simp]: "reach (p, s, c) (p, s, c')"
  by (auto simp: reach_def)

lemma reach_trans: "reach a b \<Longrightarrow> reach b c \<Longrightarrow> reach a c"
  by (auto simp: reach_def)

lemma reach_step [simp]: "reach (p, x # xs, c) (Some x, xs, c')"
  unfolding reach_def by (rule exI [of _ "[x]"]) (simp add: adv_def)

lemma reach_prefix:
  "prefix t s \<Longrightarrow> t \<noteq> [] \<Longrightarrow> k = length t \<Longrightarrow> reach (p, s, c) (Some (last t), drop k s, c')"
  unfolding reach_def by (rule exI [of _ t]) (auto simp: adv_def prefix_def)

lemma ends_reach: "st' \<in> set (ends r st) \<Longrightarrow> reach st st'"
proof (induction r st arbitrary: st' rule: ends.induct)
  case (6 g lo hi a st)
  have body: "st1 \<in> set (ends a st) \<Longrightarrow> lo = 0 \<longrightarrow> hi \<noteq> Some 0 \<Longrightarrow> reach st st1" for st1
    using 6(1,3) by (cases lo) auto
  from "6.prems" show ?case
  proof (cases rule: ends_Rep_cases)
    case (more st1)
    then have "reach st1 st'" using 6(2,4) by (cases lo) auto
    with body more show ?thesis by (blast intro: reach_trans)
  qed (use body in auto)
next
  case (7 n a p s c)
  then show ?case by (auto simp: reach_def)
next
  case (12 neg a p s c)
  then show ?case by (auto split: list.splits if_splits)
next
  case (4 a b st)
  from "4.prems" obtain st1 where "st1 \<in> set (ends a st)" "st' \<in> set (ends b st1)" by auto
  with 4 show ?case by (blast intro: reach_trans)
next
  case (13 n p s c)
  then show ?case by (cases "c n") (auto simp: Let_def simp del: take_eq_Nil split: if_splits intro: reach_prefix)
qed (auto split: list.splits if_splits)

lemma ends_consumes:
  assumes "(p', s', c') \<in> set (ends r (p, s, c))"
  obtains u where "s = u @ s'" and "p' = adv p u"
  using ends_reach [OF assms] by (auto simp: reach_def)

lemma ends_suffix: "(p', s', c') \<in> set (ends r (p, s, c)) \<Longrightarrow> suffix s' s"
  by (auto elim!: ends_consumes simp: suffix_def)

section \<open>Captures\<close>

definition caps_in :: "string \<Rightarrow> caps \<Rightarrow> bool" where
  "caps_in subj c \<longleftrightarrow> (\<forall>n a b. c n = Some (a, b) \<longrightarrow> suffix a subj \<and> suffix b a)"

lemma caps_in_no_caps [simp]: "caps_in subj no_caps"
  by (simp add: caps_in_def no_caps_def)

lemma caps_in_upd: "caps_in subj c \<Longrightarrow> suffix a subj \<Longrightarrow> suffix b a \<Longrightarrow> caps_in subj (c(n := Some (a, b)))"
  by (auto simp: caps_in_def)

definition state_in :: "string \<Rightarrow> mstate \<Rightarrow> bool" where
  "state_in subj st \<longleftrightarrow> suffix (fst (snd st)) subj \<and> caps_in subj (snd (snd st))"

lemma state_in_reach: "state_in subj st \<Longrightarrow> reach st st' \<Longrightarrow> suffix (fst (snd st')) subj"
  by (auto simp: state_in_def reach_def suffix_def)

lemma ends_state_in: "state_in subj st \<Longrightarrow> st' \<in> set (ends r st) \<Longrightarrow> state_in subj st'"
proof (induction r st arbitrary: st' rule: ends.induct)
  case (4 a b st)
  from "4.prems" obtain st1 where "st1 \<in> set (ends a st)" "st' \<in> set (ends b st1)" by auto
  with 4 show ?case by blast
next
  case (6 g lo hi a st)
  have body: "st1 \<in> set (ends a st) \<Longrightarrow> lo = 0 \<longrightarrow> hi \<noteq> Some 0 \<Longrightarrow> state_in subj st1" for st1
    using 6(1,3,5) by (cases lo) blast+
  from "6.prems"(2) show ?case
  proof (cases rule: ends_Rep_cases)
    case (more st1)
    then have st1: "state_in subj st1" using body by blast
    show ?thesis
    proof (cases lo)
      case 0
      with more(3) have "st' \<in> set (ends (RRep g 0 (pred_opt hi) a) st1)" by simp
      with 6(2) 0 more(1,2) st1 show ?thesis by blast
    next
      case (Suc lo')
      with more(3) have "st' \<in> set (ends (RRep g lo' (pred_opt hi) a) st1)" by simp
      with 6(4) Suc more(1) st1 show ?thesis by blast
    qed
  qed (use body 6(5) in auto)
next
  case (7 n a p s c)
  from "7.prems"(2) obtain p' s' c' where st': "st' = (p', s', c'(n := Some (s, s')))"
    and el: "(p', s', c') \<in> set (ends a (p, s, c))" by auto
  from "7.IH" [OF "7.prems"(1) el] have "state_in subj (p', s', c')" .
  moreover from "7.prems"(1) have "suffix s subj" by (simp add: state_in_def)
  ultimately show ?case using ends_suffix [OF el] st' by (simp add: state_in_def caps_in_upd)
next
  case (12 neg a p s c)
  show ?case
  proof (cases "ends a (p, s, c)")
    case Nil
    with "12.prems" show ?thesis by (auto split: if_splits)
  next
    case (Cons st1 sts)
    with "12.IH" [OF "12.prems"(1), of st1] have "state_in subj st1" by simp
    with Cons "12.prems" show ?thesis by (auto simp: state_in_def split: if_splits)
  qed
next
  case (13 n p s c)
  have "reach (p, s, c) st'" using "13.prems"(2) by (rule ends_reach)
  moreover have "snd (snd st') = c"
    using "13.prems"(2) by (cases "c n") (auto simp: Let_def simp del: take_eq_Nil split: if_splits)
  ultimately show ?case using "13.prems"(1) state_in_reach [of subj "(p, s, c)" st']
    by (simp add: state_in_def)
next
  case (2 p s c)
  then show ?case by (cases s) (auto simp: state_in_def dest: suffix_ConsD split: if_splits)
next
  case (3 neg items p s c)
  then show ?case by (cases s) (auto simp: state_in_def dest: suffix_ConsD split: if_splits)
next
  case (5 a b st)
  then show ?case by (metis UnE ends.simps(5) set_append)
qed (simp_all split: if_splits)

lemma re_match_wf:
  assumes "re_match r s = Some m"
  shows "subject m = s \<and> at_start m = s \<and> suffix (at_end m) s \<and> caps_in s (mcaps m)"
proof -
  from assms obtain p t c where el: "(p, t, c) \<in> set (ends r (None, s, no_caps))"
    and m: "m = \<lparr>subject = s, at_start = s, at_end = t, mcaps = c\<rparr>"
    by (auto simp: re_match_def split: list.splits)
  have "state_in s (None, s, no_caps)" by (simp add: state_in_def)
  from ends_state_in [OF this el] show ?thesis by (simp add: m state_in_def)
qed

lemma search_at_wf:
  "search_at r p s = Some (a, st) \<Longrightarrow> suffix s subj \<Longrightarrow>
    suffix a s \<and> (\<exists>q. st \<in> set (ends r (q, a, no_caps))) \<and> state_in subj st"
proof (induction r p s rule: search_at.induct)
  case (1 r p s)
  show ?case
  proof (cases "ends r (p, s, no_caps)")
    case Nil
    with 1 show ?thesis
      by (auto simp: search_at.simps [of r p s] suffix_Cons split: list.splits dest: suffix_ConsD)
  next
    case (Cons st' sts)
    with 1(2) have "a = s" "st = st'" by (simp_all add: search_at.simps [of r p s])
    moreover have "state_in subj (p, s, no_caps)" using 1(3) by (simp add: state_in_def)
    ultimately show ?thesis
      using Cons ends_state_in [of subj "(p, s, no_caps)" st' r]
      by (auto intro!: exI [of _ p])
  qed
qed

lemma re_search_wf:
  assumes "re_search r s = Some m"
  shows "subject m = s \<and> suffix (at_start m) s \<and> suffix (at_end m) (at_start m) \<and> caps_in s (mcaps m)"
proof -
  from assms obtain a p t c where sa: "search_at r None s = Some (a, (p, t, c))"
    and m: "m = \<lparr>subject = s, at_start = a, at_end = t, mcaps = c\<rparr>"
    by (auto simp: re_search_def split: option.splits)
  from search_at_wf [OF sa suffix_order.order_refl] show ?thesis
    by (auto simp: m state_in_def dest: ends_suffix)
qed

text \<open>A capture of a well-formed match is a part of the subject.\<close>

lemma span_text_sublist: "suffix a s \<Longrightarrow> sublist (span_text a b) s"
  unfolding span_text_def suffix_def by (auto intro: sublist_appendI
      simp: sublist_append take_is_prefix prefix_imp_sublist)

lemma group_sublist:
  assumes "caps_in s (mcaps m)" and "n \<noteq> 0"
  shows "sublist (group m n) s"
  using assms
  by (auto simp: group_def group_opt_def caps_in_def split: option.splits intro: span_text_sublist)

lemma group_length:
  assumes "caps_in s (mcaps m)" and "n \<noteq> 0"
  shows "length (group m n) \<le> length s"
  using group_sublist [OF assms] by (rule sublist_length_le)

section \<open>The language of a pattern\<close>

primrec plain :: "regex \<Rightarrow> bool" where
  "plain REmpty = True" | "plain RAny = True" | "plain (RSet n cs) = True"
| "plain (RSeq a b) = (plain a \<and> plain b)" | "plain (RAlt a b) = (plain a \<and> plain b)"
| "plain (RRep g l h a) = plain a" | "plain (RGrp n a) = plain a"
| "plain RBol = False" | "plain REol = False" | "plain RWordB = False" | "plain RNWordB = False"
| "plain (RAhead n a) = False" | "plain (RRef n) = False"

definition at_most :: "nat \<Rightarrow> nat option \<Rightarrow> bool" where
  "at_most k hi \<longleftrightarrow> (case hi of None \<Rightarrow> True | Some h \<Rightarrow> k \<le> h)"

inductive lang :: "regex \<Rightarrow> string \<Rightarrow> bool" where
  Empty: "lang REmpty []"
| Any: "x \<noteq> newline \<Longrightarrow> lang RAny [x]"
| Set: "cls_has neg is x \<Longrightarrow> lang (RSet neg is) [x]"
| Seq: "lang a u \<Longrightarrow> lang b v \<Longrightarrow> lang (RSeq a b) (u @ v)"
| AltL: "lang a u \<Longrightarrow> lang (RAlt a b) u"
| AltR: "lang b u \<Longrightarrow> lang (RAlt a b) u"
| Grp: "lang a u \<Longrightarrow> lang (RGrp n a) u"
| Rep: "\<forall>u \<in> set us. lang a u \<Longrightarrow> lo \<le> length us \<Longrightarrow> at_most (length us) hi \<or> length us = lo \<Longrightarrow>
    lang (RRep g lo hi a) (concat us)"

inductive_cases lang_EmptyE: "lang REmpty u"
inductive_cases lang_AnyE: "lang RAny u"
inductive_cases lang_SetE: "lang (RSet neg is) u"
inductive_cases lang_SeqE: "lang (RSeq a b) u"
inductive_cases lang_AltE: "lang (RAlt a b) u"
inductive_cases lang_GrpE: "lang (RGrp n a) u"
inductive_cases lang_RepE: "lang (RRep g lo hi a) u"


lemma at_most_pred: "at_most (Suc k) hi \<Longrightarrow> at_most k (pred_opt hi)"
  by (auto simp: at_most_def pred_opt_def split: option.splits)

lemma at_most_pred_conv: "hi \<noteq> Some 0 \<Longrightarrow> at_most k (pred_opt hi) \<Longrightarrow> at_most (Suc k) hi"
  by (cases hi) (auto simp: at_most_def pred_opt_def)

lemma at_most_less: "at_most (Suc k) hi \<Longrightarrow> at_most k hi"
  by (auto simp: at_most_def split: option.splits)

lemma lang_Rep_round:
  assumes "lang a u" and "lang (RRep g (lo - 1) (pred_opt hi) a) v" and "lo = 0 \<longrightarrow> hi \<noteq> Some 0"
  shows "lang (RRep g lo hi a) (u @ v)"
proof -
  from assms(2) obtain us where v: "v = concat us" and us: "\<forall>u \<in> set us. lang a u"
    and lo: "lo - 1 \<le> length us" and hi: "at_most (length us) (pred_opt hi) \<or> length us = lo - 1"
    by (auto elim: lang_RepE)
  have "at_most (length (u # us)) hi \<or> length (u # us) = lo"
  proof (cases "hi = Some 0")
    case True
    with hi lo assms(3) show ?thesis by (auto simp: at_most_def pred_opt_def)
  next
    case False
    with hi assms(3) show ?thesis
      by (cases lo) (auto simp: at_most_def pred_opt_def split: option.splits)
  qed
  with us assms(1) lo have "lang (RRep g lo hi a) (concat (u # us))"
    by (intro lang.Rep) auto
  then show ?thesis by (simp add: v)
qed

lemma ends_sound:
  "plain r \<Longrightarrow> (p', s', c') \<in> set (ends r st) \<Longrightarrow> \<exists>u. fst (snd st) = u @ s' \<and> lang r u"
proof (induction r st arbitrary: p' s' c' rule: ends.induct)
  case (2 p s c)
  then show ?case by (cases s) (auto intro: lang.intros split: if_splits)
next
  case (3 neg items p s c)
  then show ?case by (cases s) (auto intro: lang.intros split: if_splits)
next
  case (4 a b st)
  from "4.prems"(2) obtain p1 s1 c1 where 1: "(p1, s1, c1) \<in> set (ends a st)"
      "(p', s', c') \<in> set (ends b (p1, s1, c1))" by auto
  from 4(1) [OF _ 1(1)] 4(2) [OF 1(1) _ 1(2)] "4.prems"(1)
  obtain u v where "fst (snd st) = u @ s1" "lang a u" "s1 = v @ s'" "lang b v" by auto
  then show ?case by (intro exI [of _ "u @ v"]) (simp add: lang.Seq)
next
  case (5 a b st)
  from "5.prems"(2) consider "(p', s', c') \<in> set (ends a st)" | "(p', s', c') \<in> set (ends b st)" by auto
  then show ?case using 5(1,2) "5.prems"(1) by cases (fastforce intro: lang.AltL lang.AltR)+
next
  case (6 g lo hi a st)
  have body: "(p1, s1, c1) \<in> set (ends a st) \<Longrightarrow> lo = 0 \<longrightarrow> hi \<noteq> Some 0 \<Longrightarrow>
      \<exists>u. fst (snd st) = u @ s1 \<and> lang a u" for p1 s1 c1
    using 6(1) 6(3) "6.prems"(1) by (cases lo) auto
  from "6.prems"(2) show ?case
  proof (cases rule: ends_Rep_cases)
    case finished
    then show ?thesis using lang.Rep [of "[]" a lo hi g] by (auto simp: at_most_def split: option.splits)
  next
    case last_round
    with body obtain u where u: "fst (snd st) = u @ s'" "lang a u" by blast
    have "lang (RRep g (lo - 1) (pred_opt hi) a) []"
      using lang.Rep [of "[]" a "lo - 1" "pred_opt hi" g] last_round by simp
    from lang_Rep_round [OF u(2) this] last_round u(1) show ?thesis by auto
  next
    case (more st1)
    obtain p1 s1 c1 where st1: "st1 = (p1, s1, c1)" by (cases st1)
    from more body obtain u where u: "fst (snd st) = u @ s1" "lang a u" unfolding st1 by blast
    have "\<exists>v. s1 = v @ s' \<and> lang (RRep g (lo - 1) (pred_opt hi) a) v"
    proof (cases lo)
      case 0
      with more(3) have "(p', s', c') \<in> set (ends (RRep g 0 (pred_opt hi) a) (p1, s1, c1))"
        by (simp add: st1)
      with 6(2) 0 more(1,2) "6.prems"(1) show ?thesis unfolding st1 by fastforce
    next
      case (Suc lo')
      with more(3) have "(p', s', c') \<in> set (ends (RRep g lo' (pred_opt hi) a) (p1, s1, c1))"
        by (simp add: st1)
      with 6(4) Suc more(1) "6.prems"(1) show ?thesis unfolding st1 by fastforce
    qed
    then obtain v where "s1 = v @ s'" "lang (RRep g (lo - 1) (pred_opt hi) a) v" by blast
    with lang_Rep_round [OF u(2) this(2)] more(2) u(1) show ?thesis by auto
  qed
next
  case (7 n a p s c)
  from "7.prems"(2) obtain p1 c1 where "(p1, s', c1) \<in> set (ends a (p, s, c))" by auto
  with 7(1) "7.prems"(1) show ?case by (fastforce intro: lang.Grp)
qed (auto intro: lang.intros)

lemma ends_rep_complete:
  assumes "\<And>u p s c. u \<in> set us \<Longrightarrow> \<exists>c'. (adv p u, s, c') \<in> set (ends a (p, u @ s, c))"
    and "lo \<le> length us" and "at_most (length us) hi \<or> length us = lo"
  shows "\<exists>c'. (adv p (concat us), s, c') \<in> set (ends (RRep g lo hi a) (p, concat us @ s, c))"
  using assms
proof (induction us arbitrary: lo hi p c)
  case Nil
  then show ?case by (auto intro: ends_Rep_self)
next
  case (Cons u us)
  have body: "\<exists>c1. (adv p u, concat us @ s, c1) \<in> set (ends a (p, u @ (concat us @ s), c))"
    by (rule Cons.prems(1)) simp
  have rest: "\<exists>c'. (adv q (concat us), s, c') \<in> set (ends (RRep g lo2 hi2 a) (q, concat us @ s, d))"
    if "lo2 \<le> length us" "at_most (length us) hi2 \<or> length us = lo2" for lo2 hi2 q d
    by (rule Cons.IH [OF _ that]) (rule Cons.prems(1), simp)
  show ?case
  proof (cases lo)
    case (Suc lo')
    have "at_most (length us) (pred_opt hi) \<or> length us = lo'"
      using Cons.prems(3) Suc at_most_pred by auto
    moreover obtain c1 where c1: "(adv p u, concat us @ s, c1) \<in> set (ends a (p, u @ concat us @ s, c))"
      using body by blast
    ultimately obtain c2 where "(adv (adv p u) (concat us), s, c2) \<in>
        set (ends (RRep g lo' (pred_opt hi) a) (adv p u, concat us @ s, c1))"
      using rest [of lo' "pred_opt hi" "adv p u" c1] Cons.prems(2) Suc by auto
    with c1 have "(adv p (concat (u # us)), s, c2) \<in> set (ends (RRep g lo hi a) (p, u @ concat us @ s, c))"
      unfolding Suc ends_Rep_Suc by (auto intro!: bexI [OF _ c1])
    then show ?thesis by auto
  next
    case 0
    with Cons.prems(3) have hi: "at_most (Suc (length us)) hi" by simp
    then have "hi \<noteq> Some 0" by (auto simp: at_most_def)
    show ?thesis
    proof (cases "u = []")
      case True
      with rest [of 0 hi p c] at_most_less [OF hi] 0 show ?thesis by simp
    next
      case False
      obtain c1 where c1: "(adv p u, concat us @ s, c1) \<in> set (ends a (p, u @ concat us @ s, c))"
        using body by blast
      obtain c2 where c2: "(adv (adv p u) (concat us), s, c2) \<in>
          set (ends (RRep g 0 (pred_opt hi) a) (adv p u, concat us @ s, c1))"
        using rest [of 0 "pred_opt hi" "adv p u" c1] at_most_pred [OF hi] by auto
      have "(adv p (concat (u # us)), s, c2) \<in> set (ends (RRep g 0 hi a) (p, u @ concat us @ s, c))"
        unfolding ends_Rep_0 [of g hi a "(p, u @ concat us @ s, c)"] Let_def
        using \<open>hi \<noteq> Some 0\<close> c1 c2 False by (auto intro!: bexI [OF _ c1])
      then show ?thesis using 0 by auto
    qed
  qed
qed

lemma ends_complete:
  "lang r u \<Longrightarrow> plain r \<Longrightarrow> \<exists>c'. (adv p u, s, c') \<in> set (ends r (p, u @ s, c))"
proof (induction arbitrary: p s c rule: lang.induct)
  case (Seq a u b v)
  then obtain c1 c2 where "(adv p u, v @ s, c1) \<in> set (ends a (p, u @ v @ s, c))"
    "(adv (adv p u) v, s, c2) \<in> set (ends b (adv p u, v @ s, c1))" by (metis plain.simps(4))
  then show ?case by auto
next
  case (Rep us a lo hi g)
  then show ?case by (intro ends_rep_complete) auto
next
  case (Grp a u n)
  from Grp.prems have "plain a" by simp
  then obtain c1 where c1: "(adv p u, s, c1) \<in> set (ends a (p, u @ s, c))" using Grp.IH by blast
  then show ?case by (auto intro!: exI image_eqI [OF _ c1])
qed (auto simp: adv_def, (metis append_Nil)+)

lemma re_match_lang:
  assumes "plain r"
  shows "re_match r s \<noteq> None \<longleftrightarrow> (\<exists>u. prefix u s \<and> lang r u)"
proof
  assume "re_match r s \<noteq> None"
  then obtain p t c where "(p, t, c) \<in> set (ends r (None, s, no_caps))"
    by (auto simp: re_match_def split: list.splits)
  from ends_sound [OF assms this] show "\<exists>u. prefix u s \<and> lang r u" by (auto simp: prefix_def)
next
  assume "\<exists>u. prefix u s \<and> lang r u"
  then obtain u t where "s = u @ t" "lang r u" by (auto simp: prefix_def)
  with ends_complete [OF _ assms, of u None t no_caps] have "ends r (None, s, no_caps) \<noteq> []" by auto
  then show "re_match r s \<noteq> None" by (auto simp: re_match_def split: list.splits)
qed

lemma search_at_None:
  "search_at r p s = None \<longleftrightarrow> (\<forall>u t. s = u @ t \<longrightarrow> ends r (adv p u, t, no_caps) = [])"
proof (induction r p s rule: search_at.induct)
  case (1 r p s)
  show ?case
  proof (cases "ends r (p, s, no_caps)")
    case (Cons st sts)
    then have "search_at r p s \<noteq> None" by (simp add: search_at.simps [of r p s])
    moreover have "\<exists>u t. s = u @ t \<and> ends r (adv p u, t, no_caps) \<noteq> []"
      using Cons by (intro exI [of _ "[]"] exI [of _ s]) simp
    ultimately show ?thesis by blast
  next
    case Nil
    show ?thesis
    proof (cases s)
      case Nil
      with \<open>ends r (p, s, no_caps) = []\<close> show ?thesis
        by (simp add: search_at.simps [of r p "[]"])
    next
      case (Cons x xs)
      have "search_at r p s = None \<longleftrightarrow> search_at r (Some x) xs = None"
        using Nil Cons by (simp add: search_at.simps [of r p "x # xs"])
      also have "\<dots> \<longleftrightarrow> (\<forall>u t. xs = u @ t \<longrightarrow> ends r (adv (Some x) u, t, no_caps) = [])"
        using 1 Nil Cons by blast
      also have "\<dots> \<longleftrightarrow> (\<forall>u t. s = u @ t \<longrightarrow> ends r (adv p u, t, no_caps) = [])"
      proof (intro iffI allI impI)
        fix u t assume all: "\<forall>u t. xs = u @ t \<longrightarrow> ends r (adv (Some x) u, t, no_caps) = []"
          and "s = u @ t"
        then show "ends r (adv p u, t, no_caps) = []"
          using Nil Cons adv_Cons [of x _ p] by (cases u) auto
      next
        fix u t assume "\<forall>u t. s = u @ t \<longrightarrow> ends r (adv p u, t, no_caps) = []" and "xs = u @ t"
        then show "ends r (adv (Some x) u, t, no_caps) = []"
          using Cons adv_Cons [of x u p] by (metis append_Cons)
      qed
      finally show ?thesis .
    qed
  qed
qed

lemma re_search_lang:
  assumes "plain r"
  shows "re_search r s \<noteq> None \<longleftrightarrow> (\<exists>u. sublist u s \<and> lang r u)"
proof
  assume "re_search r s \<noteq> None"
  then obtain u t where s: "s = u @ t" and "ends r (adv None u, t, no_caps) \<noteq> []"
    using search_at_None [of r None s] by (auto simp: re_search_def split: option.splits)
  then obtain q t' c where "(q, t', c) \<in> set (ends r (adv None u, t, no_caps))"
    by (metis list.set_sel(1) prod_cases3)
  from ends_sound [OF assms this] s show "\<exists>u. sublist u s \<and> lang r u" by (auto simp: sublist_def)
next
  assume "\<exists>u. sublist u s \<and> lang r u"
  then obtain a u b where s: "s = a @ u @ b" and "lang r u" by (auto simp: sublist_def)
  with ends_complete [OF _ assms, of u "adv None a" b no_caps]
  have "ends r (adv None a, u @ b, no_caps) \<noteq> []" by auto
  then show "re_search r s \<noteq> None"
    using s search_at_None [of r None s] by (auto simp: re_search_def split: option.splits)
qed

section \<open>Common shapes\<close>

lemma ends_class_star:
  "ends (RRep True 0 None (RSet neg cls)) (p, s, c) =
    map (\<lambda>k. (adv p (take k s), drop k s, c)) (rev [0..<Suc (length (takeWhile (cls_has neg cls) s))])"
proof (induction s arbitrary: p)
  case Nil
  then show ?case by (simp add: ends_Rep_0 [of _ _ _ "(p, [], c)"])
next
  case (Cons x xs)
  show ?case
  proof (cases "cls_has neg cls x")
    case False
    then show ?thesis by (simp add: ends_Rep_0 [of _ _ _ "(p, x # xs, c)"])
  next
    case True
    let ?n = "length (takeWhile (cls_has neg cls) xs)"
    have "ends (RRep True 0 None (RSet neg cls)) (p, x # xs, c) =
        ends (RRep True 0 None (RSet neg cls)) (Some x, xs, c) @ [(p, x # xs, c)]"
      using True by (simp add: ends_Rep_0 [of _ _ _ "(p, x # xs, c)"] pred_opt_def)
    also have "\<dots> = map (\<lambda>k. (adv p (take k (x # xs)), drop k (x # xs), c)) (map Suc (rev [0..<Suc ?n]) @ [0])"
      by (simp add: Cons.IH adv_Cons [of x _ p] del: upt_Suc)
    also have "map Suc (rev [0..<Suc ?n]) @ [0] = rev [0..<Suc (Suc ?n)]"
      by (metis rev.simps(2) rev_map upt_conv_Cons map_Suc_upt zero_less_Suc)
    finally show ?thesis using True by simp
  qed
qed

text \<open>The literal items a character string stands for, as the parser builds them.\<close>

lemma quantifier_plain: "\<not> re_special c \<Longrightarrow> quantifier c cs = None"
  by (auto simp: quantifier_def re_special_def)

lemma quantifier_backslash: "quantifier backslash cs = None"
  by (simp add: quantifier_def)

lemma special_not_alnum:
  assumes "re_special c"
  shows "\<not> ascii_alnum c"
proof
  assume al: "ascii_alnum c"
  then have "CHR ''0'' \<le> c"
    unfolding ascii_alnum_def ascii_lower_def ascii_upper_def py_digit_def
    using order.trans [of "CHR ''0''" "CHR ''a''" c] order.trans [of "CHR ''0''" "CHR ''A''" c] by auto
  then have "\<not> c \<le> CHR 0x0D" using order.trans [of "CHR ''0''" c "CHR 0x0D"] by auto
  with assms have "c \<in> set ''()[]{}?*+-|^$.&~# '' \<or> c = backslash" by (auto simp: re_special_def)
  with al show False
    by (auto simp: ascii_alnum_def ascii_lower_def ascii_upper_def py_digit_def)
qed

lemma escape_special:
  assumes "re_special c"
  shows "escape_atom c = Some (RLit c)"
proof -
  have nal: "\<not> ascii_alnum c" using assms by (rule special_not_alnum)
  then have "c \<noteq> d" if "ascii_alnum d" for d using that by blast
  moreover have "\<not> (CHR ''1'' \<le> c \<and> c \<le> CHR ''9'')"
    using nal order.trans [of "CHR ''0''" "CHR ''1''" c] by (auto simp: ascii_alnum_def py_digit_def)
  ultimately show ?thesis using nal
    by (simp add: escape_atom_def class_escape_def ascii_alnum_def ascii_lower_def ascii_upper_def)
qed

lemma parse_lit:
  "\<not> re_special c \<Longrightarrow>
    parse False InRe n ((k, alts, sq) # fs) (c # cs) = parse False InRe n ((k, alts, RLit c # sq) # fs) cs"
  by (subst parse.simps) (auto simp: quantifier_plain lit_atom_def re_special_def)

lemma parse_esc:
  "re_special c \<Longrightarrow>
    parse False InRe n ((k, alts, sq) # fs) (backslash # c # cs) =
    parse False InRe n ((k, alts, RLit c # sq) # fs) cs"
  by (subst parse.simps) (simp add: quantifier_backslash escape_special)

lemma parse_escape:
  "parse False InRe n ((k, alts, sq) # fs) (re_escape s @ rest) =
   parse False InRe n ((k, alts, rev (map RLit s) @ sq) # fs) rest"
  by (induction s arbitrary: sq) (auto simp: re_escape_def parse_lit parse_esc)

lemma lang_RLit: "lang (RLit c) u \<longleftrightarrow> u = [c]"
  by (auto simp: cls_has_def elim: lang_SetE intro: lang.Set)

lemma lang_lits:
  "lang (foldl (\<lambda>acc y. RSeq y acc) x (map RLit ys)) u \<longleftrightarrow> (\<exists>v. u = rev ys @ v \<and> lang x v)"
  by (induction ys arbitrary: x) (auto simp: lang_RLit elim!: lang_SeqE intro: lang.Seq [of "RLit c" "[c]" for c, simplified])

lemma lang_seq_lits: "lang (seq_of (rev (map RLit s))) u \<longleftrightarrow> u = s"
proof (cases s rule: rev_cases)
  case Nil
  then show ?thesis by (auto simp: seq_of_def elim: lang_EmptyE intro: lang.Empty)
next
  case (snoc ys y)
  then show ?thesis by (auto simp: seq_of_def lang_lits lang_RLit rev_map)
qed

lemma plain_seq_lits: "plain (seq_of (rev (map RLit s)))"
proof -
  have "plain (foldl (\<lambda>acc y. RSeq y acc) x (map RLit ys))" if "plain x" for x ys
    using that by (induction ys arbitrary: x) auto
  then show ?thesis
    by (cases s rule: rev_cases) (auto simp: seq_of_def rev_map)
qed

lemma re_compile_escape: "re_compile (re_escape s) = Some (seq_of (rev (map RLit s)))"
proof -
  have "\<not> prefix ''(?i)'' (re_escape s)"
    by (cases s) (auto simp: re_escape_def re_special_def)
  then show ?thesis
    using parse_escape [of 1 KTop "[]" "[]" "[]" s "[]"]
    by (simp add: re_compile_def parse.simps close_frame_def)
qed

lemma re_escape_search:
  "re_search (the (re_compile (re_escape t))) s \<noteq> None \<longleftrightarrow> sublist t s"
  using re_search_lang [OF plain_seq_lits] by (simp add: re_compile_escape lang_seq_lits)

section \<open>Inversion of the matcher\<close>

text \<open>The groups of a pattern; a pattern leaves the other captures alone.\<close>

primrec groups :: "regex \<Rightarrow> nat set" where
  "groups REmpty = {}" | "groups RAny = {}" | "groups (RSet n cs) = {}"
| "groups (RSeq a b) = groups a \<union> groups b" | "groups (RAlt a b) = groups a \<union> groups b"
| "groups (RRep g l h a) = groups a" | "groups (RGrp n a) = insert n (groups a)"
| "groups RBol = {}" | "groups REol = {}" | "groups RWordB = {}" | "groups RNWordB = {}"
| "groups (RAhead n a) = groups a" | "groups (RRef n) = {}"

lemma ends_other_caps:
  "st' \<in> set (ends r st) \<Longrightarrow> n \<notin> groups r \<Longrightarrow> snd (snd st') n = snd (snd st) n"
proof (induction r st arbitrary: st' rule: ends.induct)
  case (2 p s c)
  then show ?case by (cases s) (auto split: if_splits)
next
  case (3 neg items p s c)
  then show ?case by (cases s) (auto split: if_splits)
next
  case (4 a b st)
  from "4.prems" obtain st1 where "st1 \<in> set (ends a st)" "st' \<in> set (ends b st1)" by auto
  with 4 show ?case by (metis UnI1 UnI2 groups.simps(4))
next
  case (5 a b st)
  then show ?case by (metis UnE UnI1 UnI2 ends.simps(5) groups.simps(5) set_append)
next
  case (6 g lo hi a st)
  have body: "st1 \<in> set (ends a st) \<Longrightarrow> lo = 0 \<longrightarrow> hi \<noteq> Some 0 \<Longrightarrow>
      snd (snd st1) n = snd (snd st) n" for st1
    using 6(1,3) "6.prems"(2) by (cases lo) auto
  from "6.prems"(1) show ?case
  proof (cases rule: ends_Rep_cases)
    case (more st1)
    have "snd (snd st') n = snd (snd st1) n"
    proof (cases lo)
      case 0
      with more(3) have "st' \<in> set (ends (RRep g 0 (pred_opt hi) a) st1)" by simp
      with 6(2) 0 more(1,2) "6.prems"(2) show ?thesis by simp
    next
      case (Suc lo')
      with more(3) have "st' \<in> set (ends (RRep g lo' (pred_opt hi) a) st1)" by simp
      with 6(4) Suc more(1) "6.prems"(2) show ?thesis by simp
    qed
    with body more show ?thesis by simp
  qed (use body in auto)
next
  case (7 k a p s c)
  from "7.prems" obtain p1 s1 c1 where 1: "(p1, s1, c1) \<in> set (ends a (p, s, c))"
    "st' = (p1, s1, c1(k := Some (s, s1)))" by auto
  from "7.IH" [OF 1(1)] "7.prems"(2) 1(2) show ?case by auto
next
  case (12 neg a p s c)
  show ?case
  proof (cases "ends a (p, s, c)")
    case Nil
    with "12.prems" show ?thesis by (auto split: if_splits)
  next
    case (Cons st1 sts)
    with "12.IH" [of st1] "12.prems" show ?thesis by (auto split: if_splits)
  qed
next
  case (13 k p s c)
  then show ?case by (cases "c k") (auto simp: Let_def simp del: take_eq_Nil split: if_splits)
qed (auto split: if_splits)

text \<open>What one result says of the text between two positions, constructor by constructor.\<close>

lemma in_Seq: "st' \<in> set (ends (RSeq a b) st) \<longleftrightarrow> (\<exists>mid \<in> set (ends a st). st' \<in> set (ends b mid))"
  by simp

lemma in_Set: "st' \<in> set (ends (RSet neg cls) (p, s, c)) \<longleftrightarrow>
    (\<exists>x t. s = x # t \<and> cls_has neg cls x \<and> st' = (Some x, t, c))"
  by (cases s) auto

lemma cls_lit [simp]: "cls_has False [CChr c] x \<longleftrightarrow> x = c"
  by (simp add: cls_has_def)

lemma in_Grp: "st' \<in> set (ends (RGrp n a) (p, s, c)) \<longleftrightarrow>
    (\<exists>q t d. (q, t, d) \<in> set (ends a (p, s, c)) \<and> st' = (q, t, d(n := Some (s, t))))"
  by (force intro: rev_image_eqI)

lemma in_Bol: "st' \<in> set (ends RBol (p, s, c)) \<longleftrightarrow> p = None \<and> st' = (p, s, c)"
  by auto

lemma in_Eol: "st' \<in> set (ends REol (p, s, c)) \<longleftrightarrow> (s = [] \<or> s = [newline]) \<and> st' = (p, s, c)"
  by auto

lemma in_WordB: "st' \<in> set (ends RWordB (p, s, c)) \<longleftrightarrow> boundary p s \<and> st' = (p, s, c)"
  by auto

lemmas in_ends = in_Seq in_Set in_Grp in_Bol in_Eol in_WordB

text \<open>A pattern without groups keeps the captures; a plain one consumes a word of its language.\<close>

lemma in_plain:
  assumes "(q, t, d) \<in> set (ends r (p, s, c))" and "plain r"
  obtains u where "s = u @ t" and "lang r u"
  using ends_sound [OF assms(2,1)] by auto

lemma in_no_groups:
  assumes "(q, t, d) \<in> set (ends r (p, s, c))" and "groups r = {}"
  shows "d = c"
  using ends_other_caps [OF assms(1)] assms(2) by auto

lemma span_text_append [simp]: "span_text (u @ t) t = u"
  by (simp add: span_text_def)

lemma lang_class_star: "lang (RRep g 0 None (RSet neg cls)) u \<Longrightarrow> list_all (cls_has neg cls) u"
  by (auto elim!: lang_RepE lang_SetE simp: list_all_iff) (metis lang_SetE set_ConsD list.distinct(1) list.set_cases)

lemma re_matchD:
  assumes "re_match r s = Some m"
  obtains q t c where "(q, t, c) \<in> set (ends r (None, s, no_caps))"
    and "m = \<lparr>subject = s, at_start = s, at_end = t, mcaps = c\<rparr>"
  using assms by (auto simp: re_match_def split: list.splits)

text \<open>
  Most patterns are a sequence of items: anchors, group-free plain patterns and groups around one.
  An item consumes a word and changes at most its own capture.
\<close>

primrec group_free :: "regex \<Rightarrow> bool" where
  "group_free REmpty = True" | "group_free RAny = True" | "group_free (RSet n cs) = True"
| "group_free (RSeq a b) = (group_free a \<and> group_free b)"
| "group_free (RAlt a b) = (group_free a \<and> group_free b)"
| "group_free (RRep g l h a) = group_free a" | "group_free (RGrp n a) = False"
| "group_free RBol = True" | "group_free REol = True" | "group_free RWordB = True"
| "group_free RNWordB = True" | "group_free (RAhead n a) = group_free a" | "group_free (RRef n) = True"

lemma group_free_groups: "group_free r \<Longrightarrow> groups r = {}"
  by (induction r) auto

fun item :: "regex \<Rightarrow> bool" where
  "item RBol = True" | "item REol = True" | "item RWordB = True" | "item RNWordB = True"
| "item (RAhead n a) = group_free a"
| "item (RGrp n a) = (group_free a \<and> plain a)"
| "item r = (group_free r \<and> plain r)"

definition item_lang :: "regex \<Rightarrow> string \<Rightarrow> bool" where
  "item_lang r u \<longleftrightarrow> (if plain r then lang r u else u = [])"

fun capture :: "regex \<Rightarrow> string \<Rightarrow> string \<Rightarrow> caps \<Rightarrow> caps" where
  "capture (RGrp n a) s t c = c(n := Some (s, t))"
| "capture r s t c = c"

lemma in_free:
  assumes "st' \<in> set (ends r (p, s, c))" and "group_free r" and "plain r"
  shows "\<exists>u t q. s = u @ t \<and> lang r u \<and> st' = (q, t, c)"
proof -
  obtain q t d where st': "st' = (q, t, d)" by (cases st') auto
  from ends_sound [OF assms(3) assms(1) [unfolded st']] obtain u where "s = u @ t" "lang r u" by auto
  moreover have "d = c"
    using in_no_groups [OF assms(1) [unfolded st'] group_free_groups [OF assms(2)]] .
  ultimately show ?thesis using st' by blast
qed

lemma in_item:
  assumes "st' \<in> set (ends r (p, s, c))" and "item r"
  shows "\<exists>u t q. s = u @ t \<and> item_lang r u \<and> st' = (q, t, capture r s t c)"
proof (cases "group_free r \<and> plain r")
  case True
  then have "capture r s t c = c" for t by (cases r) auto
  with in_free [OF assms(1)] True show ?thesis by (simp add: item_lang_def)
next
  case False
  show ?thesis
  proof (cases r)
    case (RGrp n a)
    with assms(1) obtain q t d where 1: "(q, t, d) \<in> set (ends a (p, s, c))"
      and 2: "st' = (q, t, d(n := Some (s, t)))" unfolding RGrp in_Grp by blast
    from in_free [OF 1] assms(2) RGrp obtain u where "s = u @ t" "lang a u" "d = c" by auto
    with 2 show ?thesis using assms(2) by (auto simp: RGrp item_lang_def intro: lang.Grp)
  next
    case (RAhead n a)
    have "snd (snd (hd (ends a (p, s, c)))) = c" if "ends a (p, s, c) \<noteq> []"
      using ends_other_caps [of "hd (ends a (p, s, c))" a "(p, s, c)"] that assms(2)
      by (auto simp: RAhead group_free_groups)
    then have "st' = (p, s, c)"
      using assms(1) by (auto simp: RAhead split: list.splits if_splits)
    then show ?thesis by (simp add: RAhead item_lang_def)
  qed (use assms False in \<open>auto simp: item_lang_def split: if_splits\<close>)
qed

lemma in_item_seq:
  assumes "st' \<in> set (ends (RSeq a b) (p, s, c))" and "item a"
  obtains u t q where "s = u @ t" and "item_lang a u" and "st' \<in> set (ends b (q, t, capture a s t c))"
proof -
  from assms(1) obtain mid where 1: "mid \<in> set (ends a (p, s, c))" and 2: "st' \<in> set (ends b mid)"
    unfolding in_Seq by blast
  from in_item [OF 1 assms(2)] 2 that show thesis by blast
qed

text \<open>A repeated or optional group consumes a word and may change its own capture.\<close>

lemma in_rep_group_seq:
  assumes "st' \<in> set (ends (RSeq (RRep g lo hi (RGrp n a)) b) (p, s, c))" and "plain a"
  obtains u t q d where "s = u @ t" and "lang (RRep g lo hi (RGrp n a)) u"
    and "\<forall>k. k \<noteq> n \<and> k \<notin> groups a \<longrightarrow> d k = c k" and "st' \<in> set (ends b (q, t, d))"
proof -
  from assms(1) obtain q t d where 1: "(q, t, d) \<in> set (ends (RRep g lo hi (RGrp n a)) (p, s, c))"
    and 2: "st' \<in> set (ends b (q, t, d))" by auto
  from ends_sound [OF _ 1] assms(2) obtain u where "s = u @ t" "lang (RRep g lo hi (RGrp n a)) u" by auto
  moreover from ends_other_caps [OF 1] have "\<forall>k. k \<noteq> n \<and> k \<notin> groups a \<longrightarrow> d k = c k" by auto
  ultimately show thesis using that 2 by blast
qed

lemma item_lang_simps [simp]:
  "item_lang RBol u \<longleftrightarrow> u = []" "item_lang REol u \<longleftrightarrow> u = []"
  "item_lang RWordB u \<longleftrightarrow> u = []" "item_lang RNWordB u \<longleftrightarrow> u = []"
  "item_lang (RAhead neg a) u \<longleftrightarrow> u = []"
  "item_lang (RSet ng [CChr x]) u \<longleftrightarrow> (\<exists>y. u = [y] \<and> (y = x) \<noteq> ng)"
  "item_lang (RSet ng cls) u \<longleftrightarrow> (\<exists>y. u = [y] \<and> cls_has ng cls y)"
  "plain a \<Longrightarrow> item_lang (RGrp n a) u \<longleftrightarrow> lang a u"
  by (auto simp: item_lang_def lang.simps [of "RSet ng cls"] lang.simps [of "RSet ng [CChr x]"] cls_has_def
      elim: lang_GrpE intro: lang.Grp)

lemma lang_dot_star: "lang (RRep g 0 None RAny) u \<Longrightarrow> newline \<notin> set u"
  by (auto elim!: lang_RepE) (metis lang_AnyE empty_iff empty_set set_ConsD)

text \<open>Reaching a given split: the class star can stop anywhere inside its run, the dot star anywhere
  on the line.\<close>

lemma in_class_star:
  assumes "list_all (cls_has neg cls) u"
  shows "(adv p u, t, c) \<in> set (ends (RRep True 0 None (RSet neg cls)) (p, u @ t, c))"
proof -
  have "length u \<in> set (rev [0..<Suc (length (takeWhile (cls_has neg cls) (u @ t)))])"
    using assms by (auto simp: takeWhile_append list_all_iff)
  moreover have "take (length u) (u @ t) = u" "drop (length u) (u @ t) = t" by simp_all
  ultimately show ?thesis unfolding ends_class_star by force
qed

lemma in_dot_star:
  assumes "newline \<notin> set u"
  shows "\<exists>d. (adv p u, t, d) \<in> set (ends (RRep True 0 None RAny) (p, u @ t, c))"
proof -
  have "lang (RRep True 0 None RAny) (concat (map (\<lambda>x. [x]) u))"
    using assms by (intro lang.Rep) (auto simp: at_most_def intro!: lang.Any)
  then show ?thesis using ends_complete [of "RRep True 0 None RAny" u p t c] by simp
qed

lemma ends_seq_nonempty:
  "st' \<in> set (ends a st) \<Longrightarrow> ends b st' \<noteq> [] \<Longrightarrow> ends (RSeq a b) st \<noteq> []"
  by auto

lemma re_match_nonempty: "ends r (None, s, no_caps) \<noteq> [] \<Longrightarrow> re_match r s \<noteq> None"
  by (auto simp: re_match_def split: list.splits)

lemma in_bol_seq: "set (ends (RSeq RBol r) (None, s, c)) = set (ends r (None, s, c))"
  by simp

lemma in_grp_seq:
  assumes "st' \<in> set (ends (RSeq (RGrp n a) b) (p, s, c))"
  obtains q t d where "(q, t, d) \<in> set (ends a (p, s, c))" and "st' \<in> set (ends b (q, t, d(n := Some (s, t))))"
  using assms unfolding in_Seq by (metis in_Grp)

lemma lang_rep_nonempty: "lang (RRep g (Suc lo) hi (RSet neg cls)) u \<Longrightarrow> u \<noteq> []"
proof (elim lang_RepE)
  fix us
  assume "u = concat us" "\<forall>v \<in> set us. lang (RSet neg cls) v" "Suc lo \<le> length us"
  then show ?thesis by (cases us) (auto elim: lang_SetE)
qed

text \<open>Least lengths.\<close>

primrec min_len :: "regex \<Rightarrow> nat" where
  "min_len REmpty = 0" | "min_len RAny = 1" | "min_len (RSet n cs) = 1"
| "min_len (RSeq a b) = min_len a + min_len b" | "min_len (RAlt a b) = min (min_len a) (min_len b)"
| "min_len (RRep g l h a) = l * min_len a" | "min_len (RGrp n a) = min_len a"
| "min_len RBol = 0" | "min_len REol = 0" | "min_len RWordB = 0" | "min_len RNWordB = 0"
| "min_len (RAhead n a) = 0" | "min_len (RRef n) = 0"

lemma lang_min_len: "lang r u \<Longrightarrow> min_len r \<le> length u"
proof (induction rule: lang.induct)
  case (Rep us a lo hi g)
  have "lo * min_len a \<le> length us * min_len a" using Rep.hyps(1) by (rule mult_le_mono1)
  also have "\<dots> \<le> length (concat us)" using Rep.IH by (induction us) auto
  finally show ?case by simp
qed auto

text \<open>The least number of characters before the start of group \<open>n\<close>, for a sequence of items.\<close>

fun skips :: "nat \<Rightarrow> regex \<Rightarrow> nat option" where
  "skips n (RSeq (RGrp k a) b) =
     (if \<not> item (RGrp k a) then None
      else if k = n then (if n \<in> groups b then None else Some 0)
      else map_option ((+) (min_len a)) (skips n b))"
| "skips n (RSeq a b) = (if item a \<and> group_free a
     then map_option ((+) (if plain a then min_len a else 0)) (skips n b) else None)"
| "skips n (RGrp k a) = (if k = n \<and> item (RGrp k a) then Some 0 else None)"
| "skips n r = None"

lemma item_min_len: "item_lang a u \<Longrightarrow> plain a \<Longrightarrow> min_len a \<le> length u"
  using lang_min_len by (auto simp: item_lang_def)

lemma skips_seq:
  assumes "skips n (RSeq a b) = Some k" and "\<forall>j x. a \<noteq> RGrp j x"
  shows "item a \<and> (\<exists>k'. skips n b = Some k' \<and> k = (if plain a then min_len a else 0) + k')"
  using assms by (cases a) (auto split: if_splits)

lemma skips_sound:
  assumes "skips n r = Some k" and "(q, t, d) \<in> set (ends r (p, s, c))"
  shows "\<exists>x y. d n = Some (x, y) \<and> length x + k \<le> length s"
  using assms
proof (induction r arbitrary: k p s c)
  case (RSeq a b)
  show ?case
  proof (cases "\<exists>j x. a = RGrp j x")
    case True
    then obtain j x where a: "a = RGrp j x" by blast
    with RSeq.prems have item: "item a" by (auto split: if_splits)
    from in_item_seq [OF RSeq.prems(2) this] obtain u t' q' where
      u: "s = u @ t'" "item_lang a u" and b: "(q, t, d) \<in> set (ends b (q', t', capture a s t' c))" by blast
    show ?thesis
    proof (cases "j = n")
      case True
      with RSeq.prems(1) a have "n \<notin> groups b" "k = 0" by (auto split: if_splits)
      with ends_other_caps [OF b] show ?thesis by (auto simp: a True)
    next
      case False
      with RSeq.prems(1) a obtain k' where k': "skips n b = Some k'" "k = min_len x + k'" by (auto split: if_splits)
      from RSeq.IH(2) [OF k'(1) b] item_min_len [OF u(2)] item show ?thesis by (auto simp: a u(1) k'(2))
    qed
  next
    case False
    from skips_seq [OF RSeq.prems(1)] False obtain k' where "item a" and
      k': "skips n b = Some k'" "k = (if plain a then min_len a else 0) + k'" by blast
    from in_item_seq [OF RSeq.prems(2) this(1)] obtain u t' q' where
      u: "s = u @ t'" "item_lang a u" and b: "(q, t, d) \<in> set (ends b (q', t', capture a s t' c))" by blast
    from RSeq.IH(2) [OF k'(1) b] item_min_len [OF u(2)] show ?thesis by (auto simp: u(1) k'(2))
  qed
next
  case (RGrp j a)
  then show ?case by (auto split: if_splits)
qed auto

text \<open>Substitution: nothing happens without a match, and erasing never lengthens the text.\<close>

lemma re_sub_no_match: "re_search r s = None \<Longrightarrow> re_sub r f s = s"
  by (simp add: re_sub_def re_search_def sub_from.simps [of r f s None s] split: option.splits prod.splits)

lemma sub_from_length:
  assumes "\<And>m. length (f m) \<le> length (span_text (at_start m) (at_end m))"
  shows "length (sub_from r f subj p s) \<le> length s"
  using assms
proof (induction r f subj p s rule: sub_from.induct)
  case (1 r f subj p s)
  show ?case
  proof (cases "search_at r p s")
    case None
    then show ?thesis by (simp add: sub_from.simps [of r f subj p s])
  next
    case (Some res)
    obtain a q b c where res: "res = (a, q, b, c)" by (cases res)
    let ?m = "\<lparr>subject = subj, at_start = a, at_end = b, mcaps = c\<rparr>"
    from search_at_wf [OF Some [unfolded res] suffix_order.order_refl]
    have ab: "length a \<le> length s" "length b \<le> length a"
      by (auto dest: ends_suffix suffix_length_le)
    from 1(3) [of ?m] have fm: "length (f ?m) \<le> length a - length b" by (simp add: span_text_def)
    show ?thesis
    proof (cases "length b < length s")
      case True
      have "length (sub_from r f subj q b) \<le> length b"
        using 1(1) [OF Some res [symmetric] refl refl] True 1(3) by auto
      with ab fm True show ?thesis
        by (simp add: sub_from.simps [of r f subj p s] Some res span_text_def)
    next
      case False
      show ?thesis
      proof (cases s)
        case Nil
        with ab fm False show ?thesis
          by (simp add: sub_from.simps [of r f subj p "[]"] Some [unfolded Nil] res span_text_def)
      next
        case (Cons x xs)
        have "length (sub_from r f subj (Some x) xs) \<le> length xs"
          using 1(2) [OF Some res [symmetric] refl refl] False Cons 1(3) by auto
        with ab fm False Cons show ?thesis
          by (simp add: sub_from.simps [of r f subj p "x # xs"] Some [unfolded Cons] res span_text_def)
      qed
    qed
  qed
qed

lemma re_sub_length:
  "(\<And>m. length (f m) \<le> length (span_text (at_start m) (at_end m))) \<Longrightarrow> length (re_sub r f s) \<le> length s"
  by (simp add: re_sub_def sub_from_length)

section \<open>Characters every match has\<close>

primrec requires :: "regex \<Rightarrow> char \<Rightarrow> bool" where
  "requires REmpty x = False" | "requires RAny x = False"
| "requires (RSet neg cls) x = (\<not> neg \<and> cls = [CChr x])"
| "requires (RSeq a b) x = (requires a x \<or> requires b x)"
| "requires (RAlt a b) x = (requires a x \<and> requires b x)"
| "requires (RRep g lo hi a) x = (lo > 0 \<and> requires a x)"
| "requires (RGrp n a) x = requires a x"
| "requires RBol x = False" | "requires REol x = False" | "requires RWordB x = False"
| "requires RNWordB x = False" | "requires (RAhead n a) x = False" | "requires (RRef n) x = False"

lemma consumed_mono: "\<lbrakk>\<exists>u. s = u @ s1 \<and> x \<in> set u; suffix s2 s1\<rbrakk> \<Longrightarrow> \<exists>u. s = u @ s2 \<and> x \<in> set u"
  by (auto simp: suffix_def)

lemma consumed_after: "\<lbrakk>suffix s1 s; \<exists>u. s1 = u @ s2 \<and> x \<in> set u\<rbrakk> \<Longrightarrow> \<exists>u. s = u @ s2 \<and> x \<in> set u"
  by (auto simp: suffix_def)

lemma ends_requires:
  "(p', s', c') \<in> set (ends r (p, s, c)) \<Longrightarrow> requires r x \<Longrightarrow> \<exists>u. s = u @ s' \<and> x \<in> set u"
proof (induction r arbitrary: p s c p' s' c')
  case (RSet neg cls)
  then show ?case by (cases s) (auto split: if_splits)
next
  case (RSeq a b)
  from RSeq.prems(1) obtain p1 s1 c1 where 1: "(p1, s1, c1) \<in> set (ends a (p, s, c))"
    and 2: "(p', s', c') \<in> set (ends b (p1, s1, c1))" by auto
  from RSeq.prems(2) show ?case
  proof (cases "requires a x")
    case True
    from consumed_mono [OF RSeq.IH(1) [OF 1 True] ends_suffix [OF 2]] show ?thesis .
  next
    case False
    with RSeq.prems(2) have "requires b x" by simp
    from consumed_after [OF ends_suffix [OF 1] RSeq.IH(2) [OF 2 this]] show ?thesis .
  qed
next
  case (RAlt a b)
  then show ?case by auto
next
  case (RRep g lo hi a)
  then obtain lo' where lo: "lo = Suc lo'" by (cases lo) auto
  with RRep.prems(1) obtain p1 s1 c1 where 1: "(p1, s1, c1) \<in> set (ends a (p, s, c))"
    and 2: "(p', s', c') \<in> set (ends (RRep g lo' (pred_opt hi) a) (p1, s1, c1))"
    by (auto simp: ends_Rep_Suc)
  from RRep.prems(2) have "requires a x" by simp
  from consumed_mono [OF RRep.IH [OF 1 this] ends_suffix [OF 2]] show ?case .
next
  case (RGrp n a)
  from RGrp.prems(1) obtain d where "(p', s', d) \<in> set (ends a (p, s, c))" unfolding in_Grp by blast
  with RGrp show ?case by simp
qed simp_all

lemma ends_required_absent: "requires r x \<Longrightarrow> x \<notin> set s \<Longrightarrow> ends r (p, s, c) = []"
proof (rule ccontr)
  assume "requires r x" and "x \<notin> set s" and "ends r (p, s, c) \<noteq> []"
  moreover from this(3) obtain p' s' c' where "(p', s', c') \<in> set (ends r (p, s, c))"
    by (metis list.set_sel(1) prod_cases3)
  ultimately show False using ends_requires by fastforce
qed

end
