(* ===== verification/Matching.thy ===== *)
theory Matching
  imports Tables Effects Regex_Theory
begin

text \<open>
  The three regular-expression helpers of \<open>cpplint.py\<close> (\<open>Match\<close>, \<open>Search\<close>, \<open>ReplaceAll\<close>) and the
  compile cache behind them. \<open>Match_cached\<close>, \<open>Search_cached\<close> and \<open>ReplaceAll_cached\<close> are the
  functions as written, on the global \<open>_regexp_compile_cache\<close>; \<open>Match\<close>, \<open>Search\<close> and \<open>ReplaceAll\<close> are
  what they compute, and the rest of the development uses those. The cache is a client of the memo
  table interface \<open>memo_table\<close>.
\<close>

section \<open>Memo tables\<close>

locale memo_table =
  fixes lookup :: "'m \<Rightarrow> 'k \<Rightarrow> 'v option"
    and store :: "'m \<Rightarrow> 'k \<Rightarrow> 'v \<Rightarrow> 'm"
    and compute :: "'k \<Rightarrow> 'v option"
  assumes lookup_store: "lookup (store m k v) = (lookup m)(k \<mapsto> v)"
begin

definition sound :: "'m \<Rightarrow> bool" where
  "sound m \<longleftrightarrow> (\<forall>k v. lookup m k = Some v \<longrightarrow> compute k = Some v)"

lemma soundD: "sound m \<Longrightarrow> lookup m k = Some v \<Longrightarrow> compute k = Some v"
  by (simp add: sound_def)

lemma sound_store: "sound m \<Longrightarrow> compute k = Some v \<Longrightarrow> sound (store m k v)"
  by (auto simp: sound_def lookup_store)

end

type_synonym re_cache = "string \<Rightarrow> regex option"

definition cache_store :: "re_cache \<Rightarrow> string \<Rightarrow> regex \<Rightarrow> re_cache" where
  "cache_store m k v = m(k \<mapsto> v)"

interpretation re_memo: memo_table "\<lambda>m. m" cache_store re_compile
  by unfold_locales (simp add: cache_store_def)

section \<open>The helpers as written\<close>

definition Match_cached :: "re_cache \<Rightarrow> string \<Rightarrow> string \<Rightarrow> exc + (re_cache \<times> mtch option)" where
  "Match_cached cache pattern s =
     (case cache pattern of
        Some r \<Rightarrow> Inr (cache, re_match r s)
      | None \<Rightarrow> (case re_compile pattern of None \<Rightarrow> Inl ReError
          | Some r \<Rightarrow> Inr (cache_store cache pattern r, re_match r s)))"

definition ReplaceAll_cached :: "re_cache \<Rightarrow> string \<Rightarrow> string \<Rightarrow> string \<Rightarrow> exc + (re_cache \<times> string)" where
  "ReplaceAll_cached cache pattern rep s =
     (case cache pattern of
        Some r \<Rightarrow> Inr (cache, re_sub r (\<lambda>_. rep) s)
      | None \<Rightarrow> (case re_compile pattern of None \<Rightarrow> Inl ReError
          | Some r \<Rightarrow> Inr (cache_store cache pattern r, re_sub r (\<lambda>_. rep) s)))"

definition Search_cached :: "re_cache \<Rightarrow> string \<Rightarrow> string \<Rightarrow> exc + (re_cache \<times> mtch option)" where
  "Search_cached cache pattern s =
     (case cache pattern of
        Some r \<Rightarrow> Inr (cache, re_search r s)
      | None \<Rightarrow> (case re_compile pattern of None \<Rightarrow> Inl ReError
          | Some r \<Rightarrow> Inr (cache_store cache pattern r, re_search r s)))"

section \<open>What they compute\<close>

definition Match :: "string \<Rightarrow> string \<Rightarrow> mtch option" where
  "Match pattern s = Option.bind (re_compile pattern) (\<lambda>r. re_match r s)"

definition Search :: "string \<Rightarrow> string \<Rightarrow> mtch option" where
  "Search pattern s = Option.bind (re_compile pattern) (\<lambda>r. re_search r s)"

definition ReplaceAll :: "string \<Rightarrow> string \<Rightarrow> string \<Rightarrow> string" where
  "ReplaceAll pattern rep s =
     (case re_compile pattern of None \<Rightarrow> s | Some r \<Rightarrow> re_sub r (\<lambda>_. rep) s)"

definition matches :: "string \<Rightarrow> string \<Rightarrow> bool" where
  "matches pattern s \<longleftrightarrow> Match pattern s \<noteq> None"

definition found :: "string \<Rightarrow> string \<Rightarrow> bool" where
  "found pattern s \<longleftrightarrow> Search pattern s \<noteq> None"

lemma Match_cached_sound:
  "re_memo.sound cache \<Longrightarrow> re_compile pattern = Some r \<Longrightarrow>
    \<exists>cache'. Match_cached cache pattern s = Inr (cache', Match pattern s) \<and> re_memo.sound cache'"
  by (auto simp: Match_cached_def Match_def split: option.splits
      dest: re_memo.soundD intro: re_memo.sound_store)

lemma Search_cached_sound:
  "re_memo.sound cache \<Longrightarrow> re_compile pattern = Some r \<Longrightarrow>
    \<exists>cache'. Search_cached cache pattern s = Inr (cache', Search pattern s) \<and> re_memo.sound cache'"
  by (auto simp: Search_cached_def Search_def split: option.splits
      dest: re_memo.soundD intro: re_memo.sound_store)

lemma ReplaceAll_cached_sound:
  "re_memo.sound cache \<Longrightarrow> re_compile pattern = Some r \<Longrightarrow>
    \<exists>cache'. ReplaceAll_cached cache pattern rep s = Inr (cache', ReplaceAll pattern rep s) \<and>
      re_memo.sound cache'"
  by (auto simp: ReplaceAll_cached_def ReplaceAll_def split: option.splits
      dest: re_memo.soundD intro: re_memo.sound_store)

lemma Match_wf:
  "Match pattern s = Some m \<Longrightarrow> subject m = s \<and> at_start m = s \<and> suffix (at_end m) s \<and> caps_in s (mcaps m)"
  by (auto simp: Match_def bind_eq_Some_conv dest: re_match_wf)

lemma Search_wf:
  "Search pattern s = Some m \<Longrightarrow>
    subject m = s \<and> suffix (at_start m) s \<and> suffix (at_end m) (at_start m) \<and> caps_in s (mcaps m)"
  by (auto simp: Search_def bind_eq_Some_conv dest: re_search_wf)

lemma Match_group_length: "Match pattern s = Some m \<Longrightarrow> n \<noteq> 0 \<Longrightarrow> length (group m n) \<le> length s"
  by (auto dest!: Match_wf intro: group_length)

section \<open>What a successful search says of the text\<close>

lemma Search_ends:
  assumes "Search pattern s = Some m" and "re_compile pattern = Some r"
  shows "\<exists>u t. s = u @ t \<and> ends r (adv None u, t, no_caps) \<noteq> []"
proof -
  from assms have "re_search r s = Some m" by (simp add: Search_def)
  then have "search_at r None s \<noteq> None" by (cases "search_at r None s") (simp_all add: re_search_def)
  then show ?thesis unfolding search_at_None by simp
qed

lemma Search_None:
  assumes "re_compile pattern = Some r"
    and "\<And>u t. s = u @ t \<Longrightarrow> ends r (adv None u, t, no_caps) = []"
  shows "Search pattern s = None"
proof -
  have "search_at r None s = None" using search_at_None [of r None s] assms(2) by blast
  then show ?thesis by (simp add: Search_def re_search_def assms(1))
qed

lemma ends_lit_seq:
  "ends (RSeq (RLit x) r) (p, s, c) \<noteq> [] \<Longrightarrow> \<exists>t. s = x # t \<and> ends r (Some x, t, c) \<noteq> []"
  by (cases s) (simp_all add: cls_has_def split: if_splits)

text \<open>Literals at the head of a pattern, and behind a word boundary.\<close>

fun lits_then :: "string \<Rightarrow> regex \<Rightarrow> regex" where
  "lits_then [] r = r"
| "lits_then (x # xs) r = RSeq (RLit x) (lits_then xs r)"

lemma ends_lits_then:
  "ends (lits_then w r) (p, s, c) \<noteq> [] \<Longrightarrow> \<exists>t. s = w @ t"
proof (induction w arbitrary: p s)
  case (Cons x w)
  from ends_lit_seq [of x "lits_then w r" p s c] Cons.prems obtain t
    where "s = x # t" "ends (lits_then w r) (Some x, t, c) \<noteq> []" by auto
  with Cons.IH show ?case by auto
qed simp

lemma ends_wordb_lits:
  "ends (RSeq RWordB (lits_then w r)) (p, s, c) \<noteq> [] \<Longrightarrow> \<exists>t. s = w @ t"
  using ends_lits_then [of w r p s c] by (auto split: if_splits)

lemma Search_wordb_lits:
  assumes "re_compile pattern = Some (RSeq RWordB (lits_then w r))" and "\<not> sublist w s"
  shows "Search pattern s = None"
proof (rule Search_None [OF assms(1)], rule ccontr)
  fix u t assume s: "s = u @ t" and "ends (RSeq RWordB (lits_then w r)) (adv None u, t, no_caps) \<noteq> []"
  then obtain v where "t = w @ v" using ends_wordb_lits by blast
  with s assms(2) show False by (simp add: sublist_appendI)
qed

text \<open>A pattern cannot match text that lacks a character all its matches have.\<close>

definition needs :: "string \<Rightarrow> char \<Rightarrow> bool" where
  "needs pattern x \<longleftrightarrow> (case re_compile pattern of None \<Rightarrow> True | Some r \<Rightarrow> requires r x)"

lemma Search_needs:
  assumes "needs pattern x" and "x \<notin> set s"
  shows "Search pattern s = None"
proof (cases "re_compile pattern")
  case None
  then show ?thesis by (simp add: Search_def)
next
  case (Some r)
  with assms show ?thesis
    by (intro Search_None [OF Some] ends_required_absent [of _ x]) (auto simp: needs_def)
qed

lemma Match_needs:
  assumes "needs pattern x" and "x \<notin> set s"
  shows "Match pattern s = None"
proof (cases "re_compile pattern")
  case None
  then show ?thesis by (simp add: Match_def)
next
  case (Some r)
  with assms have "ends r (None, s, no_caps) = []"
    by (intro ends_required_absent [of _ x]) (auto simp: needs_def)
  with Some show ?thesis by (simp add: Match_def re_match_def)
qed

lemma found_needs: "needs pattern x \<Longrightarrow> x \<notin> set s \<Longrightarrow> \<not> found pattern s"
  by (simp add: found_def Search_needs)

lemma matches_needs: "needs pattern x \<Longrightarrow> x \<notin> set s \<Longrightarrow> \<not> matches pattern s"
  by (simp add: matches_def Match_needs)

lemma ReplaceAll_needs:
  assumes "needs pattern x" and "x \<notin> set s"
  shows "ReplaceAll pattern t s = s"
proof (cases "re_compile pattern")
  case (Some r)
  with Search_needs [OF assms] show ?thesis
    by (simp add: ReplaceAll_def Search_def re_sub_no_match)
qed (simp add: ReplaceAll_def)

text \<open>A bound on the text left for a group, for the termination of loops that go on with a group.\<close>

definition skip :: "string \<Rightarrow> nat \<Rightarrow> nat option" where
  "skip pattern n = Option.bind (re_compile pattern) (skips n)"

lemma Match_skip:
  assumes "skip pattern n = Some k" and "Match pattern s = Some m" and "n \<noteq> 0"
  shows "length (group m n) + k \<le> length s"
proof -
  obtain r where r: "re_compile pattern = Some r" "skips n r = Some k"
    using assms(1) by (auto simp: skip_def split: Option.bind_splits)
  with assms(2) have "re_match r s = Some m" by (simp add: Match_def)
  then obtain q t c where "(q, t, c) \<in> set (ends r (None, s, no_caps))"
    and m: "m = \<lparr>subject = s, at_start = s, at_end = t, mcaps = c\<rparr>" by (rule re_matchD)
  from skips_sound [OF r(2) this(1)] show ?thesis
    using assms(3) by (auto simp: m group_def group_opt_def span_text_def)
qed

end
