(* ===== verification/Paths.thy ===== *)
theory Paths
  imports Matching
begin

text \<open>
  File names: the functions of \<open>os.path\<close> the scripts call (as on POSIX systems), the extension options,
  \<open>FileInfo\<close>, \<open>PathSplitToList\<close> and \<open>GetHeaderGuardCPPVariable\<close>. The file system is the record
  \<open>world\<close>: which paths exist, and the working directory.
\<close>

section \<open>\<open>os.path\<close>\<close>

record world =
  exists :: "string \<Rightarrow> bool"
  cwd :: string

definition rstrip_slash :: "string \<Rightarrow> string" where
  "rstrip_slash = rstrip_by (\<lambda>c. c = CHR ''/'')"

definition path_split :: "string \<Rightarrow> string \<times> string" where
  "path_split p =
     (let i = py_rfind p (CHR ''/'') + 1; h = slice_to p i; t = slice_from p i
      in (if h \<noteq> [] \<and> h \<noteq> replicate (length h) (CHR ''/'') then rstrip_slash h else h, t))"

definition dirname :: "string \<Rightarrow> string" where
  "dirname p = fst (path_split p)"

definition splitext :: "string \<Rightarrow> string \<times> string" where
  "splitext p =
     (let sep = py_rfind p (CHR ''/''); dot = py_rfind p (CHR ''.'') in
      if dot > sep \<and> list_ex (\<lambda>c. c \<noteq> CHR ''.'') (slice p (sep + 1) dot)
      then (slice_to p dot, slice_from p dot) else (p, []))"

definition path_join2 :: "string \<Rightarrow> string \<Rightarrow> string" where
  "path_join2 a b = (if startswith b ''/'' then b
     else if a = [] \<or> endswith a ''/'' then a @ b else a @ ''/'' @ b)"

definition path_join :: "string list \<Rightarrow> string" where
  "path_join ps = (case ps of [] \<Rightarrow> [] | a # bs \<Rightarrow> foldl path_join2 a bs)"

text \<open>One component of \<open>normpath\<close>, on the reversed list of those kept.\<close>

definition norm_comp :: "bool \<Rightarrow> string \<Rightarrow> string list \<Rightarrow> string list" where
  "norm_comp rooted c acc =
     (if c = [] \<or> c = ''.'' then acc
      else if c \<noteq> ''..'' \<or> (\<not> rooted \<and> acc = []) \<or> (acc \<noteq> [] \<and> hd acc = ''..'') then c # acc
      else tl acc)"

definition normpath :: "string \<Rightarrow> string" where
  "normpath p =
     (if p = [] then ''.''
      else
        (let slashes = (if startswith p ''//'' \<and> \<not> startswith p ''///'' then ''//''
                        else if startswith p ''/'' then ''/'' else []);
             q = slashes @ join ''/'' (rev (fold (norm_comp (slashes \<noteq> [])) (split_on (CHR ''/'') p) []))
         in if q = [] then ''.'' else q))"

definition abspath :: "world \<Rightarrow> string \<Rightarrow> string" where
  "abspath w p = normpath (if startswith p ''/'' then p else path_join2 (cwd w) p)"

fun common_prefix :: "'a list \<Rightarrow> 'a list \<Rightarrow> 'a list" where
  "common_prefix (x # xs) (y # ys) = (if x = y then x # common_prefix xs ys else [])"
| "common_prefix _ _ = []"

definition relpath :: "world \<Rightarrow> string \<Rightarrow> string \<Rightarrow> string" where
  "relpath w p start =
     (let start_list = filter (\<lambda>x. x \<noteq> []) (split_on (CHR ''/'') (abspath w start));
          path_list = filter (\<lambda>x. x \<noteq> []) (split_on (CHR ''/'') (abspath w p));
          i = length (common_prefix start_list path_list);
          rel_list = replicate (length start_list - i) ''..'' @ drop i path_list
      in if rel_list = [] then ''.'' else path_join rel_list)"

lemma length_rstrip_slash: "length (rstrip_slash s) \<le> length s"
  by (simp add: rstrip_slash_def length_rstrip_by)

lemma rstrip_by_prefix: "prefix (rstrip_by P s) s"
proof -
  have "suffix (dropWhile P (rev s)) (rev s)" by (rule suffix_dropWhile)
  then show ?thesis by (simp add: rstrip_by_def suffix_to_prefix)
qed

lemma path_split_head: "prefix (fst (path_split p)) p"
  by (auto simp: path_split_def Let_def slice_to_def rstrip_slash_def take_is_prefix
      intro: prefix_order.trans [OF rstrip_by_prefix take_is_prefix])

lemma path_split_shorter: "fst (path_split p) \<noteq> p \<Longrightarrow> length (fst (path_split p)) < length p"
  using path_split_head [of p] by (metis prefix_length_le prefix_length_less prefix_order.le_imp_less_or_eq strict_prefix_def)

lemma dirname_shorter: "dirname p \<noteq> p \<Longrightarrow> length (dirname p) < length p"
  by (simp add: dirname_def path_split_shorter)

section \<open>Options and extensions\<close>

text \<open>The option globals (\<open>max_line_length\<close> is \<open>_line_length\<close>); an unset root or repository is the empty string (the code only asks whether
  it is set), an unset extension list is empty.\<close>

record opts =
  root :: string
  repository :: string
  hpp_headers :: "string list"
  valid_extensions :: "string list"
  max_line_length :: int

definition ProcessHppHeadersOption :: "string \<Rightarrow> opts \<Rightarrow> opts" where
  "ProcessHppHeadersOption val o' = o'\<lparr>hpp_headers := remdups (map strip (split_on (CHR '','') val))\<rparr>"

definition GetHeaderExtensions :: "opts \<Rightarrow> string list" where
  "GetHeaderExtensions o' =
     (if hpp_headers o' \<noteq> [] then hpp_headers o'
      else if valid_extensions o' \<noteq> [] then filter (\<lambda>h. contains h ''h'') (valid_extensions o')
      else [''h'', ''hh'', ''hpp'', ''hxx'', ''h++'', ''cuh''])"

definition IsHeaderExtension :: "opts \<Rightarrow> string \<Rightarrow> bool" where
  "IsHeaderExtension o' file_extension \<longleftrightarrow> file_extension \<in> set (GetHeaderExtensions o')"

definition GetAllExtensions :: "opts \<Rightarrow> string list" where
  "GetAllExtensions o' = remdups (GetHeaderExtensions o' @
     (if valid_extensions o' \<noteq> [] then valid_extensions o'
      else [''c'', ''cc'', ''cpp'', ''cxx'', ''c++'', ''cu'']))"

definition ProcessExtensionsOption :: "string \<Rightarrow> opts \<Rightarrow> opts" where
  "ProcessExtensionsOption val o' = o'\<lparr>valid_extensions := remdups (map strip (split_on (CHR '','') val))\<rparr>"

definition GetNonHeaderExtensions :: "opts \<Rightarrow> string list" where
  "GetNonHeaderExtensions o' = filter (\<lambda>e. e \<notin> set (GetHeaderExtensions o')) (GetAllExtensions o')"

definition IsSourceExtension :: "opts \<Rightarrow> string \<Rightarrow> bool" where
  "IsSourceExtension o' s \<longleftrightarrow> s \<in> set (GetNonHeaderExtensions o')"

section \<open>\<open>FileInfo\<close>\<close>

definition FullName :: "world \<Rightarrow> string \<Rightarrow> string" where
  "FullName w filename = py_replace (abspath w filename) [backslash] ''/''"

definition has_entry :: "world \<Rightarrow> string \<Rightarrow> string \<Rightarrow> bool" where
  "has_entry w d name \<longleftrightarrow> exists w (path_join2 d name)"

text \<open>The first loop of \<open>RepositoryName\<close>: from the file's directory up to the repository.\<close>

function repository_above :: "world \<Rightarrow> string \<Rightarrow> string \<Rightarrow> string option" where
  "repository_above w repo root_dir =
     (if exists w root_dir then
        (if root_dir = repo then Some root_dir
         else if dirname root_dir = root_dir then None
         else repository_above w repo (dirname root_dir))
      else None)"
  by pat_completeness auto
termination
  by (relation "measure (\<lambda>(w, repo, d). length d)") (auto intro: dirname_shorter)

text \<open>The second one, up a subversion checkout. It has no test for the top of the file system, so it
  may not return.\<close>

partial_function (option) svn_top :: "world \<Rightarrow> string \<Rightarrow> string \<Rightarrow> string option" where
  "svn_top w root_dir one_up_dir =
     (if has_entry w one_up_dir ''.svn'' then svn_top w (dirname root_dir) (dirname one_up_dir)
      else Some root_dir)"

declare svn_top.simps [code]

definition is_checkout :: "world \<Rightarrow> string \<Rightarrow> bool" where
  "is_checkout w d \<longleftrightarrow> has_entry w d ''.git'' \<or> has_entry w d ''.hg'' \<or> has_entry w d ''.svn''"

text \<open>The third one: the last directory on the way up that is a checkout.\<close>

function topmost_checkout :: "world \<Rightarrow> string \<Rightarrow> string \<Rightarrow> string" where
  "topmost_checkout w root_dir current_dir =
     (if current_dir \<noteq> dirname current_dir then
        topmost_checkout w (if is_checkout w current_dir then current_dir else root_dir) (dirname current_dir)
      else root_dir)"
  by pat_completeness auto
termination
  by (relation "measure (\<lambda>(w, r, d). length d)") (auto intro: dirname_shorter)

declare repository_above.simps [simp del] topmost_checkout.simps [simp del]

text \<open>\<open>None\<close>: the call does not return.\<close>

definition RepositoryName :: "opts \<Rightarrow> world \<Rightarrow> string \<Rightarrow> string option" where
  "RepositoryName o' w filename =
     (let fullname = FullName w filename in
      if exists w fullname then
        (let project_dir = dirname fullname;
             cut = (\<lambda>d. slice_from fullname (py_len (common_prefix d project_dir) + 1))
         in case (if repository o' = [] then None
                  else repository_above w (FullName w (repository o')) project_dir) of
              Some root_dir \<Rightarrow> Some (py_replace (relpath w fullname root_dir) [backslash] ''/'')
            | None \<Rightarrow>
                if has_entry w project_dir ''.svn'' then
                  map_option cut (svn_top w project_dir (dirname project_dir))
                else
                  (let root_dir = topmost_checkout w project_dir project_dir in
                   if is_checkout w root_dir then Some (cut root_dir) else Some fullname))
      else Some fullname)"

definition Split :: "opts \<Rightarrow> world \<Rightarrow> string \<Rightarrow> (string \<times> string \<times> string) option" where
  "Split o' w filename = map_option (\<lambda>googlename.
     case path_split googlename of (project, rest) \<Rightarrow> (project, splitext rest)) (RepositoryName o' w filename)"

definition BaseName :: "opts \<Rightarrow> world \<Rightarrow> string \<Rightarrow> string option" where
  "BaseName o' w filename = map_option (\<lambda>s. fst (snd s)) (Split o' w filename)"

definition Extension :: "opts \<Rightarrow> world \<Rightarrow> string \<Rightarrow> string option" where
  "Extension o' w filename = map_option (\<lambda>s. snd (snd s)) (Split o' w filename)"

definition NoExtension :: "opts \<Rightarrow> world \<Rightarrow> string \<Rightarrow> string option" where
  "NoExtension o' w filename = map_option (\<lambda>s. fst s @ ''/'' @ fst (snd s)) (Split o' w filename)"

definition IsSource :: "opts \<Rightarrow> world \<Rightarrow> string \<Rightarrow> bool option" where
  "IsSource o' w filename = map_option (\<lambda>e. IsSourceExtension o' (drop 1 e)) (Extension o' w filename)"

section \<open>Header guard names\<close>

text \<open>The loop of \<open>PathSplitToList\<close>, with the list it reverses at the end.\<close>

function path_split_loop :: "string \<Rightarrow> string list \<Rightarrow> string list" where
  "path_split_loop p lst =
     (let (h, t) = path_split p in
      if h = p then h # lst
      else if t = p then t # lst
      else path_split_loop h (t # lst))"
  by pat_completeness auto
termination
  by (relation "measure (\<lambda>(p, lst). length p)") (auto, metis fst_conv path_split_shorter)

declare path_split_loop.simps [simp del]

definition PathSplitToList :: "string \<Rightarrow> string list" where
  "PathSplitToList p = path_split_loop p []"

definition StripListPrefix :: "'a list \<Rightarrow> 'a list \<Rightarrow> 'a list option" where
  "StripListPrefix lst pre = (if take (length pre) lst \<noteq> pre then None else Some (drop (length pre) lst))"

text \<open>\<open>if maybe_path: return os.path.join(*maybe_path)\<close>.\<close>

definition stripped :: "string list \<Rightarrow> string list \<Rightarrow> string option" where
  "stripped lst pre = (case StripListPrefix lst pre of None \<Rightarrow> None
     | Some ps \<Rightarrow> if ps = [] then None else Some (path_join ps))"

definition FixupPathFromRoot :: "opts \<Rightarrow> world \<Rightarrow> string \<Rightarrow> string \<Rightarrow> string" where
  "FixupPathFromRoot o' w filename file_path_from_root =
     (if root o' = [] then file_path_from_root
      else case stripped (PathSplitToList file_path_from_root) (PathSplitToList (root o')) of
        Some p \<Rightarrow> p
      | None \<Rightarrow>
         (case stripped (PathSplitToList (FullName w filename)) (PathSplitToList (abspath w (root o'))) of
            Some p \<Rightarrow> p
          | None \<Rightarrow> file_path_from_root))"

definition guard_filename :: "string \<Rightarrow> string" where
  "guard_filename filename =
     (let f1 = ReplaceAll (raw ''_flymake`.h$'') ''.h'' filename;
          f2 = re_sub (the (re_compile (raw ''/`.flymake/([^/]*)$''))) (\<lambda>m. ''/'' @ group m 1) f1
      in py_replace (py_replace f2 ''C++'' ''cpp'') ''c++'' ''cpp'')"

definition GetHeaderGuardCPPVariable :: "opts \<Rightarrow> world \<Rightarrow> string \<Rightarrow> string option" where
  "GetHeaderGuardCPPVariable o' w filename =
     (let filename = guard_filename filename in
      map_option (\<lambda>file_path_from_root.
         upper (ReplaceAll ''[^a-zA-Z0-9]'' ''_'' (FixupPathFromRoot o' w filename file_path_from_root)) @ ''_'')
        (RepositoryName o' w filename))"

end
