(* ===== verification/Lint_State.thy ===== *)
theory Lint_State
  imports Matching
begin

text \<open>
  The module-wide state of \<open>cpplint.py\<close>: the \<open>_CppLintState\<close> singleton, the NOLINT suppressions, the
  option globals, and what was written to the two output streams. Operations take the state and
  return the new one; \<open>Error\<close> and \<open>ParseNolintSuppressions\<close> are what the calls of a check
  (theory \<open>Effects\<close>) are replayed on.
\<close>

section \<open>State\<close>

record lint =
  \<comment> \<open>\<open>_CppLintState\<close>\<close>
  verbose_level :: int
  error_count :: nat
  filters :: "string list"
  filters_backup :: "string list"
  counting :: string
  errors_by_category :: "(string \<times> nat) list"
  quiet :: bool
  output_format :: string
  junit_errors :: "string list"
  junit_failures :: "(string \<times> int option \<times> string \<times> string \<times> int) list"
  \<comment> \<open>\<open>_error_suppressions\<close>, \<open>_global_error_suppressions\<close>\<close>
  error_suppressions :: "string option \<Rightarrow> int set"
  global_error_suppressions :: "string \<Rightarrow> bool"
  \<comment> \<open>what was written to \<open>sys.stderr\<close> and \<open>sys.stdout\<close>\<close>
  err_out :: "string list"
  std_out :: "string list"

definition no_suppressions :: "string option \<Rightarrow> int set" where
  "no_suppressions = (\<lambda>_. {})"

text \<open>\<open>_CppLintState.__init__\<close> and the initial values of the module globals.\<close>

definition init_lint :: lint where
  "init_lint = \<lparr>verbose_level = 1, error_count = 0, filters = DEFAULT_FILTERS,
     filters_backup = DEFAULT_FILTERS, counting = ''total'', errors_by_category = [], quiet = False,
     output_format = ''emacs'', junit_errors = [], junit_failures = [],
     error_suppressions = no_suppressions, global_error_suppressions = (\<lambda>_. False),
     err_out = [], std_out = []\<rparr>"

section \<open>\<open>_CppLintState\<close>\<close>

definition SetOutputFormat :: "string \<Rightarrow> lint \<Rightarrow> lint" where
  "SetOutputFormat f st = st\<lparr>output_format := f\<rparr>"

definition SetQuiet :: "bool \<Rightarrow> lint \<Rightarrow> bool \<times> lint" where
  "SetQuiet q st = (quiet st, st\<lparr>quiet := q\<rparr>)"

definition SetVerboseLevel :: "int \<Rightarrow> lint \<Rightarrow> int \<times> lint" where
  "SetVerboseLevel level st = (verbose_level st, st\<lparr>verbose_level := level\<rparr>)"

definition SetCountingStyle :: "string \<Rightarrow> lint \<Rightarrow> lint" where
  "SetCountingStyle style st = st\<lparr>counting := style\<rparr>"

definition filter_ok :: "string \<Rightarrow> bool" where
  "filter_ok f \<longleftrightarrow> startswith f ''+'' \<or> startswith f ''-''"

text \<open>The filters are appended before they are checked, so a bad one stays in the list.\<close>

definition AddFilters :: "string \<Rightarrow> lint \<Rightarrow> exc option \<times> lint" where
  "AddFilters fs st =
     (let clean = filter (\<lambda>f. f \<noteq> []) (map strip (split_on (CHR '','') fs));
          st' = st\<lparr>filters := filters st @ clean\<rparr>
      in (if list_all filter_ok (filters st') then None else Some ValueError, st'))"

definition SetFilters :: "string \<Rightarrow> lint \<Rightarrow> exc option \<times> lint" where
  "SetFilters fs st = AddFilters fs (st\<lparr>filters := DEFAULT_FILTERS\<rparr>)"

definition BackupFilters :: "lint \<Rightarrow> lint" where
  "BackupFilters st = st\<lparr>filters_backup := filters st\<rparr>"

definition RestoreFilters :: "lint \<Rightarrow> lint" where
  "RestoreFilters st = st\<lparr>filters := filters_backup st\<rparr>"

definition ResetErrorCounts :: "lint \<Rightarrow> lint" where
  "ResetErrorCounts st = st\<lparr>error_count := 0, errors_by_category := []\<rparr>"

fun bump :: "string \<Rightarrow> (string \<times> nat) list \<Rightarrow> (string \<times> nat) list" where
  "bump k [] = [(k, 1)]"
| "bump k ((k', n) # xs) = (if k' = k then (k', Suc n) # xs else (k', n) # bump k xs)"

definition IncrementErrorCount :: "string \<Rightarrow> lint \<Rightarrow> lint" where
  "IncrementErrorCount category st =
     (let st' = st\<lparr>error_count := Suc (error_count st)\<rparr> in
      if counting st \<in> {''toplevel'', ''detailed''} then
        (let cat = (if counting st \<noteq> ''detailed'' then hd (split_on (CHR ''/'') category) else category)
         in st'\<lparr>errors_by_category := bump cat (errors_by_category st')\<rparr>)
      else st')"

text \<open>The global \<open>_quiet\<close> that guards \<open>PrintInfo\<close> is never assigned: it stays \<open>False\<close>.\<close>

definition global_quiet :: bool where
  "global_quiet = False"

definition PrintInfo :: "string \<Rightarrow> lint \<Rightarrow> lint" where
  "PrintInfo message st =
     (if \<not> global_quiet \<and> output_format st \<noteq> ''junit'' then st\<lparr>std_out := std_out st @ [message]\<rparr> else st)"

definition PrintError :: "string \<Rightarrow> lint \<Rightarrow> lint" where
  "PrintError message st =
     (if output_format st = ''junit'' then st\<lparr>junit_errors := junit_errors st @ [message]\<rparr>
      else st\<lparr>err_out := err_out st @ [message]\<rparr>)"

definition PrintErrorCounts :: "lint \<Rightarrow> lint" where
  "PrintErrorCounts st =
     (let st1 = fold (\<lambda>(category, count). PrintInfo
            (''Category '' @ [squote] @ category @ [squote] @ '' errors found: '' @ str_int (int count) @ [newline]))
          (sort_key fst (errors_by_category st)) st
      in if error_count st1 > 0
         then PrintInfo (''Total errors found: '' @ str_int (int (error_count st1)) @ [newline]) st1
         else st1)"

definition AddJUnitFailure :: "string \<Rightarrow> int option \<Rightarrow> string \<Rightarrow> string \<Rightarrow> int \<Rightarrow> lint \<Rightarrow> lint" where
  "AddJUnitFailure fn linenum message category confidence st =
     st\<lparr>junit_failures := junit_failures st @ [(fn, linenum, message, category, confidence)]\<rparr>"

section \<open>Suppressions\<close>

definition suppress_on :: "string option \<Rightarrow> int \<Rightarrow> lint \<Rightarrow> lint" where
  "suppress_on k n st = st\<lparr>error_suppressions :=
     (error_suppressions st)(k := insert n (error_suppressions st k))\<rparr>"

definition ProcessGlobalSuppresions :: "string list \<Rightarrow> lint \<Rightarrow> lint" where
  "ProcessGlobalSuppresions lines st = fold (\<lambda>line st.
     (let st1 = (if found SEARCH_C_FILE line
                 then fold (\<lambda>c st. st\<lparr>global_error_suppressions := (global_error_suppressions st)(c := True)\<rparr>)
                      DEFAULT_C_SUPPRESSED_CATEGORIES st else st)
      in if found SEARCH_KERNEL_FILE line
         then fold (\<lambda>c st. st\<lparr>global_error_suppressions := (global_error_suppressions st)(c := True)\<rparr>)
              DEFAULT_KERNEL_SUPPRESSED_CATEGORIES st1 else st1)) lines st"

definition ResetNolintSuppressions :: "lint \<Rightarrow> lint" where
  "ResetNolintSuppressions st =
     st\<lparr>error_suppressions := no_suppressions, global_error_suppressions := (\<lambda>_. False)\<rparr>"

definition on_line :: "int option \<Rightarrow> int set \<Rightarrow> bool" where
  "on_line n S = (case n of None \<Rightarrow> False | Some k \<Rightarrow> k \<in> S)"

definition IsErrorSuppressedByNolint :: "string \<Rightarrow> int option \<Rightarrow> lint \<Rightarrow> bool" where
  "IsErrorSuppressedByNolint category linenum st \<longleftrightarrow>
     global_error_suppressions st category \<or>
     on_line linenum (error_suppressions st (Some category)) \<or>
     on_line linenum (error_suppressions st None)"

section \<open>Reporting\<close>

text \<open>The loop over the filters; a filter without sign trips the assertion.\<close>

fun filter_loop :: "string \<Rightarrow> string list \<Rightarrow> bool \<Rightarrow> exc + bool" where
  "filter_loop category [] is_filtered = Inr is_filtered"
| "filter_loop category (f # fs) is_filtered =
     (if startswith f ''-'' then
        filter_loop category fs (if startswith category (drop 1 f) then True else is_filtered)
      else if startswith f ''+'' then
        filter_loop category fs (if startswith category (drop 1 f) then False else is_filtered)
      else Inl AssertionError)"

definition ShouldPrintError :: "string \<Rightarrow> int \<Rightarrow> int option \<Rightarrow> lint \<Rightarrow> exc + bool" where
  "ShouldPrintError category confidence linenum st =
     (if IsErrorSuppressedByNolint category linenum st then Inr False
      else if confidence < verbose_level st then Inr False
      else (case filter_loop category (filters st) False of
              Inl e \<Rightarrow> Inl e | Inr is_filtered \<Rightarrow> Inr (\<not> is_filtered)))"

definition show_line :: "int option \<Rightarrow> string" where
  "show_line n = (case n of None \<Rightarrow> ''None'' | Some k \<Rightarrow> str_int k)"

definition vs7_message :: "string \<Rightarrow> int option \<Rightarrow> string \<Rightarrow> int \<Rightarrow> string \<Rightarrow> string" where
  "vs7_message fn n cat conf msg =
     fn @ ''('' @ show_line n @ ''): error cpplint: ['' @ cat @ ''] '' @ msg @ '' ['' @ str_int conf @ '']'' @ [newline]"

definition eclipse_message :: "string \<Rightarrow> int option \<Rightarrow> string \<Rightarrow> int \<Rightarrow> string \<Rightarrow> string" where
  "eclipse_message fn n cat conf msg =
     fn @ '':'' @ show_line n @ '': warning: '' @ msg @ ''  ['' @ cat @ ''] ['' @ str_int conf @ '']'' @ [newline]"

definition emacs_message :: "string \<Rightarrow> int option \<Rightarrow> string \<Rightarrow> int \<Rightarrow> string \<Rightarrow> string" where
  "emacs_message fn n cat conf msg =
     fn @ '':'' @ show_line n @ '':  '' @ msg @ ''  ['' @ cat @ ''] ['' @ str_int conf @ '']'' @ [newline]"

definition Error :: "string \<Rightarrow> int option \<Rightarrow> string \<Rightarrow> int \<Rightarrow> string \<Rightarrow> lint \<Rightarrow> exc + lint" where
  "Error fn linenum category confidence message st =
     (case ShouldPrintError category confidence linenum st of
        Inl e \<Rightarrow> Inl e
      | Inr False \<Rightarrow> Inr st
      | Inr True \<Rightarrow>
        (let st1 = IncrementErrorCount category st in
         Inr (if output_format st1 = ''vs7'' then
                PrintError (vs7_message fn linenum category confidence message) st1
              else if output_format st1 = ''eclipse'' then
                st1\<lparr>err_out := err_out st1 @ [eclipse_message fn linenum category confidence message]\<rparr>
              else if output_format st1 = ''junit'' then
                AddJUnitFailure fn linenum message category confidence st1
              else
                st1\<lparr>err_out := err_out st1 @ [emacs_message fn linenum category confidence message]\<rparr>)))"

definition NOLINT_PATTERN :: string where
  "NOLINT_PATTERN = raw ''`bNOLINT(NEXTLINE)?`b(`([^)]+`))?''"

definition ParseNolintSuppressions :: "string \<Rightarrow> string \<Rightarrow> int \<Rightarrow> lint \<Rightarrow> exc + lint" where
  "ParseNolintSuppressions fn raw_line linenum st =
     (case Search NOLINT_PATTERN raw_line of
        None \<Rightarrow> Inr st
      | Some m \<Rightarrow>
        (let suppressed_line = (case group_opt m 1 of None \<Rightarrow> linenum
                | Some g \<Rightarrow> if g = [] then linenum else linenum + 1) in
         case group_opt m 2 of
           None \<Rightarrow> Inr (suppress_on None suppressed_line st)
         | Some category \<Rightarrow>
             if category = ''(*)'' then Inr (suppress_on None suppressed_line st)
             else if startswith category ''('' \<and> endswith category '')'' then
               (let cat = slice category 1 (- 1) in
                if cat \<in> set ERROR_CATEGORIES then Inr (suppress_on (Some cat) suppressed_line st)
                else if cat \<notin> set LEGACY_ERROR_CATEGORIES then
                  Error fn (Some linenum) ''readability/nolint'' 5
                    (''Unknown NOLINT error category: '' @ cat) st
                else Inr st)
             else Inr st))"

section \<open>Replaying the calls of a check\<close>

fun handle_call :: "call \<Rightarrow> lint \<Rightarrow> exc + lint" where
  "handle_call (Report fn n cat conf msg) st = Error fn n cat conf msg st"
| "handle_call (Nolint fn l n) st = ParseNolintSuppressions fn l n st"

fun replay_with :: "(call \<Rightarrow> 's \<Rightarrow> exc + 's) \<Rightarrow> call list \<Rightarrow> 's \<Rightarrow> exc + 's" where
  "replay_with h [] st = Inr st"
| "replay_with h (c # cs) st = (case h c st of Inl e \<Rightarrow> Inl e | Inr st' \<Rightarrow> replay_with h cs st')"

definition replay :: "call list \<Rightarrow> lint \<Rightarrow> exc + lint" where
  "replay = replay_with handle_call"

text \<open>A check run on the module state: its calls, then its own outcome.\<close>

definition exec :: "'a run \<Rightarrow> lint \<Rightarrow> exc + ('a \<times> lint)" where
  "exec m st = (case replay (calls m) st of Inl e \<Rightarrow> Inl e
     | Inr st' \<Rightarrow> (case result m of Inl e \<Rightarrow> Inl e | Inr x \<Rightarrow> Inr (x, st')))"

end
