(* ===== verification/Cleansing.thy ===== *)
theory Cleansing
  imports Lint_State
begin

text \<open>
  The preprocessing of source lines: raw strings (\<open>CleanseRawStrings\<close>), multi-line comments
  (\<open>RemoveMultiLineComments\<close>), comments on a line (\<open>CleanseComments\<close>), literals
  (\<open>_CollapseStrings\<close>), and \<open>CleansedLines\<close>, the four copies of a file the checks read.
\<close>

section \<open>Patterns\<close>

definition CLEANSE_LINE_ESCAPES :: string where
  "CLEANSE_LINE_ESCAPES =
     raw ''``([abfnrtv?'' @ [dquote] @ raw ''```'' @ [squote] @ raw '']|`d+|x[0-9a-fA-F]+)''"

definition C_COMMENTS :: string where
  "C_COMMENTS = raw ''/`*(?:[^*]|`*(?!/))*`*/''"

definition CLEANSE_LINE_C_COMMENTS :: string where
  "CLEANSE_LINE_C_COMMENTS = raw ''(`s*'' @ C_COMMENTS @ raw ''`s*$|'' @ C_COMMENTS @ raw ''`s+|'' @
     raw ''`s+'' @ C_COMMENTS @ raw ''(?=`W)|'' @ C_COMMENTS @ '')''"

definition PATTERN_INCLUDE :: string where
  "PATTERN_INCLUDE = raw ''^`s*#`s*include`s*([<'' @ [dquote] @ ''])([^>'' @ [dquote] @ '']*)[>'' @ [dquote] @ ''].*$''"

section \<open>Strings and comments\<close>

definition IsCppString :: "string \<Rightarrow> bool" where
  "IsCppString line =
     (let line = py_replace line (raw ''``'') ''XX''
      in odd (int (py_count line [dquote]) - int (py_count line [backslash, dquote])
              - int (py_count line [squote, dquote, squote])))"

definition RAW_STRING :: string where
  "RAW_STRING = raw ''^(.*?)`b(?:R|u8R|uR|UR|LR)'' @ [dquote] @ raw ''([^`s``()]*)`((.*)$''"

definition RAW_IN_COMMENT :: string where
  "RAW_IN_COMMENT = ''^([^'' @ [squote, dquote] @ '']|'' @ [squote] @ raw ''(``.|[^'' @ [squote] @ ''])*''
     @ [squote] @ ''|'' @ [dquote] @ raw ''(``.|[^'' @ [dquote] @ ''])*'' @ [dquote] @ '')*//''"

text \<open>
  The groups of a match of \<open>RAW_STRING\<close> and the text between them add up to the line, so each round
  of the inner loop leaves a shorter line.
\<close>

lemma RAW_STRING_compiled:
  "re_compile RAW_STRING = Some (RSeq RBol (RSeq (RGrp 1 (RRep False 0 None RAny)) (RSeq RWordB
     (RSeq (RAlt (RLit (CHR ''R'')) (RAlt (RSeq (RLit (CHR ''u'')) (RSeq (RLit (CHR ''8'')) (RLit (CHR ''R''))))
        (RAlt (RSeq (RLit (CHR ''u'')) (RLit (CHR ''R''))) (RAlt (RSeq (RLit (CHR ''U'')) (RLit (CHR ''R'')))
          (RSeq (RLit (CHR ''L'')) (RLit (CHR ''R'')))))))
     (RSeq (RLit dquote) (RSeq (RGrp 2 (RRep True 0 None (RSet True [CSpace, CChr backslash, CChr (CHR ''(''),
        CChr (CHR '')'')])))
     (RSeq (RLit (CHR ''('')) (RSeq (RGrp 3 (RRep True 0 None RAny)) REol))))))))"
  by code_simp

lemma RAW_STRING_groups:
  assumes "Match RAW_STRING line = Some m"
  shows "\<exists>pre rest. line = group m 1 @ pre @ [CHR ''R'', dquote] @ group m 2 @ ''('' @ group m 3 @ rest"
proof -
  from assms have "re_match (the (re_compile RAW_STRING)) line = Some m"
    by (simp add: Match_def RAW_STRING_compiled)
  then obtain q t c where st: "(q, t, c) \<in> set (ends (the (re_compile RAW_STRING)) (None, line, no_caps))"
    and m: "m = \<lparr>subject = line, at_start = line, at_end = t, mcaps = c\<rparr>"
    by (rule re_matchD)
  from st have "\<exists>a pre b d. line = a @ pre @ CHR ''R'' # dquote # b @ CHR ''('' # d @ t \<and>
      c 1 = Some (line, pre @ CHR ''R'' # dquote # b @ CHR ''('' # d @ t) \<and>
      c 2 = Some (b @ CHR ''('' # d @ t, CHR ''('' # d @ t) \<and> c 3 = Some (d @ t, t)"
    unfolding RAW_STRING_compiled option.sel
    by (elim in_item_seq) (simp_all, force simp: item_lang_def elim!: lang_AltE lang_SeqE lang_SetE)
  then show ?thesis by (force simp: m group_def group_opt_def)
qed

lemma raw_round_shrinks:
  assumes "Match RAW_STRING line = Some m" and "delimiter = '')'' @ group m 2 @ [dquote]"
    and "e = py_find (group m 3) delimiter" and "0 \<le> e"
  shows "length (group m 1 @ [dquote, dquote] @ slice_from (group m 3) (e + py_len delimiter)) < length line"
proof -
  from RAW_STRING_groups [OF assms(1)] have "length (group m 1) + length (group m 2) + length (group m 3) + 3
      \<le> length line" by auto
  moreover have "e + py_len delimiter \<le> py_len (group m 3)" "2 \<le> py_len delimiter"
    using py_find_bound [of "group m 3" delimiter] assms(2-4) by (auto simp: py_len_def)
  ultimately show ?thesis using assms(4) by (auto simp: clip_nonneg py_len_def)
qed

text \<open>The inner \<open>while delimiter is None\<close> loop: the line and the delimiter it leaves.\<close>

function cleanse_raw_line :: "string \<Rightarrow> string \<times> string option" where
  "cleanse_raw_line line =
     (case Match RAW_STRING line of None \<Rightarrow> (line, None)
      | Some matched \<Rightarrow>
          if matches RAW_IN_COMMENT (group matched 1) then (line, None)
          else
            (let delimiter = '')'' @ group matched 2 @ [dquote];
                 e = py_find (group matched 3) delimiter
             in if e \<ge> 0
                then cleanse_raw_line (group matched 1 @ [dquote, dquote] @
                       slice_from (group matched 3) (e + py_len delimiter))
                else (group matched 1 @ [dquote, dquote], Some delimiter)))"
  by pat_completeness auto
termination
  by (relation "measure length") (simp, simp only: in_measure raw_round_shrinks)

declare cleanse_raw_line.simps [simp del]

text \<open>The outer loop, over the delimiter of a raw string that is still open.\<close>

fun cleanse_raw :: "string option \<Rightarrow> string list \<Rightarrow> string list run" where
  "cleanse_raw delimiter [] = ret []"
| "cleanse_raw None (line # rest) =
     (let (line', d') = cleanse_raw_line line in
      bind (cleanse_raw d' rest) (\<lambda>ls. ret (line' # ls)))"
| "cleanse_raw (Some delimiter) (line # rest) =
     (let e = py_find line delimiter in
      if e \<ge> 0 then
        (case Match (raw ''^(`s*)`S'') line of
           None \<Rightarrow> raise AttributeError
         | Some leading_space \<Rightarrow>
             (let (line', d') = cleanse_raw_line (group leading_space 1 @ [dquote, dquote] @
                    slice_from line (e + py_len delimiter))
              in bind (cleanse_raw d' rest) (\<lambda>ls. ret (line' # ls))))
      else bind (cleanse_raw (Some delimiter) rest) (\<lambda>ls. ret ([dquote, dquote] # ls)))"

definition CleanseRawStrings :: "string list \<Rightarrow> string list run" where
  "CleanseRawStrings raw_lines = cleanse_raw None raw_lines"

section \<open>Multi-line comments\<close>

function FindNextMultiLineCommentStart :: "string list \<Rightarrow> nat \<Rightarrow> nat" where
  "FindNextMultiLineCommentStart lines lineix =
     (if lineix < length lines then
        (if startswith (strip (lines ! lineix)) ''/*'' \<and>
            py_find_from (strip (lines ! lineix)) ''*/'' 2 < 0 then lineix
         else FindNextMultiLineCommentStart lines (lineix + 1))
      else length lines)"
  by pat_completeness auto
termination
  by (relation "measure (\<lambda>(lines, i). length lines - i)") auto

function FindNextMultiLineCommentEnd :: "string list \<Rightarrow> nat \<Rightarrow> nat" where
  "FindNextMultiLineCommentEnd lines lineix =
     (if lineix < length lines then
        (if endswith (strip (lines ! lineix)) ''*/'' then lineix
         else FindNextMultiLineCommentEnd lines (lineix + 1))
      else length lines)"
  by pat_completeness auto
termination
  by (relation "measure (\<lambda>(lines, i). length lines - i)") auto

declare FindNextMultiLineCommentStart.simps [simp del] FindNextMultiLineCommentEnd.simps [simp del]

definition RemoveMultiLineCommentsFromRange :: "string list \<Rightarrow> nat \<Rightarrow> nat \<Rightarrow> string list" where
  "RemoveMultiLineCommentsFromRange lines b e = fold (\<lambda>i ls. ls[i := ''/**/'']) [b..<e] lines"

lemma length_RemoveRange [simp]: "length (RemoveMultiLineCommentsFromRange lines b e) = length lines"
proof -
  have "length (fold (\<lambda>i ls. ls[i := ''/**/'']) is ls) = length ls" for "is" and ls :: "string list"
    by (induction "is" arbitrary: ls) auto
  then show ?thesis by (simp add: RemoveMultiLineCommentsFromRange_def)
qed

lemma comment_end_ge: "i \<le> length lines \<Longrightarrow> i \<le> FindNextMultiLineCommentEnd lines i"
  by (induction lines i rule: FindNextMultiLineCommentEnd.induct)
    (subst FindNextMultiLineCommentEnd.simps, force)

lemma comment_start_ge: "i \<le> length lines \<Longrightarrow> i \<le> FindNextMultiLineCommentStart lines i"
  by (induction lines i rule: FindNextMultiLineCommentStart.induct)
    (subst FindNextMultiLineCommentStart.simps, force)

function remove_comments :: "string \<Rightarrow> string list \<Rightarrow> nat \<Rightarrow> string list run" where
  "remove_comments fn lines lineix =
     (if lineix < length lines then
        (let lineix_begin = FindNextMultiLineCommentStart lines lineix in
         if lineix_begin \<ge> length lines then ret lines
         else
           (let lineix_end = FindNextMultiLineCommentEnd lines lineix_begin in
            if lineix_end \<ge> length lines
            then seq (report fn (int lineix_begin + 1) ''readability/multiline_comment'' 5
                        ''Could not find end of multi-line comment'') (ret lines)
            else remove_comments fn (RemoveMultiLineCommentsFromRange lines lineix_begin (lineix_end + 1))
                   (lineix_end + 1)))
      else ret lines)"
  by pat_completeness auto
termination
  by (relation "measure (\<lambda>(fn, lines, i). length lines - i)")
    (auto intro!: diff_less_mono2 simp: less_Suc_eq_le le_trans [OF comment_start_ge comment_end_ge])

declare remove_comments.simps [simp del]

definition RemoveMultiLineComments :: "string \<Rightarrow> string list \<Rightarrow> string list run" where
  "RemoveMultiLineComments fn lines = remove_comments fn lines 0"

definition CleanseComments :: "string \<Rightarrow> string" where
  "CleanseComments line =
     (let commentpos = py_find line ''//'';
          line' = (if commentpos \<noteq> -1 \<and> \<not> IsCppString (slice_to line commentpos)
                   then rstrip (slice_to line commentpos) else line)
      in ReplaceAll CLEANSE_LINE_C_COMMENTS [] line')"

section \<open>Literals\<close>

definition FIRST_QUOTE :: string where
  "FIRST_QUOTE = ''^([^'' @ [squote, dquote] @ '']*)(['' @ [squote, dquote] @ ''])(.*)$''"

definition DIGITS_BEFORE_QUOTE :: string where
  "DIGITS_BEFORE_QUOTE = raw ''`b(?:0[bBxX]?|[1-9])[0-9a-fA-F]*$''"

definition SEPARATED_DIGITS :: string where
  "SEPARATED_DIGITS = ''^((?:'' @ [squote] @ ''?[0-9a-zA-Z_])*)(.*)$''"

lemma FIRST_QUOTE_compiled:
  "re_compile FIRST_QUOTE = Some (RSeq RBol (RSeq (RGrp 1 (RRep True 0 None (RSet True [CChr squote, CChr dquote])))
     (RSeq (RGrp 2 (RSet False [CChr squote, CChr dquote])) (RSeq (RGrp 3 (RRep True 0 None RAny)) REol))))"
  by code_simp

lemma DIGITS_BEFORE_QUOTE_compiled:
  "re_compile DIGITS_BEFORE_QUOTE = Some (RSeq RWordB (RSeq
     (RAlt (RSeq (RLit (CHR ''0'')) (RRep True 0 (Some 1) (RSet False [CChr (CHR ''b''), CChr (CHR ''B''),
        CChr (CHR ''x''), CChr (CHR ''X'')]))) (RSet False [CRng (CHR ''1'') (CHR ''9'')]))
     (RSeq (RRep True 0 None (RSet False [CRng (CHR ''0'') (CHR ''9''), CRng (CHR ''a'') (CHR ''f''),
        CRng (CHR ''A'') (CHR ''F'')])) REol)))"
  by code_simp

lemma SEPARATED_DIGITS_compiled:
  "re_compile SEPARATED_DIGITS = Some (RSeq RBol (RSeq (RGrp 1 (RRep True 0 None
     (RSeq (RRep True 0 (Some 1) (RLit squote)) (RSet False [CRng (CHR ''0'') (CHR ''9''),
        CRng (CHR ''a'') (CHR ''z''), CRng (CHR ''A'') (CHR ''Z''), CChr (CHR ''_'')]))))
     (RSeq (RGrp 2 (RRep True 0 None RAny)) REol)))"
  by code_simp

lemma FIRST_QUOTE_groups:
  assumes "Match FIRST_QUOTE line = Some m"
  shows "\<exists>c rest. line = group m 1 @ c # group m 3 @ rest \<and> group m 2 = [c] \<and> (c = squote \<or> c = dquote) \<and>
    squote \<notin> set (group m 1) \<and> dquote \<notin> set (group m 1) \<and> newline \<notin> set (group m 3) \<and>
    (rest = [] \<or> rest = [newline])"
proof -
  from assms have "re_match (the (re_compile FIRST_QUOTE)) line = Some m"
    by (simp add: Match_def FIRST_QUOTE_compiled)
  then obtain q t c where st: "(q, t, c) \<in> set (ends (the (re_compile FIRST_QUOTE)) (None, line, no_caps))"
    and m: "m = \<lparr>subject = line, at_start = line, at_end = t, mcaps = c\<rparr>"
    by (rule re_matchD)
  from st have "\<exists>a x b. line = a @ x # b @ t \<and> (x = squote \<or> x = dquote) \<and>
      lang (RRep True 0 None (RSet True [CChr squote, CChr dquote])) a \<and> lang (RRep True 0 None RAny) b \<and>
      (t = [] \<or> t = [newline]) \<and>
      c 1 = Some (line, x # b @ t) \<and> c 2 = Some (x # b @ t, b @ t) \<and> c 3 = Some (b @ t, t)"
    unfolding FIRST_QUOTE_compiled option.sel
    by (elim in_item_seq) (simp_all, force simp: cls_has_def elim!: lang_SetE)
  then obtain a x b where "line = a @ x # b @ t" "x = squote \<or> x = dquote" "t = [] \<or> t = [newline]"
      "lang (RRep True 0 None (RSet True [CChr squote, CChr dquote])) a" "lang (RRep True 0 None RAny) b"
      "c 1 = Some (line, x # b @ t)" "c 2 = Some (x # b @ t, b @ t)" "c 3 = Some (b @ t, t)" by blast
  moreover from lang_class_star [OF this(4)] have "squote \<notin> set a \<and> dquote \<notin> set a"
    by (auto simp: list_all_iff cls_has_def)
  moreover from lang_dot_star [OF calculation(5)] have "newline \<notin> set b" .
  moreover have "span_text (x # b @ t) (b @ t) = [x]" using span_text_append [of "[x]" "b @ t"] by simp
  ultimately show ?thesis by (auto simp: m group_def group_opt_def)
qed

lemma DIGITS_BEFORE_QUOTE_nonempty: "found DIGITS_BEFORE_QUOTE h \<Longrightarrow> h \<noteq> []"
  by (rule notI, simp) code_simp

lemma SEPARATED_DIGITS_groups:
  assumes "Match SEPARATED_DIGITS line = Some m"
  shows "\<exists>rest. line = group m 1 @ group m 2 @ rest"
proof -
  from assms have "re_match (the (re_compile SEPARATED_DIGITS)) line = Some m"
    by (simp add: Match_def SEPARATED_DIGITS_compiled)
  then obtain q t c where st: "(q, t, c) \<in> set (ends (the (re_compile SEPARATED_DIGITS)) (None, line, no_caps))"
    and m: "m = \<lparr>subject = line, at_start = line, at_end = t, mcaps = c\<rparr>"
    by (rule re_matchD)
  from st have "\<exists>a b. line = a @ b @ t \<and> c 1 = Some (line, b @ t) \<and> c 2 = Some (b @ t, t)"
    unfolding SEPARATED_DIGITS_compiled option.sel by (elim in_item_seq) simp_all
  then show ?thesis by (auto simp: m group_def group_opt_def)
qed

lemma collapse_literal_shrinks:
  assumes "Match FIRST_QUOTE line = Some m" and "found DIGITS_BEFORE_QUOTE (group m 1)"
    and "Match SEPARATED_DIGITS (squote # group m 3) = Some l"
  shows "length (group l 2) < length line"
proof -
  from FIRST_QUOTE_groups [OF assms(1)] have "length line \<ge> length (group m 1) + 1 + length (group m 3)" by force
  moreover from DIGITS_BEFORE_QUOTE_nonempty [OF assms(2)] have "length (group m 1) > 0" by simp
  moreover from SEPARATED_DIGITS_groups [OF assms(3)] have "length (group l 2) \<le> 1 + length (group m 3)"
    by (metis length_Cons length_append le_add1 le_add2 le_trans plus_1_eq_Suc)
  ultimately show ?thesis by linarith
qed

lemma collapse_quoted_shrinks:
  assumes "Match FIRST_QUOTE line = Some m"
  shows "length (slice_from (group m 3) a) < length line"
  using FIRST_QUOTE_groups [OF assms] by (force simp: less_Suc_eq_le trans_le_add2)

text \<open>The \<open>while True\<close> loop of \<open>_CollapseStrings\<close>.\<close>

function collapse_loop :: "string \<Rightarrow> string \<Rightarrow> string run" where
  "collapse_loop collapsed elided =
     (case Match FIRST_QUOTE elided of
        None \<Rightarrow> ret (collapsed @ elided)
      | Some m \<Rightarrow>
          if group m 2 = [dquote] then
            (let second_quote = py_find (group m 3) [dquote] in
             if second_quote \<ge> 0
             then collapse_loop (collapsed @ group m 1 @ [dquote, dquote]) (slice_from (group m 3) (second_quote + 1))
             else ret (collapsed @ elided))
          else if found DIGITS_BEFORE_QUOTE (group m 1) then
            (case Match SEPARATED_DIGITS (squote # group m 3) of
               None \<Rightarrow> raise AttributeError
             | Some match_literal \<Rightarrow>
                 collapse_loop (collapsed @ group m 1 @ py_replace (group match_literal 1) [squote] [])
                   (group match_literal 2))
          else
            (let second_quote = py_find (group m 3) [squote] in
             if second_quote \<ge> 0
             then collapse_loop (collapsed @ group m 1 @ [squote, squote]) (slice_from (group m 3) (second_quote + 1))
             else ret (collapsed @ elided)))"
  by pat_completeness auto
termination
  by (relation "measure (\<lambda>(collapsed, elided). length elided)")
    (simp, simp_all only: in_measure split_conv collapse_literal_shrinks collapse_quoted_shrinks)

declare collapse_loop.simps [simp del]

definition CollapseStrings :: "string \<Rightarrow> string run" where
  "CollapseStrings elided =
     (if matches PATTERN_INCLUDE elided then ret elided
      else collapse_loop [] (ReplaceAll CLEANSE_LINE_ESCAPES [] elided))"

section \<open>The four copies of a file\<close>

record cleansed =
  elided :: "string list"
  line_list :: "string list"  \<comment> \<open>\<open>lines\<close>\<close>
  raw_lines :: "string list"
  num_lines :: int
  lines_without_raw_strings :: "string list"

text \<open>The loop of \<open>CleansedLines.__init__\<close>: the lines without comments, and without literals too.\<close>

fun cleanse_each :: "string list \<Rightarrow> (string list \<times> string list) run" where
  "cleanse_each [] = ret ([], [])"
| "cleanse_each (line # rest) =
     bind (CollapseStrings line) (\<lambda>e.
     bind (cleanse_each rest) (\<lambda>(es, ls). ret (CleanseComments e # es, CleanseComments line # ls)))"

definition CleansedLines :: "string list \<Rightarrow> cleansed run" where
  "CleansedLines ls =
     bind (CleanseRawStrings ls) (\<lambda>without_raw.
     bind (cleanse_each without_raw) (\<lambda>(es, cs).
       ret \<lparr>elided = es, line_list = cs, raw_lines = ls, num_lines = py_len ls,
            lines_without_raw_strings = without_raw\<rparr>))"

definition NumLines :: "cleansed \<Rightarrow> int" where
  "NumLines c = num_lines c"

end
