(* ===== verification/Include_State.thy ===== *)
theory Include_State
  imports Cleansing
begin

text \<open>
  \<open>_IncludeState\<close>: the includes seen so far, per preprocessor branch, and the section of the include
  block the file is in. Sections are ordered as the code's constants are; the theorems say that the
  section only moves forward and that a run of headers is accepted exactly when it is sorted.
\<close>

section \<open>Header types and sections\<close>

datatype header_type = C_SYS_HEADER | CPP_SYS_HEADER | LIKELY_MY_HEADER | POSSIBLE_MY_HEADER | OTHER_HEADER

datatype inc_section = INITIAL_SECTION | MY_H_SECTION | C_SECTION | CPP_SECTION | OTHER_H_SECTION

fun section_no :: "inc_section \<Rightarrow> nat" where
  "section_no INITIAL_SECTION = 0"
| "section_no MY_H_SECTION = 1"
| "section_no C_SECTION = 2"
| "section_no CPP_SECTION = 3"
| "section_no OTHER_H_SECTION = 4"

lemma section_no_inject: "section_no a = section_no b \<longleftrightarrow> a = b"
  by (cases a; cases b) auto

instantiation inc_section :: linorder
begin

definition less_eq_inc_section :: "inc_section \<Rightarrow> inc_section \<Rightarrow> bool" where
  "a \<le> b \<longleftrightarrow> section_no a \<le> section_no b"

definition less_inc_section :: "inc_section \<Rightarrow> inc_section \<Rightarrow> bool" where
  "a < b \<longleftrightarrow> section_no a < section_no b"

instance
  by standard (auto simp: less_eq_inc_section_def less_inc_section_def section_no_inject)

end

fun TYPE_NAMES :: "header_type \<Rightarrow> string" where
  "TYPE_NAMES C_SYS_HEADER = ''C system header''"
| "TYPE_NAMES CPP_SYS_HEADER = ''C++ system header''"
| "TYPE_NAMES LIKELY_MY_HEADER = ''header this file implements''"
| "TYPE_NAMES POSSIBLE_MY_HEADER = ''header this file may implement''"
| "TYPE_NAMES OTHER_HEADER = ''other header''"

fun SECTION_NAMES :: "inc_section \<Rightarrow> string" where
  "SECTION_NAMES INITIAL_SECTION = ''... nothing. (This can'' @ [squote] @ ''t be an error.)''"
| "SECTION_NAMES MY_H_SECTION = ''a header this file implements''"
| "SECTION_NAMES C_SECTION = ''C system header''"
| "SECTION_NAMES CPP_SECTION = ''C++ system header''"
| "SECTION_NAMES OTHER_H_SECTION = ''other header''"

section \<open>State and operations\<close>

record include_state =
  include_list :: "(string \<times> int) list list"
  inc_section :: inc_section
  last_header :: string

definition FindHeader :: "string \<Rightarrow> include_state \<Rightarrow> int" where
  "FindHeader header st = (case find (\<lambda>f. fst f = header) (concat (include_list st)) of
     None \<Rightarrow> -1 | Some f \<Rightarrow> snd f)"

definition ResetSection :: "string \<Rightarrow> include_state \<Rightarrow> include_state run" where
  "ResetSection directive st =
     (let st1 = st\<lparr>inc_section := INITIAL_SECTION, last_header := []\<rparr> in
      if directive \<in> {''if'', ''ifdef'', ''ifndef''} then
        ret (st1\<lparr>include_list := include_list st1 @ [[]]\<rparr>)
      else if directive \<in> {''else'', ''elif''} then
        (if include_list st1 = [] then raise IndexError
         else ret (st1\<lparr>include_list := (include_list st1)[length (include_list st1) - 1 := []]\<rparr>))
      else ret st1)"

definition init_include_state :: include_state where
  "init_include_state = \<lparr>include_list = [[]], inc_section = INITIAL_SECTION, last_header = []\<rparr>"

definition SetLastHeader :: "string \<Rightarrow> include_state \<Rightarrow> include_state" where
  "SetLastHeader header_path st = st\<lparr>last_header := header_path\<rparr>"

definition CanonicalizeAlphabeticalOrder :: "string \<Rightarrow> string" where
  "CanonicalizeAlphabeticalOrder header_path =
     lower (py_replace (py_replace header_path ''-inl.h'' ''.h'') ''-'' ''_'')"

definition IsInAlphabeticalOrder :: "cleansed \<Rightarrow> int \<Rightarrow> string \<Rightarrow> include_state \<Rightarrow> bool run" where
  "IsInAlphabeticalOrder clean_lines linenum header_path st =
     (if last_header st > header_path then
        bind (py_nth (elided clean_lines) (linenum - 1)) (\<lambda>l.
          ret (\<not> matches (raw ''^`s*#`s*include`b'') l))
      else ret True)"

definition CheckNextIncludeOrder :: "header_type \<Rightarrow> include_state \<Rightarrow> string \<times> include_state" where
  "CheckNextIncludeOrder header_type st =
     (let error_message = ''Found '' @ TYPE_NAMES header_type @ '' after '' @ SECTION_NAMES (inc_section st);
          last_section = inc_section st;
          done_at = (\<lambda>s. ([], if last_section \<noteq> s then st\<lparr>inc_section := s, last_header := []\<rparr>
                              else st\<lparr>inc_section := s\<rparr>));
          refused = (error_message, st\<lparr>last_header := []\<rparr>)
      in case header_type of
           C_SYS_HEADER \<Rightarrow> if inc_section st \<le> C_SECTION then done_at C_SECTION else refused
         | CPP_SYS_HEADER \<Rightarrow> if inc_section st \<le> CPP_SECTION then done_at CPP_SECTION else refused
         | LIKELY_MY_HEADER \<Rightarrow>
             if inc_section st \<le> MY_H_SECTION then done_at MY_H_SECTION else done_at OTHER_H_SECTION
         | POSSIBLE_MY_HEADER \<Rightarrow>
             if inc_section st \<le> MY_H_SECTION then done_at MY_H_SECTION else done_at OTHER_H_SECTION
         | OTHER_HEADER \<Rightarrow> done_at OTHER_H_SECTION)"

text \<open>The messages for a block of headers.\<close>

fun include_messages :: "header_type list \<Rightarrow> include_state \<Rightarrow> string list" where
  "include_messages [] st = []"
| "include_messages (h # hs) st =
     (case CheckNextIncludeOrder h st of (msg, st') \<Rightarrow> msg # include_messages hs st')"

section \<open>Correctness\<close>

lemmas section_order = less_eq_inc_section_def less_inc_section_def

text \<open>The section never moves backwards while headers of one block are checked.\<close>

theorem section_monotone:
  "inc_section st \<le> inc_section (snd (CheckNextIncludeOrder h st))"
  by (cases h; cases "inc_section st") (auto simp: CheckNextIncludeOrder_def Let_def section_order)

text \<open>The place of a header in an ordered block, once the headers of the file's own are past.\<close>

fun rank :: "header_type \<Rightarrow> nat" where
  "rank C_SYS_HEADER = 2"
| "rank CPP_SYS_HEADER = 3"
| "rank _ = 4"

definition my_header :: "header_type \<Rightarrow> bool" where
  "my_header h \<longleftrightarrow> h = LIKELY_MY_HEADER \<or> h = POSSIBLE_MY_HEADER"

definition in_order :: "header_type list \<Rightarrow> bool" where
  "in_order hs \<longleftrightarrow> sorted (map rank (dropWhile my_header hs))"

lemma section_step:
  "MY_H_SECTION < inc_section st \<or> \<not> my_header h \<Longrightarrow>
    (fst (CheckNextIncludeOrder h st) = [] \<longleftrightarrow> section_no (inc_section st) \<le> rank h) \<and>
    (fst (CheckNextIncludeOrder h st) = [] \<longrightarrow> section_no (inc_section (snd (CheckNextIncludeOrder h st))) = rank h)"
  by (cases h; cases "inc_section st")
    (auto simp: CheckNextIncludeOrder_def Let_def section_order my_header_def)

lemma past_my_headers:
  "MY_H_SECTION < inc_section st \<Longrightarrow>
    list_all (\<lambda>m. m = []) (include_messages hs st) \<longleftrightarrow>
      sorted (map rank hs) \<and> list_all (\<lambda>h. section_no (inc_section st) \<le> rank h) hs"
proof (induction hs arbitrary: st)
  case (Cons h hs)
  let ?st = "snd (CheckNextIncludeOrder h st)"
  from section_monotone [of st h] Cons.prems have past: "MY_H_SECTION < inc_section ?st" by simp
  from section_step [of st h] Cons.prems Cons.IH [OF past] show ?case
    by (auto simp: case_prod_beta list_all_iff intro: order_trans)
qed simp

lemma my_header_accepted:
  "my_header h \<Longrightarrow> inc_section st \<le> MY_H_SECTION \<Longrightarrow>
    fst (CheckNextIncludeOrder h st) = [] \<and> inc_section (snd (CheckNextIncludeOrder h st)) = MY_H_SECTION"
  by (auto simp: my_header_def CheckNextIncludeOrder_def Let_def)

lemma block_from_start:
  "inc_section st \<le> MY_H_SECTION \<Longrightarrow> list_all (\<lambda>m. m = []) (include_messages hs st) \<longleftrightarrow> in_order hs"
proof (induction hs arbitrary: st)
  case (Cons h hs)
  let ?st = "snd (CheckNextIncludeOrder h st)"
  show ?case
  proof (cases "my_header h")
    case True
    with my_header_accepted [of h st] Cons.prems Cons.IH [of ?st] show ?thesis
      by (simp add: case_prod_beta in_order_def)
  next
    case False
    then have 2: "2 \<le> rank h" by (cases h) (auto simp: my_header_def)
    with Cons.prems have "section_no (inc_section st) \<le> rank h" by (simp add: section_order)
    with section_step [of st h] False have 3: "fst (CheckNextIncludeOrder h st) = []"
      "section_no (inc_section ?st) = rank h" by simp_all
    with 2 have "MY_H_SECTION < inc_section ?st" by (simp add: section_order)
    from past_my_headers [OF this, of hs] 3 False show ?thesis
      by (auto simp: case_prod_beta in_order_def list_all_iff)
  qed
qed (simp add: in_order_def)

text \<open>C9. From a fresh section, a block of headers raises no ordering error exactly when, after the
  leading headers of the file's own, it is sorted: C system headers, C++ system headers, others.\<close>

theorem include_block_accepted:
  assumes "inc_section st = INITIAL_SECTION"
  shows "list_all (\<lambda>m. m = []) (include_messages hs st) \<longleftrightarrow> in_order hs"
  by (rule block_from_start) (simp add: assms section_order)

theorem include_block_accepted_witness:
  "\<not> list_all (\<lambda>m. m = []) (include_messages [LIKELY_MY_HEADER, OTHER_HEADER, C_SYS_HEADER] init_include_state)"
  using include_block_accepted [of init_include_state "[LIKELY_MY_HEADER, OTHER_HEADER, C_SYS_HEADER]"]
  by (simp add: init_include_state_def in_order_def my_header_def)

lemma reset_starts:
  "case result (ResetSection d st) of Inl _ \<Rightarrow> True | Inr st' \<Rightarrow> inc_section st' = INITIAL_SECTION"
  by (simp add: ResetSection_def Let_def)

text \<open>A preprocessor conditional starts a fresh block: after any \<open>ResetSection\<close> that returns, the
  next header is accepted whatever it is.\<close>

theorem reset_accepts_any:
  assumes "ResetSection directive st = ret st'"
  shows "fst (CheckNextIncludeOrder h st') = []"
proof -
  from assms have "inc_section st' = INITIAL_SECTION"
    using reset_starts [of directive st] by simp
  then show ?thesis by (cases h) (auto simp: CheckNextIncludeOrder_def Let_def section_order)
qed

theorem reset_accepts_any_witness:
  "fst (CheckNextIncludeOrder C_SYS_HEADER
     \<lparr>include_list = [[], []], inc_section = INITIAL_SECTION, last_header = []\<rparr>) = []"
  by (rule reset_accepts_any
      [of "''ifdef''" "\<lparr>include_list = [[]], inc_section = OTHER_H_SECTION, last_header = ''a.h''\<rparr>"])
    (simp add: ResetSection_def Let_def)

lemma reset_keeps_nonempty:
  "include_list st \<noteq> [] \<Longrightarrow> \<exists>st'. ResetSection d st = ret st' \<and> include_list st' \<noteq> []"
  by (auto simp: ResetSection_def Let_def)

text \<open>The section resets of a file, one per directive.\<close>

fun reset_all :: "string list \<Rightarrow> include_state \<Rightarrow> include_state run" where
  "reset_all [] st = ret st"
| "reset_all (d # ds) st = bind (ResetSection d st) (reset_all ds)"

text \<open>No sequence of directives makes \<open>ResetSection\<close> write to an empty include list: the list of a
  file always has a current branch.\<close>

theorem reset_never_raises:
  "\<exists>st'. reset_all ds init_include_state = ret st' \<and> include_list st' \<noteq> []"
proof -
  have "include_list st \<noteq> [] \<Longrightarrow> \<exists>st'. reset_all ds st = ret st' \<and> include_list st' \<noteq> []" for st
  proof (induction ds arbitrary: st)
    case (Cons d ds)
    from reset_keeps_nonempty [OF Cons.prems, of d] Cons.IH show ?case by fastforce
  qed simp
  then show ?thesis by (simp add: init_include_state_def)
qed

text \<open>\<open>FindHeader\<close> answers a line only for a header on record, and the line of its first record.\<close>

theorem FindHeader_first:
  "FindHeader header st = -1 \<and> header \<notin> fst ` set (concat (include_list st)) \<or>
    (\<exists>ahead n after. concat (include_list st) = ahead @ (header, n) # after \<and>
      header \<notin> fst ` set ahead \<and> FindHeader header st = n)"
proof (cases "find (\<lambda>f. fst f = header) (concat (include_list st))")
  case None
  then have "header \<notin> fst ` set (concat (include_list st))" by (auto simp: find_None_iff)
  with None show ?thesis by (simp add: FindHeader_def)
next
  case (Some f)
  then obtain i where i: "i < length (concat (include_list st))" "fst (concat (include_list st) ! i) = header"
    "f = concat (include_list st) ! i" "\<forall>j < i. fst (concat (include_list st) ! j) \<noteq> header"
    by (auto simp: find_Some_iff)
  let ?xs = "concat (include_list st)"
  have "?xs = take i ?xs @ (header, snd f) # drop (Suc i) ?xs"
    using i id_take_nth_drop [of i ?xs] by (metis prod.collapse)
  moreover have "header \<notin> fst ` set (take i ?xs)" using i by (auto simp: in_set_conv_nth) (metis fst_conv)
  ultimately show ?thesis using Some by (auto simp: FindHeader_def)
qed

lemma lower_char_idem: "lower_char (lower_char c) = lower_char c"
proof -
  have "list_all (\<lambda>c. lower_char (lower_char c) = lower_char c) all_chars" by code_simp
  then show ?thesis by (simp add: list_all_iff)
qed

lemma lower_char_dash: "lower_char c = CHR ''-'' \<Longrightarrow> c = CHR ''-''"
proof -
  have "list_all (\<lambda>c. lower_char c = CHR ''-'' \<longrightarrow> c = CHR ''-'') all_chars" by code_simp
  then show "lower_char c = CHR ''-'' \<Longrightarrow> c = CHR ''-''" by (simp add: list_all_iff)
qed

lemma replace_removes:
  "x \<notin> set new \<Longrightarrow> x \<notin> set (py_replace s [x] new)"
proof (induction s)
  case (Cons c s)
  then show ?case by (subst py_replace.simps) auto
qed (subst py_replace.simps, simp)

lemma replace_absent: "x \<in> set old \<Longrightarrow> x \<notin> set s \<Longrightarrow> py_replace s old new = s"
proof (induction s)
  case (Cons c s)
  from Cons.prems have "\<not> prefix old (c # s)" using set_mono_prefix by fastforce
  with Cons show ?case by (subst py_replace.simps) auto
qed (subst py_replace.simps, auto)

text \<open>Canonical paths are fixed points: the comparison of two headers does not depend on how often
  a path went through \<open>CanonicalizeAlphabeticalOrder\<close>.\<close>

theorem Canonicalize_idempotent:
  "CanonicalizeAlphabeticalOrder (CanonicalizeAlphabeticalOrder p) = CanonicalizeAlphabeticalOrder p"
proof -
  let ?q = "CanonicalizeAlphabeticalOrder p"
  have "CHR ''-'' \<notin> set ?q"
    unfolding CanonicalizeAlphabeticalOrder_def lower_def
    using replace_removes [of "CHR ''-''" "''_''"] by (auto dest: lower_char_dash [OF sym])
  then have "py_replace ?q ''-inl.h'' ''.h'' = ?q" "py_replace ?q ''-'' ''_'' = ?q"
    by (simp_all add: replace_absent [of "CHR ''-''"])
  moreover have "lower ?q = ?q"
    by (simp add: CanonicalizeAlphabeticalOrder_def lower_def lower_char_idem comp_def)
  ultimately show ?thesis
    by (subst CanonicalizeAlphabeticalOrder_def) simp
qed

end
