(* ===== verification/File_Checks.thy ===== *)
theory File_Checks
  imports Paths Include_State
begin

text \<open>
  The checks of a whole file that need no nesting state: copyright line, header guard, inclusion of the
  own header, bad characters, final newline; and \<open>GetIndentLevel\<close>.
\<close>

definition from_opt :: "'a option \<Rightarrow> 'a run" where
  "from_opt x = (case x of None \<Rightarrow> raise Diverges | Some y \<Rightarrow> ret y)"

lemma from_opt_Some [simp]: "from_opt (Some x) = ret x"
  by (simp add: from_opt_def)

definition has_copyright :: "string \<Rightarrow> bool" where
  "has_copyright line \<longleftrightarrow> re_search (the (re_compile_icase ''Copyright'')) line \<noteq> None"

definition CheckForCopyright :: "string \<Rightarrow> string list \<Rightarrow> unit run" where
  "CheckForCopyright fn ls =
     (if list_ex has_copyright (slice ls 1 11) then ret ()
      else report fn 0 ''legal/copyright'' 5
        (''No copyright message found.  You should have a line: '' @ [dquote] @
         ''Copyright [year] <Copyright Owner>'' @ [dquote]))"

definition GetIndentLevel :: "string \<Rightarrow> int" where
  "GetIndentLevel line = (case Match (raw ''^( *)`S'') line of None \<Rightarrow> 0 | Some indent \<Rightarrow> py_len (group indent 1))"

section \<open>Header guards\<close>

record guard_scan =
  ifndef :: string
  ifndef_linenum :: int
  define_arg :: string
  endif :: string
  endif_linenum :: int

text \<open>One round of the loop over the lines.\<close>

definition guard_line :: "int \<times> string \<Rightarrow> guard_scan \<Rightarrow> guard_scan" where
  "guard_line nl g = (case nl of (linenum, line) \<Rightarrow>
     let linesplit = split_ws line;
         g1 = (if length linesplit \<ge> 2 \<and> ifndef g = [] \<and> linesplit ! 0 = ''#ifndef''
               then g\<lparr>ifndef := linesplit ! 1, ifndef_linenum := linenum\<rparr> else g);
         g2 = (if length linesplit \<ge> 2 \<and> define_arg g1 = [] \<and> linesplit ! 0 = ''#define''
               then g1\<lparr>define_arg := linesplit ! 1\<rparr> else g1)
     in if startswith line ''#endif'' then g2\<lparr>endif := line, endif_linenum := linenum\<rparr> else g2)"

definition py_enumerate :: "'a list \<Rightarrow> (int \<times> 'a) list" where
  "py_enumerate xs = zip (map int [0..<length xs]) xs"

definition scan_guard :: "string list \<Rightarrow> guard_scan" where
  "scan_guard ls = fold guard_line (py_enumerate ls)
     \<lparr>ifndef = [], ifndef_linenum = 0, define_arg = [], endif = [], endif_linenum = 0\<rparr>"

definition GUARD_NOLINT :: string where
  "GUARD_NOLINT = raw ''//`s*NOLINT`(build/header_guard`)''"

definition PRAGMA_ONCE :: string where
  "PRAGMA_ONCE = raw ''^`s*#pragma`s+once''"

definition LINE_COMMENT :: string where
  "LINE_COMMENT = ''^(?:(?:'' @ [squote] @ raw ''(?:`.|[^'' @ [squote] @ ''])*'' @ [squote] @ '')|(?:'' @
     [dquote] @ raw ''(?:`.|[^'' @ [dquote] @ ''])*'' @ [dquote] @ '')|[^'' @ [squote, dquote] @ ''])*//''"

text \<open>The tail of the check: the comment on the \<open>#endif\<close> line.\<close>

definition check_endif :: "string \<Rightarrow> string list \<Rightarrow> string \<Rightarrow> guard_scan \<Rightarrow> unit run" where
  "check_endif fn raw_ls cppvar g =
     (case Match (raw ''#endif`s*//`s*'' @ cppvar @ raw ''(_)?`b'') (endif g) of
        Some m \<Rightarrow>
          when_do (group_opt m 1 = Some ''_'')
            (report fn (endif_linenum g) ''build/header_guard'' 0
               (''#endif line should be '' @ [dquote] @ ''#endif  // '' @ cppvar @ [dquote]))
      | None \<Rightarrow>
          (let no_single_line_comments = \<not> list_ex (matches LINE_COMMENT) (slice raw_ls 1 (py_len raw_ls - 1)) in
           case (if no_single_line_comments
                 then Match (raw ''#endif`s*/`*`s*'' @ cppvar @ raw ''(_)?`s*`*/'') (endif g) else None) of
             Some m \<Rightarrow>
               when_do (group_opt m 1 = Some ''_'')
                 (report fn (endif_linenum g) ''build/header_guard'' 0
                    (''#endif line should be '' @ [dquote] @ ''#endif  /* '' @ cppvar @ '' */'' @ [dquote]))
           | None \<Rightarrow>
               report fn (endif_linenum g) ''build/header_guard'' 5
                 (''#endif line should be '' @ [dquote] @ ''#endif  // '' @ cppvar @ [dquote])))"

definition CheckForHeaderGuard :: "opts \<Rightarrow> world \<Rightarrow> string \<Rightarrow> cleansed \<Rightarrow> unit run" where
  "CheckForHeaderGuard o' w fn clean_lines =
     (let raw_ls = lines_without_raw_strings clean_lines in
      if list_ex (found GUARD_NOLINT) raw_ls then ret ()
      else if list_ex (found PRAGMA_ONCE) raw_ls then ret ()
      else
        bind (from_opt (GetHeaderGuardCPPVariable o' w fn)) (\<lambda>cppvar.
        let g = scan_guard raw_ls in
        if ifndef g = [] \<or> define_arg g = [] \<or> ifndef g \<noteq> define_arg g then
          report fn 0 ''build/header_guard'' 5
            (''No #ifndef header guard found, suggested CPP variable is: '' @ cppvar)
        else
          seq (if ifndef g \<noteq> cppvar then
                 (let error_level = (if ifndef g \<noteq> cppvar @ ''_'' then 5 else 0) in
                  bind (py_nth raw_ls (ifndef_linenum g)) (\<lambda>l.
                  seq (nolint fn l (ifndef_linenum g))
                    (report fn (ifndef_linenum g) ''build/header_guard'' error_level
                       (''#ifndef header guard has wrong style, please use: '' @ cppvar))))
               else ret ())
         (bind (py_nth raw_ls (endif_linenum g)) (\<lambda>l.
          seq (nolint fn l (endif_linenum g))
            (check_endif fn raw_ls cppvar g)))))"

section \<open>Other checks of a file\<close>

text \<open>The inner loops of \<open>CheckHeaderFileIncluded\<close>: \<open>None\<close> when an include is found, otherwise the
  line of the first include (\<open>if not first_include\<close> also replaces line 0).\<close>

fun scan_includes :: "string \<Rightarrow> (string \<times> int) list \<Rightarrow> int option \<Rightarrow> int option option" where
  "scan_includes headername [] first_include = Some first_include"
| "scan_includes headername (f # fs) first_include =
     (if contains (fst f) headername \<or> contains headername (fst f) then None
      else scan_includes headername fs
             (if first_include = None \<or> first_include = Some 0 then Some (snd f) else first_include))"

fun header_exts_loop ::
  "opts \<Rightarrow> world \<Rightarrow> string \<Rightarrow> string \<Rightarrow> include_state \<Rightarrow> string list \<Rightarrow> unit run" where
  "header_exts_loop o' w fn extension st [] = ret ()"
| "header_exts_loop o' w fn extension st (ext # exts) =
     (let headerfile = slice fn 0 (py_len fn - py_len extension) @ ''.'' @ ext in
      if \<not> exists w headerfile then header_exts_loop o' w fn extension st exts
      else
        bind (from_opt (RepositoryName o' w headerfile)) (\<lambda>headername.
        case scan_includes headername (concat (include_list st)) None of
          None \<Rightarrow> ret ()
        | Some first_include \<Rightarrow>
            bind (from_opt (RepositoryName o' w fn)) (\<lambda>name.
            seq ([Report fn first_include ''build/include'' 5
                    (name @ '' should include its header file '' @ headername)], Inr ())
              (header_exts_loop o' w fn extension st exts))))"

definition CheckHeaderFileIncluded :: "opts \<Rightarrow> world \<Rightarrow> string \<Rightarrow> include_state \<Rightarrow> unit run" where
  "CheckHeaderFileIncluded o' w fn st =
     bind (from_opt (BaseName o' w fn)) (\<lambda>base.
     if found TEST_FILE_SUFFIX base then ret ()
     else bind (from_opt (Extension o' w fn)) (\<lambda>extension.
       header_exts_loop o' w fn extension st (GetHeaderExtensions o')))"

text \<open>Lines as lists of code points here, since one of the characters looked for is U+FFFD.\<close>

definition CheckForBadCharacters :: "string \<Rightarrow> nat list list \<Rightarrow> unit run" where
  "CheckForBadCharacters fn ls = for_each (\<lambda>(linenum, line).
     seq (when_do (65533 \<in> set line)
            (report fn linenum ''readability/utf8'' 5
               ''Line contains invalid UTF-8 (or Unicode replacement character).''))
         (when_do (0 \<in> set line)
            (report fn linenum ''readability/nul'' 5 ''Line contains NUL byte.''))) (py_enumerate ls)"

definition CheckForNewlineAtEOF :: "string \<Rightarrow> string list \<Rightarrow> unit run" where
  "CheckForNewlineAtEOF fn ls =
     (let missing = report fn (py_len ls - 2) ''whitespace/ending_newline'' 5
            ''Could not find a newline character at the end of the file.''
      in if length ls < 3 then missing
         else bind (py_nth ls (- 2)) (\<lambda>l. if l \<noteq> [] then missing else ret ()))"

end
