(* ===== verification/Expressions.thy ===== *)
theory Expressions
  imports Cleansing
begin

text \<open>
  Matching of brackets: \<open>FindEndOfExpressionInLine\<close>, \<open>CloseExpression\<close> and their mirror images
  \<open>FindStartOfExpressionInLine\<close>, \<open>ReverseCloseExpression\<close>. One round of a scan either goes on with a
  stack or stops with the position it returns; the stack is a list with its top at the head. Positions and line numbers are those of a file (not
  negative), as at every call in the script.
\<close>

datatype scan = Go "char list" | Stop int

definition OPERATOR_END :: string where
  "OPERATOR_END = raw ''`boperator`s*$''"

definition drop_top :: "char \<Rightarrow> char list \<Rightarrow> char list" where
  "drop_top c stack = dropWhile (\<lambda>d. d = c) stack"

section \<open>Forward\<close>

definition closes :: "char \<Rightarrow> char \<Rightarrow> bool" where
  "closes a b \<longleftrightarrow> (a = CHR ''('' \<and> b = CHR '')'') \<or> (a = CHR ''['' \<and> b = CHR '']'') \<or> (a = CHR ''{'' \<and> b = CHR ''}'')"

text \<open>One character: the line before it, the character, the stack, the position after it.\<close>

definition end_step :: "string \<Rightarrow> char \<Rightarrow> char list \<Rightarrow> int \<Rightarrow> scan" where
  "end_step ahead c stack after =
     (let pop_angle = (case stack of [] \<Rightarrow> Go stack
            | t # ts \<Rightarrow> if t = CHR ''<'' then (if ts = [] then Stop after else Go ts) else Go stack)
      in
      if c \<in> set ''([{'' then Go (c # stack)
      else if c = CHR ''<'' then
        (if ahead \<noteq> [] \<and> last ahead = CHR ''<'' then
           (if stack \<noteq> [] \<and> hd stack = CHR ''<'' then
              (if tl stack = [] then Stop (- 1) else Go (tl stack))
            else Go stack)
         else if ahead \<noteq> [] \<and> found OPERATOR_END ahead then Go stack
         else Go (CHR ''<'' # stack))
      else if c \<in> set '')]}'' then
        (case drop_top (CHR ''<'') stack of
           [] \<Rightarrow> Stop (- 1)
         | t # ts \<Rightarrow> if closes t c then (if ts = [] then Stop after else Go ts) else Stop (- 1))
      else if c = CHR ''>'' then
        (if ahead \<noteq> [] \<and> (last ahead = CHR ''-'' \<or> found OPERATOR_END (butlast ahead)) then Go stack
         else pop_angle)
      else if c = CHR '';'' then
        (if drop_top (CHR ''<'') stack = [] then Stop (- 1) else Go (drop_top (CHR ''<'') stack))
      else Go stack)"

fun end_loop :: "string \<Rightarrow> string \<Rightarrow> char list \<Rightarrow> int \<times> char list option" where
  "end_loop ahead [] stack = (- 1, Some stack)"
| "end_loop ahead (c # rest) stack =
     (case end_step ahead c stack (py_len ahead + 1) of
        Stop e \<Rightarrow> (e, None)
      | Go stack' \<Rightarrow> end_loop (ahead @ [c]) rest stack')"

definition FindEndOfExpressionInLine :: "string \<Rightarrow> int \<Rightarrow> char list \<Rightarrow> int \<times> char list option" where
  "FindEndOfExpressionInLine line startpos stack =
     end_loop (slice_to line startpos) (slice_from line startpos) stack"

text \<open>The loop over the following lines, with those that are left; \<open>None\<close> and an empty stack end it.\<close>

fun close_loop :: "int \<Rightarrow> string \<Rightarrow> int \<Rightarrow> string list \<Rightarrow> char list option \<Rightarrow> string \<times> int \<times> int" where
  "close_loop num line linenum [] stack = (line, num, - 1)"
| "close_loop num line linenum (next_line # rest) stack =
     (if stack = None \<or> stack = Some [] then (line, num, - 1)
      else case FindEndOfExpressionInLine next_line 0 (the stack) of (end_pos, stack') \<Rightarrow>
        if end_pos > - 1 then (next_line, linenum + 1, end_pos)
        else close_loop num next_line (linenum + 1) rest stack')"

definition CloseExpression :: "cleansed \<Rightarrow> int \<Rightarrow> int \<Rightarrow> (string \<times> int \<times> int) run" where
  "CloseExpression clean_lines linenum pos =
     bind (py_nth (elided clean_lines) linenum) (\<lambda>line.
     bind (py_nth line pos) (\<lambda>c.
       if c \<notin> set ''({[<'' \<or> matches ''<[<=]'' (slice_from line pos) then
         ret (line, NumLines clean_lines, - 1)
       else
         (case FindEndOfExpressionInLine line pos [] of (end_pos, stack) \<Rightarrow>
           if end_pos > - 1 then ret (line, linenum, end_pos)
           else ret (close_loop (NumLines clean_lines) line linenum
                  (slice (elided clean_lines) (linenum + 1) (NumLines clean_lines)) stack))))"

section \<open>Backward\<close>

text \<open>One character, the line before it and from it on: how many characters further the scan skips, and
  the stack.\<close>

datatype rscan = Back nat "char list" | Found | Lost

definition start_step :: "string \<Rightarrow> char \<Rightarrow> string \<Rightarrow> char list \<Rightarrow> rscan" where
  "start_step ahead c after stack =
     (if c \<in> set '')]}'' then Back 0 (c # stack)
      else if c = CHR ''>'' then
        (if ahead \<noteq> [] \<and> (last ahead = CHR ''-'' \<or> matches (raw ''`s>=`s'') (last ahead # c # after) \<or>
             found OPERATOR_END ahead)
         then Back 1 stack else Back 0 (CHR ''>'' # stack))
      else if c = CHR ''<'' then
        (if ahead \<noteq> [] \<and> last ahead = CHR ''<'' then Back 1 stack
         else if stack \<noteq> [] \<and> hd stack = CHR ''>'' then
           (if tl stack = [] then Found else Back 0 (tl stack))
         else Back 0 stack)
      else if c \<in> set ''([{'' then
        (case drop_top (CHR ''>'') stack of
           [] \<Rightarrow> Lost
         | t # ts \<Rightarrow> if closes c t then (if ts = [] then Found else Back 0 ts) else Lost)
      else if c = CHR '';'' then
        (if drop_top (CHR ''>'') stack = [] then Lost else Back 0 (drop_top (CHR ''>'') stack))
      else Back 0 stack)"

text \<open>The text before the next character to look at, reversed, and the text after it.\<close>

function start_loop :: "string \<Rightarrow> string \<Rightarrow> char list \<Rightarrow> int \<times> char list option" where
  "start_loop [] after stack = (- 1, Some stack)"
| "start_loop (c # ahead) after stack =
     (case start_step (rev ahead) c after stack of
        Found \<Rightarrow> (py_len ahead, None)
      | Lost \<Rightarrow> (- 1, None)
      | Back n stack' \<Rightarrow> start_loop (drop n ahead) (rev (take n ahead) @ c # after) stack')"
  by pat_completeness auto
termination
  by (relation "measure (\<lambda>(b, a, s). length b)") auto

definition FindStartOfExpressionInLine :: "string \<Rightarrow> int \<Rightarrow> char list \<Rightarrow> int \<times> char list option" where
  "FindStartOfExpressionInLine line endpos stack =
     start_loop (rev (slice_to line (endpos + 1))) (slice_from line (endpos + 1)) stack"

fun reverse_loop :: "string \<Rightarrow> int \<Rightarrow> string list \<Rightarrow> char list option \<Rightarrow> string \<times> int \<times> int" where
  "reverse_loop line linenum [] stack = (line, 0, - 1)"
| "reverse_loop line linenum (prev_line # rest) stack =
     (if stack = None \<or> stack = Some [] then (line, 0, - 1)
      else case FindStartOfExpressionInLine prev_line (py_len prev_line - 1) (the stack) of (start_pos, stack') \<Rightarrow>
        if start_pos > - 1 then (prev_line, linenum - 1, start_pos)
        else reverse_loop prev_line (linenum - 1) rest stack')"

definition ReverseCloseExpression :: "cleansed \<Rightarrow> int \<Rightarrow> int \<Rightarrow> (string \<times> int \<times> int) run" where
  "ReverseCloseExpression clean_lines linenum pos =
     bind (py_nth (elided clean_lines) linenum) (\<lambda>line.
     bind (py_nth line pos) (\<lambda>c.
       if c \<notin> set '')}]>'' then ret (line, 0, - 1)
       else
         (case FindStartOfExpressionInLine line pos [] of (start_pos, stack) \<Rightarrow>
           if start_pos > - 1 then ret (line, linenum, start_pos)
           else ret (reverse_loop line linenum
                  (rev (slice_to (elided clean_lines) (if linenum < 0 then 0 else linenum))) stack))))"

end
