(* ===== verification/Blocks.thy ===== *)
theory Blocks
  imports File_Checks Expressions
begin

text \<open>
  The blocks of the nesting stack: \<open>_BlockInfo\<close> and its subclasses \<open>_ExternCInfo\<close>, \<open>_ClassInfo\<close>,
  \<open>_NamespaceInfo\<close>, with the checks they run at the end of the block. A block has an identity \<open>oid\<close>,
  since the code compares blocks as objects and copies them with \<open>deepcopy\<close>.
\<close>

datatype asm_state = NO_ASM | INSIDE_ASM | END_ASM | BLOCK_ASM

record class_data =
  class_name :: string
  is_derived :: bool
  access :: string
  is_struct :: bool
  class_indent :: int
  last_line :: int

datatype block_kind = BlockInfo | ExternCInfo | ClassInfo class_data | NamespaceInfo string

record block =
  oid :: nat
  kind :: block_kind
  starting_linenum :: int
  seen_open_brace :: bool
  open_parentheses :: int
  inline_asm :: asm_state
  check_namespace_indentation :: bool

definition new_block :: "nat \<Rightarrow> int \<Rightarrow> bool \<Rightarrow> block" where
  "new_block i linenum seen = \<lparr>oid = i, kind = BlockInfo, starting_linenum = linenum, seen_open_brace = seen,
     open_parentheses = 0, inline_asm = NO_ASM, check_namespace_indentation = False\<rparr>"

definition new_extern_c :: "nat \<Rightarrow> int \<Rightarrow> block" where
  "new_extern_c i linenum = (new_block i linenum True)\<lparr>kind := ExternCInfo\<rparr>"

definition new_namespace :: "nat \<Rightarrow> string option \<Rightarrow> int \<Rightarrow> block" where
  "new_namespace i name linenum = (new_block i linenum False)
     \<lparr>kind := NamespaceInfo (case name of None \<Rightarrow> [] | Some n \<Rightarrow> n), check_namespace_indentation := True\<rparr>"

text \<open>The scan of \<open>_ClassInfo.__init__\<close> for the last line of the class, over the lines that are left.\<close>

fun class_end :: "int \<Rightarrow> int \<Rightarrow> string list \<Rightarrow> int" where
  "class_end depth i [] = 0"
| "class_end depth i (line # rest) =
     (let d = depth + (int (py_count line ''{'') - int (py_count line ''}''))
      in if d = 0 then i else class_end d (i + 1) rest)"

definition new_class :: "nat \<Rightarrow> string \<Rightarrow> string \<Rightarrow> cleansed \<Rightarrow> int \<Rightarrow> block run" where
  "new_class i name class_or_struct clean_lines linenum =
     bind (py_nth (raw_lines clean_lines) linenum) (\<lambda>raw_line.
     let struct = (class_or_struct = ''struct'');
         data = \<lparr>class_name = name, is_derived = False,
                 access = (if struct then ''public'' else ''private''), is_struct = struct,
                 class_indent = GetIndentLevel raw_line,
                 last_line = class_end 0 linenum (slice (elided clean_lines) linenum (NumLines clean_lines))\<rparr>
     in ret ((new_block i linenum False)\<lparr>kind := ClassInfo data, check_namespace_indentation := True\<rparr>))"

definition IsBlockInfo :: "block \<Rightarrow> bool" where
  "IsBlockInfo b \<longleftrightarrow> kind b = BlockInfo"

fun is_class :: "block_kind \<Rightarrow> bool" where
  "is_class (ClassInfo d) = True" | "is_class k = False"

fun is_namespace :: "block_kind \<Rightarrow> bool" where
  "is_namespace (NamespaceInfo n) = True" | "is_namespace k = False"

text \<open>\<open>CheckBegin\<close> does nothing but for a class.\<close>

definition CheckBegin :: "cleansed \<Rightarrow> int \<Rightarrow> block \<Rightarrow> block run" where
  "CheckBegin clean_lines linenum b =
     (case kind b of
        ClassInfo d \<Rightarrow> bind (py_nth (elided clean_lines) linenum) (\<lambda>line.
          ret (if found ''(^|[^:]):($|[^:])'' line then b\<lparr>kind := ClassInfo (d\<lparr>is_derived := True\<rparr>)\<rparr> else b))
      | _ \<Rightarrow> ret b)"

section \<open>The end of a class\<close>

definition DISALLOW :: "string \<Rightarrow> string" where
  "DISALLOW name = raw ''`b(DISALLOW_COPY_AND_ASSIGN|DISALLOW_IMPLICIT_CONSTRUCTORS)`('' @ name @ raw ''`)''"

text \<open>The lines of the class from the last one back, each with its number.\<close>

fun disallow_loop :: "string \<Rightarrow> string \<Rightarrow> bool \<Rightarrow> (int \<times> string) list \<Rightarrow> unit run" where
  "disallow_loop fn name seen_last_thing_in_class [] = ret ()"
| "disallow_loop fn name seen_last_thing_in_class ((i, line) # rest) =
     (case Search (DISALLOW name) line of
        Some m \<Rightarrow> when_do seen_last_thing_in_class
          (report fn i ''readability/constructors'' 3 (group m 1 @ '' should be the last thing in the class''))
      | None \<Rightarrow> disallow_loop fn name (seen_last_thing_in_class \<or> \<not> matches (raw ''^`s*$'') line) rest)"

definition class_parent :: "class_data \<Rightarrow> string" where
  "class_parent d = (if is_struct d then ''struct '' else ''class '') @ class_name d"

definition class_check_end :: "string \<Rightarrow> cleansed \<Rightarrow> int \<Rightarrow> int \<Rightarrow> class_data \<Rightarrow> unit run" where
  "class_check_end fn clean_lines linenum start d =
     seq (disallow_loop fn (class_name d) False
            (rev (map (\<lambda>(i, l). (start + 1 + i, l)) (py_enumerate (slice (elided clean_lines) (start + 1) linenum)))))
     (bind (py_nth (elided clean_lines) linenum) (\<lambda>line.
      case Match (raw ''^( *)`}'') line of
        None \<Rightarrow> ret ()
      | Some indent \<Rightarrow>
          when_do (py_len (group indent 1) \<noteq> class_indent d)
            (report fn linenum ''whitespace/indent'' 3
               (''Closing brace should be aligned with beginning of '' @ class_parent d))))"

section \<open>The end of a namespace\<close>

definition NAMESPACE_END :: string where
  "NAMESPACE_END = raw ''^`s*};*`s*(//|/`*).*`bnamespace''"

definition NAMESPACE_TAIL :: string where
  "NAMESPACE_TAIL = raw ''[`*/`.```s]*$''"

definition namespace_check_end :: "string \<Rightarrow> cleansed \<Rightarrow> int \<Rightarrow> int \<Rightarrow> string \<Rightarrow> unit run" where
  "namespace_check_end fn clean_lines linenum start name =
     bind (py_nth (raw_lines clean_lines) linenum) (\<lambda>line.
     if linenum - start < 10 \<and> \<not> matches (NAMESPACE_END @ raw ''`b'') line then ret ()
     else if name \<noteq> [] then
       when_do (\<not> matches (NAMESPACE_END @ raw ''`s+'' @ re_escape name @ NAMESPACE_TAIL) line)
         (report fn linenum ''readability/namespace'' 5
            (''Namespace should be terminated with '' @ [dquote] @ ''// namespace '' @ name @ [dquote]))
     else
       when_do (\<not> matches (NAMESPACE_END @ NAMESPACE_TAIL) line)
         (if matches (raw ''^`s*}.*`b(namespace anonymous|anonymous namespace)`b'') line then
            report fn linenum ''readability/namespace'' 5
              (''Anonymous namespace should be terminated with '' @ [dquote] @ ''// namespace'' @ [dquote] @
               '' or '' @ [dquote] @ ''// anonymous namespace'' @ [dquote])
          else
            report fn linenum ''readability/namespace'' 5
              (''Anonymous namespace should be terminated with '' @ [dquote] @ ''// namespace'' @ [dquote])))"

definition CheckEnd :: "string \<Rightarrow> cleansed \<Rightarrow> int \<Rightarrow> block \<Rightarrow> unit run" where
  "CheckEnd fn clean_lines linenum b =
     (case kind b of
        ClassInfo d \<Rightarrow> class_check_end fn clean_lines linenum (starting_linenum b) d
      | NamespaceInfo name \<Rightarrow> namespace_check_end fn clean_lines linenum (starting_linenum b) name
      | _ \<Rightarrow> ret ())"

end
