(* ===== verification/Expression_Facts.thy ===== *)
theory Expression_Facts
  imports Expressions
begin

text \<open>
  Correctness of the bracket scanners of theory \<open>Expressions\<close>. The two directions share one contract,
  the locale \<open>bracket_machine\<close>: a stack machine over a pairing of characters stops exactly at the end
  of a balanced expression. Both scanners are instances of it on text without angle brackets, which
  gives that \<open>ReverseCloseExpression\<close> undoes \<open>CloseExpression\<close>; the bounds of the positions hold for
  any text.
\<close>

section \<open>Balanced text\<close>

inductive bal :: "(char \<Rightarrow> char \<Rightarrow> bool) \<Rightarrow> (char \<Rightarrow> bool) \<Rightarrow> string \<Rightarrow> bool"
  for pair :: "char \<Rightarrow> char \<Rightarrow> bool" and other :: "char \<Rightarrow> bool" where
  Nil: "bal pair other []"
| Other: "other x \<Longrightarrow> bal pair other u \<Longrightarrow> bal pair other (x # u)"
| Pair: "pair a b \<Longrightarrow> bal pair other u \<Longrightarrow> bal pair other v \<Longrightarrow> bal pair other (a # u @ b # v)"

lemma bal_append: "bal pair other u \<Longrightarrow> bal pair other v \<Longrightarrow> bal pair other (u @ v)"
  by (induction rule: bal.induct) (auto intro: bal.intros)

lemma bal_rev: "bal pair other u \<Longrightarrow> bal (\<lambda>a b. pair b a) other (rev u)"
proof (induction rule: bal.induct)
  case (Other x u)
  then show ?case using bal_append [OF Other.IH bal.Other [of other x, OF _ bal.Nil]] by simp
next
  case (Pair a b u v)
  from bal.Pair [of "\<lambda>a b. pair b a" b a, OF Pair.hyps(1) Pair.IH(1) bal.Nil]
  have "bal (\<lambda>a b. pair b a) other (b # rev u @ [a])" .
  from bal_append [OF Pair.IH(2) this] show ?case by simp
qed (simp add: bal.Nil)

datatype mstep = MGo "char list" | MHit | MFail

section \<open>The machine\<close>

locale bracket_machine =
  fixes opener :: "char \<Rightarrow> bool"
    and pair :: "char \<Rightarrow> char \<Rightarrow> bool"
    and other :: "char \<Rightarrow> bool"
    and step :: "char \<Rightarrow> char list \<Rightarrow> mstep"
  assumes pair_opener: "pair a b \<Longrightarrow> opener a"
    and step_open: "opener c \<Longrightarrow> step c st = MGo (c # st)"
    and step_close: "pair t c \<Longrightarrow> step c (t # ts) = (if ts = [] then MHit else MGo ts)"
    and step_other: "other c \<Longrightarrow> opener t \<Longrightarrow> step c (t # ts) = MGo (t # ts)"
    and step_hit: "step c st = MHit \<Longrightarrow> list_all opener st \<Longrightarrow> \<exists>t. st = [t] \<and> pair t c"
    and step_go: "step c st = MGo st' \<Longrightarrow> list_all opener st \<Longrightarrow> opener c \<and> st' = c # st \<or>
      (\<exists>t. st = t # st' \<and> st' \<noteq> [] \<and> pair t c) \<or> other c \<and> st' = st"
begin

text \<open>Run over the text: the text after the character that empties the stack.\<close>

fun run :: "string \<Rightarrow> char list \<Rightarrow> string option" where
  "run [] st = None"
| "run (c # s) st = (case step c st of MHit \<Rightarrow> Some s | MFail \<Rightarrow> None | MGo st' \<Rightarrow> run s st')"

lemma run_bal: "bal pair other u \<Longrightarrow> st \<noteq> [] \<Longrightarrow> list_all opener st \<Longrightarrow> run (u @ s) st = run s st"
proof (induction arbitrary: st s rule: bal.induct)
  case (Other x u)
  then show ?case by (cases st) (simp_all add: step_other)
next
  case (Pair a b u v)
  then show ?case using step_open [OF pair_opener, of a b] by (simp add: step_close pair_opener)
qed simp

lemma run_expression: "pair a b \<Longrightarrow> bal pair other u \<Longrightarrow> run (a # u @ b # s) [] = Some s"
  by (simp add: step_open pair_opener run_bal step_close)

text \<open>The text that takes a stack down.\<close>

inductive unwinds :: "char list \<Rightarrow> string \<Rightarrow> bool" where
  One: "bal pair other v \<Longrightarrow> pair t b \<Longrightarrow> unwinds [t] (v @ [b])"
| More: "bal pair other v \<Longrightarrow> pair t b \<Longrightarrow> unwinds ts w \<Longrightarrow> unwinds (t # ts) (v @ b # w)"

lemma unwinds_push:
  assumes "unwinds (c # st) u" and "st \<noteq> []"
  shows "unwinds st (c # u)"
proof -
  from assms obtain v b w where u: "u = v @ b # w" and v: "bal pair other v" "pair c b" "unwinds st w"
    by (cases rule: unwinds.cases) auto
  from v(3) show ?thesis
  proof cases
    case (One v' t b')
    from bal.Pair [OF v(2,1) One(3)] One show ?thesis
      using unwinds.One [of "c # v @ b # v'" t b'] by (simp add: u)
  next
    case (More v' t b' ts w')
    from bal.Pair [OF v(2,1) More(3)] More show ?thesis
      using unwinds.More [of "c # v @ b # v'" t b' ts w'] by (simp add: u)
  qed
qed

lemma unwinds_other: "unwinds st u \<Longrightarrow> other c \<Longrightarrow> unwinds st (c # u)"
  by (cases rule: unwinds.cases) (auto intro: unwinds.intros(1) [of "c # v" for v, simplified]
      unwinds.intros(2) [of "c # v" for v, simplified] bal.Other)

lemma run_sound:
  "run s st = Some rest \<Longrightarrow> st \<noteq> [] \<Longrightarrow> list_all opener st \<Longrightarrow> \<exists>u. s = u @ rest \<and> unwinds st u"
proof (induction s arbitrary: st)
  case (Cons c s)
  show ?case
  proof (cases "step c st")
    case (MGo st')
    with Cons.prems(1) have run: "run s st' = Some rest" by simp
    from step_go [OF MGo Cons.prems(3)] show ?thesis
    proof (elim disjE exE conjE)
      assume "opener c" "st' = c # st"
      with Cons.IH [OF run] Cons.prems(3) obtain u where "s = u @ rest" "unwinds (c # st) u" by auto
      with unwinds_push Cons.prems(2) show ?thesis by (intro exI [of _ "c # u"]) simp
    next
      fix t assume t: "st = t # st'" "st' \<noteq> []" "pair t c"
      with Cons.IH [OF run] Cons.prems(3) obtain u where "s = u @ rest" "unwinds st' u" by auto
      with t show ?thesis using unwinds.More [OF bal.Nil] by (intro exI [of _ "c # u"]) simp
    next
      assume "other c" "st' = st"
      with Cons.IH [OF run] Cons.prems(2,3) obtain u where "s = u @ rest" "unwinds st u" by auto
      with \<open>other c\<close> show ?thesis by (intro exI [of _ "c # u"]) (simp add: unwinds_other)
    qed
  next
    case MHit
    with Cons.prems step_hit [OF MHit Cons.prems(3)] show ?thesis
      using unwinds.One [OF bal.Nil] by (intro exI [of _ "[c]"]) auto
  qed (use Cons.prems in simp)
qed simp

lemma run_from_opener:
  assumes "run (a # s) [] = Some rest" and "opener a"
  shows "\<exists>u b. s = u @ b # rest \<and> pair a b \<and> bal pair other u"
proof -
  from assms have "run s [a] = Some rest" by (simp add: step_open)
  from run_sound [OF this] assms(2) obtain u where "s = u @ rest" "unwinds [a] u" by auto
  from this(2) this(1) show ?thesis by (cases rule: unwinds.cases) (auto elim: unwinds.cases)
qed

end

section \<open>The two scanners\<close>

definition angle :: "char \<Rightarrow> bool" where
  "angle c \<longleftrightarrow> c = CHR ''<'' \<or> c = CHR ''>''"

definition no_bracket :: "char \<Rightarrow> bool" where
  "no_bracket c \<longleftrightarrow> c \<notin> set ''([{)]}<>''"

definition fwd_step :: "char \<Rightarrow> char list \<Rightarrow> mstep" where
  "fwd_step c st = (if angle c then MFail
     else case end_step [] c st 0 of Go st' \<Rightarrow> MGo st' | Stop e \<Rightarrow> if e = 0 then MHit else MFail)"

definition bwd_step :: "char \<Rightarrow> char list \<Rightarrow> mstep" where
  "bwd_step c st = (if angle c then MFail
     else case start_step [] c [] st of Back n st' \<Rightarrow> MGo st' | Found \<Rightarrow> MHit | Lost \<Rightarrow> MFail)"

definition left :: "char \<Rightarrow> bool" where "left c \<longleftrightarrow> c \<in> set ''([{''"
definition right :: "char \<Rightarrow> bool" where "right c \<longleftrightarrow> c \<in> set '')]}''"

lemma brackets_disjoint [simp]:
  "left c \<Longrightarrow> \<not> right c" "left c \<Longrightarrow> \<not> angle c" "right c \<Longrightarrow> \<not> angle c"
  "\<not> left (CHR '';'')" "\<not> right (CHR '';'')" "\<not> angle (CHR '';'')"
  by (auto simp: left_def right_def angle_def)

lemma closes_sides: "closes a b \<Longrightarrow> left a \<and> right b"
  by (auto simp: closes_def left_def right_def)

lemma no_bracket_iff: "no_bracket c \<longleftrightarrow> \<not> left c \<and> \<not> right c \<and> \<not> angle c"
  by (auto simp: no_bracket_def left_def right_def angle_def)

lemma drop_top_sides [simp]:
  "list_all left st \<Longrightarrow> drop_top (CHR ''<'') st = st" "left t \<Longrightarrow> drop_top (CHR ''<'') (t # ts) = t # ts"
  "list_all right st \<Longrightarrow> drop_top (CHR ''>'') st = st" "right t \<Longrightarrow> drop_top (CHR ''>'') (t # ts) = t # ts"
  by (cases st; auto simp: drop_top_def left_def right_def)+

text \<open>Away from angle brackets a round does not look at the text around it.\<close>

lemma end_step_plain:
  assumes "\<not> angle c" and "drop_top (CHR ''<'') st = st"
  shows "end_step ahead c st after =
    (if left c then Go (c # st)
     else if right c then (case st of [] \<Rightarrow> Stop (- 1)
       | t # ts \<Rightarrow> if closes t c then (if ts = [] then Stop after else Go ts) else Stop (- 1))
     else if c = CHR '';'' \<and> st = [] then Stop (- 1) else Go st)"
  using assms by (simp add: end_step_def angle_def left_def right_def Let_def)

lemma end_step_left: "left c \<Longrightarrow> end_step ahead c st after = Go (c # st)"
  by (simp add: end_step_def left_def)

lemma start_step_right: "right c \<Longrightarrow> start_step ahead c after st = Back 0 (c # st)"
  by (simp add: start_step_def right_def)

lemma start_step_plain:
  assumes "\<not> angle c" and "drop_top (CHR ''>'') st = st"
  shows "start_step ahead c after st =
    (if right c then Back 0 (c # st)
     else if left c then (case st of [] \<Rightarrow> Lost
       | t # ts \<Rightarrow> if closes c t then (if ts = [] then Found else Back 0 ts) else Lost)
     else if c = CHR '';'' \<and> st = [] then Lost else Back 0 st)"
  using assms by (simp add: start_step_def angle_def left_def right_def)

interpretation fwd: bracket_machine left closes no_bracket fwd_step
proof
  fix c st st' assume o: "list_all left st"
  show "fwd_step c st = MHit \<Longrightarrow> \<exists>t. st = [t] \<and> closes t c"
    using o by (cases st) (auto simp: fwd_step_def end_step_plain split: if_splits)
  show "left c \<and> st' = c # st \<or> (\<exists>t. st = t # st' \<and> st' \<noteq> [] \<and> closes t c) \<or> no_bracket c \<and> st' = st"
    if "fwd_step c st = MGo st'"
    using that o by (cases st) (auto simp: fwd_step_def end_step_plain no_bracket_iff split: if_splits)
next
  fix t c ts
  show "closes t c \<Longrightarrow> fwd_step c (t # ts) = (if ts = [] then MHit else MGo ts)"
    using closes_sides [of t c] by (auto simp: fwd_step_def end_step_plain)
  show "no_bracket c \<Longrightarrow> left t \<Longrightarrow> fwd_step c (t # ts) = MGo (t # ts)"
    by (simp add: fwd_step_def end_step_plain no_bracket_iff)
qed (simp_all add: closes_sides fwd_step_def end_step_left)

interpretation bwd: bracket_machine right "\<lambda>a b. closes b a" no_bracket bwd_step
proof
  fix c st st' assume o: "list_all right st"
  show "bwd_step c st = MHit \<Longrightarrow> \<exists>t. st = [t] \<and> closes c t"
    using o by (cases st) (auto simp: bwd_step_def start_step_plain split: if_splits)
  show "right c \<and> st' = c # st \<or> (\<exists>t. st = t # st' \<and> st' \<noteq> [] \<and> closes c t) \<or> no_bracket c \<and> st' = st"
    if "bwd_step c st = MGo st'"
    using that o by (cases st) (auto simp: bwd_step_def start_step_plain no_bracket_iff split: if_splits)
next
  fix t c ts
  show "closes c t \<Longrightarrow> bwd_step c (t # ts) = (if ts = [] then MHit else MGo ts)"
    using closes_sides [of c t] by (auto simp: bwd_step_def start_step_plain)
  show "no_bracket c \<Longrightarrow> right t \<Longrightarrow> bwd_step c (t # ts) = MGo (t # ts)"
    by (simp add: bwd_step_def start_step_plain no_bracket_iff)
qed (simp_all add: closes_sides bwd_step_def start_step_right)

lemma end_step_cases [consumes 2, case_names go hit fail]:
  assumes "\<not> angle c" and "list_all left st"
  obtains st' where "end_step ahead c st after = Go st'" "fwd_step c st = MGo st'" "list_all left st'"
  | "end_step ahead c st after = Stop after" "fwd_step c st = MHit"
  | "end_step ahead c st after = Stop (- 1)" "fwd_step c st = MFail"
proof -
  show thesis
  proof (cases "right c")
    case True
    then have "\<not> left c" using brackets_disjoint(1) by blast
    with that True assms show thesis
      by (cases st; cases "closes (hd st) c"; cases "tl st = []") (simp_all add: end_step_plain fwd_step_def)
  next
    case False
    with that assms show thesis
      by (cases "left c"; cases "c = CHR '';'' \<and> st = []") (simp_all add: end_step_plain fwd_step_def)
  qed
qed

lemma start_step_cases [consumes 2, case_names go hit fail]:
  assumes "\<not> angle c" and "list_all right st"
  obtains st' where "start_step ahead c after st = Back 0 st'" "bwd_step c st = MGo st'" "list_all right st'"
  | "start_step ahead c after st = Found" "bwd_step c st = MHit"
  | "start_step ahead c after st = Lost" "bwd_step c st = MFail"
proof -
  show thesis
  proof (cases "left c")
    case True
    then have "\<not> right c" using brackets_disjoint(1) by blast
    with that True assms show thesis
      by (cases st; cases "closes c (hd st)"; cases "tl st = []") (simp_all add: start_step_plain bwd_step_def)
  next
    case False
    with that assms show thesis
      by (cases "right c"; cases "c = CHR '';'' \<and> st = []") (simp_all add: start_step_plain bwd_step_def)
  qed
qed

lemma end_loop_run:
  "list_all (\<lambda>c. \<not> angle c) s \<Longrightarrow> list_all left st \<Longrightarrow> fst (end_loop ahead s st) =
    (case fwd.run s st of None \<Rightarrow> - 1 | Some rest \<Rightarrow> py_len ahead + py_len s - py_len rest)"
proof (induction s arbitrary: ahead st)
  case (Cons c s)
  from Cons.prems have "\<not> angle c" by simp
  from this Cons.prems(2) show ?case
  proof (cases rule: end_step_cases [of c st ahead "py_len ahead + 1"])
    case (go st')
    with Cons.IH [of st' "ahead @ [c]"] Cons.prems show ?thesis
      by (simp add: py_len_def split: option.split)
  qed (simp_all add: py_len_def)
qed simp

lemma start_loop_run:
  "list_all (\<lambda>c. \<not> angle c) s \<Longrightarrow> list_all right st \<Longrightarrow> fst (start_loop s after st) =
    (case bwd.run s st of None \<Rightarrow> - 1 | Some rest \<Rightarrow> py_len rest)"
proof (induction s arbitrary: after st)
  case (Cons c s)
  from Cons.prems have "\<not> angle c" by simp
  from this Cons.prems(2) show ?case
  proof (cases rule: start_step_cases [of c st "rev s" after])
    case (go st')
    with Cons.IH [of st' "c # after"] Cons.prems show ?thesis by simp
  qed simp_all
qed simp

text \<open>On one line: the end found from an opening bracket closes a balanced expression, and the backward
  scan from there finds the bracket again.\<close>

lemma find_end_sound:
  assumes "list_all (\<lambda>c. \<not> angle c) line" and "i < length line" and "left (line ! i)"
    and "fst (FindEndOfExpressionInLine line (int i) []) = e" and "e \<noteq> - 1"
  shows "\<exists>u b rest. drop i line = line ! i # u @ b # rest \<and> closes (line ! i) b \<and> bal closes no_bracket u \<and>
    e = int i + py_len u + 2"
proof -
  let ?s = "drop i line"
  have cl: "slice_to line (int i) = take i line" "slice_from line (int i) = ?s"
    using assms(2) by (simp_all add: slice_to_def slice_from_def clip_def)
  have "list_all (\<lambda>c. \<not> angle c) ?s" using assms(1) by (auto simp: list_all_iff dest: in_set_dropD)
  from end_loop_run [OF this, of "[]" "take i line"] assms(2,4,5) obtain rest where
    run: "fwd.run ?s [] = Some rest" and e: "e = int i + py_len ?s - py_len rest"
    by (auto simp: FindEndOfExpressionInLine_def cl py_len_def split: option.splits)
  have s: "?s = line ! i # drop (Suc i) line" using assms(2) by (simp add: Cons_nth_drop_Suc)
  from fwd.run_from_opener [OF run [unfolded s] assms(3)] obtain u b where
    "drop (Suc i) line = u @ b # rest" "closes (line ! i) b" "bal closes no_bracket u" by auto
  with s e show ?thesis by (auto simp: py_len_def)
qed

lemma find_start_complete:
  assumes "list_all (\<lambda>c. \<not> angle c) line" and "line = p @ a # u @ b # q" and "closes a b"
    and "bal closes no_bracket u" and "e = py_len p + py_len u + 2"
  shows "fst (FindStartOfExpressionInLine line (e - 1) []) = py_len p"
proof -
  have cl: "slice_to line e = p @ a # u @ [b]"
    using assms(2,5) by (simp add: slice_to_def clip_def py_len_def nat_add_distrib)
  have "list_all (\<lambda>c. \<not> angle c) (rev (p @ a # u @ [b]))" using assms(1,2) by (auto simp: list_all_iff)
  note run = start_loop_run [OF this]
  have "bwd.run (b # rev u @ a # rev p) [] = Some (rev p)"
    by (rule bwd.run_expression) (use assms(3) bal_rev [OF assms(4)] in auto)
  with run [of "[]"] show ?thesis by (simp add: FindStartOfExpressionInLine_def cl py_len_def)
qed

section \<open>Bounds\<close>

lemma end_step_stop: "end_step ahead c st after = Stop e \<Longrightarrow> e = after \<or> e = - 1"
  by (simp add: end_step_def Let_def split: if_split_asm list.split_asm)

lemma end_loop_bounds:
  "end_loop ahead s st = (e, r) \<Longrightarrow> e = - 1 \<or> py_len ahead < e \<and> e \<le> py_len ahead + py_len s"
proof (induction s arbitrary: ahead st)
  case (Cons c s)
  show ?case
  proof (cases "end_step ahead c st (py_len ahead + 1)")
    case (Go st')
    with Cons.prems have "end_loop (ahead @ [c]) s st' = (e, r)" by simp
    from Cons.IH [OF this] show ?thesis by (auto simp: py_len_def)
  next
    case (Stop e')
    with Cons.prems end_step_stop [OF Stop] show ?thesis by (auto simp: py_len_def)
  qed
qed simp

lemma find_end_bounds:
  assumes "FindEndOfExpressionInLine line i st = (e, r)" and "0 \<le> i" and "i \<le> py_len line"
  shows "e = - 1 \<or> i < e \<and> e \<le> py_len line"
proof -
  from assms have "py_len (slice_to line i) = i" "py_len (slice_from line i) = py_len line - i"
    by (simp_all add: py_len_def slice_to_def clip_def)
  with end_loop_bounds [of "slice_to line i" "slice_from line i" st e r] assms(1) show ?thesis
    by (simp add: FindEndOfExpressionInLine_def)
qed

lemma close_loop_bounds:
  "close_loop (py_len xs) line n (drop (nat n + 1) xs) st = (l, m, e) \<Longrightarrow> 0 \<le> n \<Longrightarrow>
    (e = - 1 \<and> m = py_len xs) \<or> (n < m \<and> m < py_len xs \<and> l = xs ! nat m \<and> 0 < e \<and> e \<le> py_len l)"
proof (induction "drop (nat n + 1) xs" arbitrary: line n st)
  case (Cons x ls)
  then have len: "nat n + 1 < length xs" and x: "x = xs ! (nat n + 1)" and ls: "ls = drop (nat n + 2) xs"
    by (metis length_drop list.distinct(1) list.size(3) not_le_imp_less drop_all,
        metis Cons_nth_drop_Suc drop_all list.distinct(1) list.inject not_le_imp_less,
        metis Cons.hyps(2) add_2_eq_Suc' drop_Suc list.sel(3) plus_1_eq_Suc tl_drop add.commute)
  have n1: "nat (n + 1) = nat n + 1" using Cons.prems by simp
  obtain e' st' where f: "FindEndOfExpressionInLine x 0 (the st) = (e', st')" by fastforce
  from find_end_bounds [OF f] have b: "e' = - 1 \<or> 0 < e' \<and> e' \<le> py_len x" by (simp add: py_len_def)
  show ?case
  proof (cases "st = None \<or> st = Some []")
    case True
    with Cons.prems Cons.hyps(2) [symmetric] show ?thesis by auto
  next
    case False
    show ?thesis
    proof (cases "e' > - 1")
      case True
      with False f b Cons.prems Cons.hyps(2) [symmetric] len x n1 show ?thesis by (auto simp: py_len_def)
    next
      case no: False
      with False f Cons.prems(1) Cons.hyps(2) [symmetric]
      have "close_loop (py_len xs) x (n + 1) ls st' = (l, m, e)" by auto
      with Cons.hyps(1) [of "n + 1" x st'] ls n1 Cons.prems(2) show ?thesis
        by (auto simp: numeral_2_eq_2)
    qed
  qed
qed auto

lemma close_loop_later:
  "close_loop num line n ls st = (l, m, e) \<Longrightarrow> e \<noteq> - 1 \<Longrightarrow> n < m"
proof (induction ls arbitrary: line n st)
  case (Cons x ls)
  show ?case
  proof (cases "st = None \<or> st = Some []")
    case False
    obtain e' st' where f: "FindEndOfExpressionInLine x 0 (the st) = (e', st')" by fastforce
    show ?thesis
    proof (cases "e' > - 1")
      case no: False
      with Cons.prems(1) False f have "close_loop num x (n + 1) ls st' = (l, m, e)" by auto
      from Cons.IH [OF this Cons.prems(2)] show ?thesis by simp
    qed (use Cons.prems False f in auto)
  qed (use Cons.prems in auto)
qed auto

section \<open>Over the lines of a file\<close>

lemma at_index: "0 \<le> i \<Longrightarrow> i < py_len xs \<Longrightarrow> py_nth xs i = ret (xs ! nat i)"
  by (simp add: py_nth_ret py_len_def)

lemma close_expression_range:
  assumes "0 \<le> n" and "n < py_len (elided cl)" and "NumLines cl = py_len (elided cl)"
    and "0 \<le> pos" and "pos < py_len (elided cl ! nat n)"
  shows "\<exists>l m e. CloseExpression cl n pos = ret (l, m, e) \<and>
    (e = - 1 \<and> m = NumLines cl \<or>
     n \<le> m \<and> m < NumLines cl \<and> l = elided cl ! nat m \<and> 0 < e \<and> e \<le> py_len l)"
proof -
  let ?l = "elided cl ! nat n"
  obtain e' st where f: "FindEndOfExpressionInLine ?l pos [] = (e', st)" by fastforce
  from find_end_bounds [OF f assms(4)] assms(5) have b: "e' = - 1 \<or> pos < e' \<and> e' \<le> py_len ?l" by simp
  have sl: "slice (elided cl) (n + 1) (py_len (elided cl)) = drop (nat n + 1) (elided cl)"
    using assms(1,2) by (simp add: slice_def clip_def py_len_def nat_add_distrib)
  obtain l m e where cl: "close_loop (py_len (elided cl)) ?l n (drop (nat n + 1) (elided cl)) st = (l, m, e)"
    by (metis prod_cases3)
  from close_loop_bounds [OF cl assms(1)] b assms f sl cl show ?thesis
    by (auto simp: CloseExpression_def at_index)
qed

text \<open>C23. On a file whose line count is right, \<open>CloseExpression\<close> returns for every position on a line:
  either \<open>(-1)\<close> at the line past the end, or a line of the file from the start line on, its text, and
  a position past a character of it.\<close>

theorem CloseExpression_bounds:
  assumes "0 \<le> n" and "n < py_len (elided cl)" and "NumLines cl = py_len (elided cl)"
    and "0 \<le> pos" and "pos < py_len (elided cl ! nat n)"
  shows "\<exists>l m e. CloseExpression cl n pos = ret (l, m, e) \<and>
    (e = - 1 \<and> m = NumLines cl \<or>
     n \<le> m \<and> m < NumLines cl \<and> l = elided cl ! nat m \<and> 0 < e \<and> e \<le> py_len l)"
  using assms by (rule close_expression_range)

theorem CloseExpression_bounds_witness:
  "\<exists>l m e. CloseExpression \<lparr>elided = [''f(a,'', ''  b);''], line_list = [], raw_lines = [], num_lines = 2,
      lines_without_raw_strings = []\<rparr> 0 1 = ret (l, m, e) \<and>
    (e = - 1 \<and> m = 2 \<or> 0 \<le> m \<and> m < 2 \<and> l = [''f(a,'', ''  b);''] ! nat m \<and> 0 < e \<and> e \<le> py_len l)"
  using CloseExpression_bounds [of 0 "\<lparr>elided = [''f(a,'', ''  b);''], line_list = [], raw_lines = [],
      num_lines = 2, lines_without_raw_strings = []\<rparr>" 1]
  by (simp add: py_len_def NumLines_def)

text \<open>C8. On a line without angle brackets, what \<open>CloseExpression\<close> finds on the line of the bracket is
  the end of a balanced expression, and \<open>ReverseCloseExpression\<close> from its last character comes back to
  the bracket.\<close>

theorem Close_then_Reverse:
  assumes "0 \<le> n" and "n < py_len (elided cl)" and "list_all (\<lambda>c. \<not> angle c) (elided cl ! nat n)"
    and "0 \<le> pos" and "pos < py_len (elided cl ! nat n)"
    and "CloseExpression cl n pos = ret (line, n, e)" and "e \<noteq> - 1"
  shows "ReverseCloseExpression cl n (e - 1) = ret (line, n, pos) \<and>
    (\<exists>a u b. slice line pos e = a # u @ [b] \<and> closes a b \<and> bal closes no_bracket u)"
proof -
  let ?l = "elided cl ! nat n" and ?i = "nat pos"
  have na: "\<not> angle (?l ! ?i)" using assms(3-5) by (simp add: list_all_length py_len_def)
  obtain e' st where f: "FindEndOfExpressionInLine ?l pos [] = (e', st)" by fastforce
  have lft: "left (?l ! ?i)" and e: "e' = e" "line = ?l"
  proof -
    have later: "close_loop num x n ls st \<noteq> (line, n, e)" for num x ls
      using close_loop_later [of num x n ls st line n e] assms(7) by auto
    from assms(6) have *: "?l ! ?i \<in> set ''({[<'' \<and> (if e' > - 1 then (?l, n, e') = (line, n, e) else False)"
      using assms(1,2,4,5,7) f later by (auto simp: CloseExpression_def at_index split: if_splits)
    then show "left (?l ! ?i)" using na by (auto simp: left_def angle_def)
    from * show "e' = e" "line = ?l" by (simp_all split: if_splits)
  qed
  have i: "?i < length ?l" "int ?i = pos" using assms(4,5) by (simp_all add: py_len_def)
  from find_end_sound [OF assms(3) i(1) lft, of e] f e assms(7) i(2) obtain u b rest where
    u: "drop ?i ?l = ?l ! ?i # u @ b # rest" "closes (?l ! ?i) b" "bal closes no_bracket u"
      "e = pos + py_len u + 2" by auto
  let ?p = "take ?i ?l"
  have line: "?l = ?p @ ?l ! ?i # u @ b # rest" using u(1) by (metis append_take_drop_id)
  have p: "py_len ?p = pos" using i by (simp add: py_len_def)
  have len: "length ?l = ?i + length u + 2 + length rest" using arg_cong [OF line, of length] i by simp
  have sl: "slice ?l pos e = ?l ! ?i # u @ [b]"
    using u(1,4) assms(4) by (simp add: slice_nonneg py_len_def nat_add_distrib)
  obtain st2 where bk: "FindStartOfExpressionInLine ?l (e - 1) [] = (pos, st2)"
    using find_start_complete [OF assms(3) line u(2,3)] u(4) p by (metis prod.collapse)
  have last_b: "?l ! nat (e - 1) = b"
  proof -
    have "nat (e - 1) = ?i + Suc (length u)" using u(4) assms(4) by (simp add: py_len_def nat_add_distrib)
    then have "?l ! nat (e - 1) = drop ?i ?l ! Suc (length u)" using i(1) by simp
    then show ?thesis by (simp add: u(1))
  qed
  have "right b" using closes_sides [OF u(2)] by simp
  then have "b \<in> set '')}]>''" by (auto simp: right_def)
  moreover have "0 \<le> e - 1" "e - 1 < py_len ?l"
    using u(4) assms(4) len by (auto simp: py_len_def)
  then have "py_nth ?l (e - 1) = ret b" using last_b by (simp add: at_index)
  ultimately have "ReverseCloseExpression cl n (e - 1) = ret (?l, n, pos)"
    using at_index [OF assms(1,2)] bk assms(4) by (simp add: ReverseCloseExpression_def)
  with sl u(2,3) e(2) show ?thesis by blast
qed

theorem Close_then_Reverse_witness:
  "ReverseCloseExpression \<lparr>elided = [''f(a[1]);''], line_list = [], raw_lines = [], num_lines = 1,
      lines_without_raw_strings = []\<rparr> 0 (7 - 1) = ret (''f(a[1]);'', 0, 1) \<and>
    (\<exists>a u b. slice ''f(a[1]);'' 1 7 = a # u @ [b] \<and> closes a b \<and> bal closes no_bracket u)"
proof (rule Close_then_Reverse)
  show "CloseExpression \<lparr>elided = [''f(a[1]);''], line_list = [], raw_lines = [], num_lines = 1,
      lines_without_raw_strings = []\<rparr> 0 1 = ret (''f(a[1]);'', 0, 7)" by code_simp
qed (simp_all add: py_len_def angle_def)

end
