(* ===== verification/Nesting.thy ===== *)
theory Nesting
  imports Blocks Expression_Facts
begin

text \<open>
  \<open>NestingState\<close>: the stack of open blocks, the checkpoints at preprocessor conditionals, and the
  update with one line. The stack is kept as in the code, innermost block last; \<open>next_oid\<close> is the
  identity the next created or copied block gets.
\<close>

section \<open>State\<close>

record pp_info =
  stack_before_if :: "block list"
  stack_before_else :: "block list"
  seen_else :: bool

record nesting =
  stack :: "block list"
  previous_stack_top :: "block option"
  pp_stack :: "pp_info list"
  next_oid :: nat

definition init_nesting :: nesting where
  "init_nesting = \<lparr>stack = [], previous_stack_top = None, pp_stack = [], next_oid = 0\<rparr>"

definition SeenOpenBrace :: "nesting \<Rightarrow> bool" where
  "SeenOpenBrace st \<longleftrightarrow> stack st = [] \<or> seen_open_brace (last (stack st))"

definition InNamespaceBody :: "nesting \<Rightarrow> bool" where
  "InNamespaceBody st \<longleftrightarrow> stack st \<noteq> [] \<and> is_namespace (kind (last (stack st)))"

definition InExternC :: "nesting \<Rightarrow> bool" where
  "InExternC st \<longleftrightarrow> stack st \<noteq> [] \<and> kind (last (stack st)) = ExternCInfo"

definition InClassDeclaration :: "nesting \<Rightarrow> bool" where
  "InClassDeclaration st \<longleftrightarrow> stack st \<noteq> [] \<and> is_class (kind (last (stack st)))"

definition InAsmBlock :: "nesting \<Rightarrow> bool" where
  "InAsmBlock st \<longleftrightarrow> stack st \<noteq> [] \<and> inline_asm (last (stack st)) \<noteq> NO_ASM"

definition push_block :: "block \<Rightarrow> nesting \<Rightarrow> nesting" where
  "push_block b st = st\<lparr>stack := stack st @ [b], next_oid := Suc (next_oid st)\<rparr>"

definition pop_block :: "nesting \<Rightarrow> nesting" where
  "pop_block st = st\<lparr>stack := butlast (stack st)\<rparr>"

definition map_top :: "(block \<Rightarrow> block) \<Rightarrow> nesting \<Rightarrow> nesting" where
  "map_top f st = st\<lparr>stack := butlast (stack st) @ [f (last (stack st))]\<rparr>"

text \<open>\<open>copy.deepcopy\<close> of a stack: new objects with the same contents.\<close>

definition copies :: "nat \<Rightarrow> block list \<Rightarrow> block list" where
  "copies n bs = map (\<lambda>(i, b). b\<lparr>oid := n + i\<rparr>) (zip [0..<length bs] bs)"

section \<open>Preprocessor conditionals\<close>

definition PP_IF :: string where "PP_IF = raw ''^`s*#`s*(if|ifdef|ifndef)`b''"
definition PP_ELSE :: string where "PP_ELSE = raw ''^`s*#`s*(else|elif)`b''"
definition PP_ENDIF :: string where "PP_ENDIF = raw ''^`s*#`s*endif`b''"

definition UpdatePreprocessor :: "string \<Rightarrow> nesting \<Rightarrow> nesting" where
  "UpdatePreprocessor line st =
     (let n = next_oid st in
      if matches PP_IF line then
        st\<lparr>pp_stack := pp_stack st @ [\<lparr>stack_before_if = copies n (stack st), stack_before_else = [],
                                       seen_else = False\<rparr>],
           next_oid := n + length (stack st)\<rparr>
      else if matches PP_ELSE line then
        (if pp_stack st \<noteq> [] then
           (let pp = last (pp_stack st);
                (pp', n') = (if seen_else pp then (pp, n)
                  else (pp\<lparr>seen_else := True, stack_before_else := copies n (stack st)\<rparr>, n + length (stack st)))
            in st\<lparr>pp_stack := butlast (pp_stack st) @ [pp'], stack := copies n' (stack_before_if pp'),
                  next_oid := n' + length (stack_before_if pp')\<rparr>)
         else st)
      else if matches PP_ENDIF line then
        (if pp_stack st \<noteq> [] then
           st\<lparr>stack := (if seen_else (last (pp_stack st)) then stack_before_else (last (pp_stack st)) else stack st),
              pp_stack := butlast (pp_stack st)\<rparr>
         else st)
      else st)"

section \<open>Template argument lists\<close>

definition TEMPLATE_CHAR :: string where
  "TEMPLATE_CHAR = raw ''^[^{};=`[`]`.<>]*(.)''"

lemma bind_cong [fundef_cong]:
  "m = n \<Longrightarrow> (\<And>x. result n = Inr x \<Longrightarrow> f x = g x) \<Longrightarrow> bind m f = bind n g"
  by (auto simp: bind_def result_def split: prod.splits sum.splits)

lemma TEMPLATE_CHAR_progress:
  assumes "Match TEMPLATE_CHAR s = Some m"
  shows "0 < length (group m 0)" and "length (group m 0) \<le> length s"
proof -
  have c: "re_compile TEMPLATE_CHAR = Some (RSeq RBol (RSeq (RRep True 0 None (RSet True [CChr (CHR ''{''),
      CChr (CHR ''}''), CChr (CHR '';''), CChr (CHR ''=''), CChr (CHR ''[''), CChr (CHR '']''), CChr (CHR ''.''),
      CChr (CHR ''<''), CChr (CHR ''>'')])) (RGrp 1 RAny)))"
    by code_simp
  from assms have "re_match (the (re_compile TEMPLATE_CHAR)) s = Some m" by (simp add: Match_def c)
  then obtain q t d where st: "(q, t, d) \<in> set (ends (the (re_compile TEMPLATE_CHAR)) (None, s, no_caps))"
    and m: "m = \<lparr>subject = s, at_start = s, at_end = t, mcaps = d\<rparr>"
    by (rule re_matchD)
  from st have "\<exists>u x. s = u @ x # t"
    unfolding c option.sel
    by (elim in_item_seq) (simp_all, auto split: if_splits)
  then show "0 < length (group m 0)" "length (group m 0) \<le> length s"
    by (auto simp: m group_def group_opt_def span_text_def)
qed

lemma CloseExpression_progress:
  assumes "result (CloseExpression cl n pos) = Inr (l, m, e)" and "\<not> e < 0"
  shows "n < m \<or> m = n \<and> pos < e"
proof -
  from assms obtain line c where line: "result (py_nth (elided cl) n) = Inr line"
      and c: "result (py_nth line pos) = Inr c"
    by (auto simp: CloseExpression_def result_bind split: sum.splits)
  obtain e' st where f: "FindEndOfExpressionInLine line pos [] = (e', st)" by fastforce
  have pos: "pos < py_len line" using c by (auto simp: py_nth_def py_len_def Let_def split: if_splits)
  then have "pos \<le> py_len (slice_to line pos)" by (auto simp: slice_to_def clip_def py_len_def)
  with f end_loop_bounds [of "slice_to line pos" "slice_from line pos" "[]" e' st]
  have "e' = - 1 \<or> pos < e'" by (auto simp: FindEndOfExpressionInLine_def)
  moreover have "(e' > - 1 \<and> (l, m, e) = (line, n, e')) \<or>
      close_loop (NumLines cl) line n (slice (elided cl) (n + 1) (NumLines cl)) st = (l, m, e)"
    using assms line c f by (auto simp: CloseExpression_def result_bind split: if_splits)
  ultimately show ?thesis using close_loop_later assms(2) by fastforce
qed

definition line_room :: "cleansed \<Rightarrow> int \<Rightarrow> int \<Rightarrow> nat" where
  "line_room cl linenum pos = (case result (py_nth (elided cl) linenum) of Inl _ \<Rightarrow> 0
     | Inr line \<Rightarrow> nat (py_len line - pos))"

lemma template_room:
  assumes "result (py_nth (elided cl) n) = Inr line" and "Match TEMPLATE_CHAR (slice_from line pos) = Some m"
    and "pos + py_len (group m 0) \<le> p"
  shows "line_room cl n p < line_room cl n pos"
proof -
  from TEMPLATE_CHAR_progress [OF assms(2)]
  have 0: "0 < length (group m 0)" "length (group m 0) \<le> length line - clip (length line) pos"
    by simp_all
  then have "clip (length line) pos < length line" by linarith
  with 0 assms(3) have "pos < py_len line" by (auto simp: clip_def py_len_def split: if_splits)
  moreover from 0(1) assms(3) have "pos < p" unfolding py_len_def by linarith
  ultimately have "pos < py_len line" "pos < p" by simp_all
  then show ?thesis by (simp add: line_room_def assms(1))
qed

text \<open>The loop of \<open>InTemplateArgumentList\<close>. Each round moves forward on the line or to a later line.\<close>

function in_template_loop :: "cleansed \<Rightarrow> int \<Rightarrow> int \<Rightarrow> bool run" where
  "in_template_loop clean_lines linenum pos =
     (if linenum < NumLines clean_lines then
        bind (py_nth (elided clean_lines) linenum) (\<lambda>line.
        case Match TEMPLATE_CHAR (slice_from line pos) of
          None \<Rightarrow> in_template_loop clean_lines (linenum + 1) 0
        | Some m \<Rightarrow>
           if group m 1 \<in> {''{'', ''}'', '';''} then ret False
           else if group m 1 \<in> {''>'', ''='', ''['', '']'', ''.''} then ret True
           else if group m 1 \<noteq> ''<'' then
             (if pos + py_len (group m 0) + 1 \<ge> py_len line then in_template_loop clean_lines (linenum + 1) 0
              else in_template_loop clean_lines linenum (pos + py_len (group m 0) + 1))
           else
             bind (CloseExpression clean_lines linenum (pos + py_len (group m 0) - 1)) (\<lambda>r.
               if snd (snd r) < 0 then ret False
               else in_template_loop clean_lines (fst (snd r)) (snd (snd r))))
      else ret False)"
  by pat_completeness auto
termination
proof (relation "measures [\<lambda>(cl, n, p). nat (NumLines cl - n), \<lambda>(cl, n, p). line_room cl n p]", goal_cases)
  case (4 cl n pos line m)
  with template_room [of cl n line pos m] show ?case by auto
next
  case (5 cl n pos line m r)
  obtain l k e where r: "r = (l, k, e)" by (cases r)
  from 5 r have "n < k \<or> k = n \<and> pos + py_len (group m 0) \<le> e"
    using CloseExpression_progress [of cl n "pos + py_len (group m 0) - 1" l k e] by auto
  with 5 r template_room [of cl n line pos m e] show ?case by auto
qed auto

declare in_template_loop.simps [simp del]

definition InTemplateArgumentList :: "cleansed \<Rightarrow> int \<Rightarrow> int \<Rightarrow> bool run" where
  "InTemplateArgumentList clean_lines linenum pos = in_template_loop clean_lines linenum pos"

section \<open>\<open>Update\<close>\<close>

text \<open>Parentheses and inline assembly of the innermost block.\<close>

definition count_parentheses :: "string \<Rightarrow> block \<Rightarrow> block" where
  "count_parentheses line b =
     (let depth_change = int (py_count line ''('') - int (py_count line '')'');
          b1 = b\<lparr>open_parentheses := open_parentheses b + depth_change\<rparr>
      in if inline_asm b1 = NO_ASM \<or> inline_asm b1 = END_ASM then
           (if depth_change \<noteq> 0 \<and> open_parentheses b1 = 1 \<and> matches MATCH_ASM line
            then b1\<lparr>inline_asm := INSIDE_ASM\<rparr> else b1\<lparr>inline_asm := NO_ASM\<rparr>)
         else if inline_asm b1 = INSIDE_ASM \<and> open_parentheses b1 = 0 then b1\<lparr>inline_asm := END_ASM\<rparr>
         else b1)"

text \<open>Namespace declarations at the beginning of the line: the rest of the line, and the state.\<close>

definition NAMESPACE_DECL :: string where
  "NAMESPACE_DECL = raw ''^`s*namespace`b`s*([:`w]+)?(.*)$''"

lemma NAMESPACE_DECL_compiled:
  "re_compile NAMESPACE_DECL = Some (RSeq RBol (RSeq (RRep True 0 None (RSet False [CSpace]))
     (RSeq (RLit (CHR ''n'')) (RSeq (RLit (CHR ''a'')) (RSeq (RLit (CHR ''m'')) (RSeq (RLit (CHR ''e''))
     (RSeq (RLit (CHR ''s'')) (RSeq (RLit (CHR ''p'')) (RSeq (RLit (CHR ''a'')) (RSeq (RLit (CHR ''c''))
     (RSeq (RLit (CHR ''e'')) (RSeq RWordB (RSeq (RRep True 0 None (RSet False [CSpace]))
     (RSeq (RRep True 0 (Some 1) (RGrp 1 (RRep True 1 None (RSet False [CChr (CHR '':''), CWord]))))
     (RSeq (RGrp 2 (RRep True 0 None RAny)) REol)))))))))))))))"
  by code_simp

lemma NAMESPACE_DECL_rest:
  assumes "Match NAMESPACE_DECL line = Some m"
  shows "\<exists>a b. line = a @ ''namespace'' @ b @ group m 2 @ at_end m"
proof -
  from assms have "re_match (the (re_compile NAMESPACE_DECL)) line = Some m"
    by (simp add: Match_def NAMESPACE_DECL_compiled)
  then obtain q t c where st: "(q, t, c) \<in> set (ends (the (re_compile NAMESPACE_DECL)) (None, line, no_caps))"
    and m: "m = \<lparr>subject = line, at_start = line, at_end = t, mcaps = c\<rparr>"
    by (rule re_matchD)
  from st have "\<exists>a b d. line = a @ ''namespace'' @ b @ d @ t \<and> c 2 = Some (d @ t, t)"
    unfolding NAMESPACE_DECL_compiled option.sel
    by (elim in_rep_group_seq in_item_seq) (simp_all, metis append_assoc)
  then show ?thesis by (force simp: m group_def group_opt_def)
qed

lemma namespace_rest_shrinks:
  "Match NAMESPACE_DECL line = Some m \<Longrightarrow> length (group m 2) < length line"
  using NAMESPACE_DECL_rest [of line m] by force

function namespace_loop :: "int \<Rightarrow> string \<Rightarrow> nesting \<Rightarrow> string \<times> nesting" where
  "namespace_loop linenum line st =
     (case Match NAMESPACE_DECL line of
        None \<Rightarrow> (line, st)
      | Some m \<Rightarrow>
          if py_find (group m 2) ''{'' \<noteq> - 1 then
            namespace_loop linenum (slice_from (group m 2) (py_find (group m 2) ''{'' + 1))
              (push_block ((new_namespace (next_oid st) (group_opt m 1) linenum)\<lparr>seen_open_brace := True\<rparr>) st)
          else
            namespace_loop linenum (group m 2) (push_block (new_namespace (next_oid st) (group_opt m 1) linenum) st))"
  by pat_completeness auto
termination
  by (relation "measure (\<lambda>(n, line, st). length line)") (auto dest: namespace_rest_shrinks)

declare namespace_loop.simps [simp del]

text \<open>A class declaration in the rest of the line.\<close>

definition CLASS_DECL :: string where
  "CLASS_DECL = raw ''^(`s*(?:template`s*<[`w`s<>,:=]*>`s*)?(class|struct)`s+(?:[A-Z_]+`s+)*(`w+(?:::`w+)*))(.*)$''"

definition class_declaration :: "cleansed \<Rightarrow> int \<Rightarrow> string \<Rightarrow> nesting \<Rightarrow> (string \<times> nesting) run" where
  "class_declaration clean_lines linenum line st =
     (case Match CLASS_DECL line of
        None \<Rightarrow> ret (line, st)
      | Some m \<Rightarrow>
          if stack st = [] \<or> open_parentheses (last (stack st)) = 0 then
            bind (InTemplateArgumentList clean_lines linenum (py_len (group m 1))) (\<lambda>in_args.
            if in_args then ret (line, st)
            else bind (new_class (next_oid st) (group m 3) (group m 2) clean_lines linenum) (\<lambda>b.
              ret (group m 4, push_block b st)))
          else ret (line, st))"

definition begin_checks :: "cleansed \<Rightarrow> int \<Rightarrow> nesting \<Rightarrow> nesting run" where
  "begin_checks clean_lines linenum st =
     (if SeenOpenBrace st then ret st
      else bind (CheckBegin clean_lines linenum (last (stack st))) (\<lambda>b. ret (map_top (\<lambda>_. b) st)))"

text \<open>Access specifiers inside a class.\<close>

definition ACCESS :: string where
  "ACCESS = raw ''^(.*)`b(public|private|protected|signals)(`s+(?:slots`s*)?)?:(?:[^:]|$)''"

definition access_control :: "string \<Rightarrow> int \<Rightarrow> string \<Rightarrow> nesting \<Rightarrow> nesting run" where
  "access_control fn linenum line st =
     (case (if stack st = [] then BlockInfo else kind (last (stack st))) of
        ClassInfo d \<Rightarrow>
          (case Match ACCESS line of
             None \<Rightarrow> ret st
           | Some m \<Rightarrow>
               seq (when_do (py_len (group m 1) \<noteq> class_indent d + 1 \<and> matches (raw ''^`s*$'') (group m 1))
                      (report fn linenum ''whitespace/indent'' 3
                         (group m 2 @ group m 3 @ '': should be indented +1 space inside '' @ class_parent d)))
                 (ret (map_top (\<lambda>b. b\<lparr>kind := ClassInfo (d\<lparr>access := group m 2\<rparr>)\<rparr>) st)))
      | _ \<Rightarrow> ret st)"

text \<open>Braces and semicolons in what is left of the line.\<close>

definition BRACE :: string where
  "BRACE = raw ''^[^{;)}]*([{;)}])(.*)$''"

definition EXTERN_C :: string where
  "EXTERN_C = raw ''^extern`s*'' @ [dquote] @ ''[^'' @ [dquote] @ '']*'' @ [dquote] @ raw ''`s*`{''"

lemma BRACE_compiled:
  "re_compile BRACE = Some (RSeq RBol (RSeq (RRep True 0 None (RSet True [CChr (CHR ''{''), CChr (CHR '';''),
     CChr (CHR '')''), CChr (CHR ''}'')])) (RSeq (RGrp 1 (RSet False [CChr (CHR ''{''), CChr (CHR '';''),
     CChr (CHR '')''), CChr (CHR ''}'')])) (RSeq (RGrp 2 (RRep True 0 None RAny)) REol))))"
  by code_simp

lemma BRACE_groups:
  assumes "Match BRACE line = Some m"
  shows "\<exists>u c. line = u @ c # group m 2 @ at_end m \<and> group m 1 = [c] \<and> c \<in> set ''{;)}'' \<and>
    list_all (\<lambda>x. x \<notin> set ''{;)}'') u \<and> (at_end m = [] \<or> at_end m = [newline])"
proof -
  from assms have "re_match (the (re_compile BRACE)) line = Some m"
    by (simp add: Match_def BRACE_compiled)
  then obtain q t c where st: "(q, t, c) \<in> set (ends (the (re_compile BRACE)) (None, line, no_caps))"
    and m: "m = \<lparr>subject = line, at_start = line, at_end = t, mcaps = c\<rparr>"
    by (rule re_matchD)
  from st have "\<exists>a x b. line = a @ x # b @ t \<and> cls_has False [CChr (CHR ''{''), CChr (CHR '';''),
      CChr (CHR '')''), CChr (CHR ''}'')] x \<and>
      lang (RRep True 0 None (RSet True [CChr (CHR ''{''), CChr (CHR '';''), CChr (CHR '')''), CChr (CHR ''}'')])) a \<and>
      (t = [] \<or> t = [newline]) \<and> c 1 = Some (x # b @ t, b @ t) \<and> c 2 = Some (b @ t, t)"
    unfolding BRACE_compiled option.sel
    by (elim in_item_seq) (simp_all, force simp: item_lang_def elim!: lang_SetE)
  then obtain a x b where l: "line = a @ x # b @ t" "cls_has False [CChr (CHR ''{''), CChr (CHR '';''),
      CChr (CHR '')''), CChr (CHR ''}'')] x" "t = [] \<or> t = [newline]"
    "lang (RRep True 0 None (RSet True [CChr (CHR ''{''), CChr (CHR '';''), CChr (CHR '')''), CChr (CHR ''}'')])) a"
    "c 1 = Some (x # b @ t, b @ t)" "c 2 = Some (b @ t, t)" by blast
  from l(2) have "x \<in> set ''{;)}''" by (auto simp: cls_has_def)
  moreover have "list_all (\<lambda>x. x \<notin> set ''{;)}'') a"
    using lang_class_star [OF l(4)] by (auto simp: list_all_iff cls_has_def)
  moreover have "span_text (x # b @ t) (b @ t) = [x]" using span_text_append [of "[x]" "b @ t"] by simp
  ultimately show ?thesis using l by (auto simp: m group_def group_opt_def)
qed

lemma brace_rest_shrinks: "Match BRACE line = Some m \<Longrightarrow> length (group m 2) < length line"
  using BRACE_groups [of line m] by force

text \<open>One token; the line is the one the token was found on.\<close>

definition brace_token :: "string \<Rightarrow> cleansed \<Rightarrow> int \<Rightarrow> string \<Rightarrow> string \<Rightarrow> nesting \<Rightarrow> nesting run" where
  "brace_token fn clean_lines linenum line token st =
     (if token = ''{'' then
        ret (if \<not> SeenOpenBrace st then map_top (\<lambda>b. b\<lparr>seen_open_brace := True\<rparr>) st
             else if matches EXTERN_C line then push_block (new_extern_c (next_oid st) linenum) st
             else push_block (let b = new_block (next_oid st) linenum True in
                    if matches MATCH_ASM line then b\<lparr>inline_asm := BLOCK_ASM\<rparr> else b) st)
      else if token = '';'' \<or> token = '')'' then
        ret (if \<not> SeenOpenBrace st then pop_block st else st)
      else if stack st \<noteq> [] then
        seq (CheckEnd fn clean_lines linenum (last (stack st))) (ret (pop_block st))
      else ret st)"

function brace_loop :: "string \<Rightarrow> cleansed \<Rightarrow> int \<Rightarrow> string \<Rightarrow> nesting \<Rightarrow> nesting run" where
  "brace_loop fn clean_lines linenum line st =
     (case Match BRACE line of
        None \<Rightarrow> ret st
      | Some m \<Rightarrow>
          bind (brace_token fn clean_lines linenum line (group m 1) st) (\<lambda>st'.
            brace_loop fn clean_lines linenum (group m 2) st'))"
  by pat_completeness auto
termination
  by (relation "measure (\<lambda>(fn, cl, n, line, st). length line)") (auto dest: brace_rest_shrinks)

declare brace_loop.simps [simp del]

definition Update :: "string \<Rightarrow> cleansed \<Rightarrow> int \<Rightarrow> nesting \<Rightarrow> nesting run" where
  "Update fn clean_lines linenum st =
     bind (py_nth (elided clean_lines) linenum) (\<lambda>line.
     let st1 = st\<lparr>previous_stack_top := (if stack st \<noteq> [] then Some (last (stack st)) else None)\<rparr>;
         st2 = UpdatePreprocessor line st1;
         st3 = (if stack st2 \<noteq> [] then map_top (count_parentheses line) st2 else st2);
         (line4, st4) = namespace_loop linenum line st3
     in bind (class_declaration clean_lines linenum line4 st4) (\<lambda>(line5, st5).
        bind (begin_checks clean_lines linenum st5) (\<lambda>st6.
        bind (access_control fn linenum line5 st6) (\<lambda>st7.
          brace_loop fn clean_lines linenum line5 st7))))"

definition InnermostClass :: "nesting \<Rightarrow> block option" where
  "InnermostClass st = find (\<lambda>b. is_class (kind b)) (rev (stack st))"

definition CheckCompletedBlocks :: "string \<Rightarrow> nesting \<Rightarrow> unit run" where
  "CheckCompletedBlocks fn st = for_each (\<lambda>obj.
     case kind obj of
       ClassInfo d \<Rightarrow> report fn (starting_linenum obj) ''build/class'' 5
         (''Failed to find complete declaration of class '' @ class_name d)
     | NamespaceInfo name \<Rightarrow> report fn (starting_linenum obj) ''build/namespaces'' 5
         (''Failed to find complete declaration of namespace '' @ name)
     | _ \<Rightarrow> ret ()) (stack st)"

end
