(* ===== verification/Function_State.thy ===== *)
theory Function_State
  imports Matching
begin

text \<open>
  \<open>_FunctionState\<close>: the body of the current function and the report of long ones. Python computes the
  confidence as \<open>int(math.log(lines / base, 2))\<close> in floats; for the counts of a file this is the
  integer logarithm below, towards zero (the quotient of a reported function is cut at 5, and only
  exact powers of two have an integral logarithm).
\<close>

record function_state =
  in_a_function :: bool
  lines_in_function :: nat
  current_function :: string

definition init_function_state :: function_state where
  "init_function_state = \<lparr>in_a_function = False, lines_in_function = 0, current_function = []\<rparr>"

definition NORMAL_TRIGGER :: nat where "NORMAL_TRIGGER = 250"
definition TEST_TRIGGER :: nat where "TEST_TRIGGER = 400"

definition FBegin :: "string \<Rightarrow> function_state \<Rightarrow> function_state" where
  "FBegin function_name st =
     st\<lparr>in_a_function := True, lines_in_function := 0, current_function := function_name\<rparr>"

definition FCount :: "function_state \<Rightarrow> function_state" where
  "FCount st = (if in_a_function st then st\<lparr>lines_in_function := lines_in_function st + 1\<rparr> else st)"

fun floor_log2 :: "nat \<Rightarrow> nat" where
  "floor_log2 n = (if n < 2 then 0 else Suc (floor_log2 (n div 2)))"

declare floor_log2.simps [simp del]

text \<open>\<open>int(math.log(a / b, 2))\<close> for positive \<open>a\<close> and \<open>b\<close>.\<close>

definition int_log2 :: "nat \<Rightarrow> nat \<Rightarrow> int" where
  "int_log2 a b = (if b \<le> a then int (floor_log2 (a div b)) else - int (floor_log2 (b div a)))"

text \<open>\<open>lines > base * 2**verbosity\<close> and the integer part of the trigger, at any verbosity.\<close>

definition over_trigger :: "nat \<Rightarrow> nat \<Rightarrow> int \<Rightarrow> bool" where
  "over_trigger n base v \<longleftrightarrow>
     (if 0 \<le> v then base * 2 ^ nat v < n else base < n * 2 ^ nat (- v))"

definition trigger_int :: "nat \<Rightarrow> int \<Rightarrow> nat" where
  "trigger_int base v = (if 0 \<le> v then base * 2 ^ nat v else base div 2 ^ nat (- v))"

definition base_trigger :: "string \<Rightarrow> nat" where
  "base_trigger name = (if matches ''T(EST|est)'' name then TEST_TRIGGER else NORMAL_TRIGGER)"

definition FCheck :: "int \<Rightarrow> string \<Rightarrow> int \<Rightarrow> function_state \<Rightarrow> unit run" where
  "FCheck verbosity fn linenum st =
     (if \<not> in_a_function st then ret ()
      else
        (let base = base_trigger (current_function st) in
         if over_trigger (lines_in_function st) base verbosity then
           (let error_level = int_log2 (lines_in_function st) base;
                error_level = (if error_level > 5 then 5 else error_level)
            in report fn linenum ''readability/fn_size'' error_level
                 (''Small and focused functions are preferred: '' @ current_function st @ '' has '' @
                  str_int (int (lines_in_function st)) @
                  '' non-comment lines (error triggered by exceeding '' @
                  str_int (int (trigger_int base verbosity)) @ '' lines).''))
         else ret ()))"

definition FEnd :: "function_state \<Rightarrow> function_state" where
  "FEnd st = st\<lparr>in_a_function := False\<rparr>"

section \<open>Correctness\<close>

lemma floor_log2_bounds: "0 < n \<Longrightarrow> 2 ^ floor_log2 n \<le> n \<and> n < 2 ^ Suc (floor_log2 n)"
proof (induction n rule: floor_log2.induct)
  case (1 n)
  show ?case
  proof (cases "n < 2")
    case True
    with 1 show ?thesis by (subst (1 2) floor_log2.simps) simp
  next
    case False
    with 1 have "2 ^ floor_log2 (n div 2) \<le> n div 2 \<and> n div 2 < 2 ^ Suc (floor_log2 (n div 2))" by simp
    with False show ?thesis by (subst (1 2) floor_log2.simps) auto
  qed
qed

lemma floor_log2_ge: "2 ^ k \<le> n \<Longrightarrow> k \<le> floor_log2 n"
proof -
  assume "2 ^ k \<le> n"
  moreover from this have "0 < n" by (metis gr0I le_zero_eq power_not_zero zero_neq_numeral)
  ultimately have "(2::nat) ^ k < 2 ^ Suc (floor_log2 n)"
    using floor_log2_bounds [of n] by (meson le_less_trans)
  then show ?thesis by (metis less_Suc_eq_le one_less_numeral_iff power_less_imp_less_exp semiring_norm(76))
qed

lemma base_trigger_pos [simp]: "0 < base_trigger name"
  by (simp add: base_trigger_def TEST_TRIGGER_def NORMAL_TRIGGER_def)

text \<open>The limit of a name, from the table of the class.\<close>

lemma test_names: "matches ''T(EST|est)'' name \<longleftrightarrow> startswith name ''TEST'' \<or> startswith name ''Test''"
proof -
  have c: "re_compile ''T(EST|est)'' = Some (RSeq (RLit (CHR ''T'')) (RGrp 1 (RAlt
      (RSeq (RLit (CHR ''E'')) (RSeq (RLit (CHR ''S'')) (RLit (CHR ''T''))))
      (RSeq (RLit (CHR ''e'')) (RSeq (RLit (CHR ''s'')) (RLit (CHR ''t'')))))))" by code_simp
  have "re_match (the (re_compile ''T(EST|est)'')) name \<noteq> None \<longleftrightarrow> prefix ''TEST'' name \<or> prefix ''Test'' name"
    unfolding c option.sel
    by (cases name; cases "tl name"; cases "tl (tl name)"; cases "tl (tl (tl name))") (auto simp: re_match_def cls_has_def)
  then show ?thesis by (simp add: matches_def Match_def c startswith_def)
qed

lemma capped_log:
  assumes "0 < b" and "b \<le> n"
  obtains k where "min 5 (int_log2 n b) = int k" and "k \<le> 5" and "b * 2 ^ k \<le> n" and "k = 5 \<or> n < b * 2 ^ Suc k"
proof -
  let ?l = "floor_log2 (n div b)"
  have pos: "0 < n div b" using assms by (simp add: div_greater_zero_iff)
  from floor_log2_bounds [OF pos] have l: "2 ^ ?l \<le> n div b" "n div b < 2 ^ Suc ?l" by simp_all
  have "2 ^ min 5 ?l \<le> n div b" using l(1) by (meson le_trans min.cobounded2 one_le_numeral power_increasing)
  then have low: "b * 2 ^ min 5 ?l \<le> n"
    using assms(1) by (simp add: less_eq_div_iff_mult_less_eq mult.commute)
  have "n < b * 2 ^ Suc ?l" using l(2) assms(1) by (simp add: div_less_iff_less_mult mult.commute)
  with low show thesis using that [of "min 5 ?l"] assms(2) by (auto simp: int_log2_def min_def split: if_splits)
qed



text \<open>The confidence of a function size report lies between the verbosity (up to 5) and 5: a report
  that \<open>Check\<close> makes at a verbosity of 0 to 5 is never dropped for its confidence.\<close>

theorem FCheck_confidence:
  assumes "0 \<le> v" and "Report fn l cat conf msg \<in> set (calls (FCheck v file linenum st))"
  shows "min v 5 \<le> conf \<and> conf \<le> 5"
proof -
  let ?n = "lines_in_function st" and ?b = "base_trigger (current_function st)"
  from assms(2) have over: "over_trigger ?n ?b v" and conf: "conf = min 5 (int_log2 ?n ?b)"
    by (auto simp: FCheck_def Let_def split: if_splits)
  from over assms(1) have lt: "2 ^ nat v * ?b < ?n" by (simp add: over_trigger_def mult.commute)
  then have "2 ^ nat v \<le> ?n div ?b" by (simp add: less_eq_div_iff_mult_less_eq)
  then have "nat v \<le> floor_log2 (?n div ?b)" by (rule floor_log2_ge)
  moreover have "?b \<le> ?n" using lt by (metis le_trans less_imp_le mult.left_neutral mult_le_mono1 one_le_numeral one_le_power)
  ultimately show ?thesis using conf assms(1) by (auto simp: int_log2_def)
qed

theorem FCheck_confidence_witness:
  "min 1 5 \<le> (2::int) \<and> (2::int) \<le> 5"
  by (rule FCheck_confidence [of 1 "''a.cc''" "Some 9" "''readability/fn_size''" 2
        "''Small and focused functions are preferred: f has 1001 non-comment lines (error triggered by exceeding 500 lines).''"
        "''a.cc''" 9 "\<lparr>in_a_function = True, lines_in_function = 1001, current_function = ''f''\<rparr>"])
    (simp, code_simp)

end
