(* ===== verification/Line_Checks.thy ===== *)
theory Line_Checks
  imports Cleansing
begin

text \<open>
  Checks of one line that need no state: multi-line comments and strings, thread-unsafe functions,
  \<open>VLOG\<close> arguments, invalid increments; and the predicates on macro definitions and forward class
  declarations. The line number is an index into the lines, with Python's meaning.
\<close>

definition CheckForMultilineCommentsAndStrings :: "string \<Rightarrow> cleansed \<Rightarrow> int \<Rightarrow> unit run" where
  "CheckForMultilineCommentsAndStrings fn clean_lines linenum =
     bind (py_nth (elided clean_lines) linenum) (\<lambda>l.
     let line = py_replace l [backslash, backslash] [] in
     seq (when_do (py_count line ''/*'' > py_count line ''*/'')
            (report fn linenum ''readability/multiline_comment'' 5
               (''Complex multi-line /*...*/-style comment found. Lint may give bogus warnings.  '' @
                ''Consider replacing these with //-style comments, with #if 0...#endif, '' @
                ''or with more clearly structured multi-line comments.'')))
         (when_do ((int (py_count line [dquote]) - int (py_count line [backslash, dquote])) mod 2 \<noteq> 0)
            (report fn linenum ''readability/multiline_string'' 5
               (''Multi-line string ('' @ [dquote] @ ''...'' @ [dquote] @ '') found.  This lint script doesn'' @
                [squote] @ ''t do well with such strings, and may give bogus warnings.  '' @
                ''Use C++11 raw strings or concatenation instead.''))))"

definition CheckPosixThreading :: "string \<Rightarrow> cleansed \<Rightarrow> int \<Rightarrow> unit run" where
  "CheckPosixThreading fn clean_lines linenum =
     bind (py_nth (elided clean_lines) linenum) (\<lambda>line.
     for_each (\<lambda>(single_thread_func, multithread_safe_func, pattern).
       when_do (found pattern line)
         (report fn linenum ''runtime/threadsafe_fn'' 2
            (''Consider using '' @ multithread_safe_func @ ''...) instead of '' @ single_thread_func @
             ''...) for improved thread safety.''))) THREADING_LIST)"

definition VLOG :: string where
  "VLOG = raw ''`bVLOG`((INFO|ERROR|WARNING|DFATAL|FATAL)`)''"

definition CheckVlogArguments :: "string \<Rightarrow> cleansed \<Rightarrow> int \<Rightarrow> unit run" where
  "CheckVlogArguments fn clean_lines linenum =
     bind (py_nth (elided clean_lines) linenum) (\<lambda>line.
     when_do (found VLOG line)
       (report fn linenum ''runtime/vlog'' 5
          (''VLOG() should be used with numeric verbosity level.  '' @
           ''Use LOG() if you want symbolic severity levels.'')))"

definition INVALID_INCREMENT :: string where
  "INVALID_INCREMENT = raw ''^`s*`*`w+(`+`+|--);''"

definition CheckInvalidIncrement :: "string \<Rightarrow> cleansed \<Rightarrow> int \<Rightarrow> unit run" where
  "CheckInvalidIncrement fn clean_lines linenum =
     bind (py_nth (elided clean_lines) linenum) (\<lambda>line.
     when_do (matches INVALID_INCREMENT line)
       (report fn linenum ''runtime/invalid_increment'' 5
          ''Changing pointer instead of value (or unused value of operator*).''))"

definition IsMacroDefinition :: "string list \<Rightarrow> int \<Rightarrow> bool run" where
  "IsMacroDefinition ls linenum =
     bind (py_nth ls linenum) (\<lambda>line.
     if found ''^#define'' line then ret True
     else if linenum > 0 then bind (py_nth ls (linenum - 1)) (\<lambda>prev. ret (found (raw ''``$'') prev))
     else ret False)"

definition IsForwardClassDeclaration :: "string list \<Rightarrow> int \<Rightarrow> bool run" where
  "IsForwardClassDeclaration ls linenum =
     bind (py_nth ls linenum) (\<lambda>line. ret (matches (raw ''^`s*(`btemplate`b)*.*class`s+`w+;`s*$'') line))"

section \<open>Facts\<close>

lemma needs_threading: "list_all (\<lambda>(a, b, p). needs p (CHR ''('')) THREADING_LIST"
  by code_simp

text \<open>A line without an opening parenthesis calls none of the thread-unsafe functions: the check is
  silent.\<close>

theorem posix_threading_needs_call:
  assumes "0 \<le> n" and "n < py_len (elided cl)" and "CHR ''('' \<notin> set (elided cl ! nat n)"
  shows "CheckPosixThreading fn cl n = ret ()"
proof -
  have silent: "(\<forall>x \<in> set xs. f x = ret ()) \<Longrightarrow> for_each f xs = ret ()" for f :: "'a \<Rightarrow> unit run" and xs
    by (induction xs) auto
  have no: "\<not> found p (elided cl ! nat n)" if "(a, b, p) \<in> set THREADING_LIST" for a b p
    using that needs_threading assms(3) found_needs [of p] unfolding list_all_iff by fastforce
  have "py_nth (elided cl) n = ret (elided cl ! nat n)"
    using assms by (simp add: py_nth_ret py_len_def)
  then show ?thesis unfolding CheckPosixThreading_def using no
    by (simp only: bind_ret) (rule silent, auto)
qed

theorem posix_threading_needs_call_witness:
  "CheckPosixThreading ''a.cc'' \<lparr>elided = [''int rand;''], line_list = [], raw_lines = [], num_lines = 1,
     lines_without_raw_strings = []\<rparr> 0 = ret ()"
  by (rule posix_threading_needs_call) (simp_all add: py_len_def)

end
