(* ===== verification/Class_Checks.thy ===== *)
theory Class_Checks
  imports Nesting Function_State Line_Checks
begin

text \<open>
  Checks around classes, namespaces and functions: \<open>CheckForNonStandardConstructs\<close> with its analysis of
  constructors, the indentation of namespace members, and the length of functions.
\<close>

section \<open>Scanning lines by index\<close>

text \<open>The loops that read \<open>lines[i]\<close> from \<open>i\<close> on in steps of \<open>d\<close>, at most \<open>n\<close> times, up to the first
  line with \<open>P\<close>.\<close>

fun scan_lines :: "(string \<Rightarrow> bool) \<Rightarrow> string list \<Rightarrow> int \<Rightarrow> int \<Rightarrow> nat \<Rightarrow> (int \<times> string) option run" where
  "scan_lines P ls i d 0 = ret None"
| "scan_lines P ls i d (Suc n) =
     bind (py_nth ls i) (\<lambda>l. if P l then ret (Some (i, l)) else scan_lines P ls (i + d) d n)"

section \<open>Non-standard constructs\<close>

text \<open>The arguments of a constructor after \<open>split(',')\<close>: an argument with more opening than closing
  brackets takes the next one over, and \<open>constructor_args[i + 1]\<close> raises when there is none.\<close>

definition unbalanced :: "string \<Rightarrow> bool" where
  "unbalanced arg \<longleftrightarrow> py_count arg ''<'' > py_count arg ''>'' \<or> py_count arg ''('' > py_count arg '')''"

fun collapse_args :: "string list \<Rightarrow> string list run" where
  "collapse_args [] = ret []"
| "collapse_args [arg] = (if unbalanced arg then raise IndexError else ret [arg])"
| "collapse_args (arg # next_arg # rest) =
     (if unbalanced arg then collapse_args ((arg @ '','' @ next_arg) # rest)
      else bind (collapse_args (next_arg # rest)) (\<lambda>args. ret (arg # args)))"

definition CONSTRUCTOR :: "string \<Rightarrow> string" where
  "CONSTRUCTOR name = raw ''`s+(?:(?:inline|constexpr)`s+)*(explicit`s+)?(?:(?:inline|constexpr)`s+)*'' @
     re_escape name @ raw ''`s*`(((?:[^()]|`([^()]*`))*)`)''"

definition COPY_ARG :: "string \<Rightarrow> string" where
  "COPY_ARG name = raw ''(const`s+)?'' @ re_escape name @ raw ''(`s*<[^>]*>)?(`s+const)?`s*(?:<`w+>`s*)?&''"

text \<open>The arguments as the check classifies them.\<close>

definition noarg_constructor :: "string list \<Rightarrow> bool" where
  "noarg_constructor args \<longleftrightarrow> args = [] \<or> (length args = 1 \<and> strip (hd args) = ''void'')"

definition defaulted_args :: "string list \<Rightarrow> string list" where
  "defaulted_args args = filter (\<lambda>arg. contains arg ''='') args"

definition variadic_args :: "string list \<Rightarrow> string list" where
  "variadic_args args = filter (\<lambda>arg. contains arg ''&&...'') args"

definition onearg_constructor :: "string list \<Rightarrow> bool" where
  "onearg_constructor args \<longleftrightarrow>
     (length args = 1 \<and> \<not> noarg_constructor args) \<or>
     (length args \<ge> 1 \<and> \<not> noarg_constructor args \<and> int (length (defaulted_args args)) \<ge> int (length args) - 1) \<or>
     (length args \<le> 2 \<and> length (variadic_args args) \<ge> 1)"

text \<open>The report on a constructor whose arguments are \<open>args\<close>; \<open>hd\<close> is only read when there is one.\<close>

definition explicit_report :: "string \<Rightarrow> int \<Rightarrow> string \<Rightarrow> bool \<Rightarrow> string list \<Rightarrow> unit run" where
  "explicit_report fn linenum base_classname is_marked_explicit args =
     (let onearg = onearg_constructor args;
          initializer_list_constructor = (onearg \<and> found (raw ''`bstd`s*::`s*initializer_list`b'') (hd args));
          copy_constructor = (onearg \<and> matches (COPY_ARG base_classname) (strip (hd args)))
      in if \<not> is_marked_explicit \<and> onearg \<and> \<not> initializer_list_constructor \<and> \<not> copy_constructor then
           (if defaulted_args args \<noteq> [] \<or> variadic_args args \<noteq> [] then
              report fn linenum ''runtime/explicit'' 5
                ''Constructors callable with one argument should be marked explicit.''
            else
              report fn linenum ''runtime/explicit'' 5
                ''Single-parameter constructors should be marked explicit.'')
         else if is_marked_explicit \<and> \<not> onearg then
           when_do (noarg_constructor args)
             (report fn linenum ''runtime/explicit'' 5
                ''Zero-parameter constructors should not be marked explicit.'')
         else ret ())"

definition constructor_checks :: "string \<Rightarrow> int \<Rightarrow> string \<Rightarrow> string \<Rightarrow> unit run" where
  "constructor_checks fn linenum base_classname line =
     (case Match (CONSTRUCTOR base_classname) line of
        None \<Rightarrow> ret ()
      | Some m \<Rightarrow>
          bind (collapse_args (if group m 2 = [] then [] else split_on (CHR '','') (group m 2))) (\<lambda>args.
          explicit_report fn linenum base_classname (group m 1 \<noteq> []) args))"

text \<open>\<open>name.split('::')[-1]\<close>: the text after the last \<open>::\<close> of a scan from the left.\<close>

fun base_name_from :: "string \<Rightarrow> string \<Rightarrow> string" where
  "base_name_from acc (a # b # rest) =
     (if a = CHR '':'' \<and> b = CHR '':'' then base_name_from [] rest else base_name_from (acc @ [a]) (b # rest))"
| "base_name_from acc rest = acc @ rest"

definition base_name_of :: "string \<Rightarrow> string" where
  "base_name_of name = base_name_from [] name"

definition STORAGE_CLASS :: string where
  "STORAGE_CLASS = raw ''`b(const|volatile|void|char|short|int|long|float|double|signed|unsigned'' @
     raw ''|schar|u?int8|u?int16|u?int32|u?int64)`s+(register|static|extern|typedef)`b''"

definition MIN_MAX_OPERATOR :: string where
  "MIN_MAX_OPERATOR = raw ''(`w+|[+-]?`d+(`.`d*)?)`s*(<|>)`?=?`s*(`w+|[+-]?`d+)(`.`d*)?''"

text \<open>The reports on the line itself, before the class is looked at.\<close>

definition nonstandard_line :: "string \<Rightarrow> int \<Rightarrow> string \<Rightarrow> string \<Rightarrow> unit run" where
  "nonstandard_line fn linenum line elided_line =
     (seq (when_do (found (raw ''printf`s*`(.*'' @ [dquote] @ raw ''.*%[-+ ]?`d*q'') line)
            (report fn linenum ''runtime/printf_format'' 3 ''%q in format strings is deprecated.  Use %ll instead.''))
     (seq (when_do (found (raw ''printf`s*`(.*'' @ [dquote] @ raw ''.*%`d+`$'') line)
            (report fn linenum ''runtime/printf_format'' 2
               ''%N$ formats are unconventional.  Try rewriting to avoid them.''))
     (seq (when_do (found (''('' @ [dquote] @ ''|'' @ [backslash, squote] @ raw '').*``(%|`[|`(|{)'')
                     (py_replace line [backslash, backslash] []))
            (report fn linenum ''build/printf_format'' 3
               ''%, [, (, and { are undefined character escapes.  Unescape them.''))
     (seq (when_do (found STORAGE_CLASS elided_line)
            (report fn linenum ''build/storage_class'' 5
               (''Storage-class specifier (static, extern, typedef, etc) should be '' @
                ''at the beginning of the declaration.'')))
     (seq (when_do (matches (raw ''`s*#`s*endif`s*[^/`s]+'') elided_line)
            (report fn linenum ''build/endif_comment'' 5
               ''Uncommented text after #endif is non-standard.  Use a comment.''))
     (seq (when_do (matches (raw ''`s*class`s+(`w+`s*::`s*)+`w+`s*;'') elided_line)
            (report fn linenum ''build/forward_decl'' 5
               ''Inner-style forward declarations are invalid.  Remove this line.''))
     (seq (when_do (found MIN_MAX_OPERATOR elided_line)
            (report fn linenum ''build/deprecated'' 3
               ''>? and <? (max and min) operators are non-standard and deprecated.''))
     (when_do (found (raw ''^`s*const`s*string`s*&`s*`w+`s*;'') elided_line)
            (report fn linenum ''runtime/member_string_references'' 2
               (''const string& members are dangerous. It is much better to use '' @
                ''alternatives, such as pointers or simple constants.''))))))))))"

definition CheckForNonStandardConstructs :: "string \<Rightarrow> cleansed \<Rightarrow> int \<Rightarrow> nesting \<Rightarrow> unit run" where
  "CheckForNonStandardConstructs fn clean_lines linenum nesting_state =
     bind (py_nth (line_list clean_lines) linenum) (\<lambda>line.
     bind (py_nth (elided clean_lines) linenum) (\<lambda>elided_line.
     seq (nonstandard_line fn linenum line elided_line)
     (case InnermostClass nesting_state of
        None \<Rightarrow> ret ()
      | Some classinfo \<Rightarrow>
          (case kind classinfo of
             ClassInfo d \<Rightarrow>
               when_do (seen_open_brace classinfo)
                 (constructor_checks fn linenum (base_name_of (class_name d)) elided_line)
           | _ \<Rightarrow> ret ()))))"

section \<open>Indentation in namespaces\<close>

definition IsBlockInNameSpace :: "nesting \<Rightarrow> bool \<Rightarrow> bool" where
  "IsBlockInNameSpace st is_forward_declaration =
     (if is_forward_declaration then stack st \<noteq> [] \<and> is_namespace (kind (last (stack st)))
      else length (stack st) > 1 \<and> check_namespace_indentation (last (stack st)) \<and>
           is_namespace (kind (last (butlast (stack st)))))"

definition ShouldCheckNamespaceIndentation :: "nesting \<Rightarrow> bool \<Rightarrow> string list \<Rightarrow> int \<Rightarrow> bool run" where
  "ShouldCheckNamespaceIndentation st is_namespace_indent_item lines linenum =
     bind (IsForwardClassDeclaration lines linenum) (\<lambda>is_forward_declaration.
     if \<not> (is_namespace_indent_item \<or> is_forward_declaration) then ret False
     else bind (IsMacroDefinition lines linenum) (\<lambda>macro.
       ret (\<not> macro \<and> IsBlockInNameSpace st is_forward_declaration)))"

definition CheckItemIndentationInNamespace :: "string \<Rightarrow> string list \<Rightarrow> int \<Rightarrow> unit run" where
  "CheckItemIndentationInNamespace fn lines linenum =
     bind (py_nth lines linenum) (\<lambda>line.
     when_do (matches (raw ''^`s+'') line)
       (report fn linenum ''runtime/indentation_namespace'' 4 ''Do not indent within a namespace''))"

definition CheckForNamespaceIndentation :: "string \<Rightarrow> nesting \<Rightarrow> cleansed \<Rightarrow> int \<Rightarrow> unit run" where
  "CheckForNamespaceIndentation fn st clean_lines linenum =
     (let is_namespace_indent_item =
            (length (stack st) > 1 \<and> check_namespace_indentation (last (stack st)) \<and>
             (case previous_stack_top st of None \<Rightarrow> False
              | Some b \<Rightarrow> is_namespace (kind b) \<and> oid b = oid (last (butlast (stack st)))))
      in bind (ShouldCheckNamespaceIndentation st is_namespace_indent_item (elided clean_lines) linenum) (\<lambda>should.
         when_do should (CheckItemIndentationInNamespace fn (elided clean_lines) linenum)))"

section \<open>Function lengths\<close>

definition FUNCTION_START :: string where
  "FUNCTION_START = raw ''(`w(`w|::|`*|`&|`s)*)`(''"

text \<open>The name \<open>Begin\<close> is called with, from the line and the text joined so far.\<close>

definition function_label :: "string \<Rightarrow> string \<Rightarrow> string run" where
  "function_label line joined_line =
     (case Search (raw ''((`w|:)*)`('') line of
        None \<Rightarrow> raise AttributeError
      | Some m \<Rightarrow>
          (let function = group m 1 in
           ret (if matches ''TEST'' function then
                  (case Search (raw ''(`(.*`))'') joined_line of None \<Rightarrow> function
                   | Some p \<Rightarrow> function @ group p 1)
                else function @ ''()'')))"

text \<open>The loop over the lines from the start on: whether a body or a declaration was found.\<close>

fun find_body :: "string \<Rightarrow> string \<Rightarrow> string list \<Rightarrow> function_state \<Rightarrow> (bool \<times> function_state) run" where
  "find_body line joined_line [] st = ret (False, st)"
| "find_body line joined_line (start_line # rest) st =
     (let joined_line' = joined_line @ '' '' @ lstrip start_line in
      if found ''(;|})'' start_line then ret (True, st)
      else if found ''{'' start_line then
        bind (function_label line joined_line') (\<lambda>function. ret (True, FBegin function st))
      else find_body line joined_line' rest st)"

text \<open>Whether the line starts a function: the name before the parenthesis is not all capitals.\<close>

definition starts_function :: "string \<Rightarrow> bool run" where
  "starts_function line =
     (case Match FUNCTION_START line of
        None \<Rightarrow> ret False
      | Some m \<Rightarrow> bind (py_nth (split_ws (group m 1)) (- 1)) (\<lambda>function_name.
          ret (function_name = ''TEST'' \<or> function_name = ''TEST_F'' \<or> \<not> matches ''[A-Z_]+$'' function_name)))"

definition CheckForFunctionLengths :: "int \<Rightarrow> string \<Rightarrow> cleansed \<Rightarrow> int \<Rightarrow> function_state \<Rightarrow> function_state run" where
  "CheckForFunctionLengths verbosity fn clean_lines linenum st =
     bind (py_nth (line_list clean_lines) linenum) (\<lambda>line.
     bind (starts_function line) (\<lambda>starting_func.
     if starting_func then
       bind (find_body line [] (slice (line_list clean_lines) linenum (NumLines clean_lines)) st) (\<lambda>(body_found, st').
       seq (when_do (\<not> body_found)
              (report fn linenum ''readability/fn_size'' 5 ''Lint failed to find start of function body.''))
           (ret st'))
     else if matches (raw ''^`}`s*$'') line then
       seq (FCheck verbosity fn linenum st) (ret (FEnd st))
     else ret (if \<not> matches (raw ''^`s*$'') line then FCount st else st)))"

end
