(* ===== verification/Spacing.thy ===== *)
theory Spacing
  imports Class_Checks
begin

text \<open>
  The whitespace checks: spacing in function calls, comments, blank lines, around operators,
  parentheses, commas and braces, and between the sections of a class.
\<close>

definition IsBlankLine :: "string \<Rightarrow> bool" where
  "IsBlankLine line \<longleftrightarrow> line = [] \<or> isspace line"

text \<open>\<open>string.whitespace\<close> and \<open>str.isdigit\<close>.\<close>

definition ascii_whitespace :: string where
  "ascii_whitespace = [CHR '' '', CHR 0x09, CHR 0x0A, CHR 0x0D, CHR 0x0B, CHR 0x0C]"

definition isdigit :: "string \<Rightarrow> bool" where
  "isdigit s \<longleftrightarrow> s \<noteq> [] \<and> list_all (\<lambda>c. py_digit c \<or> c \<in> {CHR 0xB2, CHR 0xB3, CHR 0xB9}) s"

section \<open>Function calls\<close>

text \<open>The text to look for calls in: the inside of the first control construct that matches.\<close>

definition CONTROL_PATTERNS :: "string list" where
  "CONTROL_PATTERNS = [raw ''`bif`s*`((.*)`)`s*{'', raw ''`bfor`s*`((.*)`)`s*{'',
     raw ''`bwhile`s*`((.*)`)`s*[{;]'', raw ''`bswitch`s*`((.*)`)`s*{'']"

fun call_text :: "string \<Rightarrow> string list \<Rightarrow> string" where
  "call_text line [] = line"
| "call_text line (pattern # rest) =
     (case Search pattern line of Some m \<Rightarrow> group m 1 | None \<Rightarrow> call_text line rest)"

definition not_a_call :: "string \<Rightarrow> bool" where
  "not_a_call fncall \<longleftrightarrow>
     found (raw ''`b(if|for|while|switch|return|new|delete|catch|sizeof)`b'') fncall \<or>
     found (raw '' `([^)]+`)`([^)]*(`)|,$)'') fncall \<or>
     found (raw '' `([^)]+`)`[[^`]]+`]'') fncall"

definition space_before_call :: "string \<Rightarrow> bool" where
  "space_before_call fncall \<longleftrightarrow>
     found (raw ''`w`s+`('') fncall \<and>
     \<not> found (raw ''_{0,2}asm_{0,2}`s+_{0,2}volatile_{0,2}`s+`('') fncall \<and>
     \<not> found (raw ''#`s*define|typedef|using`s+`w+`s*='') fncall \<and>
     \<not> found (raw ''`w`s+`((`w+::)*`*`w+`)`('') fncall \<and>
     \<not> found (raw ''`bcase`s+`('') fncall"

definition CheckSpacingForFunctionCall :: "string \<Rightarrow> cleansed \<Rightarrow> int \<Rightarrow> unit run" where
  "CheckSpacingForFunctionCall fn clean_lines linenum =
     bind (py_nth (elided clean_lines) linenum) (\<lambda>line.
     let fncall = call_text line CONTROL_PATTERNS in
     when_do (\<not> not_a_call fncall)
       (seq (if found (raw ''`w`s*`(`s(?!`s*``$)'') fncall then
               report fn linenum ''whitespace/parens'' 4 ''Extra space after ( in function call''
             else when_do (found (raw ''`(`s+(?!(`s*``)|`()'') fncall)
               (report fn linenum ''whitespace/parens'' 2 ''Extra space after (''))
       (seq (when_do (space_before_call fncall)
               (report fn linenum ''whitespace/parens'' (if found (raw ''`boperator_*`b'') line then 0 else 4)
                  ''Extra space before ( in function call''))
            (when_do (found (raw ''[^)]`s+`)`s*[^{`s]'') fncall)
               (report fn linenum ''whitespace/parens'' 2
                  (if found (raw ''^`s+`)'') fncall then ''Closing ) should be moved to the previous line''
                   else ''Extra space before )''))))))"

section \<open>Comments\<close>

definition PATTERN_TODO :: string where
  "PATTERN_TODO = raw ''^//(`s*)TODO(`(.+?`))?:?(`s|$)?''"

definition todo_checks :: "string \<Rightarrow> int \<Rightarrow> string \<Rightarrow> unit run" where
  "todo_checks fn linenum comment =
     (case Match PATTERN_TODO comment of
        None \<Rightarrow> ret ()
      | Some m \<Rightarrow>
          seq (when_do (length (group m 1) > 1)
                 (report fn linenum ''whitespace/todo'' 2 ''Too many spaces before TODO''))
         (seq (when_do (group m 2 = [])
                 (report fn linenum ''readability/todo'' 2
                    (''Missing username in TODO; it should look like '' @ [dquote] @
                     ''// TODO(my_username): Stuff.'' @ [dquote])))
              (when_do (group_opt m 3 \<noteq> Some '' '' \<and> group_opt m 3 \<noteq> Some [])
                 (report fn linenum ''whitespace/todo'' 2 ''TODO(my_username) should be followed by a space''))))"

text \<open>Whether the slashes at \<open>commentpos\<close> are too close to code.\<close>

definition close_to_code :: "string \<Rightarrow> int \<Rightarrow> int \<Rightarrow> bool" where
  "close_to_code line commentpos next_line_start \<longleftrightarrow>
     \<not> (matches ''^.*{ *//'' line \<and> next_line_start = commentpos) \<and>
     ((commentpos \<ge> 1 \<and> line ! nat (commentpos - 1) \<notin> set ascii_whitespace) \<or>
      (commentpos \<ge> 2 \<and> line ! nat (commentpos - 2) \<notin> set ascii_whitespace))"

definition CheckComment :: "string \<Rightarrow> string \<Rightarrow> int \<Rightarrow> int \<Rightarrow> unit run" where
  "CheckComment line fn linenum next_line_start =
     (let commentpos = py_find line ''//'' in
      if commentpos \<noteq> - 1 \<and> even (py_count (ReplaceAll (raw ''``.'') [] (slice line 0 commentpos)) [dquote]) then
        (let comment = slice_from line commentpos in
         seq (when_do (close_to_code line commentpos next_line_start)
                (report fn linenum ''whitespace/comments'' 2 ''At least two spaces is best between code and comments''))
        (seq (todo_checks fn linenum comment)
             (when_do (matches (raw ''//[^ ]*`w'') comment \<and> \<not> matches (raw ''(///|//`!)(`s+|$)'') comment)
                (report fn linenum ''whitespace/comments'' 4 ''Should have a space between // and comment''))))
      else ret ())"

section \<open>Blank lines and the rest of \<open>CheckSpacing\<close>\<close>

text \<open>The exception to the rule on a blank line after an opening brace: the line before it ends a
  function header or an initializer list.\<close>

definition blank_line_exception :: "string list \<Rightarrow> int \<Rightarrow> string \<Rightarrow> bool run" where
  "blank_line_exception elided_lines linenum prev_line =
     (if matches (raw '' {6}`w'') prev_line then
        bind (scan_lines (\<lambda>l. \<not> matches (raw '' {6}`w'') l) elided_lines (linenum - 2) (- 1) (nat (linenum - 1))) (\<lambda>r.
          ret (case r of None \<Rightarrow> False | Some (_, l) \<Rightarrow> take 5 l = ''    :''))
      else ret (matches (raw '' {4}`w[^`(]*`)`s*(const`s*)?(`{`s*$|:)'') prev_line \<or> matches '' {4}:'' prev_line))"

definition blank_line_checks :: "string \<Rightarrow> cleansed \<Rightarrow> int \<Rightarrow> unit run" where
  "blank_line_checks fn clean_lines linenum =
     bind (py_nth (elided clean_lines) (linenum - 1)) (\<lambda>prev_line.
     let prevbrace = py_rfind prev_line (CHR ''{'') in
     seq (if prevbrace \<noteq> - 1 \<and> py_find (slice_from prev_line prevbrace) ''}'' = - 1 then
            bind (blank_line_exception (elided clean_lines) linenum prev_line) (\<lambda>exception.
            when_do (\<not> exception)
              (report fn linenum ''whitespace/blank_line'' 2
                 ''Redundant blank line at the start of a code block should be deleted.''))
          else ret ())
    (seq (if linenum + 1 < NumLines clean_lines then
            bind (py_nth (lines_without_raw_strings clean_lines) (linenum + 1)) (\<lambda>next_line.
            when_do (next_line \<noteq> [] \<and> matches (raw ''`s*}'') next_line \<and> py_find next_line ''} else '' = - 1)
              (report fn linenum ''whitespace/blank_line'' 3
                 ''Redundant blank line at the end of a code block should be deleted.''))
          else ret ())
         (case Match (raw ''`s*(public|protected|private):'') prev_line of
            None \<Rightarrow> ret ()
          | Some m \<Rightarrow> report fn linenum ''whitespace/blank_line'' 3
              (''Do not leave a blank line after '' @ [dquote] @ group m 1 @ '':'' @ [dquote]))))"

definition CheckSpacing :: "string \<Rightarrow> cleansed \<Rightarrow> int \<Rightarrow> nesting \<Rightarrow> unit run" where
  "CheckSpacing fn clean_lines linenum nesting_state =
     bind (py_nth (lines_without_raw_strings clean_lines) linenum) (\<lambda>raw_line.
     seq (when_do (IsBlankLine raw_line \<and> \<not> InNamespaceBody nesting_state \<and> \<not> InExternC nesting_state)
            (blank_line_checks fn clean_lines linenum))
     (bind (if linenum + 1 < NumLines clean_lines
            then bind (py_nth (lines_without_raw_strings clean_lines) (linenum + 1)) (\<lambda>next_line.
                   ret (py_len next_line - py_len (lstrip next_line)))
            else ret 0) (\<lambda>next_line_start.
      seq (CheckComment raw_line fn linenum next_line_start)
     (bind (py_nth (elided clean_lines) linenum) (\<lambda>line.
      seq (when_do (found (raw ''`w`s+`['') line \<and> \<not> found (raw ''(?:auto&?|delete|return)`s+`['') line)
             (report fn linenum ''whitespace/braces'' 5 ''Extra space before [''))
          (when_do (found (raw ''for *`(.*[^:]:[^: ]'') line \<or> found (raw ''for *`(.*[^: ]:[^:]'') line)
             (report fn linenum ''whitespace/forcolon'' 2
                ''Missing space around colon in range-based for loop'')))))))"

end
