(* ===== verification/Brace_Spacing.thy ===== *)
theory Brace_Spacing
  imports Spacing
begin

text \<open>
  Spacing around braces, with the search for a type name in the enclosing blocks (\<open>_IsType\<close>), blank
  lines before the sections of a class, and the search for the previous line with text.
\<close>

section \<open>Types\<close>

definition last_word :: "string \<Rightarrow> string" where
  "last_word expr = (case Match (raw ''^.*(`b`S+)$'') expr of None \<Rightarrow> expr | Some m \<Rightarrow> group m 1)"

definition typename_pattern :: "string \<Rightarrow> string" where
  "typename_pattern token = raw ''`b(?:typename|class|struct)`s+'' @ re_escape token @ raw ''`b''"

text \<open>The walk down the nesting stack, innermost block first: per block, back from its first line to
  the word \<open>template\<close>, then forward again for a declaration of the type.\<close>

fun declared_in_blocks :: "string \<Rightarrow> string list \<Rightarrow> block list \<Rightarrow> bool run" where
  "declared_in_blocks pattern lines [] = ret False"
| "declared_in_blocks pattern lines (b # below) =
     (if is_namespace (kind b) then ret False
      else
        (let last_line = starting_linenum b;
             next_block_start = (case below of [] \<Rightarrow> 0 | b' # _ \<Rightarrow> starting_linenum b')
         in bind (scan_lines (\<lambda>l. py_find l ''template'' \<ge> 0) lines last_line (- 1)
                    (nat (last_line - next_block_start + 1))) (\<lambda>start.
            case start of
              None \<Rightarrow> declared_in_blocks pattern lines below
            | Some (first_line, _) \<Rightarrow>
                bind (scan_lines (found pattern) lines first_line 1 (nat (last_line + 1 - first_line))) (\<lambda>hit.
                  case hit of Some _ \<Rightarrow> ret True | None \<Rightarrow> declared_in_blocks pattern lines below))))"

definition IsType :: "cleansed \<Rightarrow> nesting \<Rightarrow> string \<Rightarrow> bool run" where
  "IsType clean_lines nesting_state expr =
     (let token = last_word expr in
      if matches TYPES token then ret True
      else declared_in_blocks (typename_pattern token) (elided clean_lines) (rev (stack nesting_state)))"

section \<open>\<open>CheckBracesSpacing\<close>\<close>

text \<open>The text after the closing brace, with up to two more lines.\<close>

definition trailing_text :: "cleansed \<Rightarrow> string \<times> int \<times> int \<Rightarrow> string" where
  "trailing_text clean_lines p = (case p of (endline, endlinenum, endpos) \<Rightarrow>
     (if endpos > - 1 then slice_from endline endpos else []) @
     concat (slice (elided clean_lines) (endlinenum + 1) (min (endlinenum + 3) (NumLines clean_lines - 1))))"

definition missing_space_before_brace :: "string \<Rightarrow> cleansed \<Rightarrow> int \<Rightarrow> nesting \<Rightarrow> string \<Rightarrow> unit run" where
  "missing_space_before_brace fn clean_lines linenum nesting_state line =
     (case Match ''^(.*[^ ({>]){'' line of
        None \<Rightarrow> ret ()
      | Some m \<Rightarrow>
          bind (CloseExpression clean_lines linenum (py_len (group m 1))) (\<lambda>p.
          if matches (raw ''^[`s}]*[{.;,)<>`]:]'') (trailing_text clean_lines p) then ret ()
          else bind (IsType clean_lines nesting_state (group m 1)) (\<lambda>is_type.
            when_do (\<not> is_type) (report fn linenum ''whitespace/braces'' 5 ''Missing space before {''))))"

definition CheckBracesSpacing :: "string \<Rightarrow> cleansed \<Rightarrow> int \<Rightarrow> nesting \<Rightarrow> unit run" where
  "CheckBracesSpacing fn clean_lines linenum nesting_state =
     bind (py_nth (elided clean_lines) linenum) (\<lambda>line.
     seq (missing_space_before_brace fn clean_lines linenum nesting_state line)
    (seq (when_do (found ''}else'' line)
            (report fn linenum ''whitespace/braces'' 5 ''Missing space before else''))
         (if found (raw '':`s*;`s*$'') line then
            report fn linenum ''whitespace/semicolon'' 5
              ''Semicolon defining empty statement. Use {} instead.''
          else if found (raw ''^`s*;`s*$'') line then
            report fn linenum ''whitespace/semicolon'' 5
              (''Line contains only semicolon. If this should be an empty statement, '' @ ''use {} instead.'')
          else when_do (found (raw ''`s+;`s*$'') line \<and> \<not> found (raw ''`bfor`b'') line)
            (report fn linenum ''whitespace/semicolon'' 5
               (''Extra space before last semicolon. If this should be an empty '' @ ''statement, use {} instead.'')))))"

definition IsDecltype :: "cleansed \<Rightarrow> int \<Rightarrow> int \<Rightarrow> bool run" where
  "IsDecltype clean_lines linenum column =
     bind (ReverseCloseExpression clean_lines linenum column) (\<lambda>(text, _, start_col).
     ret (start_col \<ge> 0 \<and> found (raw ''`bdecltype`s*$'') (slice text 0 start_col)))"

section \<open>Sections of a class\<close>

text \<open>The class is given by the first line and the data of its block.\<close>

definition CheckSectionSpacing :: "string \<Rightarrow> cleansed \<Rightarrow> int \<Rightarrow> class_data \<Rightarrow> int \<Rightarrow> unit run" where
  "CheckSectionSpacing fn clean_lines start d linenum =
     (if last_line d - start \<le> 24 \<or> linenum \<le> start then ret ()
      else bind (py_nth (line_list clean_lines) linenum) (\<lambda>line.
        case Match (raw ''`s*(public|protected|private):'') line of
          None \<Rightarrow> ret ()
        | Some m \<Rightarrow>
            bind (py_nth (line_list clean_lines) (linenum - 1)) (\<lambda>prev_line.
            if \<not> IsBlankLine prev_line \<and> \<not> found (raw ''`b(class|struct)`b'') prev_line \<and>
               \<not> found (raw ''``$'') prev_line then
              bind (scan_lines (found (raw ''`{`s*$'')) (line_list clean_lines) start 1 (nat (linenum - start))) (\<lambda>r.
              let end_class_head = (case r of None \<Rightarrow> start | Some (i, _) \<Rightarrow> i) in
              when_do (end_class_head < linenum - 1)
                (report fn linenum ''whitespace/blank_line'' 3
                   ([dquote] @ group m 1 @ '':'' @ [dquote] @ '' should be preceded by a blank line'')))
            else ret ())))"

definition GetPreviousNonBlankLine :: "cleansed \<Rightarrow> int \<Rightarrow> (string \<times> int) run" where
  "GetPreviousNonBlankLine clean_lines linenum =
     bind (scan_lines (\<lambda>l. \<not> IsBlankLine l) (elided clean_lines) (linenum - 1) (- 1) (nat linenum)) (\<lambda>r.
     ret (case r of None \<Rightarrow> ([], - 1) | Some (i, l) \<Rightarrow> (l, i)))"

end
