(* ===== verification/Statements.thy ===== *)
theory Statements
  imports Brace_Spacing
begin

text \<open>
  The checks on the shape of statements: placement of braces and bodies of conditionals
  (\<open>CheckBraces\<close>), redundant semicolons after a block, and empty bodies.
\<close>

section \<open>Line width\<close>

text \<open>The normal form of Latin-1 text is the text; none of its characters is wide or combining.\<close>

definition wide_char :: "char \<Rightarrow> bool" where "wide_char c = False"
definition combining_char :: "char \<Rightarrow> bool" where "combining_char c = False"

fun GetLineWidth :: "string \<Rightarrow> int" where
  "GetLineWidth [] = 0"
| "GetLineWidth (uc # ucs) =
     (if wide_char uc then 2 else if \<not> combining_char uc then 1 else 0) + GetLineWidth ucs"

section \<open>\<open>CheckBraces\<close>\<close>

definition brace_on_own_line :: "opts \<Rightarrow> string \<Rightarrow> cleansed \<Rightarrow> int \<Rightarrow> string \<Rightarrow> unit run" where
  "brace_on_own_line o' fn clean_lines linenum line =
     (if matches (raw ''`s*{`s*$'') line then
        bind (GetPreviousNonBlankLine clean_lines linenum) (\<lambda>(prevline, _).
        when_do (\<not> found (raw ''[,;:}{(]`s*$'') prevline \<and> \<not> matches (raw ''`s*#'') prevline \<and>
                 \<not> (GetLineWidth prevline > max_line_length o' - 2 \<and> contains prevline ''[]''))
          (report fn linenum ''whitespace/braces'' 4
             ''{ should almost always be at the end of the previous line''))
      else ret ())"

definition else_on_own_line :: "string \<Rightarrow> cleansed \<Rightarrow> int \<Rightarrow> string \<Rightarrow> unit run" where
  "else_on_own_line fn clean_lines linenum line =
     (if matches (raw ''`s*else`b`s*(?:if`b|`{|$)'') line then
        bind (GetPreviousNonBlankLine clean_lines linenum) (\<lambda>(prevline, _).
        when_do (matches (raw ''`s*}`s*$'') prevline)
          (report fn linenum ''whitespace/newline'' 4
             ''An else should appear on the same line as the preceding }''))
      else ret ())"

definition BOTH_SIDES :: string where
  "BOTH_SIDES = ''If an else has a brace on one side, it should have it on both''"

definition else_braces :: "string \<Rightarrow> cleansed \<Rightarrow> int \<Rightarrow> string \<Rightarrow> unit run" where
  "else_braces fn clean_lines linenum line =
     (if found (raw ''else if`s*`('') line then
        (let brace_on_left = found (raw ''}`s*else if`s*`('') line;
             pos = py_find_from line ''('' (py_find line ''else if'')
         in if pos > 0 then
              bind (CloseExpression clean_lines linenum pos) (\<lambda>(endline, _, endpos).
              let brace_on_right = (py_find (slice_from endline endpos) ''{'' \<noteq> - 1) in
              when_do (brace_on_left \<noteq> brace_on_right) (report fn linenum ''readability/braces'' 5 BOTH_SIDES))
            else ret ())
      else when_do (found (raw ''}`s*else[^{]*$'') line \<or> matches (raw ''[^}]*else`s*{'') line)
        (report fn linenum ''readability/braces'' 5 BOTH_SIDES))"

text \<open>The loop to the line with the semicolon: its number, the number of lines when there is none.\<close>

fun semicolon_line :: "string list \<Rightarrow> int \<Rightarrow> int \<Rightarrow> int" where
  "semicolon_line [] endpos endlinenum = endlinenum"
| "semicolon_line (l # rest) endpos endlinenum =
     (if contains (slice_from l endpos) '';'' then endlinenum else semicolon_line rest 0 (endlinenum + 1))"

definition LAMBDA_TAIL :: string where
  "LAMBDA_TAIL = raw ''^[^{};]*`[[^`[`]]*`][^{}]*`{[^{}]*`}`s*`)*[;,]`s*$''"

definition MULTIPLE_STATEMENTS :: string where
  "MULTIPLE_STATEMENTS = ''If/else bodies with multiple statements require braces''"

text \<open>The body of a conditional without braces, whose condition ends at \<open>endpos\<close> of \<open>endlinenum\<close>.\<close>

definition unbraced_body :: "string \<Rightarrow> string list \<Rightarrow> int \<Rightarrow> bool \<Rightarrow> int \<Rightarrow> int \<Rightarrow> int \<Rightarrow> unit run" where
  "unbraced_body fn lines linenum is_if if_indent endlinenum endpos =
     (let n = semicolon_line (slice_from lines endlinenum) endpos endlinenum in
      if n < py_len lines then
        bind (py_nth lines n) (\<lambda>endline.
        let endpos = py_find endline '';'' in
        if \<not> matches (raw '';[`s}]*(``?)$'') (slice_from endline endpos) then
          when_do (\<not> matches LAMBDA_TAIL endline) (report fn linenum ''readability/braces'' 4 MULTIPLE_STATEMENTS)
        else if n < py_len lines - 1 then
          bind (py_nth lines (n + 1)) (\<lambda>next_line.
          let next_indent = GetIndentLevel next_line in
          if is_if \<and> matches (raw ''`s*else`b'') next_line \<and> next_indent \<noteq> if_indent then
            report fn linenum ''readability/braces'' 4
              (''Else clause should be indented at the same level as if. '' @
               ''Ambiguous nested if/else chains require braces.'')
          else when_do (next_indent > if_indent)
            (report fn linenum ''readability/braces'' 4 MULTIPLE_STATEMENTS))
        else ret ())
      else ret ())"

text \<open>Whether an opening brace follows, on the same line or on the next.\<close>

definition opens_body :: "string list \<Rightarrow> string \<Rightarrow> int \<Rightarrow> int \<Rightarrow> bool run" where
  "opens_body lines endline endlinenum endpos =
     (if matches (raw ''`s*{'') (slice_from endline endpos) then ret True
      else if matches (raw ''`s*$'') (slice_from endline endpos) \<and> endlinenum < py_len lines - 1 then
        bind (py_nth lines (endlinenum + 1)) (\<lambda>l. ret (matches (raw ''`s*{'') l))
      else ret False)"

definition single_statement :: "string \<Rightarrow> cleansed \<Rightarrow> int \<Rightarrow> string \<Rightarrow> unit run" where
  "single_statement fn clean_lines linenum line =
     (case Search (raw ''`b(if`s*`(|else`b)'') line of
        None \<Rightarrow> ret ()
      | Some if_else_match \<Rightarrow>
          if matches (raw ''`s*#'') line then ret ()
          else
            (let if_match = Search (raw ''`bif`s*`('') line in
             bind (case if_match of
                     None \<Rightarrow> ret (line, linenum, m_end if_else_match)
                   | Some m \<Rightarrow> CloseExpression clean_lines linenum (m_end m - 1)) (\<lambda>(endline, endlinenum, endpos).
             bind (opens_body (elided clean_lines) endline endlinenum endpos) (\<lambda>braced.
             if braced then ret ()
             else unbraced_body fn (elided clean_lines) linenum (if_match \<noteq> None) (GetIndentLevel line)
                    endlinenum endpos))))"

definition CheckBraces :: "opts \<Rightarrow> string \<Rightarrow> cleansed \<Rightarrow> int \<Rightarrow> unit run" where
  "CheckBraces o' fn clean_lines linenum =
     bind (py_nth (elided clean_lines) linenum) (\<lambda>line.
     seq (brace_on_own_line o' fn clean_lines linenum line)
    (seq (else_on_own_line fn clean_lines linenum line)
    (seq (else_braces fn clean_lines linenum line)
    (seq (when_do (found (raw ''`belse [^`s{]'') line \<and> \<not> found (raw ''`belse if`b'') line)
            (report fn linenum ''whitespace/newline'' 4
               ''Else clause should never be on same line as else (use 2 lines)''))
    (seq (when_do (matches (raw ''`s*do [^`s{]'') line)
            (report fn linenum ''whitespace/newline'' 4 ''do/while clauses should not be on a single line''))
         (single_statement fn clean_lines linenum line))))))"

section \<open>\<open>CheckTrailingSemicolon\<close>\<close>

definition SAFE_MACROS :: "string list" where
  "SAFE_MACROS = [''TEST'', ''TEST_F'', ''MATCHER'', ''MATCHER_P'', ''TYPED_TEST'',
     ''EXCLUSIVE_LOCKS_REQUIRED'', ''SHARED_LOCKS_REQUIRED'', ''LOCKS_EXCLUDED'', ''INTERFACE_DEF'']"

text \<open>The text before the parenthesis looks like a macro, a lambda, a literal or a \<open>decltype\<close>.\<close>

definition exempt_prefix :: "string \<Rightarrow> bool" where
  "exempt_prefix line_prefix \<longleftrightarrow>
     (case Search (raw ''`b([A-Z_][A-Z0-9_]*)`s*$'') line_prefix of
        None \<Rightarrow> False | Some macro \<Rightarrow> group macro 1 \<notin> set SAFE_MACROS) \<or>
     (case Match (raw ''^(.*`])`s*$'') line_prefix of
        None \<Rightarrow> False | Some func \<Rightarrow> \<not> found (raw ''`boperator`s*`[`s*`]'') (group func 1)) \<or>
     found (raw ''`b(?:struct|union)`s+alignas`s*$'') line_prefix \<or>
     found (raw ''`bdecltype$'') line_prefix \<or>
     found (raw ''`s+=`s*$'') line_prefix"

text \<open>The column of the opening brace whose block may not be followed by a semicolon.\<close>

definition semicolon_candidate :: "cleansed \<Rightarrow> int \<Rightarrow> string \<Rightarrow> int option run" where
  "semicolon_candidate clean_lines linenum line =
     (case Match (raw ''^(.*`)`s*)`{'') line of
        Some m \<Rightarrow>
          bind (ReverseCloseExpression clean_lines linenum (py_rfind (group m 1) (CHR '')''))) (\<lambda>(text, open_line, open_pos).
          if open_pos > - 1 \<and> exempt_prefix (slice text 0 open_pos) then ret None
          else if open_line > 1 then
            bind (py_nth (elided clean_lines) (open_line - 1)) (\<lambda>l.
            ret (if found (raw ''`]`s*$'') l then None else Some (py_len (group m 1))))
          else ret (Some (py_len (group m 1))))
      | None \<Rightarrow>
          (case Match (raw ''^(.*(?:else|`)`s*const)`s*)`{'') line of
             Some m \<Rightarrow> ret (Some (py_len (group m 1)))
           | None \<Rightarrow>
               bind (GetPreviousNonBlankLine clean_lines linenum) (\<lambda>(prevline, _).
               ret (if prevline \<noteq> [] \<and> found (raw ''[;{}]`s*$'') prevline
                    then map_option (\<lambda>m. py_len (group m 1)) (Match (raw ''^(`s*)`{'') line) else None))))"

definition CheckTrailingSemicolon :: "string \<Rightarrow> cleansed \<Rightarrow> int \<Rightarrow> unit run" where
  "CheckTrailingSemicolon fn clean_lines linenum =
     bind (py_nth (elided clean_lines) linenum) (\<lambda>line.
     bind (semicolon_candidate clean_lines linenum line) (\<lambda>candidate.
     case candidate of
       None \<Rightarrow> ret ()
     | Some pos \<Rightarrow>
         bind (CloseExpression clean_lines linenum pos) (\<lambda>(endline, endlinenum, endpos).
         if endpos > - 1 \<and> matches (raw ''^`s*;'') (slice_from endline endpos) then
           bind (py_nth (raw_lines clean_lines) (endlinenum - 1)) (\<lambda>ahead.
           seq (nolint fn ahead (endlinenum - 1))
          (bind (py_nth (raw_lines clean_lines) endlinenum) (\<lambda>at_end.
           seq (nolint fn at_end endlinenum)
             (report fn endlinenum ''readability/braces'' 4
                (''You don'' @ [squote] @ ''t need a ; after a }'')))))
         else ret ())))"

end
