(* ===== verification/Empty_Bodies.thy ===== *)
theory Empty_Bodies
  imports Statements
begin

text \<open>
  \<open>CheckEmptyBlockBody\<close>: loops and conditionals whose body is a semicolon, and \<open>if\<close> statements with an
  empty body and no \<open>else\<close>.
\<close>

text \<open>The loop to the opening brace: its line and the text of that line still to look at, or \<open>None\<close> when
  something else comes first.\<close>

fun find_opening :: "string list \<Rightarrow> int \<Rightarrow> string \<Rightarrow> (int \<times> string) option" where
  "find_opening rest opening_linenum fragment =
     (if found (raw ''^`s*`{'') fragment then Some (opening_linenum, fragment)
      else if found (raw ''^(?!`s*$)'') fragment then None
      else (case rest of [] \<Rightarrow> None | l # ls \<Rightarrow> find_opening ls (opening_linenum + 1) l))"

text \<open>The loop over the text after the closing brace: whether an \<open>else\<close> follows.\<close>

fun else_follows :: "string list \<Rightarrow> string \<Rightarrow> bool" where
  "else_follows rest fragment =
     (if found (raw ''^`s*$|^(?=`s*else)'') fragment then
        (if found (raw ''^(?=`s*else)'') fragment then True
         else (case rest of [] \<Rightarrow> False | l # ls \<Rightarrow> else_follows ls l))
      else False)"

declare find_opening.simps [simp del] else_follows.simps [simp del]

text \<open>The body between the braces; over several lines, the rest of the first line enters it one
  character per line, as in the code.\<close>

definition conditional_body :: "cleansed \<Rightarrow> string \<Rightarrow> int \<Rightarrow> int \<Rightarrow> string \<Rightarrow> int \<Rightarrow> int \<Rightarrow> string" where
  "conditional_body clean_lines opening_line opening_linenum opening_pos closing_text closing_linenum closing_pos =
     (if closing_linenum > opening_linenum then
        join [newline]
          (map (\<lambda>c. [c]) (slice_from opening_line (opening_pos + 1)) @
           slice (raw_lines clean_lines) (opening_linenum + 1) closing_linenum @
           [slice_to closing_text (closing_pos - 1)])
      else slice opening_line (opening_pos + 1) (closing_pos - 1))"

definition empty_if_body :: "string \<Rightarrow> cleansed \<Rightarrow> string \<Rightarrow> int \<Rightarrow> int \<Rightarrow> unit run" where
  "empty_if_body fn clean_lines end_line end_linenum end_pos =
     (case find_opening (slice_from (elided clean_lines) (end_linenum + 1)) end_linenum (slice_from end_line end_pos) of
        None \<Rightarrow> ret ()
      | Some (opening_linenum, fragment) \<Rightarrow>
          bind (py_nth (elided clean_lines) opening_linenum) (\<lambda>opening_line.
          let opening_pos = py_find fragment ''{'' + (if opening_linenum = end_linenum then end_pos else 0) in
          bind (CloseExpression clean_lines opening_linenum opening_pos) (\<lambda>(closing_line, closing_linenum, closing_pos).
          if closing_pos < 0 then ret ()
          else
            bind (py_nth (raw_lines clean_lines) opening_linenum) (\<lambda>raw_opening.
            if raw_opening \<noteq> CleanseComments raw_opening then ret ()
            else
              bind (py_nth (elided clean_lines) closing_linenum) (\<lambda>closing_text.
              when_do (found EMPTY_CONDITIONAL_BODY_PATTERN
                         (conditional_body clean_lines opening_line opening_linenum opening_pos
                            closing_text closing_linenum closing_pos) \<and>
                       \<not> else_follows (slice_from (elided clean_lines) (closing_linenum + 1))
                          (slice_from closing_line closing_pos))
                (report fn end_linenum ''whitespace/empty_if_body'' 4
                   ''If statement had no body and no else clause''))))))"

definition CheckEmptyBlockBody :: "string \<Rightarrow> cleansed \<Rightarrow> int \<Rightarrow> unit run" where
  "CheckEmptyBlockBody fn clean_lines linenum =
     bind (py_nth (elided clean_lines) linenum) (\<lambda>line.
     case Match (raw ''`s*(for|while|if)`s*`('') line of
       None \<Rightarrow> ret ()
     | Some m \<Rightarrow>
         bind (CloseExpression clean_lines linenum (py_find line ''('')) (\<lambda>(end_line, end_linenum, end_pos).
         seq (when_do (end_pos \<ge> 0 \<and> matches '';'' (slice_from end_line end_pos))
                (if group m 1 = ''if'' then
                   report fn end_linenum ''whitespace/empty_conditional_body'' 5
                     ''Empty conditional bodies should use {}''
                 else
                   report fn end_linenum ''whitespace/empty_loop_body'' 5
                     ''Empty loop bodies should use {} or continue''))
             (when_do (end_pos \<ge> 0 \<and> group m 1 = ''if'')
                (empty_if_body fn clean_lines end_line end_linenum end_pos))))"

end
