(* ===== verification/Operators.thy ===== *)
theory Operators
  imports Spacing
begin

text \<open>
  Spacing around operators, parentheses, commas and semicolons. The loop that hides operator methods
  ends because each round turns a character that is not a word character into an underscore.
\<close>

section \<open>Operator methods\<close>

definition OPERATOR_METHOD :: string where
  "OPERATOR_METHOD = raw ''^(.*`boperator`b)(`S+)(`s*`(.*)$''"

lemma OPERATOR_METHOD_compiled: "re_compile OPERATOR_METHOD = Some (RSeq RBol (RSeq
    (RGrp 1 (RSeq (RRep True 0 None RAny) (RSeq RWordB (RSeq (RLit (CHR ''o'')) (RSeq (RLit (CHR ''p''))
      (RSeq (RLit (CHR ''e'')) (RSeq (RLit (CHR ''r'')) (RSeq (RLit (CHR ''a'')) (RSeq (RLit (CHR ''t''))
      (RSeq (RLit (CHR ''o'')) (RSeq (RLit (CHR ''r'')) RWordB)))))))))))
    (RSeq (RGrp 2 (RRep True 1 None (RSet False [CNSpace]))) (RSeq
    (RGrp 3 (RSeq (RRep True 0 None (RSet False [CSpace])) (RSeq (RLit (CHR ''('')) (RRep True 0 None RAny)))) REol))))"
  by code_simp

definition OPERATOR_WORD :: regex where
  "OPERATOR_WORD = RSeq (RRep True 0 None RAny) (RSeq RWordB (RSeq (RLit (CHR ''o'')) (RSeq (RLit (CHR ''p''))
      (RSeq (RLit (CHR ''e'')) (RSeq (RLit (CHR ''r'')) (RSeq (RLit (CHR ''a'')) (RSeq (RLit (CHR ''t''))
      (RSeq (RLit (CHR ''o'')) (RSeq (RLit (CHR ''r'')) RWordB)))))))))"

lemma operator_end:
  assumes "(q, t, d) \<in> set (ends OPERATOR_WORD (p, line, c))"
  shows "\<exists>u. line = u @ t \<and> d = c \<and> boundary (Some (CHR ''r'')) t"
proof -
  obtain p1 u t1 c1 where 1: "(p1, t1, c1) \<in> set (ends (RRep True 0 None RAny) (p, line, c))"
    and 2: "(q, t, d) \<in> set (ends (RSeq RWordB (RSeq (RLit (CHR ''o'')) (RSeq (RLit (CHR ''p''))
      (RSeq (RLit (CHR ''e'')) (RSeq (RLit (CHR ''r'')) (RSeq (RLit (CHR ''a'')) (RSeq (RLit (CHR ''t''))
      (RSeq (RLit (CHR ''o'')) (RSeq (RLit (CHR ''r'')) RWordB))))))))) (p1, t1, c1))"
    using assms unfolding OPERATOR_WORD_def in_Seq [where a = "RRep True 0 None RAny"] by force
  from in_free [OF 1] obtain u where u: "line = u @ t1" "c1 = c" by auto
  from 2 have "\<exists>v. t1 = v @ t \<and> d = c1 \<and> boundary (Some (CHR ''r'')) t"
    by (auto simp: cls_has_def split: list.splits if_splits)
  with u show ?thesis by auto
qed

text \<open>The three groups are the line, up to a newline at its end; the second starts past the word.\<close>

lemma operator_parts:
  assumes "Match OPERATOR_METHOD line = Some m"
  shows "\<exists>t. line = group m 1 @ group m 2 @ group m 3 @ t \<and> set t \<subseteq> {newline} \<and>
    (\<exists>x y. group m 2 = x # y \<and> \<not> py_word x)"
proof -
  from assms have "re_match (the (re_compile OPERATOR_METHOD)) line = Some m"
    by (simp add: Match_def OPERATOR_METHOD_compiled)
  then obtain q t c where st: "(q, t, c) \<in> set (ends (the (re_compile OPERATOR_METHOD)) (None, line, no_caps))"
    and m: "m = \<lparr>subject = line, at_start = line, at_end = t, mcaps = c\<rparr>"
    by (rule re_matchD)
  note st = st [unfolded OPERATOR_METHOD_compiled option.sel in_bol_seq]
  from st obtain q1 t1 d1 where 1: "(q1, t1, d1) \<in> set (ends OPERATOR_WORD (None, line, no_caps))"
    and 2: "(q, t, c) \<in> set (ends (RSeq (RGrp 2 (RRep True 1 None (RSet False [CNSpace]))) (RSeq
      (RGrp 3 (RSeq (RRep True 0 None (RSet False [CSpace])) (RSeq (RLit (CHR ''('')) (RRep True 0 None RAny)))) REol))
      (q1, t1, d1(1 := Some (line, t1))))"
    unfolding OPERATOR_WORD_def by (rule in_grp_seq)
  from operator_end [OF 1] obtain u where u: "line = u @ t1" "d1 = no_caps" "boundary (Some (CHR ''r'')) t1" by blast
  from 2 obtain w b where w: "t1 = w @ b @ t" "lang (RRep True 1 None (RSet False [CNSpace])) w"
      "c 1 = Some (line, t1)" "c 2 = Some (t1, b @ t)" "c 3 = Some (b @ t, t)"
    by (elim in_item_seq) (auto simp: item_lang_def elim!: lang_GrpE)
  from 2 have t: "set t \<subseteq> {newline}" by (auto simp: in_Seq in_Grp in_Eol)
  have "w \<noteq> []" using lang_rep_nonempty w(2) by (metis One_nat_def)
  with u(3) w(1) have "\<not> py_word (hd w)" "w = hd w # tl w"
    by (cases w, auto simp: boundary_def word_at_def hd_opt_def py_word_def ascii_alnum_def ascii_lower_def)+
  then have "\<exists>x y. w = x # y \<and> \<not> py_word x" by metis
  moreover have "group m 1 = u" "group m 2 = w" "group m 3 = b" using w u by (auto simp: m group_def group_opt_def)
  ultimately show ?thesis using u(1) w(1) t by auto
qed

lemma operator_step_shrinks:
  assumes "Match OPERATOR_METHOD line = Some m"
  shows "length (filter (\<lambda>c. \<not> py_word c) (group m 1 @ replicate (length (group m 2)) (CHR ''_'') @ group m 3)) <
    length (filter (\<lambda>c. \<not> py_word c) line)"
proof -
  from operator_parts [OF assms] obtain t x y where l: "line = group m 1 @ group m 2 @ group m 3 @ t"
    and g: "group m 2 = x # y" "\<not> py_word x" by blast
  have "length (filter (\<lambda>c. \<not> py_word c) line) =
      length (filter (\<lambda>c. \<not> py_word c) (group m 1 @ group m 2 @ group m 3 @ t))" using l by simp
  moreover have "py_word (CHR ''_'')" by (simp add: py_word_def)
  ultimately show ?thesis using g by (simp add: filter_replicate)
qed

text \<open>\<open>operator==(\<close> becomes \<open>operator__(\<close>, from the last operator of the line back.\<close>

function hide_operators :: "string \<Rightarrow> string" where
  "hide_operators line =
     (case Match OPERATOR_METHOD line of
        None \<Rightarrow> line
      | Some m \<Rightarrow> hide_operators (group m 1 @ replicate (length (group m 2)) (CHR ''_'') @ group m 3))"
  by pat_completeness auto
termination
  by (relation "measure (\<lambda>line. length (filter (\<lambda>c. \<not> py_word c) line))")
    (simp, simp only: in_measure operator_step_shrinks)

declare hide_operators.simps [simp del]

lemma hide_operators_length: "length (hide_operators line) \<le> length line"
proof (induction line rule: hide_operators.induct)
  case (1 line)
  show ?case
  proof (cases "Match OPERATOR_METHOD line")
    case (Some m)
    from operator_parts [OF Some] obtain t where "line = group m 1 @ group m 2 @ group m 3 @ t" by blast
    then have "length line = length (group m 1) + length (group m 2) + length (group m 3) + length t"
      by (metis add.assoc length_append)
    with 1 [OF Some] Some show ?thesis by (simp add: hide_operators.simps [of line])
  qed (simp add: hide_operators.simps [of line])
qed

text \<open>C36. Hiding the operator methods keeps the columns: the line that comes out has the same length, each
  of its characters is the one of the line or an underscore, and no operator method is left in it.\<close>

theorem hide_operators_columns:
  assumes "newline \<notin> set line"
  shows "list_all2 (\<lambda>c d. d = c \<or> d = CHR ''_'') line (hide_operators line) \<and>
    Match OPERATOR_METHOD (hide_operators line) = None"
  using assms
proof (induction line rule: hide_operators.induct)
  case (1 line)
  show ?case
  proof (cases "Match OPERATOR_METHOD line")
    case None
    then show ?thesis by (simp add: hide_operators.simps [of line] list_all2_refl)
  next
    case (Some m)
    from operator_parts [OF Some] "1.prems" obtain t where l: "line = group m 1 @ group m 2 @ group m 3 @ t"
      and "set t \<subseteq> {newline}" by blast
    moreover from l have "set t \<subseteq> set line" by (metis Un_subset_iff set_append subset_refl)
    ultimately have t: "t = []" using "1.prems" by (cases t) auto
    let ?h = "group m 1 @ replicate (length (group m 2)) (CHR ''_'') @ group m 3"
    let ?R = "\<lambda>c d. d = c \<or> d = CHR ''_''"
    have 1: "list_all2 ?R line ?h"
      unfolding l t append_Nil2 by (intro list_all2_appendI) (auto simp: list_all2_refl list_all2_conv_all_nth)
    have eq: "hide_operators line = hide_operators ?h" by (simp add: hide_operators.simps [of line] Some)
    have "newline \<notin> set (group m 1)" "newline \<notin> set (group m 3)" using "1.prems" l by (metis UnCI set_append)+
    then have "newline \<notin> set ?h" by (auto dest: in_set_replicate [THEN iffD1])
    from "1.IH" [OF Some this] have 2: "list_all2 ?R ?h (hide_operators ?h)"
      and "Match OPERATOR_METHOD (hide_operators ?h) = None" by blast+
    moreover have "list_all2 ?R line (hide_operators ?h)" by (rule list_all2_trans [OF _ 1 2]) auto
    ultimately show ?thesis unfolding eq by blast
  qed
qed

theorem hide_operators_columns_witness:
  "list_all2 (\<lambda>c d. d = c \<or> d = CHR ''_'') ''bool operator==(T t);'' (hide_operators ''bool operator==(T t);'') \<and>
    Match OPERATOR_METHOD (hide_operators ''bool operator==(T t);'') = None"
  by (rule hide_operators_columns) simp

section \<open>\<open>CheckOperatorSpacing\<close>\<close>

definition ASSIGNMENTS :: string where
  "ASSIGNMENTS = raw ''(>=|<=|==|!=|&=|`^=|`|=|`+=|`*=|`/=|`%=)''"

definition space_around_assign :: "string \<Rightarrow> int \<Rightarrow> string \<Rightarrow> unit run" where
  "space_around_assign fn linenum line =
     when_do ((found (raw ''[`w.]='') line \<or> found (raw ''=[`w.]'') line) \<and>
              \<not> found (raw ''`b(if|while|for) '') line \<and> \<not> found ASSIGNMENTS line \<and>
              \<not> found ''operator='' line)
       (report fn linenum ''whitespace/operators'' 4 ''Missing spaces around ='')"

text \<open>A lone \<open><\<close> or \<open>>\<close> without spaces on both sides is accepted when it is a bracket that closes.\<close>

definition space_around_angles :: "string \<Rightarrow> cleansed \<Rightarrow> int \<Rightarrow> string \<Rightarrow> unit run" where
  "space_around_angles fn clean_lines linenum line =
     seq (case Match (raw ''^(.*[^`s<])<[^`s=<,]'') line of
            None \<Rightarrow> ret ()
          | Some m \<Rightarrow> bind (CloseExpression clean_lines linenum (py_len (group m 1))) (\<lambda>(_, _, end_pos).
              when_do (end_pos \<le> - 1)
                (report fn linenum ''whitespace/operators'' 3 ''Missing spaces around <'')))
         (case Match (raw ''^(.*[^-`s>])>[^`s=>,]'') line of
            None \<Rightarrow> ret ()
          | Some m \<Rightarrow> bind (ReverseCloseExpression clean_lines linenum (py_len (group m 1))) (\<lambda>(_, _, start_pos).
              when_do (start_pos \<le> - 1)
                (report fn linenum ''whitespace/operators'' 3 ''Missing spaces around >'')))"

definition space_around_shift :: "string \<Rightarrow> int \<Rightarrow> string \<Rightarrow> unit run" where
  "space_around_shift fn linenum line =
     (case Search (raw ''(operator|[^`s(<])(?:L|UL|LL|ULL|l|ul|ll|ull)?<<([^`s,=<])'') line of
        None \<Rightarrow> ret ()
      | Some m \<Rightarrow>
          when_do (\<not> (isdigit (group m 1) \<and> isdigit (group m 2)) \<and>
                   \<not> (group m 1 = ''operator'' \<and> group m 2 = '';''))
            (report fn linenum ''whitespace/operators'' 3 ''Missing spaces around <<''))"

definition CheckOperatorSpacing :: "string \<Rightarrow> cleansed \<Rightarrow> int \<Rightarrow> unit run" where
  "CheckOperatorSpacing fn clean_lines linenum =
     bind (py_nth (elided clean_lines) linenum) (\<lambda>elided_line.
     let line = hide_operators elided_line in
     seq (space_around_assign fn linenum line)
    (seq (case Search (raw ''[^<>=!`s](==|!=|<=|>=|`|`|)[^<>=!`s,;`)]'') line of
            Some m \<Rightarrow> report fn linenum ''whitespace/operators'' 3 (''Missing spaces around '' @ group m 1)
          | None \<Rightarrow> when_do (\<not> matches ''#.*include'' line) (space_around_angles fn clean_lines linenum line))
    (seq (space_around_shift fn linenum line)
    (seq (when_do (found ''>>[a-zA-Z_]'' line)
            (report fn linenum ''whitespace/operators'' 3 ''Missing spaces around >>''))
         (case Search (raw ''(!`s|~`s|[`s]--[`s;]|[`s]`+`+[`s;])'') line of
            None \<Rightarrow> ret ()
          | Some m \<Rightarrow> report fn linenum ''whitespace/operators'' 4
              (''Extra space for operator '' @ group m 1))))))"

section \<open>Parentheses, commas and semicolons\<close>

definition PARENS :: string where
  "PARENS = raw ''`b(if|for|while|switch)`s*`(([ ]*)(.).*[^ ]+([ ]*)`)`s*{`s*$''"

definition CheckParenthesisSpacing :: "string \<Rightarrow> cleansed \<Rightarrow> int \<Rightarrow> unit run" where
  "CheckParenthesisSpacing fn clean_lines linenum =
     bind (py_nth (elided clean_lines) linenum) (\<lambda>line.
     seq (case Search (raw '' (if`(|for`(|while`(|switch`()'') line of
            None \<Rightarrow> ret ()
          | Some m \<Rightarrow> report fn linenum ''whitespace/parens'' 5 (''Missing space before ( in '' @ group m 1))
         (case Search PARENS line of
            None \<Rightarrow> ret ()
          | Some m \<Rightarrow>
              seq (when_do (length (group m 2) \<noteq> length (group m 4) \<and>
                            \<not> (group m 3 = '';'' \<and> length (group m 2) = 1 + length (group m 4) \<or>
                               group m 2 = [] \<and> found (raw ''`bfor`s*`(.*; `)'') line))
                     (report fn linenum ''whitespace/parens'' 5 (''Mismatching spaces inside () in '' @ group m 1)))
                  (when_do (length (group m 2) \<notin> {0, 1})
                     (report fn linenum ''whitespace/parens'' 5
                        (''Should have zero or one spaces inside ( and ) in '' @ group m 1)))))"

definition CheckCommaSpacing :: "string \<Rightarrow> cleansed \<Rightarrow> int \<Rightarrow> unit run" where
  "CheckCommaSpacing fn clean_lines linenum =
     bind (py_nth (elided clean_lines) linenum) (\<lambda>line.
     seq (if found (raw '',[^,`s]'') (ReplaceAll (raw ''`boperator`s*,`s*`('') ''F('' line) then
            bind (py_nth (lines_without_raw_strings clean_lines) linenum) (\<lambda>raw_line.
            when_do (found (raw '',[^,`s]'') raw_line)
              (report fn linenum ''whitespace/comma'' 3 ''Missing space after ,''))
          else ret ())
         (when_do (found (raw '';[^`s};``)/]'') line)
            (report fn linenum ''whitespace/semicolon'' 3 ''Missing space after ;'')))"

end
