(* ===== verification/Check_Macros.thy ===== *)
theory Check_Macros
  imports Expressions
begin

text \<open>
  \<open>CheckCheck\<close>, which suggests \<open>CHECK_EQ(a, b)\<close> for \<open>CHECK(a == b)\<close>, with its parser of the macro
  argument, and \<open>CheckAltTokens\<close>.
\<close>

text \<open>The macro and the column of its parenthesis.\<close>

fun find_macro :: "string \<Rightarrow> string list \<Rightarrow> (string \<times> int) option" where
  "find_macro line [] = None"
| "find_macro line (macro # rest) =
     (if py_find line macro \<ge> 0 then
        (case Match (raw ''^(.*`b'' @ macro @ raw ''`s*)`('') line of
           None \<Rightarrow> find_macro line rest
         | Some m \<Rightarrow> Some (macro, py_len (group m 1)))
      else find_macro line rest)"

definition FindCheckMacro :: "string \<Rightarrow> (string \<times> int) option" where
  "FindCheckMacro line = find_macro line CHECK_MACROS"

section \<open>The argument\<close>

definition macro_argument :: "cleansed \<Rightarrow> int \<Rightarrow> string \<Rightarrow> int \<Rightarrow> string \<times> int \<times> int \<Rightarrow> string" where
  "macro_argument clean_lines linenum line start_pos p = (case p of (final_line, end_line, end_pos) \<Rightarrow>
     (if linenum = end_line then slice line (start_pos + 1) (end_pos - 1)
      else slice_from line (start_pos + 1) @ concat (slice (elided clean_lines) (linenum + 1) end_line) @
           slice final_line 0 (end_pos - 1)))"

definition EXPR_TOKEN :: string where
  "EXPR_TOKEN = raw ''^`s*(<<|<<=|>>|>>=|->`*|->|&&|`|`||==|!=|>=|>|<=|<|`()(.*)$''"

definition EXPR_TEXT :: string where
  "EXPR_TEXT = ''^([^-=!<>()&|]+)(.*)$''"

definition EXPR_CHAR :: string where
  "EXPR_CHAR = raw ''^(`s*`S)(.*)$''"

lemma expr_skips: "skip EXPR_TOKEN 2 = Some 1" "skip EXPR_TEXT 2 = Some 1" "skip EXPR_CHAR 2 = Some 1"
  by code_simp+

lemma expr_shrinks:
  "Match EXPR_TOKEN e = Some m \<Longrightarrow> length (group m 2) < length e"
  "Match EXPR_TEXT e = Some m \<Longrightarrow> length (group m 2) < length e"
  "Match EXPR_CHAR e = Some m \<Longrightarrow> length (group m 2) < length e"
  using expr_skips [THEN Match_skip, of e m] by simp_all

text \<open>The loop over the argument: \<open>None\<close> where the check returns early, otherwise the left side and,
  when one was found, the relational operator with the right side.\<close>

function parse_relation :: "string \<Rightarrow> string \<Rightarrow> (string \<times> (string \<times> string) option) option" where
  "parse_relation lhs expression =
     (if expression = [] then Some (lhs, None)
      else
        (case Match EXPR_TOKEN expression of
           Some m \<Rightarrow>
             (let token = group m 1 in
              if token = ''('' then
                (let e = fst (FindEndOfExpressionInLine (group m 2) 0 [CHR ''('']) in
                 if e < 0 then None
                 else parse_relation (lhs @ ''('' @ slice (group m 2) 0 e) (slice_from (group m 2) e))
              else if token \<in> {''&&'', ''||''} then None
              else if token \<in> {''<<'', ''<<='', ''>>'', ''>>='', ''->*'', ''->''} then
                parse_relation (lhs @ token) (group m 2)
              else Some (lhs, Some (token, group m 2)))
         | None \<Rightarrow>
             (case Match EXPR_TEXT expression of
                Some m \<Rightarrow> parse_relation (lhs @ group m 1) (group m 2)
              | None \<Rightarrow>
                  (case Match EXPR_CHAR expression of
                     Some m \<Rightarrow> parse_relation (lhs @ group m 1) (group m 2)
                   | None \<Rightarrow> Some (lhs, None)))))"
  by pat_completeness auto
termination
  by (relation "measure (\<lambda>(lhs, e). length e)")
    (simp_all add: expr_shrinks le_less_trans [OF diff_le_self])

declare parse_relation.simps [simp del]

definition MATCH_CONSTANT :: string where
  "MATCH_CONSTANT = raw ''^([-+]?(`d+|0[xX][0-9a-fA-F]+)[lLuU]{0,3}|'' @ [dquote] @ ''.*'' @ [dquote] @ ''|'' @
     [backslash, squote] @ ''.*'' @ [backslash, squote] @ '')$''"

text \<open>The two sides and the operator, when a replacement is to be suggested.\<close>

definition replaceable :: "string \<Rightarrow> string option" where
  "replaceable expression =
     (case parse_relation [] expression of
        Some (lhs, Some (operator, rhs)) \<Rightarrow>
          if lhs \<noteq> [] \<and> rhs \<noteq> [] \<and> py_find rhs ''&&'' \<le> - 1 \<and> py_find rhs ''||'' \<le> - 1 \<and>
             (matches MATCH_CONSTANT (strip lhs) \<or> matches MATCH_CONSTANT (strip rhs))
          then Some operator else None
      | _ \<Rightarrow> None)"

definition lookup_or_raise :: "'k \<Rightarrow> ('k \<times> 'v) list \<Rightarrow> 'v run" where
  "lookup_or_raise k xs = (case map_of xs k of None \<Rightarrow> raise KeyError | Some v \<Rightarrow> ret v)"

definition CheckCheck :: "string \<Rightarrow> cleansed \<Rightarrow> int \<Rightarrow> unit run" where
  "CheckCheck fn clean_lines linenum =
     bind (py_nth (elided clean_lines) linenum) (\<lambda>line.
     case FindCheckMacro line of
       None \<Rightarrow> ret ()
     | Some (check_macro, start_pos) \<Rightarrow>
         bind (CloseExpression clean_lines linenum start_pos) (\<lambda>(final_line, end_line, end_pos).
         if end_pos < 0 then ret ()
         else if \<not> matches (raw ''`s*;'') (slice_from final_line end_pos) then ret ()
         else
           (case replaceable (macro_argument clean_lines linenum line start_pos (final_line, end_line, end_pos)) of
              None \<Rightarrow> ret ()
            | Some operator \<Rightarrow>
                bind (lookup_or_raise check_macro CHECK_REPLACEMENT) (\<lambda>table.
                bind (lookup_or_raise operator table) (\<lambda>replacement.
                report fn linenum ''readability/check'' 2
                  (''Consider using '' @ replacement @ '' instead of '' @ check_macro @ ''(a '' @ operator @ '' b)''))))))"

section \<open>Alternative tokens\<close>

definition CheckAltTokens :: "string \<Rightarrow> cleansed \<Rightarrow> int \<Rightarrow> unit run" where
  "CheckAltTokens fn clean_lines linenum =
     bind (py_nth (elided clean_lines) linenum) (\<lambda>line.
     if matches (raw ''^`s*#'') line then ret ()
     else if py_find line ''/*'' \<ge> 0 \<or> py_find line ''*/'' \<ge> 0 then ret ()
     else
       (case re_compile ALT_TOKEN_REPLACEMENT_PATTERN of
          None \<Rightarrow> raise ReError
        | Some r \<Rightarrow> for_each (\<lambda>m.
            bind (lookup_or_raise (group m 1) ALT_TOKEN_REPLACEMENT) (\<lambda>replacement.
            report fn linenum ''readability/alt_tokens'' 2
              (''Use operator '' @ replacement @ '' instead of '' @ group m 1))) (re_finditer r line)))"

end
