(* ===== verification/Style.thy ===== *)
theory Style
  imports Empty_Bodies Operators Check_Macros
begin

text \<open>
  \<open>CheckStyle\<close>: tabs, indentation, line length and the number of commands on a line, and then all the
  style checks of the theories above, in the order of the code.
\<close>

definition SCOPE_OR_LABEL :: string where
  "SCOPE_OR_LABEL = raw ''`s*`w+`s*:`s*``?$''"

definition weird_indent :: "string \<Rightarrow> string \<Rightarrow> string \<Rightarrow> string \<Rightarrow> bool" where
  "weird_indent prev line cleansed_line raw_line =
     (let initial_spaces = length (takeWhile (\<lambda>c. c = CHR '' '') line) in
      \<not> found (''['' @ [dquote] @ '',=><] *$'') prev \<and> (initial_spaces = 1 \<or> initial_spaces = 3) \<and>
      \<not> matches SCOPE_OR_LABEL cleansed_line \<and>
      \<not> (raw_line \<noteq> line \<and> matches (raw ''^`s*'' @ [dquote, dquote]) line))"

text \<open>A line of the header guard may be long.\<close>

definition is_header_guard :: "opts \<Rightarrow> world \<Rightarrow> string \<Rightarrow> string \<Rightarrow> string \<Rightarrow> bool run" where
  "is_header_guard o' w fn file_extension line =
     (if IsHeaderExtension o' file_extension then
        bind (from_opt (GetHeaderGuardCPPVariable o' w fn)) (\<lambda>cppvar.
        ret (startswith line (''#ifndef '' @ cppvar) \<or> startswith line (''#define '' @ cppvar) \<or>
             startswith line (''#endif  // '' @ cppvar)))
      else ret False)"

definition may_be_long :: "string \<Rightarrow> bool" where
  "may_be_long line \<longleftrightarrow>
     startswith line ''#include'' \<or>
     matches (raw ''^`s*//.*http(s?)://`S*$'') line \<or>
     matches (raw ''^`s*//`s*[^`s]*$'') line \<or>
     matches (raw ''^// `$Id:.*#[0-9]+ `$$'') line \<or>
     matches (raw ''^`s*/// [@``](copydoc|copydetails|copybrief) .*$'') line"

definition one_line_lambda :: string where
  "one_line_lambda = raw ''^[^{};]*`[[^`[`]]*`][^{}]*`{[^{}`n`r]*`}''"

definition many_commands :: "cleansed \<Rightarrow> int \<Rightarrow> string \<Rightarrow> string \<Rightarrow> bool run" where
  "many_commands clean_lines linenum line cleansed_line =
     (if py_count cleansed_line '';'' > 1 \<and> \<not> matches one_line_lambda line \<and> py_find cleansed_line ''for'' = - 1 then
        bind (GetPreviousNonBlankLine clean_lines linenum) (\<lambda>(prevline, _).
        ret ((py_find prevline ''for'' = - 1 \<or> py_find prevline '';'' \<noteq> - 1) \<and>
             \<not> ((py_find cleansed_line ''case '' \<noteq> - 1 \<or> py_find cleansed_line ''default:'' \<noteq> - 1) \<and>
                py_find cleansed_line ''break;'' \<noteq> - 1)))
      else ret False)"

text \<open>The part of \<open>CheckStyle\<close> before the other checks.\<close>

definition line_style :: "opts \<Rightarrow> world \<Rightarrow> string \<Rightarrow> cleansed \<Rightarrow> int \<Rightarrow> string \<Rightarrow> unit run" where
  "line_style o' w fn clean_lines linenum file_extension =
     bind (py_nth (lines_without_raw_strings clean_lines) linenum) (\<lambda>line.
     bind (if linenum > 0 then py_nth (lines_without_raw_strings clean_lines) (linenum - 1) else ret []) (\<lambda>prev.
     seq (when_do (py_find line [CHR 0x09] \<noteq> - 1)
            (report fn linenum ''whitespace/tab'' 1 ''Tab found; better to use spaces''))
     (bind (py_nth (elided clean_lines) linenum) (\<lambda>cleansed_line.
      bind (py_nth (raw_lines clean_lines) linenum) (\<lambda>raw_line.
      seq (when_do (weird_indent prev line cleansed_line raw_line)
             (report fn linenum ''whitespace/indent'' 3
                (''Weird number of spaces at line-start.  '' @ ''Are you using a 2-space indent?'')))
     (seq (when_do (line \<noteq> [] \<and> py_space (last line))
             (report fn linenum ''whitespace/end_of_line'' 4
                ''Line ends in whitespace.  Consider deleting these extra spaces.''))
     (bind (is_header_guard o' w fn file_extension line) (\<lambda>guard.
      seq (when_do (\<not> guard \<and> \<not> may_be_long line \<and> GetLineWidth line > max_line_length o')
             (report fn linenum ''whitespace/line_length'' 2
                (''Lines should be <= '' @ str_int (max_line_length o') @ '' characters long'')))
     (bind (many_commands clean_lines linenum line cleansed_line) (\<lambda>many.
      when_do many (report fn linenum ''whitespace/newline'' 0 ''More than one command on the same line'')))))))))))"

definition CheckStyle :: "opts \<Rightarrow> world \<Rightarrow> string \<Rightarrow> cleansed \<Rightarrow> int \<Rightarrow> string \<Rightarrow> nesting \<Rightarrow> unit run" where
  "CheckStyle o' w fn clean_lines linenum file_extension nesting_state =
     seq (line_style o' w fn clean_lines linenum file_extension)
    (seq (CheckBraces o' fn clean_lines linenum)
    (seq (CheckTrailingSemicolon fn clean_lines linenum)
    (seq (CheckEmptyBlockBody fn clean_lines linenum)
    (seq (CheckSpacing fn clean_lines linenum nesting_state)
    (seq (CheckOperatorSpacing fn clean_lines linenum)
    (seq (CheckParenthesisSpacing fn clean_lines linenum)
    (seq (CheckCommaSpacing fn clean_lines linenum)
    (seq (CheckBracesSpacing fn clean_lines linenum nesting_state)
    (seq (CheckSpacingForFunctionCall fn clean_lines linenum)
    (seq (CheckCheck fn clean_lines linenum)
    (seq (CheckAltTokens fn clean_lines linenum)
         (case InnermostClass nesting_state of
            None \<Rightarrow> ret ()
          | Some classinfo \<Rightarrow>
              (case kind classinfo of
                 ClassInfo d \<Rightarrow> CheckSectionSpacing fn clean_lines (starting_linenum classinfo) d linenum
               | _ \<Rightarrow> ret ())))))))))))))"

end
