(* ===== verification/Includes.thy ===== *)
theory Includes
  imports File_Checks
begin

text \<open>
  \<open>#include\<close> lines: the kind of a header (\<open>_ClassifyInclude\<close>), and \<open>CheckIncludeLine\<close>, which reports
  duplicate, foreign and misordered includes and records the header in the include state.
\<close>

section \<open>The kind of a header\<close>

text \<open>The suffixes \<open>_DropCommonSuffixes\<close> tries, in order.\<close>

definition lstrip_underscore :: "string \<Rightarrow> string" where
  "lstrip_underscore = lstrip_by (\<lambda>c. c = CHR ''_'')"

definition common_suffixes :: "opts \<Rightarrow> string list" where
  "common_suffixes o' =
     [lstrip_underscore test_suffix @ ''.'' @ ext. test_suffix \<leftarrow> test_suffixes, ext \<leftarrow> GetNonHeaderExtensions o'] @
     [sfx @ ''.'' @ ext. sfx \<leftarrow> [''inl'', ''imp'', ''internal''], ext \<leftarrow> GetHeaderExtensions o']"

definition has_common_suffix :: "string \<Rightarrow> string \<Rightarrow> bool" where
  "has_common_suffix filename sfx \<longleftrightarrow>
     endswith filename sfx \<and> length filename > length sfx \<and>
     filename ! (length filename - length sfx - 1) \<in> {CHR ''-'', CHR ''_''}"

definition DropCommonSuffixes :: "opts \<Rightarrow> string \<Rightarrow> string" where
  "DropCommonSuffixes o' filename =
     (case find (has_common_suffix filename) (common_suffixes o') of
        Some sfx \<Rightarrow> slice_to filename (- py_len sfx - 1)
      | None \<Rightarrow> fst (splitext filename))"

definition FIRST_COMPONENT :: string where
  "FIRST_COMPONENT = ''^[^-_.]+''"

text \<open>The decision from the name of the file in the repository.\<close>

definition classify :: "opts \<Rightarrow> string \<Rightarrow> string \<Rightarrow> bool \<Rightarrow> header_type" where
  "classify o' repository_name inc is_system =
     (let is_cpp_h = (inc \<in> set CPP_HEADERS);
          is_system = (is_system \<and> snd (splitext inc) \<notin> {''.hpp'', ''.hxx'', ''.h++''});
          (target_dir, target_base) = path_split (DropCommonSuffixes o' repository_name);
          (include_dir, include_base) = path_split (DropCommonSuffixes o' inc);
          target_dir_pub = py_replace (normpath (target_dir @ ''/../public'')) [backslash] ''/''
      in if is_system then (if is_cpp_h then CPP_SYS_HEADER else C_SYS_HEADER)
         else if target_base = include_base \<and> (include_dir = target_dir \<or> include_dir = target_dir_pub) then
           LIKELY_MY_HEADER
         else
           (case (Match FIRST_COMPONENT target_base, Match FIRST_COMPONENT include_base) of
              (Some t, Some i) \<Rightarrow> if group t 0 = group i 0 then POSSIBLE_MY_HEADER else OTHER_HEADER
            | _ \<Rightarrow> OTHER_HEADER))"

text \<open>The name in the repository is only asked for when the header is not a system header.\<close>

definition ClassifyInclude :: "opts \<Rightarrow> world \<Rightarrow> string \<Rightarrow> string \<Rightarrow> bool \<Rightarrow> header_type option" where
  "ClassifyInclude o' w filename inc is_system =
     (if is_system \<and> snd (splitext inc) \<notin> {''.hpp'', ''.hxx'', ''.h++''} then Some (classify o' [] inc is_system)
      else map_option (\<lambda>name. classify o' name inc is_system) (RepositoryName o' w filename))"

section \<open>\<open>CheckIncludeLine\<close>\<close>

text \<open>The extension of a source file of another directory the include ends in.\<close>

fun foreign_source :: "opts \<Rightarrow> world \<Rightarrow> string \<Rightarrow> string \<Rightarrow> string list \<Rightarrow> string option run" where
  "foreign_source o' w fn inc [] = ret None"
| "foreign_source o' w fn inc (extension # rest) =
     (if endswith inc (''.'' @ extension) then
        bind (from_opt (RepositoryName o' w fn)) (\<lambda>name.
        if dirname name \<noteq> dirname inc then ret (Some extension) else foreign_source o' w fn inc rest)
      else foreign_source o' w fn inc rest)"

text \<open>Whether the include is the file's own header, whatever it looks like.\<close>

fun third_src_header :: "opts \<Rightarrow> world \<Rightarrow> string \<Rightarrow> string \<Rightarrow> string list \<Rightarrow> bool run" where
  "third_src_header o' w fn inc [] = ret False"
| "third_src_header o' w fn inc (ext # exts) =
     bind (from_opt (Extension o' w fn)) (\<lambda>extension.
     let basefilename = slice fn 0 (py_len fn - py_len extension); headerfile = basefilename @ ''.'' @ ext in
     bind (from_opt (RepositoryName o' w headerfile)) (\<lambda>headername.
     if contains inc headername \<or> contains headername inc then ret True
     else third_src_header o' w fn inc exts))"

text \<open>\<open>include_state.include_list[-1].append((include, linenum))\<close>.\<close>

definition record_include :: "string \<Rightarrow> int \<Rightarrow> include_state \<Rightarrow> include_state run" where
  "record_include inc linenum st =
     (if include_list st = [] then raise IndexError
      else ret (st\<lparr>include_list := butlast (include_list st) @ [last (include_list st) @ [(inc, linenum)]]\<rparr>))"

text \<open>The order checks on a header that was recorded.\<close>

definition order_checks :: "opts \<Rightarrow> world \<Rightarrow> string \<Rightarrow> cleansed \<Rightarrow> int \<Rightarrow> string \<Rightarrow> bool \<Rightarrow> include_state \<Rightarrow> include_state run" where
  "order_checks o' w fn clean_lines linenum inc is_system st =
     bind (from_opt (ClassifyInclude o' w fn inc is_system)) (\<lambda>h.
     case CheckNextIncludeOrder h st of (error_message, st2) \<Rightarrow>
     seq (if error_message \<noteq> [] then
            bind (from_opt (BaseName o' w fn)) (\<lambda>base.
            report fn linenum ''build/include_order'' 4
              (error_message @ ''. Should be: '' @ base @ ''.h, c system, c++ system, other.''))
          else ret ())
     (let canonical_include = CanonicalizeAlphabeticalOrder inc in
      bind (IsInAlphabeticalOrder clean_lines linenum canonical_include st2) (\<lambda>in_order.
      seq (when_do (\<not> in_order)
             (report fn linenum ''build/include_alpha'' 4
                (''Include '' @ [dquote] @ inc @ [dquote] @ '' not in alphabetical order'')))
          (ret (SetLastHeader canonical_include st2)))))"

definition CheckIncludeLine :: "opts \<Rightarrow> world \<Rightarrow> string \<Rightarrow> cleansed \<Rightarrow> int \<Rightarrow> include_state \<Rightarrow> include_state run" where
  "CheckIncludeLine o' w fn clean_lines linenum st =
     bind (py_nth (line_list clean_lines) linenum) (\<lambda>line.
     seq (when_do (case Match (raw ''#include`s*'' @ [dquote] @ raw ''([^/]+`.h)'' @ [dquote]) line of
                     None \<Rightarrow> False | Some m \<Rightarrow> \<not> matches THIRD_PARTY_HEADERS_PATTERN (group m 1))
            (report fn linenum ''build/include_subdir'' 4 ''Include the directory when naming .h files''))
     (case Search PATTERN_INCLUDE line of
        None \<Rightarrow> ret st
      | Some m \<Rightarrow>
          (let inc = group m 2; is_system = (group m 1 = ''<''); duplicate_line = FindHeader inc st in
           if duplicate_line \<ge> 0 then
             seq (report fn linenum ''build/include'' 4
                    ([dquote] @ inc @ [dquote] @ '' already included at '' @ fn @ '':'' @ str_int duplicate_line))
                 (ret st)
           else
             bind (foreign_source o' w fn inc (GetNonHeaderExtensions o')) (\<lambda>foreign.
             case foreign of
               Some extension \<Rightarrow>
                 seq (report fn linenum ''build/include'' 4
                        (''Do not include .'' @ extension @ '' files from other packages''))
                     (ret st)
             | None \<Rightarrow>
                 bind (third_src_header o' w fn inc (GetHeaderExtensions o')) (\<lambda>third_src.
                 if third_src \<or> \<not> matches THIRD_PARTY_HEADERS_PATTERN inc then
                   bind (record_include inc linenum st) (order_checks o' w fn clean_lines linenum inc is_system)
                 else ret st)))))"

end
