(* ===== verification/Casts.thy ===== *)
theory Casts
  imports Class_Checks
begin

text \<open>
  \<open>CheckCasts\<close>: deprecated function-style and C-style casts, and addresses of casts. A run returns what
  the function returns, after the reports it made.
\<close>

definition ExpectingFunctionArgs :: "cleansed \<Rightarrow> int \<Rightarrow> bool run" where
  "ExpectingFunctionArgs clean_lines linenum =
     bind (py_nth (elided clean_lines) linenum) (\<lambda>line.
     if matches (raw ''^`s*MOCK_(CONST_)?METHOD`d+(_T)?`('') line then ret True
     else if linenum \<ge> 2 then
       bind (py_nth (elided clean_lines) (linenum - 1)) (\<lambda>l1.
       if matches (raw ''^`s*MOCK_(?:CONST_)?METHOD`d+(?:_T)?`((?:`S+,)?`s*$'') l1 then ret True
       else bind (py_nth (elided clean_lines) (linenum - 2)) (\<lambda>l2.
         ret (matches (raw ''^`s*MOCK_(?:CONST_)?METHOD`d+(?:_T)?`(`s*$'') l2 \<or>
              found (raw ''`bstd::m?function`s*`<`s*$'') l1)))
     else ret False)"

section \<open>C-style casts\<close>

text \<open>The text before the cast: the start of its line, and up to four lines before it.\<close>

definition macro_context :: "cleansed \<Rightarrow> int \<Rightarrow> string \<Rightarrow> string" where
  "macro_context clean_lines linenum context =
     (if linenum > 0
      then concat (slice (elided clean_lines) (max 0 (linenum - 5) + 1) linenum) @ context else context)"

definition not_a_cast :: "cleansed \<Rightarrow> int \<Rightarrow> string \<Rightarrow> string \<Rightarrow> bool" where
  "not_a_cast clean_lines linenum context rest \<longleftrightarrow>
     matches (raw ''.*`b(?:sizeof|alignof|alignas|[_A-Z][_A-Z0-9]*)`s*$'') context \<or>
     (let context = macro_context clean_lines linenum context in
      matches (raw ''.*`b[_A-Z][_A-Z0-9]*`s*`((?:`([^()]*`)|[^()])*$'') context \<or>
      endswith context '' operator++'' \<or> endswith context '' operator--'') \<or>
     matches (raw ''^`s*(?:;|const`b|throw`b|final`b|override`b|[=>{),]|->)'') rest"

definition CheckCStyleCast :: "string \<Rightarrow> cleansed \<Rightarrow> int \<Rightarrow> string \<Rightarrow> string \<Rightarrow> bool run" where
  "CheckCStyleCast fn clean_lines linenum cast_type pattern =
     bind (py_nth (elided clean_lines) linenum) (\<lambda>line.
     case Search pattern line of
       None \<Rightarrow> ret False
     | Some m \<Rightarrow>
         if not_a_cast clean_lines linenum (slice line 0 (group_start m 1 - 1)) (slice_from line (m_end m)) then ret False
         else
           seq (report fn linenum ''readability/casting'' 4
                  (''Using C-style cast.  Use '' @ cast_type @ ''<'' @ group m 1 @ ''>(...) instead''))
               (ret True))"

section \<open>\<open>CheckCasts\<close>\<close>

definition FUNCTION_CAST :: string where
  "FUNCTION_CAST = raw ''(`bnew`s+(?:const`s+)?|`S<`s*(?:const`s+)?)?`b'' @
     raw ''(int|float|double|bool|char|int32|uint32|int64|uint64)(`([^)].*)''"

text \<open>The first check of the function: \<open>True\<close> when it returns at an array.\<close>

definition function_cast :: "string \<Rightarrow> int \<Rightarrow> string \<Rightarrow> bool run" where
  "function_cast fn linenum line =
     (case Search FUNCTION_CAST line of
        None \<Rightarrow> ret False
      | Some m \<Rightarrow>
          (let matched_type = group m 2; matched_funcptr = group m 3 in
           if matches (raw ''`([^()]+`)`s*`['') matched_funcptr then ret True
           else
             seq (when_do (group_opt m 1 = None \<and>
                           \<not> (matched_funcptr \<noteq> [] \<and>
                              (matches (raw ''`((?:[^() ]+::`s*`*`s*)?[^() ]+`)`s*`('') matched_funcptr \<or>
                               startswith matched_funcptr ''(*)'')) \<and>
                           \<not> matches (raw ''`s*using`s+`S+`s*=`s*'' @ matched_type) line \<and>
                           \<not> found (raw ''new`(`S+`)`s*'' @ matched_type) line)
                    (report fn linenum ''readability/casting'' 4
                       (''Using deprecated casting style.  Use static_cast<'' @ matched_type @ ''>(...) instead'')))
                 (ret False)))"

text \<open>Whether what the cast in \<open>&static_cast<...>(...)\<close> yields is dereferenced. The code reads the
  character after the closing angle bracket without a test that there is one.\<close>

definition dereferenced_cast :: "cleansed \<Rightarrow> int \<Rightarrow> string \<Rightarrow> bool run" where
  "dereferenced_cast clean_lines linenum line =
     (case Match (raw ''^(.*&(?:static|dynamic|down|reinterpret)_cast`b)<'') line of
        None \<Rightarrow> ret False
      | Some m \<Rightarrow>
          bind (CloseExpression clean_lines linenum (py_len (group m 1))) (\<lambda>(_, y1, x1).
          if x1 \<ge> 0 then
            bind (py_nth (elided clean_lines) y1) (\<lambda>l1.
            bind (py_nth l1 x1) (\<lambda>c.
            if c = CHR ''('' then
              bind (CloseExpression clean_lines y1 x1) (\<lambda>(_, y2, x2).
              if x2 \<ge> 0 then
                bind (py_nth (elided clean_lines) y2) (\<lambda>l2.
                bind (if y2 < NumLines clean_lines - 1 then py_nth (elided clean_lines) (y2 + 1) else ret []) (\<lambda>l3.
                ret (matches (raw ''`s*(?:->|`[)'') (slice_from l2 x2 @ l3))))
              else ret False)
            else ret False))
          else ret False))"

definition ADDRESS_OF_CAST :: string where
  "ADDRESS_OF_CAST = raw ''(?:[^`w]&`(([^)*][^)]*)`)[`w(])|'' @
     raw ''(?:[^`w]&(static|dynamic|down|reinterpret)_cast`b)''"

definition address_of_cast :: "string \<Rightarrow> cleansed \<Rightarrow> int \<Rightarrow> string \<Rightarrow> unit run" where
  "address_of_cast fn clean_lines linenum line =
     (if found ADDRESS_OF_CAST line then
        bind (dereferenced_cast clean_lines linenum line) (\<lambda>parenthesis_error.
        if parenthesis_error then
          report fn linenum ''readability/casting'' 4
            (''Are you taking an address of something dereferenced from a cast?  '' @
             ''Wrapping the dereferenced expression in parentheses will make the binding more obvious'')
        else
          report fn linenum ''runtime/casting'' 4
            (''Are you taking an address of a cast?  This is dangerous: could be a temp var.  '' @
             ''Take the address before doing the cast, rather than after''))
      else ret ())"

definition CheckCasts :: "string \<Rightarrow> cleansed \<Rightarrow> int \<Rightarrow> unit run" where
  "CheckCasts fn clean_lines linenum =
     bind (py_nth (elided clean_lines) linenum) (\<lambda>line.
     bind (ExpectingFunctionArgs clean_lines linenum) (\<lambda>expecting_function.
     bind (if \<not> expecting_function then function_cast fn linenum line else ret False) (\<lambda>array.
     if array then ret ()
     else
       bind (if \<not> expecting_function
             then CheckCStyleCast fn clean_lines linenum ''static_cast''
                    (raw ''`((int|float|double|bool|char|u?int(16|32|64))`)'')
             else ret False) (\<lambda>_.
       bind (CheckCStyleCast fn clean_lines linenum ''const_cast'' (raw ''`((char`s?`*+`s?)`)`s*'' @ [dquote])) (\<lambda>emitted.
       bind (if emitted then ret False
             else CheckCStyleCast fn clean_lines linenum ''reinterpret_cast'' (raw ''`((`w+`s?`*+`s?)`)'')) (\<lambda>_.
       address_of_cast fn clean_lines linenum line))))))"

end
