(* ===== verification/Language.thy ===== *)
theory Language
  imports Includes Casts
begin

text \<open>
  \<open>CheckLanguage\<close>: \<open>#include\<close> lines, conditionals (which reset the include section), and the checks on C
  types, operators, \<open>printf\<close>, \<open>memset\<close>, namespaces and variable-length arrays.
\<close>

section \<open>Text between brackets\<close>

text \<open>\<open>matching_punctuation\<close>.\<close>

fun matching_close :: "char \<Rightarrow> char option" where
  "matching_close c = (if c = CHR ''('' then Some (CHR '')'') else if c = CHR ''{'' then Some (CHR ''}'')
     else if c = CHR ''['' then Some (CHR '']'') else None)"

text \<open>The loop with its stack of closing characters: the text up to the last of them.\<close>

fun inside :: "char list \<Rightarrow> string \<Rightarrow> string \<Rightarrow> string option" where
  "inside [] seen rest = Some (butlast seen)"
| "inside (close # closers) seen [] = None"
| "inside (close # closers) seen (c # rest) =
     (if c = close then inside closers (seen @ [c]) rest
      else if c \<in> set '')}]'' then None
      else (case matching_close c of
              Some close' \<Rightarrow> inside (close' # close # closers) (seen @ [c]) rest
            | None \<Rightarrow> inside (close # closers) (seen @ [c]) rest))"

text \<open>The pattern is compiled with \<open>re.M\<close>, which only matters for anchors; it has none.\<close>

definition GetTextInside :: "string \<Rightarrow> string \<Rightarrow> string option run" where
  "GetTextInside text start_pattern =
     (case Search start_pattern text of
        None \<Rightarrow> ret None
      | Some m \<Rightarrow>
          (let start_position = m_end m in
           if start_position \<le> 0 then raise AssertionError
           else bind (py_nth text (start_position - 1)) (\<lambda>c.
             case matching_close c of
               None \<Rightarrow> raise AssertionError
             | Some close \<Rightarrow> ret (inside [close] [] (slice_from text start_position)))))"

section \<open>Static strings and \<open>printf\<close>\<close>

definition STATIC_STRING :: string where
  "STATIC_STRING = raw ''((?:|static +)(?:|const +))(?::*std::)?string( +const)? +([a-zA-Z0-9_:]+)`b(.*)''"

definition CheckGlobalStatic :: "string \<Rightarrow> cleansed \<Rightarrow> int \<Rightarrow> unit run" where
  "CheckGlobalStatic fn clean_lines linenum =
     bind (py_nth (elided clean_lines) linenum) (\<lambda>elided_line.
     bind (if linenum + 1 < NumLines clean_lines \<and> \<not> found ''[;({]'' elided_line
           then bind (py_nth (elided clean_lines) (linenum + 1)) (\<lambda>next_line. ret (elided_line @ strip next_line))
           else ret elided_line) (\<lambda>line.
     seq (case Match STATIC_STRING line of
            None \<Rightarrow> ret ()
          | Some m \<Rightarrow>
              when_do (\<not> found (raw ''`bstring`b(`s+const)?`s*[`*`&]`s*(const`s+)?`w'') line \<and>
                       \<not> found (raw ''`boperator`W'') line \<and>
                       \<not> matches (raw ''`s*(<.*>)?(::[a-zA-Z0-9_]+)*`s*`(([^'' @ [dquote] @ '']|$)'') (group m 4))
                (if found (raw ''`bconst`b'') line then
                   report fn linenum ''runtime/string'' 4
                     (''For a static/global string constant, use a C style string instead: '' @ [dquote] @
                      group m 1 @ ''char'' @ group m 2 @ '' '' @ group m 3 @ ''[]'' @ [dquote] @ ''.'')
                 else
                   report fn linenum ''runtime/string'' 4 ''Static/global string variables are not permitted.''))
         (when_do (found (raw ''`b([A-Za-z0-9_]*_)`(`1`)'') line \<or>
                   found (raw ''`b([A-Za-z0-9_]*_)`(CHECK_NOTNULL`(`1`)`)'') line)
            (report fn linenum ''runtime/init'' 4
               ''You seem to be initializing a member variable with itself.''))))"

definition CheckPrintf :: "string \<Rightarrow> cleansed \<Rightarrow> int \<Rightarrow> unit run" where
  "CheckPrintf fn clean_lines linenum =
     bind (py_nth (elided clean_lines) linenum) (\<lambda>line.
     seq (case Search (raw ''snprintf`s*`(([^,]*),`s*([0-9]*)`s*,'') line of
            None \<Rightarrow> ret ()
          | Some m \<Rightarrow> when_do (group m 2 \<noteq> ''0'')
              (report fn linenum ''runtime/printf'' 3
                 (''If you can, use sizeof('' @ group m 1 @ '') instead of '' @ group m 2 @
                  '' as the 2nd arg to snprintf.'')))
    (seq (when_do (found (raw ''`bsprintf`s*`('') line)
            (report fn linenum ''runtime/printf'' 5 ''Never use sprintf. Use snprintf instead.''))
         (case Search (raw ''`b(strcpy|strcat)`s*`('') line of
            None \<Rightarrow> ret ()
          | Some m \<Rightarrow> report fn linenum ''runtime/printf'' 4
              (''Almost always, snprintf is better than '' @ group m 1))))"

section \<open>The checks of \<open>CheckLanguage\<close>\<close>

definition basic_types :: "string \<Rightarrow> int \<Rightarrow> string \<Rightarrow> unit run" where
  "basic_types fn linenum line =
     (if found (raw ''`bshort port`b'') line then
        when_do (\<not> found (raw ''`bunsigned short port`b'') line)
          (report fn linenum ''runtime/int'' 4
             (''Use '' @ [dquote] @ ''unsigned short'' @ [dquote] @ '' for ports, not '' @ [dquote] @ ''short'' @ [dquote]))
      else
        (case Search (raw ''`b(short|long(?! +double)|long long)`b'') line of
           None \<Rightarrow> ret ()
         | Some m \<Rightarrow> report fn linenum ''runtime/int'' 4
             (''Use int16/int64/etc, rather than the C type '' @ group m 1)))"

definition printf_format :: "string \<Rightarrow> int \<Rightarrow> string \<Rightarrow> unit run" where
  "printf_format fn linenum line =
     bind (GetTextInside line (raw ''(?i)`b(string)?printf`s*`('')) (\<lambda>printf_args.
     case printf_args of
       None \<Rightarrow> ret ()
     | Some args \<Rightarrow>
         (case (if args = [] then None else Match (raw ''([`w.`->()]+)$'') args) of
            None \<Rightarrow> ret ()
          | Some m \<Rightarrow>
              if group m 1 = ''__VA_ARGS__'' then ret ()
              else
                (case re_search (the (re_compile_icase (raw ''`b((?:string)?printf)`s*`(''))) line of
                   None \<Rightarrow> raise AttributeError
                 | Some f \<Rightarrow> report fn linenum ''runtime/printf'' 4
                     (''Potential format string bug. Do '' @ group f 1 @ ''('' @ [dquote] @ ''%s'' @ [dquote] @ '', '' @
                      group m 1 @ '') instead.''))))"

definition memset_order :: "string \<Rightarrow> int \<Rightarrow> string \<Rightarrow> unit run" where
  "memset_order fn linenum line =
     (case Search (raw ''memset`s*`(([^,]*),`s*([^,]*),`s*0`s*`)'') line of
        None \<Rightarrow> ret ()
      | Some m \<Rightarrow>
          when_do (\<not> matches (''^'' @ [squote, squote] @ ''|-?[0-9]+|0x[0-9A-Fa-f]$'') (group m 2))
            (report fn linenum ''runtime/memset'' 4
               (''Did you mean '' @ [dquote] @ ''memset('' @ group m 1 @ '', 0, '' @ group m 2 @ '')'' @ [dquote] @ ''?'')))"

definition USING_DIRECTIVE :: string where
  "USING_DIRECTIVE = ''Do not use namespace using-directives.  Use using-declarations instead.''"

definition using_directive :: "string \<Rightarrow> int \<Rightarrow> string \<Rightarrow> unit run" where
  "using_directive fn linenum line =
     when_do (found (raw ''`busing namespace`b'') line)
       (if found (raw ''`bliterals`b'') line
        then report fn linenum ''build/namespaces_literals'' 5 USING_DIRECTIVE
        else report fn linenum ''build/namespaces'' 5 USING_DIRECTIVE)"

text \<open>\<open>re.split\<close>: the pieces between the matches.\<close>

fun pieces :: "string \<Rightarrow> mtch list \<Rightarrow> string list" where
  "pieces rest [] = [rest]"
| "pieces rest (m # ms) = span_text rest (at_start m) # pieces (at_end m) ms"

definition re_split :: "string \<Rightarrow> string \<Rightarrow> string list" where
  "re_split pattern s = (case re_compile pattern of None \<Rightarrow> [s] | Some r \<Rightarrow> pieces s (re_finditer r s))"

text \<open>A token of an array size that is accepted as a compile-time constant.\<close>

definition constant_token :: "string \<Rightarrow> bool" where
  "constant_token tok \<longleftrightarrow>
     tok = [] \<or> matches (raw ''`d+'') tok \<or> matches ''0[xX][0-9a-fA-F]+'' tok \<or>
     matches (raw ''k[A-Z0-9]`w*'') tok \<or> matches (raw ''(.+::)?k[A-Z0-9]`w*'') tok \<or>
     matches ''(.+::)?[A-Z][A-Z0-9_]*'' tok"

definition strip_parens :: "string \<Rightarrow> string" where
  "strip_parens tok = rstrip_by (\<lambda>c. c = CHR '')'') (lstrip_by (\<lambda>c. c = CHR ''('') tok)"

fun constant_size :: "bool \<Rightarrow> string list \<Rightarrow> bool" where
  "constant_size skip_next [] = True"
| "constant_size skip_next (tok # tokens) =
     (if skip_next then constant_size False tokens
      else if found (raw ''sizeof`(.+`)'') tok then constant_size False tokens
      else if found (raw ''arraysize`(`w+`)'') tok then constant_size False tokens
      else if constant_token (strip_parens tok) then constant_size False tokens
      else if startswith (strip_parens tok) ''sizeof'' then constant_size True tokens
      else False)"

definition variable_array :: "string \<Rightarrow> int \<Rightarrow> string \<Rightarrow> unit run" where
  "variable_array fn linenum line =
     (case Match (raw ''`s*(.+::)?(`w+) [a-z]`w*`[(.+)];'') line of
        None \<Rightarrow> ret ()
      | Some m \<Rightarrow>
          when_do (group m 2 \<noteq> ''return'' \<and> group m 2 \<noteq> ''delete'' \<and> py_find (group m 3) '']'' = - 1 \<and>
                   \<not> constant_size False (re_split (raw ''`s|`+|`-|`*|`/|<<|>>]'') (group m 3)))
            (report fn linenum ''runtime/arrays'' 1
               (''Do not use variable-length arrays.  Use an appropriately named '' @
                ''('' @ [squote] @ ''k'' @ [squote] @ '' followed by CamelCase) compile-time constant for the size.'')))"

definition other_language_checks :: "opts \<Rightarrow> string \<Rightarrow> int \<Rightarrow> string \<Rightarrow> string \<Rightarrow> unit run" where
  "other_language_checks o' fn linenum file_extension line =
     seq (basic_types fn linenum line)
    (seq (when_do (found (raw ''`boperator`s*&`s*`(`s*`)'') line)
            (report fn linenum ''runtime/operator'' 4 ''Unary operator& is dangerous.  Do not use it.''))
    (seq (when_do (found (raw ''`}`s*if`s*`('') line)
            (report fn linenum ''readability/braces'' 4
               (''Did you mean '' @ [dquote] @ ''else if'' @ [dquote] @ ''? If not, start a new line for '' @ [dquote] @
                ''if'' @ [dquote] @ ''.'')))
    (seq (printf_format fn linenum line)
    (seq (memset_order fn linenum line)
    (seq (using_directive fn linenum line)
    (seq (variable_array fn linenum line)
         (when_do (IsHeaderExtension o' file_extension \<and> found (raw ''`bnamespace`s*{'') line \<and>
                   last line \<noteq> backslash)
            (report fn linenum ''build/namespaces'' 4
               (''Do not use unnamed namespaces in header files.  See '' @
                ''https://google-styleguide.googlecode.com/svn/trunk/cppguide.xml#Namespaces'' @
                '' for more information.'')))))))))"

definition CONDITIONAL :: string where
  "CONDITIONAL = raw ''^`s*#`s*(if|ifdef|ifndef|elif|else|endif)`b''"

definition CheckLanguage :: "opts \<Rightarrow> world \<Rightarrow> string \<Rightarrow> cleansed \<Rightarrow> int \<Rightarrow> string \<Rightarrow> include_state \<Rightarrow> include_state run" where
  "CheckLanguage o' w fn clean_lines linenum file_extension st =
     bind (py_nth (elided clean_lines) linenum) (\<lambda>line.
     if line = [] then ret st
     else if found PATTERN_INCLUDE line then CheckIncludeLine o' w fn clean_lines linenum st
     else
       bind (case Match CONDITIONAL line of None \<Rightarrow> ret st | Some m \<Rightarrow> ResetSection (group m 1) st) (\<lambda>st'.
       seq (CheckCasts fn clean_lines linenum)
      (seq (CheckGlobalStatic fn clean_lines linenum)
      (seq (CheckPrintf fn clean_lines linenum)
      (seq (other_language_checks o' fn linenum file_extension line)
           (ret st'))))))"

end
