(* ===== verification/References.thy ===== *)
theory References
  imports Class_Checks
begin

text \<open>
  \<open>CheckForNonConstReference\<close>: reference parameters that are neither const nor a stream, with the scans
  back that decide whether the line is in a parameter list at all.
\<close>

section \<open>Scans for the current function\<close>

definition FUNCTION_HEAD :: string where
  "FUNCTION_HEAD = raw ''^([^()]*`w+)`(''"

text \<open>The last of the ten lines up to \<open>linenum\<close> that looks like the start of a function.\<close>

definition function_line :: "cleansed \<Rightarrow> int \<Rightarrow> (int \<times> string) option run" where
  "function_line clean_lines linenum =
     scan_lines (matches FUNCTION_HEAD) (elided clean_lines) linenum (- 1) (nat (linenum - max (- 1) (linenum - 10)))"

definition IsDerivedFunction :: "cleansed \<Rightarrow> int \<Rightarrow> bool run" where
  "IsDerivedFunction clean_lines linenum =
     bind (function_line clean_lines linenum) (\<lambda>r.
     case r of
       None \<Rightarrow> ret False
     | Some (i, l) \<Rightarrow>
         (case Match FUNCTION_HEAD l of
            None \<Rightarrow> ret False
          | Some m \<Rightarrow> bind (CloseExpression clean_lines i (py_len (group m 1))) (\<lambda>(line, _, closing_paren).
              ret (closing_paren \<ge> 0 \<and> found (raw ''`boverride`b'') (slice_from line closing_paren)))))"

definition IsOutOfLineMethodDefinition :: "cleansed \<Rightarrow> int \<Rightarrow> bool run" where
  "IsOutOfLineMethodDefinition clean_lines linenum =
     bind (function_line clean_lines linenum) (\<lambda>r.
     ret (case r of None \<Rightarrow> False | Some (i, l) \<Rightarrow> matches (raw ''^[^()]*`w+::`w+`('') l))"

text \<open>The loop of \<open>IsInitializerList\<close>, at most \<open>n\<close> lines back from \<open>i\<close>; the current line loses the
  brace that opens a function body.\<close>

fun initializer_scan :: "string list \<Rightarrow> int \<Rightarrow> int \<Rightarrow> nat \<Rightarrow> bool run" where
  "initializer_scan lines linenum i 0 = ret False"
| "initializer_scan lines linenum i (Suc n) =
     bind (py_nth lines i) (\<lambda>l.
     let line = (if i = linenum then (case Match (raw ''^(.*)`{`s*$'') l of None \<Rightarrow> l | Some m \<Rightarrow> group m 1) else l) in
     if found (raw ''`s:`s*`w+[({]'') line then ret True
     else if found (raw ''`}`s*,`s*$'') line then ret True
     else if found (raw ''[{};]`s*$'') line then ret False
     else initializer_scan lines linenum (i - 1) n)"

definition IsInitializerList :: "cleansed \<Rightarrow> int \<Rightarrow> bool run" where
  "IsInitializerList clean_lines linenum =
     initializer_scan (elided clean_lines) linenum linenum (nat (linenum - 1))"

text \<open>The scan over the lines before, for the colon of an initializer list.\<close>

fun colon_before :: "string list \<Rightarrow> int \<Rightarrow> nat \<Rightarrow> bool run" where
  "colon_before lines i 0 = ret False"
| "colon_before lines i (Suc n) =
     bind (py_nth lines i) (\<lambda>previous_line.
     if \<not> found (raw ''[),]`s*$'') previous_line then ret False
     else if matches (raw ''^`s*:`s+`S'') previous_line then ret True
     else colon_before lines (i - 1) n)"

section \<open>Types over several lines\<close>

text \<open>The current line with the start of its type from the line before, or with all the lines of a
  template parameter.\<close>

definition joined_line :: "cleansed \<Rightarrow> int \<Rightarrow> string \<Rightarrow> string run" where
  "joined_line clean_lines linenum line =
     bind (if matches (raw ''`s*::(?:[`w<>]|::)+`s*&`s*`S'') line then
             bind (py_nth (elided clean_lines) (linenum - 1)) (\<lambda>l.
             ret (Search (raw ''`b((?:const`s*)?(?:[`w<>]|::)+[`w<>])`s*$'') l))
           else if matches (raw ''`s*[a-zA-Z_]([`w<>]|::)+`s*&`s*`S'') line then
             bind (py_nth (elided clean_lines) (linenum - 1)) (\<lambda>l.
             ret (Search (raw ''`b((?:const`s*)?(?:[`w<>]|::)+::)`s*$'') l))
           else ret None) (\<lambda>previous.
     case previous of
       Some m \<Rightarrow> ret (group m 1 @ lstrip line)
     | None \<Rightarrow>
         (let endpos = py_rfind line (CHR ''>'') in
          if endpos > - 1 then
            bind (ReverseCloseExpression clean_lines linenum endpos) (\<lambda>(_, startline, startpos).
            ret (if startpos > - 1 \<and> startline < linenum
                 then concat (map strip (slice (elided clean_lines) startline (linenum + 1))) else line))
          else ret line))"

section \<open>The check\<close>

definition PATTERN_IDENT :: string where
  "PATTERN_IDENT = raw ''[_a-zA-Z]`w*''"

definition PATTERN_TYPE :: string where
  "PATTERN_TYPE = raw ''(?:const`s+)?(?:typename`s+|class`s+|struct`s+|union`s+|enum`s+)?'' @
     raw ''(?:`w|`s*<(?:<(?:<[^<>]*>|[^<>])*>|[^<>])*>|::)+''"

definition PATTERN_REF_PARAM :: string where
  "PATTERN_REF_PARAM = ''('' @ PATTERN_TYPE @ raw ''(?:`s*(?:`bconst`b|[*]))*`s*'' @
     raw ''&`s*'' @ PATTERN_IDENT @ raw '')`s*(?:=[^,()]+)?[,)]''"

definition PATTERN_CONST_REF_PARAM :: string where
  "PATTERN_CONST_REF_PARAM = raw ''(?:.*`s*`bconst`s*&`s*'' @ PATTERN_IDENT @
     raw ''|const`s+'' @ PATTERN_TYPE @ raw ''`s*&`s*'' @ PATTERN_IDENT @ '')''"

definition PATTERN_REF_STREAM_PARAM :: string where
  "PATTERN_REF_STREAM_PARAM = raw ''(?:.*stream`s*&`s*'' @ PATTERN_IDENT @ '')''"

definition WHITELISTED_FUNCTIONS :: string where
  "WHITELISTED_FUNCTIONS = raw ''(?:[sS]wap(?:<`w:+>)?|operator`s*[<>][<>]|static_assert|COMPILE_ASSERT)`s*`(''"

text \<open>A function that may take references, on the line or, when it starts no call, on the two before.\<close>

definition whitelisted :: "cleansed \<Rightarrow> int \<Rightarrow> string \<Rightarrow> bool run" where
  "whitelisted clean_lines linenum line =
     (if found WHITELISTED_FUNCTIONS line then ret True
      else if found (raw ''`S+`([^)]*$'') line then ret False
      else
        bind (if linenum > 0 then py_nth (elided clean_lines) (linenum - 1) else ret []) (\<lambda>l1.
        if linenum > 0 \<and> found WHITELISTED_FUNCTIONS l1 then ret True
        else bind (if linenum > 1 then py_nth (elided clean_lines) (linenum - 2) else ret []) (\<lambda>l2.
          ret (linenum > 1 \<and> found WHITELISTED_FUNCTIONS l2))))"

text \<open>\<open>re.findall\<close> of the parameter pattern, which has one group.\<close>

definition ref_parameters :: "string \<Rightarrow> string list" where
  "ref_parameters decls = (case re_compile PATTERN_REF_PARAM of
     None \<Rightarrow> [] | Some r \<Rightarrow> map (\<lambda>m. group m 1) (re_finditer r decls))"

definition report_references :: "string \<Rightarrow> int \<Rightarrow> string \<Rightarrow> unit run" where
  "report_references fn linenum line =
     for_each (\<lambda>parameter.
       when_do (\<not> matches PATTERN_CONST_REF_PARAM parameter \<and> \<not> matches PATTERN_REF_STREAM_PARAM parameter)
         (report fn linenum ''runtime/references'' 2
            (''Is this a non-const reference? If so, make const or use a pointer: '' @
             ReplaceAll '' *<'' ''<'' parameter)))
       (ref_parameters (ReplaceAll ''{[^}]*}'' '' '' line))"

text \<open>Inside a block that is neither a class nor a namespace.\<close>

definition in_function_body :: "nesting \<Rightarrow> bool" where
  "in_function_body st = (case previous_stack_top st of None \<Rightarrow> False
     | Some b \<Rightarrow> \<not> (is_class (kind b) \<or> is_namespace (kind b)))"

definition CheckForNonConstReference :: "string \<Rightarrow> cleansed \<Rightarrow> int \<Rightarrow> nesting \<Rightarrow> unit run" where
  "CheckForNonConstReference fn clean_lines linenum nesting_state =
     bind (py_nth (elided clean_lines) linenum) (\<lambda>elided_line.
     if CHR ''&'' \<notin> set elided_line then ret ()
     else bind (IsDerivedFunction clean_lines linenum) (\<lambda>derived.
     if derived then ret ()
     else bind (IsOutOfLineMethodDefinition clean_lines linenum) (\<lambda>out_of_line.
     if out_of_line then ret ()
     else bind (if linenum > 1 then joined_line clean_lines linenum elided_line else ret elided_line) (\<lambda>line.
     if in_function_body nesting_state then ret ()
     else bind (if linenum > 0
                then colon_before (elided clean_lines) (linenum - 1) (nat (linenum - 1 - max 0 (linenum - 10)))
                else ret False) (\<lambda>colon.
     if colon \<or> found (raw ''```s*$'') line then ret ()
     else bind (IsInitializerList clean_lines linenum) (\<lambda>initializer.
     if initializer then ret ()
     else bind (whitelisted clean_lines linenum line) (\<lambda>white.
     if white then ret () else report_references fn linenum line)))))))"

end
