(* ===== verification/Include_Use.thy ===== *)
theory Include_Use
  imports File_Checks "HOL-Library.AList" "HOL-Library.Product_Lexorder"
begin

text \<open>
  \<open>CheckForIncludeWhatYouUse\<close>: the standard headers a file needs for the names it uses, against the
  headers it includes itself or through the header of its module. Dictionaries are association lists in
  insertion order (\<open>AList.update\<close> replaces in place, as a Python dictionary does).
\<close>

section \<open>The patterns\<close>

definition PATTERN_STRING :: string where
  "PATTERN_STRING = raw ''`bstring`b''"

text \<open>\<open>_re_pattern_headers_maybe_templates\<close> and \<open>_re_pattern_templates\<close>: pattern, entity, header.\<close>

definition headers_maybe_templates :: "(string \<times> string \<times> string) list" where
  "headers_maybe_templates =
     [(raw ''[^>.]`b'' @ template @ raw ''(<.*?>)?`([^`)]'', template, header).
        (header, templates) \<leftarrow> HEADERS_MAYBE_TEMPLATES, template \<leftarrow> templates] @
     [(raw ''[^>.]`bset`s*`<'', ''set<>'', ''<set>''),
      (raw ''(std`b::`bmap`s*`<)|(^(std`b::`b)map`b`(`s*`<)'', ''map<>'', ''<map>'')]"

definition pattern_templates :: "(string \<times> string \<times> string) list" where
  "pattern_templates =
     [(raw ''(`<|`b)'' @ template @ raw ''`s*`<'', template @ ''<>'', header).
        (header, templates) \<leftarrow> HEADERS_CONTAINING_TEMPLATES, template \<leftarrow> templates]"

section \<open>What a file requires\<close>

type_synonym required = "(string \<times> int \<times> string) list"

text \<open>The match is not in another namespace.\<close>

definition in_std :: "string \<Rightarrow> mtch \<Rightarrow> bool" where
  "in_std line m \<longleftrightarrow> (let pre = slice line 0 (m_start m) in endswith pre ''std::'' \<or> \<not> endswith pre ''::'')"

definition require_string :: "int \<Rightarrow> string \<Rightarrow> required \<Rightarrow> required" where
  "require_string linenum line required =
     (case Search PATTERN_STRING line of
        None \<Rightarrow> required
      | Some m \<Rightarrow> if in_std line m then AList.update ''<string>'' (linenum, ''string'') required else required)"

definition require_maybe :: "int \<Rightarrow> string \<Rightarrow> string \<times> string \<times> string \<Rightarrow> required \<Rightarrow> required" where
  "require_maybe linenum line p required = (case p of (pattern, template, header) \<Rightarrow>
     if found pattern line then AList.update header (linenum, template) required else required)"

definition require_template :: "int \<Rightarrow> string \<Rightarrow> string \<times> string \<times> string \<Rightarrow> required \<Rightarrow> required" where
  "require_template linenum line p required = (case p of (pattern, template, header) \<Rightarrow>
     (case Search pattern line of
        None \<Rightarrow> required
      | Some m \<Rightarrow> if in_std line m then AList.update header (linenum, template) required else required))"

definition require_line :: "int \<times> string \<Rightarrow> required \<Rightarrow> required" where
  "require_line p required = (case p of (linenum, line) \<Rightarrow>
     if line = [] \<or> hd line = CHR ''#'' then required
     else
       (let r1 = require_string linenum line required;
            r2 = fold (require_maybe linenum line) headers_maybe_templates r1
        in if CHR ''<'' \<notin> set line then r2 else fold (require_template linenum line) pattern_templates r2))"

definition required_headers :: "cleansed \<Rightarrow> required" where
  "required_headers clean_lines =
     fold require_line (py_enumerate (slice (elided clean_lines) 0 (NumLines clean_lines))) []"

section \<open>Modules\<close>

definition lstrip_dot :: "string \<Rightarrow> string" where
  "lstrip_dot = lstrip_by (\<lambda>c. c = CHR ''.'')"

definition without_public :: "string \<Rightarrow> string" where
  "without_public filename = py_replace (py_replace filename ''/public/'' ''/'') ''/internal/'' ''/''"

definition FilesBelongToSameModule :: "opts \<Rightarrow> world \<Rightarrow> string \<Rightarrow> string \<Rightarrow> (bool \<times> string) run" where
  "FilesBelongToSameModule o' w filename_cc filename_h =
     bind (from_opt (Extension o' w filename_cc)) (\<lambda>ext_cc.
     if lstrip_dot ext_cc \<notin> set (GetNonHeaderExtensions o') then ret (False, [])
     else bind (from_opt (Extension o' w filename_h)) (\<lambda>ext_h.
     if \<not> IsHeaderExtension o' (lstrip_dot ext_h) then ret (False, [])
     else bind (from_opt (BaseName o' w filename_cc)) (\<lambda>base_cc.
     let cc = slice_to filename_cc (- py_len ext_cc);
         cc = (case Search TEST_FILE_SUFFIX base_cc of None \<Rightarrow> cc | Some m \<Rightarrow> slice_to cc (- py_len (group m 1)));
         cc = without_public cc;
         h = slice_to filename_h (- py_len ext_h);
         h = (if endswith h ''-inl'' then slice_to h (- 4) else h);
         h = without_public h;
         same = endswith cc h
     in ret (same, if same then slice_to cc (- py_len h) else []))))"

text \<open>The lines of a header file, as its iterator yields them, are a parameter: \<open>None\<close> when it cannot be
  opened.\<close>

type_synonym include_dict = "(string \<times> int) list"

definition setdefault :: "'k \<Rightarrow> 'v \<Rightarrow> ('k \<times> 'v) list \<Rightarrow> ('k \<times> 'v) list" where
  "setdefault k v xs = (if k \<in> fst ` set xs then xs else xs @ [(k, v)])"

definition UpdateIncludeState :: "(string \<Rightarrow> string list option) \<Rightarrow> string \<Rightarrow> include_dict \<Rightarrow> bool \<times> include_dict" where
  "UpdateIncludeState read_header filename include_dict =
     (case read_header filename of
        None \<Rightarrow> (False, include_dict)
      | Some lines \<Rightarrow>
          (True, fold (\<lambda>(linenum, line) dict.
             case Search PATTERN_INCLUDE (CleanseComments line) of
               None \<Rightarrow> dict | Some m \<Rightarrow> setdefault (group m 2) (linenum + 1) dict) (py_enumerate lines) include_dict))"

text \<open>The loop over the headers included: those of the same module are read.\<close>

fun module_headers ::
  "opts \<Rightarrow> world \<Rightarrow> (string \<Rightarrow> string list option) \<Rightarrow> string \<Rightarrow> string list \<Rightarrow> include_dict \<Rightarrow> bool \<Rightarrow> (bool \<times> include_dict) run" where
  "module_headers o' w read_header abs_filename [] include_dict header_found = ret (header_found, include_dict)"
| "module_headers o' w read_header abs_filename (header # headers) include_dict header_found =
     bind (FilesBelongToSameModule o' w abs_filename header) (\<lambda>(same_module, common_path).
     if same_module then
       (case UpdateIncludeState read_header (common_path @ header) include_dict of (opened, dict) \<Rightarrow>
          module_headers o' w read_header abs_filename headers dict (header_found \<or> opened))
     else module_headers o' w read_header abs_filename headers include_dict header_found)"

section \<open>The check\<close>

definition strip_brackets :: "string \<Rightarrow> string" where
  "strip_brackets s = (let P = (\<lambda>c. c \<in> {CHR ''<'', CHR ''>'', dquote}) in rstrip_by P (lstrip_by P s))"

text \<open>The missing headers, by line and entity.\<close>

definition missing_headers :: "required \<Rightarrow> include_dict \<Rightarrow> required" where
  "missing_headers required include_dict =
     filter (\<lambda>(header, _). strip_brackets header \<notin> fst ` set include_dict) (sort_key snd required)"

definition report_missing :: "string \<Rightarrow> required \<Rightarrow> unit run" where
  "report_missing fn missing = for_each (\<lambda>(header, linenum, template).
     report fn linenum ''build/include_what_you_use'' 4 (''Add #include '' @ header @ '' for '' @ template)) missing"

definition CheckForIncludeWhatYouUse ::
  "opts \<Rightarrow> world \<Rightarrow> (string \<Rightarrow> string list option) \<Rightarrow> string \<Rightarrow> cleansed \<Rightarrow> include_state \<Rightarrow> unit run" where
  "CheckForIncludeWhatYouUse o' w read_header fn clean_lines st =
     (let include_dict = fold (\<lambda>(k, v). AList.update k v) (concat (include_list st)) [];
          abs_filename = ReplaceAll (raw ''_flymake`.cc$'') ''.cc'' (FullName w fn)
      in bind (module_headers o' w read_header abs_filename (map fst include_dict) include_dict False)
           (\<lambda>(header_found, include_dict').
         if \<not> header_found \<and> list_ex (\<lambda>extension. endswith fn (''.'' @ extension)) (GetNonHeaderExtensions o')
         then ret ()
         else report_missing fn (missing_headers (required_headers clean_lines) include_dict')))"

end
