(* ===== verification/Member_Checks.thy ===== *)
theory Member_Checks
  imports Line_Checks Expressions
begin

text \<open>
  \<open>CheckMakePairUsesDeduction\<close>, the checks on redundant \<open>virtual\<close>, \<open>override\<close> and \<open>final\<close>, and the headers
  and names of C++11 and C++14 that are flagged.
\<close>

definition CheckMakePairUsesDeduction :: "string \<Rightarrow> cleansed \<Rightarrow> int \<Rightarrow> unit run" where
  "CheckMakePairUsesDeduction fn clean_lines linenum =
     bind (py_nth (elided clean_lines) linenum) (\<lambda>line.
     when_do (found (raw ''`bmake_pair`s*<'') line)
       (report fn linenum ''build/explicit_make_pair'' 4
          (''For C++11-compatibility, omit template arguments from make_pair'' @
           '' OR use pair directly OR if appropriate, construct a pair directly'')))"

section \<open>Redundant \<open>virtual\<close>\<close>

text \<open>The loop to the parameter list, over at most \<open>n\<close> lines: where it ends, \<open>(-1, -1)\<close> if not found.\<close>

fun parameter_list_end :: "cleansed \<Rightarrow> int \<Rightarrow> int \<Rightarrow> nat \<Rightarrow> (int \<times> int) run" where
  "parameter_list_end clean_lines start_line start_col 0 = ret (- 1, - 1)"
| "parameter_list_end clean_lines start_line start_col (Suc n) =
     bind (py_nth (elided clean_lines) start_line) (\<lambda>l.
     case Match (raw ''^([^(]*)`('') (slice_from l start_col) of
       Some m \<Rightarrow> bind (CloseExpression clean_lines start_line (start_col + py_len (group m 1)))
                  (\<lambda>(_, end_line, end_col). ret (end_line, end_col))
     | None \<Rightarrow> parameter_list_end clean_lines (start_line + 1) 0 n)"

text \<open>The loop after the parameter list.\<close>

fun specifier_after :: "string \<Rightarrow> int \<Rightarrow> string list \<Rightarrow> int \<Rightarrow> int \<Rightarrow> nat \<Rightarrow> unit run" where
  "specifier_after fn linenum lines i end_col 0 = ret ()"
| "specifier_after fn linenum lines i end_col (Suc n) =
     bind (py_nth lines i) (\<lambda>l.
     let line = slice_from l end_col in
     seq (case Search (raw ''`b(override|final)`b'') line of
            None \<Rightarrow> ret ()
          | Some m \<Rightarrow> report fn linenum ''readability/inheritance'' 4
              ([dquote] @ ''virtual'' @ [dquote] @ '' is redundant since function is already declared as '' @
               [dquote] @ group m 1 @ [dquote]))
         (if found (raw ''[^`w]`s*$'') line then ret () else specifier_after fn linenum lines (i + 1) 0 n))"

definition CheckRedundantVirtual :: "string \<Rightarrow> cleansed \<Rightarrow> int \<Rightarrow> unit run" where
  "CheckRedundantVirtual fn clean_lines linenum =
     bind (py_nth (elided clean_lines) linenum) (\<lambda>line.
     case Match (raw ''^(.*)(`bvirtual`b)(.*)$'') line of
       None \<Rightarrow> ret ()
     | Some virtual \<Rightarrow>
         if found (raw ''`b(public|protected|private)`s+$'') (group virtual 1) \<or>
            matches (raw ''^`s+(public|protected|private)`b'') (group virtual 3) then ret ()
         else if matches ''^.*[^:]:[^:].*$'' line then ret ()
         else
           bind (parameter_list_end clean_lines linenum (py_len (group virtual 2))
                   (nat (min (linenum + 3) (NumLines clean_lines) - linenum))) (\<lambda>(end_line, end_col).
           if end_col < 0 then ret ()
           else specifier_after fn linenum (elided clean_lines) end_line end_col
                  (nat (min (end_line + 3) (NumLines clean_lines) - end_line))))"

definition CheckRedundantOverrideOrFinal :: "string \<Rightarrow> cleansed \<Rightarrow> int \<Rightarrow> unit run" where
  "CheckRedundantOverrideOrFinal fn clean_lines linenum =
     bind (py_nth (elided clean_lines) linenum) (\<lambda>line.
     let declarator_end = py_rfind line (CHR '')'') in
     bind (if declarator_end \<ge> 0 then ret (Some (slice_from line declarator_end))
           else if linenum > 1 then
             bind (py_nth (elided clean_lines) (linenum - 1)) (\<lambda>prev.
             ret (if py_rfind prev (CHR '')'') \<ge> 0 then Some line else None))
           else ret None) (\<lambda>fragment.
     case fragment of
       None \<Rightarrow> ret ()
     | Some text \<Rightarrow>
         when_do (found (raw ''`boverride`b'') text \<and> found (raw ''`bfinal`b'') text)
           (report fn linenum ''readability/inheritance'' 4
              ([dquote] @ ''override'' @ [dquote] @ '' is redundant since function is already declared as '' @
               [dquote] @ ''final'' @ [dquote]))))"

section \<open>Features\<close>

definition CXX_INCLUDE :: string where
  "CXX_INCLUDE = raw ''`s*#`s*include`s+[<'' @ [dquote] @ ''](['' @ ''^<'' @ [dquote] @ '']+)['' @ [dquote] @ ''>]''"

definition CXX11_HEADERS :: "string list" where
  "CXX11_HEADERS = [''cfenv'', ''condition_variable'', ''fenv.h'', ''future'', ''mutex'', ''thread'', ''chrono'',
     ''ratio'', ''regex'', ''system_error'']"

definition FlagCxx11Features :: "string \<Rightarrow> cleansed \<Rightarrow> int \<Rightarrow> unit run" where
  "FlagCxx11Features fn clean_lines linenum =
     bind (py_nth (elided clean_lines) linenum) (\<lambda>line.
     seq (case Match CXX_INCLUDE line of
            None \<Rightarrow> ret ()
          | Some inc \<Rightarrow>
              seq (when_do (startswith (group inc 1) ''tr1/'')
                     (report fn linenum ''build/c++tr1'' 5
                        (''C++ TR1 headers such as <'' @ group inc 1 @ ''> are unapproved.'')))
                  (when_do (group inc 1 \<in> set CXX11_HEADERS)
                     (report fn linenum ''build/c++11'' 5
                        (''<'' @ group inc 1 @ ''> is an unapproved C++11 header.''))))
         (if matches (raw ''`s*#'') line \<and> \<not> matches (raw ''`s*#`s*define`b'') line then ret ()
          else for_each (\<lambda>top_name.
            when_do (found (raw ''`bstd::'' @ top_name @ raw ''`b'') line)
              (report fn linenum ''build/c++11'' 5
                 (''std::'' @ top_name @ '' is an unapproved C++11 class or function.  Send c-style '' @
                  ''an example of where it would make your code more readable, and they may let you use it.'')))
            [''alignment_of'', ''aligned_union'']))"

definition FlagCxx14Features :: "string \<Rightarrow> cleansed \<Rightarrow> int \<Rightarrow> unit run" where
  "FlagCxx14Features fn clean_lines linenum =
     bind (py_nth (elided clean_lines) linenum) (\<lambda>line.
     case Match CXX_INCLUDE line of
       None \<Rightarrow> ret ()
     | Some inc \<Rightarrow>
         when_do (group inc 1 \<in> {''scoped_allocator'', ''shared_mutex''})
           (report fn linenum ''build/c++14'' 5
              (''<'' @ group inc 1 @ ''> is an unapproved C++14 header.'')))"

end
