(* ===== verification/Junit.thy ===== *)
theory Junit
  imports Lint_State
begin

text \<open>
  The JUnit report of \<open>FormatJUnitXML\<close> as a tree of elements; turning the tree into text is
  \<open>xml.etree.ElementTree.tostring\<close>, a parameter. The theorem says that the report loses and invents no
  failure. The module-level accessors of the lint state follow.
\<close>

datatype xml = Element (tag: string) (attrib: "(string \<times> string) list") (text_of: "string option") (children: "xml list")

type_synonym failure = "string \<times> int option \<times> string \<times> string \<times> int"

text \<open>\<open>failed_file_order\<close> and \<open>failures_by_file\<close> in one association list, in the order of the files.\<close>

fun add_failure :: "failure \<Rightarrow> (string \<times> failure list) list \<Rightarrow> (string \<times> failure list) list" where
  "add_failure f [] = [(fst f, [f])]"
| "add_failure f ((failed_file, fs) # rest) =
     (if failed_file = fst f then (failed_file, fs @ [f]) # rest else (failed_file, fs) # add_failure f rest)"

definition failures_by_file :: "failure list \<Rightarrow> (string \<times> failure list) list" where
  "failures_by_file fs = fold add_failure fs []"

text \<open>\<open>'{0}: {1} [{2}] [{3}]'\<close>.\<close>

fun failure_text :: "failure \<Rightarrow> string" where
  "failure_text (fn, linenum, message, category, confidence) =
     show_line linenum @ '': '' @ message @ '' ['' @ category @ ''] ['' @ str_int confidence @ '']''"

definition file_case :: "string \<times> failure list \<Rightarrow> xml" where
  "file_case p = (case p of (failed_file, fs) \<Rightarrow>
     Element ''testcase'' [(''name'', failed_file)] None
       [Element ''failure'' [] (Some (join [newline] (map failure_text fs))) []])"

definition junit_tree :: "lint \<Rightarrow> xml" where
  "junit_tree st =
     (let num_errors = length (junit_errors st); num_failures = length (junit_failures st);
          heading = [(''name'', ''cpplint''), (''errors'', str_int (int num_errors)), (''failures'', str_int (int num_failures))]
      in if num_errors = 0 \<and> num_failures = 0 then
           Element ''testsuite'' (heading @ [(''tests'', ''1'')]) None
             [Element ''testcase'' [(''name'', ''passed'')] None []]
         else
           Element ''testsuite'' (heading @ [(''tests'', str_int (int (num_errors + num_failures)))]) None
             ((if num_errors > 0 then
                 [Element ''testcase'' [(''name'', ''errors'')] None
                    [Element ''error'' [] (Some (join [newline] (junit_errors st))) []]]
               else []) @
              (if num_failures > 0 then map file_case (failures_by_file (junit_failures st)) else [])))"

definition FormatJUnitXML :: "(xml \<Rightarrow> string) \<Rightarrow> lint \<Rightarrow> string" where
  "FormatJUnitXML tostring st =
     ''<?xml version='' @ [dquote] @ ''1.0'' @ [dquote] @ '' encoding='' @ [dquote] @ ''UTF-8'' @ [dquote] @ '' ?>'' @
     [newline] @ tostring (junit_tree st)"

section \<open>Correctness\<close>

lemma add_failure_files: "fst ` set (add_failure f xs) = insert (fst f) (fst ` set xs)"
  by (induction f xs rule: add_failure.induct) auto

lemma add_failure_distinct: "distinct (map fst xs) \<Longrightarrow> distinct (map fst (add_failure f xs))"
proof (induction f xs rule: add_failure.induct)
  case (2 f failed_file fs rest)
  then show ?case using add_failure_files [of f rest] by (cases "failed_file = fst f") auto
qed simp

lemma add_failure_lookup:
  "map_of (add_failure f xs) = (map_of xs)(fst f \<mapsto> (case map_of xs (fst f) of None \<Rightarrow> [] | Some fs \<Rightarrow> fs) @ [f])"
  by (induction f xs rule: add_failure.induct) (auto simp: fun_eq_iff)

lemma failures_by_file_snoc: "failures_by_file (fs @ [f]) = add_failure f (failures_by_file fs)"
  by (simp add: failures_by_file_def)

lemma failures_by_file_lookup:
  "map_of (failures_by_file fs) n = (if n \<in> fst ` set fs then Some (filter (\<lambda>f. fst f = n) fs) else None)"
proof (induction fs rule: rev_induct)
  case Nil
  show ?case by (simp add: failures_by_file_def)
next
  case (snoc f fs)
  have "fst f \<notin> fst ` set fs \<Longrightarrow> filter (\<lambda>g. fst g = fst f) fs = []"
    by (auto simp: filter_empty_conv image_iff)
  with snoc show ?case by (auto simp: failures_by_file_snoc add_failure_lookup)
qed

lemma failures_by_file_distinct: "distinct (map fst (failures_by_file fs))"
  by (induction fs rule: rev_induct) (simp_all add: failures_by_file_snoc add_failure_distinct, simp add: failures_by_file_def)

text \<open>C37. The JUnit report groups the failures without losing, repeating or reordering any: a reported file
  has exactly one group, which holds its failures in the order they were reported.\<close>

theorem junit_groups_failures:
  "distinct (map fst (failures_by_file fs)) \<and>
   map_of (failures_by_file fs) file = (if file \<in> fst ` set fs then Some (filter (\<lambda>f. fst f = file) fs) else None)"
  by (simp add: failures_by_file_distinct failures_by_file_lookup)

section \<open>The accessors of the module\<close>

definition cpplint_OutputFormat :: "lint \<Rightarrow> string" where
  "cpplint_OutputFormat st = output_format st"

definition cpplint_SetOutputFormat :: "string \<Rightarrow> lint \<Rightarrow> lint" where
  "cpplint_SetOutputFormat f st = SetOutputFormat f st"

definition cpplint_Quiet :: "lint \<Rightarrow> bool" where
  "cpplint_Quiet st = quiet st"

definition cpplint_SetQuiet :: "bool \<Rightarrow> lint \<Rightarrow> bool \<times> lint" where
  "cpplint_SetQuiet q st = SetQuiet q st"

definition cpplint_VerboseLevel :: "lint \<Rightarrow> int" where
  "cpplint_VerboseLevel st = verbose_level st"

definition cpplint_SetVerboseLevel :: "int \<Rightarrow> lint \<Rightarrow> int \<times> lint" where
  "cpplint_SetVerboseLevel level st = SetVerboseLevel level st"

definition cpplint_SetCountingStyle :: "string \<Rightarrow> lint \<Rightarrow> lint" where
  "cpplint_SetCountingStyle level st = SetCountingStyle level st"

definition cpplint_SetFilters :: "string \<Rightarrow> lint \<Rightarrow> exc option \<times> lint" where
  "cpplint_SetFilters fs st = SetFilters fs st"

definition cpplint_AddFilters :: "string \<Rightarrow> lint \<Rightarrow> exc option \<times> lint" where
  "cpplint_AddFilters fs st = AddFilters fs st"

definition cpplint_BackupFilters :: "lint \<Rightarrow> lint" where
  "cpplint_BackupFilters st = BackupFilters st"

definition cpplint_RestoreFilters :: "lint \<Rightarrow> lint" where
  "cpplint_RestoreFilters st = RestoreFilters st"

end
