(* ===== verification/Process_File.thy ===== *)
theory Process_File
  imports Style Language References Include_Use Member_Checks Junit
begin

text \<open>
  The driver over one file: \<open>ProcessLine\<close> runs every check on a line, \<open>ProcessFileData\<close> runs the checks
  of the file and of each of its lines, and replays their calls on the lint state.
\<close>

section \<open>One line\<close>

text \<open>The three state objects a line updates.\<close>

type_synonym line_state = "include_state \<times> function_state \<times> nesting"

type_synonym extra_check = "string \<Rightarrow> cleansed \<Rightarrow> int \<Rightarrow> unit run"

text \<open>The checks after the function length, which leave the nesting and the function state alone.\<close>

definition line_checks :: "opts \<Rightarrow> world \<Rightarrow> string \<Rightarrow> string \<Rightarrow> cleansed \<Rightarrow> int \<Rightarrow> include_state \<Rightarrow> nesting \<Rightarrow> include_state run" where
  "line_checks o' w fn file_extension clean_lines line include_state nesting_state =
     seq (CheckForMultilineCommentsAndStrings fn clean_lines line)
    (seq (CheckStyle o' w fn clean_lines line file_extension nesting_state)
    (bind (CheckLanguage o' w fn clean_lines line file_extension include_state) (\<lambda>include_state'.
     seq (CheckForNonConstReference fn clean_lines line nesting_state)
    (seq (CheckForNonStandardConstructs fn clean_lines line nesting_state)
    (seq (CheckVlogArguments fn clean_lines line)
    (seq (CheckPosixThreading fn clean_lines line)
    (seq (CheckInvalidIncrement fn clean_lines line)
    (seq (CheckMakePairUsesDeduction fn clean_lines line)
    (seq (CheckRedundantVirtual fn clean_lines line)
    (seq (CheckRedundantOverrideOrFinal fn clean_lines line)
         (ret include_state')))))))))))"

definition ProcessLine ::
  "opts \<Rightarrow> world \<Rightarrow> int \<Rightarrow> extra_check list \<Rightarrow> string \<Rightarrow> string \<Rightarrow> cleansed \<Rightarrow> int \<Rightarrow> line_state \<Rightarrow> line_state run" where
  "ProcessLine o' w verbosity extra_check_functions fn file_extension clean_lines line st =
     (case st of (include_state, function_state, nesting_state) \<Rightarrow>
      bind (py_nth (raw_lines clean_lines) line) (\<lambda>raw_line.
      seq (nolint fn raw_line line)
     (bind (Update fn clean_lines line nesting_state) (\<lambda>nesting_state'.
      seq (CheckForNamespaceIndentation fn nesting_state' clean_lines line)
      (if InAsmBlock nesting_state' then ret (include_state, function_state, nesting_state')
       else
         bind (CheckForFunctionLengths verbosity fn clean_lines line function_state) (\<lambda>function_state'.
         bind (line_checks o' w fn file_extension clean_lines line include_state nesting_state') (\<lambda>include_state'.
         seq (for_each (\<lambda>check_fn. check_fn fn clean_lines line) extra_check_functions)
             (ret (include_state', function_state', nesting_state')))))))))"

section \<open>One file\<close>

text \<open>The loop over the line numbers from \<open>line\<close> on.\<close>

fun process_lines ::
  "opts \<Rightarrow> world \<Rightarrow> int \<Rightarrow> extra_check list \<Rightarrow> string \<Rightarrow> string \<Rightarrow> cleansed \<Rightarrow> int \<Rightarrow> nat \<Rightarrow> line_state \<Rightarrow> line_state run" where
  "process_lines o' w verbosity extra fn file_extension clean_lines line 0 st = ret st"
| "process_lines o' w verbosity extra fn file_extension clean_lines line (Suc n) st =
     bind (ProcessLine o' w verbosity extra fn file_extension clean_lines line st) (\<lambda>st'.
     seq (FlagCxx11Features fn clean_lines line)
         (process_lines o' w verbosity extra fn file_extension clean_lines (line + 1) n st'))"

text \<open>What \<open>ProcessFileData\<close> does after the suppressions of the whole file are known. The list of lines
  is the one \<open>RemoveMultiLineComments\<close> left, also for the last two checks.\<close>

definition file_checks ::
  "opts \<Rightarrow> world \<Rightarrow> (string \<Rightarrow> string list option) \<Rightarrow> int \<Rightarrow> extra_check list \<Rightarrow> string \<Rightarrow> string \<Rightarrow> string list \<Rightarrow> unit run" where
  "file_checks o' w read_header verbosity extra fn file_extension lines =
     bind (RemoveMultiLineComments fn lines) (\<lambda>lines.
     bind (CleansedLines lines) (\<lambda>clean_lines.
     seq (if IsHeaderExtension o' file_extension then CheckForHeaderGuard o' w fn clean_lines else ret ())
     (bind (process_lines o' w verbosity extra fn file_extension clean_lines 0 (nat (NumLines clean_lines))
             (init_include_state, init_function_state, init_nesting)) (\<lambda>(include_state, function_state, nesting_state).
      seq (CheckCompletedBlocks fn nesting_state)
     (seq (CheckForIncludeWhatYouUse o' w read_header fn clean_lines include_state)
     (seq (if IsSourceExtension o' file_extension then CheckHeaderFileIncluded o' w fn include_state else ret ())
     (seq (CheckForBadCharacters fn (map (map of_char) lines))
          (CheckForNewlineAtEOF fn lines))))))))"

definition with_markers :: "string list \<Rightarrow> string list" where
  "with_markers lines = [''// marker so line numbers and indices both start at 1''] @ lines @
     [''// marker so line numbers end in a known way'']"

definition ProcessFileData ::
  "opts \<Rightarrow> world \<Rightarrow> (string \<Rightarrow> string list option) \<Rightarrow> extra_check list \<Rightarrow> string \<Rightarrow> string \<Rightarrow> string list \<Rightarrow> lint \<Rightarrow> exc + lint" where
  "ProcessFileData o' w read_header extra fn file_extension lines st =
     (let lines = with_markers lines in
      case exec (CheckForCopyright fn lines) (ResetNolintSuppressions st) of
        Inl e \<Rightarrow> Inl e
      | Inr (_, st1) \<Rightarrow>
          (let st2 = ProcessGlobalSuppresions lines st1 in
           case exec (file_checks o' w read_header (cpplint_VerboseLevel st2) extra fn file_extension lines) st2 of
             Inl e \<Rightarrow> Inl e
           | Inr (_, st3) \<Rightarrow> Inr st3))"

end
