(* ===== verification/Nesting_Facts.thy ===== *)
theory Nesting_Facts
  imports Nesting
begin

text \<open>
  Correctness of \<open>NestingState\<close>: \<open>Update\<close> returns on every line of a well-formed file; a
  conditional restores the stack; the brace loop moves the depth of the stack by the braces of the line.
  That the checkpoints share no block with the stack is in \<open>Nesting_Refs\<close>.
\<close>

section \<open>Totality\<close>

definition file_ok :: "cleansed \<Rightarrow> bool" where
  "file_ok cl \<longleftrightarrow> NumLines cl = py_len (elided cl) \<and> length (raw_lines cl) = length (elided cl)"

lemma template_end:
  assumes "Match TEMPLATE_CHAR (slice_from line pos) = Some m" and "0 \<le> pos"
  shows "0 < pos + py_len (group m 0) \<and> pos + py_len (group m 0) \<le> py_len line"
proof -
  have "0 < length (group m 0)" "length (group m 0) \<le> length line - min (length line) (nat pos)"
    using TEMPLATE_CHAR_progress [OF assms(1)] assms(2) by (simp_all add: clip_nonneg)
  then have "0 < length (group m 0)" "nat pos + length (group m 0) \<le> length line" by linarith+
  with assms(2) show ?thesis unfolding py_len_def by linarith
qed

lemma in_template_returns:
  "NumLines cl = py_len (elided cl) \<Longrightarrow> 0 \<le> n \<Longrightarrow> 0 \<le> pos \<Longrightarrow> \<exists>b. in_template_loop cl n pos = ret b"
proof (induction cl n pos rule: in_template_loop.induct)
  case (1 cl n pos)
  show ?case
  proof (cases "n < NumLines cl")
    case lt: True
    let ?line = "elided cl ! nat n"
    have nth: "py_nth (elided cl) n = ret ?line" using lt 1(5,6) by (simp add: at_index)
    show ?thesis
    proof (cases "Match TEMPLATE_CHAR (slice_from ?line pos)")
      case None
      with 1(1) [OF lt _ None] 1(5,6) lt nth show ?thesis
        by (subst in_template_loop.simps) simp
    next
      case (Some m)
      let ?k = "pos + py_len (group m 0)"
      have k: "0 < ?k" "?k \<le> py_len ?line"
        using template_end [OF Some 1(7)] by simp_all
      show ?thesis
      proof (cases "group m 1 = ''<''")
        case False
        with 1(2,3) [OF lt _ Some] 1(5,6,7) lt nth Some k show ?thesis
          by (subst in_template_loop.simps) auto
      next
        case True
        from close_expression_range [of n cl "?k - 1"] lt k 1(5,6) obtain l j e where
          c: "CloseExpression cl n (?k - 1) = ret (l, j, e)" and "e = - 1 \<or> n \<le> j \<and> 0 < e" by auto
        then consider "e < 0" | "0 \<le> e" "0 \<le> j" using 1(6) by fastforce
        then show ?thesis
        proof cases
          case 1
          with True lt nth Some c show ?thesis by (subst in_template_loop.simps) auto
        next
          case 2
          with "1.IH"(4) [OF lt _ Some, of "(l, j, e)"] 1(5) True lt nth Some c show ?thesis
            by (subst in_template_loop.simps) simp
        qed
      qed
    qed
  qed (subst in_template_loop.simps, auto)
qed

lemma disallow_returns [simp]: "returns (disallow_loop fn name seen ls)"
  by (induction fn name seen ls rule: disallow_loop.induct) (auto simp: returns_when_do split: option.split)

lemma check_end_returns:
  assumes "file_ok cl" and "0 \<le> n" and "n < py_len (elided cl)"
  shows "returns (CheckEnd fn cl n b)"
proof -
  have "py_nth (elided cl) n = ret (elided cl ! nat n)" "py_nth (raw_lines cl) n = ret (raw_lines cl ! nat n)"
    using assms by (simp_all add: at_index file_ok_def py_len_def py_nth_ret)
  then show ?thesis
    by (auto simp: CheckEnd_def class_check_end_def namespace_check_end_def returns_seq returns_when_do
        split: block_kind.split option.split)
qed

lemma brace_token_returns:
  assumes "file_ok cl" and "0 \<le> n" and "n < py_len (elided cl)"
  shows "returns (brace_token fn cl n line token st)"
  using check_end_returns [OF assms] by (simp add: brace_token_def returns_seq)

lemma brace_loop_returns:
  "file_ok cl \<Longrightarrow> 0 \<le> n \<Longrightarrow> n < py_len (elided cl) \<Longrightarrow> returns (brace_loop fn cl n line st)"
proof (induction fn cl n line st rule: brace_loop.induct)
  case (1 fn cl n line st)
  show ?case
  proof (cases "Match BRACE line")
    case (Some m)
    from brace_token_returns [OF "1.prems", of fn line "group m 1" st] obtain st' where
      r: "result (brace_token fn cl n line (group m 1) st) = Inr st'" by (auto simp: returns_def)
    from "1.IH" [OF Some r "1.prems"] r Some show ?thesis
      by (subst brace_loop.simps) (simp add: returns_bind)
  qed (subst brace_loop.simps, simp)
qed

lemma class_declaration_returns:
  assumes "file_ok cl" and "0 \<le> n" and "n < py_len (elided cl)"
  shows "returns (class_declaration cl n line st)"
proof (cases "Match CLASS_DECL line")
  case (Some m)
  obtain b where "InTemplateArgumentList cl n (py_len (group m 1)) = ret b"
    using in_template_returns [of cl n "py_len (group m 1)"] assms
    by (auto simp: InTemplateArgumentList_def file_ok_def py_len_def)
  moreover have "py_nth (raw_lines cl) n = ret (raw_lines cl ! nat n)"
    using assms by (simp add: file_ok_def py_len_def py_nth_ret)
  ultimately show ?thesis
    using Some by (simp add: class_declaration_def new_class_def Let_def returns_bind)
qed (simp add: class_declaration_def)

lemma begin_checks_returns:
  assumes "0 \<le> n" and "n < py_len (elided cl)"
  shows "returns (begin_checks cl n st)"
proof -
  have "py_nth (elided cl) n = ret (elided cl ! nat n)" using assms by (simp add: at_index)
  then show ?thesis
    by (simp add: begin_checks_def CheckBegin_def returns_bind split: block_kind.split)
qed

lemma access_control_returns: "returns (access_control fn n line st)"
  by (simp add: access_control_def returns_seq returns_when_do split: block_kind.split option.split)

lemma returns_bindI: "returns m \<Longrightarrow> (\<And>x. returns (f x)) \<Longrightarrow> returns (bind m f)"
  by (metis returns_bind returns_def)

lemma update_returns:
  assumes "file_ok cl" and "0 \<le> n" and "n < py_len (elided cl)"
  shows "returns (Update fn cl n st)"
proof -
  have "py_nth (elided cl) n = ret (elided cl ! nat n)" using assms by (simp add: at_index)
  then show ?thesis
    using class_declaration_returns [OF assms] begin_checks_returns [OF assms(2,3)] access_control_returns
      brace_loop_returns [OF assms]
    by (auto simp: Update_def Let_def split: prod.split intro!: returns_bindI)
qed

text \<open>C6. \<open>Update\<close> returns on every line of a file whose copies are aligned: no index of the nesting
  code is out of range and its loops end.\<close>

theorem Update_total:
  assumes "file_ok cl" and "0 \<le> n" and "n < py_len (elided cl)"
  shows "returns (Update fn cl n st)"
  using assms by (rule update_returns)

theorem Update_total_witness:
  "returns (Update ''a.cc'' \<lparr>elided = [''class A : B<C {''], line_list = [], raw_lines = [''class A : B<C {''],
     num_lines = 1, lines_without_raw_strings = []\<rparr> 0 init_nesting)"
  by (rule Update_total) (simp_all add: file_ok_def py_len_def NumLines_def)

section \<open>Conditionals\<close>

text \<open>Two stacks with the same contents, as objects that may differ.\<close>

definition same_blocks :: "block list \<Rightarrow> block list \<Rightarrow> bool" where
  "same_blocks xs ys \<longleftrightarrow> map (\<lambda>b. b\<lparr>oid := 0\<rparr>) xs = map (\<lambda>b. b\<lparr>oid := 0\<rparr>) ys"

lemma same_blocks_copies [simp]: "same_blocks (copies n bs) ys \<longleftrightarrow> same_blocks bs ys"
proof -
  have "map (\<lambda>b. b\<lparr>oid := 0\<rparr>) (copies n bs) = map (\<lambda>b. b\<lparr>oid := 0\<rparr>) bs"
    by (rule nth_equalityI) (simp_all add: copies_def)
  then show ?thesis by (simp add: same_blocks_def)
qed

lemma same_blocks_refl [simp]: "same_blocks bs bs"
  by (simp add: same_blocks_def)

text \<open>C15. At \<open>#else\<close> the stack is what it was before the \<open>#if\<close>, at \<open>#endif\<close> it is what it was before the
  \<open>#else\<close>, and the conditional leaves no checkpoint behind; what the branches do to the stack in between
  does not matter as long as they leave the checkpoints alone.\<close>

theorem conditional_restores:
  assumes "matches PP_IF l1" and "st1 = UpdatePreprocessor l1 st0"
    and "pp_stack st2 = pp_stack st1" and "matches PP_ELSE l2 \<and> \<not> matches PP_IF l2"
    and "st3 = UpdatePreprocessor l2 st2"
    and "pp_stack st4 = pp_stack st3" and "matches PP_ENDIF l3 \<and> \<not> matches PP_IF l3 \<and> \<not> matches PP_ELSE l3"
    and "st5 = UpdatePreprocessor l3 st4"
  shows "stack st1 = stack st0 \<and> same_blocks (stack st3) (stack st0) \<and> same_blocks (stack st5) (stack st2) \<and>
    pp_stack st5 = pp_stack st0"
proof -
  let ?pp = "\<lparr>stack_before_if = copies (next_oid st0) (stack st0), stack_before_else = [], seen_else = False\<rparr>"
  from assms(1,2) have 1: "stack st1 = stack st0" "pp_stack st1 = pp_stack st0 @ [?pp]"
    by (simp_all add: UpdatePreprocessor_def Let_def)
  let ?pp' = "?pp\<lparr>stack_before_else := copies (next_oid st2) (stack st2), seen_else := True\<rparr>"
  from assms(3-5) 1 have 3: "pp_stack st3 = pp_stack st0 @ [?pp']"
    "stack st3 = copies (next_oid st2 + length (stack st2)) (copies (next_oid st0) (stack st0))"
    by (simp_all add: UpdatePreprocessor_def Let_def)
  from assms(6-8) 3 have "stack st5 = copies (next_oid st2) (stack st2)" "pp_stack st5 = pp_stack st0"
    by (simp_all add: UpdatePreprocessor_def Let_def)
  with 1 3 show ?thesis by simp
qed

lemma directive_lines:
  "matches PP_IF ''#ifdef A''" "matches PP_ELSE ''#else'' \<and> \<not> matches PP_IF ''#else''"
  "matches PP_ENDIF ''#endif'' \<and> \<not> matches PP_IF ''#endif'' \<and> \<not> matches PP_ELSE ''#endif''"
  by code_simp+

theorem conditional_restores_witness:
  "let st0 = init_nesting\<lparr>stack := [new_block 0 1 True], next_oid := 1\<rparr>;
       st1 = UpdatePreprocessor ''#ifdef A'' st0;
       st2 = st1\<lparr>stack := []\<rparr>;
       st3 = UpdatePreprocessor ''#else'' st2;
       st5 = UpdatePreprocessor ''#endif'' st3
   in same_blocks (stack st3) [new_block 0 1 True] \<and> same_blocks (stack st5) [] \<and> pp_stack st5 = []"
  using conditional_restores [OF directive_lines(1) refl _ directive_lines(2) refl refl directive_lines(3) refl,
      of "UpdatePreprocessor ''#ifdef A'' (init_nesting\<lparr>stack := [new_block 0 1 True], next_oid := 1\<rparr>)\<lparr>stack := []\<rparr>"
        "init_nesting\<lparr>stack := [new_block 0 1 True], next_oid := 1\<rparr>"]
  by (simp add: Let_def init_nesting_def)

section \<open>The stages of one update\<close>

lemma list_all_last: "list_all P pps \<Longrightarrow> pps \<noteq> [] \<Longrightarrow> P (last pps) \<and> list_all P (butlast pps)"
  by (induction pps rule: rev_induct) auto

lemma result_bindE:
  assumes "result (bind m f) = Inr y"
  obtains x where "result m = Inr x" and "result (f x) = Inr y"
  using assms by (auto simp: result_bind split: sum.splits)

definition entered :: "string \<Rightarrow> nesting \<Rightarrow> nesting" where
  "entered line st = (let st2 = UpdatePreprocessor line
       (st\<lparr>previous_stack_top := (if stack st \<noteq> [] then Some (last (stack st)) else None)\<rparr>)
     in if stack st2 \<noteq> [] then map_top (count_parentheses line) st2 else st2)"

lemma Update_stages:
  assumes "result (Update fn cl n st) = Inr st'"
  obtains line l4 st4 l5 st5 st6 st7 where "result (py_nth (elided cl) n) = Inr line"
    and "namespace_loop n line (entered line st) = (l4, st4)"
    and "result (class_declaration cl n l4 st4) = Inr (l5, st5)" and "result (begin_checks cl n st5) = Inr st6"
    and "result (access_control fn n l5 st6) = Inr st7" and "result (brace_loop fn cl n l5 st7) = Inr st'"
proof -
  from assms obtain line where line: "result (py_nth (elided cl) n) = Inr line"
    by (auto simp: Update_def elim!: result_bindE)
  obtain l4 st4 where 4: "namespace_loop n line (entered line st) = (l4, st4)" by fastforce
  from assms line 4 that show thesis
    by (auto simp: Update_def Let_def entered_def split: if_splits elim!: result_bindE)
qed

lemma first_update:
  "result (Update ''a.cc'' \<lparr>elided = [''namespace a {''], line_list = [], raw_lines = [''namespace a {''], num_lines = 1,
     lines_without_raw_strings = []\<rparr> 0 init_nesting) =
   Inr (init_nesting\<lparr>stack := [(new_namespace 0 (Some ''a'') 0)\<lparr>seen_open_brace := True\<rparr>], next_oid := 1\<rparr>)"
  by code_simp

section \<open>Braces\<close>

text \<open>The depth a line leads to, a closing brace at depth 0 being ignored.\<close>

definition brace_depth :: "nat \<Rightarrow> string \<Rightarrow> nat" where
  "brace_depth d line = foldl (\<lambda>d c. if c = CHR ''{'' then Suc d else if c = CHR ''}'' then d - 1 else d) d line"

lemma brace_depth_skip: "list_all (\<lambda>x. x \<notin> set ''{;)}'') u \<Longrightarrow> brace_depth d (u @ s) = brace_depth d s"
  by (induction u) (auto simp: brace_depth_def)

lemma BRACE_finds:
  assumes "newline \<notin> set line" and "Match BRACE line = None"
  shows "list_all (\<lambda>x. x \<notin> set ''{;)}'') line"
proof (rule ccontr)
  assume "\<not> ?thesis"
  then have "\<exists>x \<in> set line. x \<in> set ''{;)}''" unfolding list_all_iff by blast
  from split_list_first_prop [OF this] obtain u x t where line: "line = u @ x # t" and x: "x \<in> set ''{;)}''"
    and u: "\<forall>y \<in> set u. y \<notin> set ''{;)}''" by blast
  let ?in = "[CChr (CHR ''{''), CChr (CHR '';''), CChr (CHR '')''), CChr (CHR ''}'')]"
  have "list_all (cls_has True ?in) u" using u by (auto simp: list_all_iff cls_has_def)
  from in_class_star [OF this, of None "x # t" no_caps]
  have 1: "(adv None u, x # t, no_caps) \<in> set (ends (RRep True 0 None (RSet True ?in)) (None, line, no_caps))"
    by (simp add: line)
  have "(Some x, t, no_caps) \<in> set (ends (RSet False ?in) (adv None u, x # t, no_caps))"
    using x by (auto simp: cls_has_def)
  then have 2: "(Some x, t, no_caps(1 := Some (x # t, t))) \<in>
      set (ends (RGrp 1 (RSet False ?in)) (adv None u, x # t, no_caps))" unfolding in_Grp by blast
  from in_dot_star [of t "Some x" "[]" "no_caps(1 := Some (x # t, t))"] assms(1) line obtain d where
    "(adv (Some x) t, [], d) \<in> set (ends (RRep True 0 None RAny) (Some x, t, no_caps(1 := Some (x # t, t))))"
    by auto
  then have 3: "(adv (Some x) t, [], d(2 := Some (t, []))) \<in>
      set (ends (RGrp 2 (RRep True 0 None RAny)) (Some x, t, no_caps(1 := Some (x # t, t))))"
    unfolding in_Grp by blast
  have "ends (RSeq (RGrp 2 (RRep True 0 None RAny)) REol) (Some x, t, no_caps(1 := Some (x # t, t))) \<noteq> []"
    by (rule ends_seq_nonempty [OF 3]) simp
  from ends_seq_nonempty [OF _ ends_seq_nonempty [OF 1 ends_seq_nonempty [OF 2 this]], of RBol "(None, line, no_caps)"]
  have "re_match (the (re_compile BRACE)) line \<noteq> None"
    unfolding BRACE_compiled option.sel by (intro re_match_nonempty) simp
  with assms(2) show False by (simp add: Match_def BRACE_compiled)
qed

lemma brace_token_depth:
  assumes "list_all seen_open_brace (stack st)" and "result (brace_token fn cl n line [c] st) = Inr st'"
    and "c \<in> set ''{;)}''"
  shows "length (stack st') = brace_depth (length (stack st)) [c] \<and> list_all seen_open_brace (stack st')"
proof -
  have seen: "SeenOpenBrace st" using assms(1) by (cases "stack st = []") (auto simp: SeenOpenBrace_def list_all_iff)
  have pop: "list_all seen_open_brace (butlast (stack st))"
    using assms(1) by (auto simp: list_all_iff dest: in_set_butlastD)
  from assms(3) consider "c = CHR ''{''" | "c = CHR '';'' \<or> c = CHR '')''" | "c = CHR ''}''" by auto
  then show ?thesis
  proof cases
    case 1
    with assms(2) seen obtain b where "st' = push_block b st" "seen_open_brace b"
      by (auto simp: brace_token_def new_extern_c_def new_block_def Let_def split: if_splits)
    with 1 assms(1) show ?thesis by (simp add: push_block_def brace_depth_def)
  next
    case 2
    with assms(1,2) seen show ?thesis by (auto simp: brace_token_def brace_depth_def)
  next
    case 3
    with assms(1,2) pop show ?thesis
      by (auto simp: brace_token_def brace_depth_def pop_block_def seq_def elim!: result_bindE split: if_splits)
  qed
qed

lemma brace_loop_depth:
  "newline \<notin> set line \<Longrightarrow> list_all seen_open_brace (stack st) \<Longrightarrow> result (brace_loop fn cl n line st) = Inr st' \<Longrightarrow>
    length (stack st') = brace_depth (length (stack st)) line"
proof (induction fn cl n line st rule: brace_loop.induct)
  case (1 fn cl n line st)
  show ?case
  proof (cases "Match BRACE line")
    case None
    with "1.prems"(3) have "st' = st" by (subst (asm) brace_loop.simps) simp
    with brace_depth_skip [OF BRACE_finds [OF "1.prems"(1) None], of "length (stack st)" "[]"] show ?thesis
      by (simp add: brace_depth_def)
  next
    case (Some m)
    with "1.prems"(3) obtain st1 where r: "result (brace_token fn cl n line (group m 1) st) = Inr st1"
      and rest: "result (brace_loop fn cl n (group m 2) st1) = Inr st'"
      by (subst (asm) brace_loop.simps) (auto elim!: result_bindE)
    from BRACE_groups [OF Some] "1.prems"(1) obtain u c where
      l: "line = u @ c # group m 2" "group m 1 = [c]" "c \<in> set ''{;)}''" "list_all (\<lambda>x. x \<notin> set ''{;)}'') u"
      by fastforce
    from brace_token_depth [OF "1.prems"(2) r [unfolded l(2)] l(3)]
    have st1: "length (stack st1) = brace_depth (length (stack st)) [c]" "list_all seen_open_brace (stack st1)"
      by simp_all
    have "newline \<notin> set (group m 2)" using "1.prems"(1) arg_cong [OF l(1), of set] by auto
    from "1.IH" [OF Some r this st1(2) rest] st1(1) have
      "length (stack st') = brace_depth (length (stack st)) (c # group m 2)" by (simp add: brace_depth_def)
    also have "\<dots> = brace_depth (length (stack st)) line"
      using brace_depth_skip [OF l(4)] l(1) by metis
    finally show ?thesis .
  qed
qed

text \<open>C14. When no block waits for its opening brace, the brace loop of \<open>Update\<close> changes the depth of the
  stack by the braces of the text exactly: one up per opening brace, one down per closing brace, none
  below zero; semicolons and parentheses do not matter.\<close>

theorem braces_move_depth:
  assumes "newline \<notin> set line" and "list_all seen_open_brace (stack st)"
    and "result (brace_loop fn cl n line st) = Inr st'"
  shows "length (stack st') = brace_depth (length (stack st)) line"
  using assms by (rule brace_loop_depth)

theorem braces_move_depth_witness:
  "length (stack (push_block (new_block 1 0 True) (push_block (new_block 0 0 True) init_nesting))) = 2"
proof -
  have "result (brace_loop ''a.cc'' \<lparr>elided = [''{ a; {''], line_list = [], raw_lines = [''{ a; {''], num_lines = 1,
      lines_without_raw_strings = []\<rparr> 0 ''{ a; {'' init_nesting) =
    Inr (push_block (new_block 1 0 True) (push_block (new_block 0 0 True) init_nesting))" by code_simp
  from braces_move_depth [OF _ _ this] show ?thesis by (simp add: brace_depth_def init_nesting_def)
qed

section \<open>Frame\<close>

lemma brace_token_pp: "result (brace_token fn cl n line t st) = Inr st' \<Longrightarrow> pp_stack st' = pp_stack st"
  by (auto simp: brace_token_def seq_def push_block_def pop_block_def map_top_def elim!: result_bindE split: if_splits)

lemma brace_loop_pp: "result (brace_loop fn cl n line st) = Inr st' \<Longrightarrow> pp_stack st' = pp_stack st"
proof (induction fn cl n line st rule: brace_loop.induct)
  case (1 fn cl n line st)
  then show ?case
    by (subst (asm) (2) brace_loop.simps) (auto elim!: result_bindE dest: brace_token_pp split: option.splits)
qed

lemma namespace_loop_pp: "pp_stack (snd (namespace_loop n line st)) = pp_stack st"
proof (induction n line st rule: namespace_loop.induct)
  case (1 n line st)
  then show ?case
    by (subst namespace_loop.simps) (auto simp: push_block_def split: option.split)
qed

lemma class_declaration_pp:
  "result (class_declaration cl n line st) = Inr (l, st') \<Longrightarrow> pp_stack st' = pp_stack st"
  by (auto simp: class_declaration_def push_block_def split: option.splits if_splits elim!: result_bindE)

lemma begin_checks_pp: "result (begin_checks cl n st) = Inr st' \<Longrightarrow> pp_stack st' = pp_stack st"
  by (auto simp: begin_checks_def map_top_def split: if_splits elim!: result_bindE)

lemma access_control_pp: "result (access_control fn n line st) = Inr st' \<Longrightarrow> pp_stack st' = pp_stack st"
  by (auto simp: access_control_def seq_def map_top_def split: block_kind.splits option.splits elim!: result_bindE)

lemma entered_pp:
  "\<not> matches PP_IF line \<Longrightarrow> \<not> matches PP_ELSE line \<Longrightarrow> \<not> matches PP_ENDIF line \<Longrightarrow>
    pp_stack (entered line st) = pp_stack st"
  by (simp add: entered_def UpdatePreprocessor_def Let_def map_top_def)

text \<open>A line that is no conditional directive leaves the checkpoints alone, whatever \<open>Update\<close> does to
  the stack.\<close>

theorem Update_keeps_conditionals:
  assumes "result (Update fn cl n st) = Inr st'" and "result (py_nth (elided cl) n) = Inr l"
    and "\<not> matches PP_IF l \<and> \<not> matches PP_ELSE l \<and> \<not> matches PP_ENDIF l"
  shows "pp_stack st' = pp_stack st"
  using assms(1)
proof (rule Update_stages)
  fix line l4 st4 l5 st5 st6 st7
  assume "result (py_nth (elided cl) n) = Inr line" and 4: "namespace_loop n line (entered line st) = (l4, st4)"
    and 5: "result (class_declaration cl n l4 st4) = Inr (l5, st5)" and 6: "result (begin_checks cl n st5) = Inr st6"
    and 7: "result (access_control fn n l5 st6) = Inr st7" and 8: "result (brace_loop fn cl n l5 st7) = Inr st'"
  with assms(2,3) have "pp_stack (entered line st) = pp_stack st" by (auto intro: entered_pp)
  with namespace_loop_pp [of n line "entered line st"] 4 have "pp_stack st4 = pp_stack st" by simp
  then show ?thesis
    using class_declaration_pp [OF 5] begin_checks_pp [OF 6] access_control_pp [OF 7] brace_loop_pp [OF 8] by simp
qed

theorem Update_keeps_conditionals_witness:
  "pp_stack (init_nesting\<lparr>stack := [(new_namespace 0 (Some ''a'') 0)\<lparr>seen_open_brace := True\<rparr>], next_oid := 1\<rparr>) =
    pp_stack init_nesting"
proof (rule Update_keeps_conditionals [OF first_update])
  show "\<not> matches PP_IF ''namespace a {'' \<and> \<not> matches PP_ELSE ''namespace a {'' \<and> \<not> matches PP_ENDIF ''namespace a {''"
    by code_simp
qed (simp add: py_nth_def)

end
