(* ===== verification/Regex_Groups.thy ===== *)
theory Regex_Groups
  imports Matching
begin

text \<open>
  What a match says of the place and the text of its groups, read off the pattern: least lengths, the
  characters that follow a group (\<open>tail\<close>), and the words a group of literals can be (\<open>choices\<close>). The
  bounds of the checks rest on these: a position taken from a group is a position of the line.
\<close>

section \<open>Occurrences\<close>

text \<open>A match object of the pattern in \<open>s\<close>, from any of the functions of the module.\<close>

definition occurs :: "regex \<Rightarrow> string \<Rightarrow> mtch \<Rightarrow> bool" where
  "occurs r s m \<longleftrightarrow> subject m = s \<and> suffix (at_start m) s \<and>
     (\<exists>p q. (q, at_end m, mcaps m) \<in> set (ends r (p, at_start m, no_caps)))"

lemma search_at_occurs:
  assumes "search_at r p s = Some (a, q, b, c)" and "suffix s subj"
  shows "occurs r subj \<lparr>subject = subj, at_start = a, at_end = b, mcaps = c\<rparr>"
  using search_at_wf [OF assms(1) suffix_order.order_refl] assms(2)
  by (auto simp: occurs_def intro: suffix_order.trans)

lemma Match_occurs:
  assumes "Match pattern s = Some m" and "re_compile pattern = Some r"
  shows "occurs r s m \<and> at_start m = s"
proof -
  from assms have "re_match r s = Some m" by (simp add: Match_def)
  then show ?thesis by (rule re_matchD) (auto simp: occurs_def)
qed

lemma re_search_occurs:
  assumes "re_search r s = Some m"
  shows "occurs r s m"
proof -
  from assms obtain a q b c where sa: "search_at r None s = Some (a, q, b, c)"
    and m: "m = \<lparr>subject = s, at_start = a, at_end = b, mcaps = c\<rparr>"
    by (auto simp: re_search_def split: option.splits)
  from search_at_occurs [OF sa suffix_order.order_refl] show ?thesis unfolding m .
qed

lemma Search_occurs: "Search pattern s = Some m \<Longrightarrow> re_compile pattern = Some r \<Longrightarrow> occurs r s m"
  by (simp add: Search_def re_search_occurs)

lemma find_from_occurs: "m \<in> set (find_from r subj p s) \<Longrightarrow> suffix s subj \<Longrightarrow> occurs r subj m"
proof (induction r subj p s rule: find_from.induct)
  case (1 r subj p s)
  from "1.prems"(1) have "search_at r p s \<noteq> None"
    by (cases "search_at r p s") (simp_all add: find_from.simps [of r subj p s])
  then obtain a q b c where sa: "search_at r p s = Some (a, q, b, c)" by (metis not_None_eq prod_cases4)
  from search_at_wf [OF sa suffix_order.order_refl] have "suffix b s"
    by (auto dest: ends_suffix intro: suffix_order.trans)
  with "1.prems"(2) have b: "suffix b subj" by (blast intro: suffix_order.trans)
  from "1.prems"(1) sa consider
      "m = \<lparr>subject = subj, at_start = a, at_end = b, mcaps = c\<rparr>"
    | "length b < length s" "m \<in> set (find_from r subj q b)"
    | x xs where "\<not> length b < length s" "s = x # xs" "m \<in> set (find_from r subj (Some x) xs)"
    by (auto simp: find_from.simps [of r subj p s] split: if_splits list.splits)
  then show ?case
  proof cases
    case 1
    with search_at_occurs [OF sa "1.prems"(2)] show ?thesis by simp
  next
    case 2
    with "1.IH"(1) [OF sa refl refl refl] b show ?thesis by simp
  next
    case 3
    with "1.prems"(2) have "suffix xs subj" by (auto dest: suffix_ConsD)
    with 3 "1.IH"(2) [OF sa refl refl refl] show ?thesis by simp
  qed
qed

lemma re_finditer_occurs: "m \<in> set (re_finditer r s) \<Longrightarrow> occurs r s m"
  by (auto simp: re_finditer_def dest: find_from_occurs)

section \<open>Lengths\<close>

lemma ends_min_len: "(q, t, d) \<in> set (ends r (p, s, c)) \<Longrightarrow> length t + min_len r \<le> length s"
proof (induction r arbitrary: p s c q t d)
  case (RSeq a b)
  then show ?case by fastforce
next
  case (RRep g lo hi a)
  have "(q, t, d) \<in> set (ends (RRep g lo hi a) (p, s, c)) \<Longrightarrow> length t + lo * min_len a \<le> length s" for hi
  proof (induction lo arbitrary: p s c hi)
    case 0
    then show ?case by (auto dest: ends_suffix suffix_length_le)
  next
    case (Suc lo)
    then obtain p1 s1 c1 where 1: "(p1, s1, c1) \<in> set (ends a (p, s, c))"
      and 2: "(q, t, d) \<in> set (ends (RRep g lo (pred_opt hi) a) (p1, s1, c1))" by (auto simp: ends_Rep_Suc)
    from Suc.IH [OF 2] RRep.IH [OF 1] show ?case by simp
  qed
  with RRep.prems show ?case by simp
next
  case (RAlt a b)
  from RAlt.prems consider "(q, t, d) \<in> set (ends a (p, s, c))" | "(q, t, d) \<in> set (ends b (p, s, c))" by auto
  then show ?case using RAlt.IH by cases fastforce+
next
  case (RGrp n a)
  then show ?case by (fastforce simp: in_Grp)
next
  case (RRef n)
  then show ?case using suffix_length_le [OF ends_suffix [OF RRef]] by simp
qed (auto split: list.splits if_splits)

lemma occurs_length: "occurs r s m \<Longrightarrow> length (at_end m) + min_len r \<le> length (at_start m)"
  by (auto simp: occurs_def dest: ends_min_len)

text \<open>The least number of characters a match has after group \<open>n\<close>; \<open>None\<close> when the group is optional.\<close>

fun tails :: "nat \<Rightarrow> regex \<Rightarrow> nat option" where
  "tails n (RSeq a b) = (if n \<in> groups b then tails n b else map_option (\<lambda>k. k + min_len b) (tails n a))"
| "tails n (RGrp k a) = (if k = n then Some 0 else tails n a)"
| "tails n r = None"

lemma tails_groups: "tails n r = Some k \<Longrightarrow> n \<in> groups r"
  by (induction n r arbitrary: k rule: tails.induct) (auto split: if_splits)

lemma tails_sound:
  "tails n r = Some k \<Longrightarrow> (q, t, d) \<in> set (ends r (p, s, c)) \<Longrightarrow>
    \<exists>x y. d n = Some (x, y) \<and> length t + k \<le> length y"
proof (induction n r arbitrary: k p s c q t d rule: tails.induct)
  case (1 n a b)
  from "1.prems"(2) obtain p1 s1 c1 where a: "(p1, s1, c1) \<in> set (ends a (p, s, c))"
    and b: "(q, t, d) \<in> set (ends b (p1, s1, c1))" by auto
  show ?case
  proof (cases "n \<in> groups b")
    case True
    with "1.IH"(1) [OF True _ b] "1.prems"(1) show ?thesis by simp
  next
    case False
    with "1.prems"(1) obtain k' where k': "tails n a = Some k'" "k = k' + min_len b" by auto
    from "1.IH"(2) [OF False k'(1) a] ends_other_caps [OF b False] ends_min_len [OF b] k'(2)
    show ?thesis by auto
  qed
next
  case (2 n k' a)
  then show ?case by (fastforce simp: in_Grp split: if_splits)
qed auto

definition tail :: "string \<Rightarrow> nat \<Rightarrow> nat option" where
  "tail pattern n = Option.bind (re_compile pattern) (tails n)"

lemma tailE:
  assumes "tail pattern n = Some k"
  obtains r where "re_compile pattern = Some r" and "tails n r = Some k"
  using assms by (auto simp: tail_def split: Option.bind_splits)

lemma occurs_caps:
  assumes "occurs r s m"
  shows "caps_in s (mcaps m)"
proof -
  from assms obtain p q where "suffix (at_start m) s"
    and el: "(q, at_end m, mcaps m) \<in> set (ends r (p, at_start m, no_caps))" by (auto simp: occurs_def)
  then have "state_in s (p, at_start m, no_caps)" by (simp add: state_in_def)
  from ends_state_in [OF this el] show ?thesis by (simp add: state_in_def)
qed

lemma occurs_tail:
  assumes "occurs r s m" and "tails n r = Some k" and "n \<noteq> 0"
  shows "group_opt m n = Some (group m n) \<and> length (group m n) + k \<le> length s"
proof -
  from assms obtain p q where "(q, at_end m, mcaps m) \<in> set (ends r (p, at_start m, no_caps))"
    by (auto simp: occurs_def)
  from tails_sound [OF assms(2) this] obtain x y where
    xy: "mcaps m n = Some (x, y)" "length (at_end m) + k \<le> length y" by blast
  with occurs_caps [OF assms(1)] have "suffix x s" "suffix y x" by (auto simp: caps_in_def)
  then have "length x \<le> length s" "length y \<le> length x" by (simp_all add: suffix_length_le)
  with xy assms(3) show ?thesis by (simp add: group_def group_opt_def span_text_def)
qed

lemma Match_tail:
  assumes "tail pattern n = Some k" and "Match pattern s = Some m" and "n \<noteq> 0"
  shows "length (group m n) + k \<le> length s"
  using assms by (elim tailE) (blast dest: Match_occurs occurs_tail)

text \<open>The bounds of a search as positions of the line.\<close>

definition least :: "string \<Rightarrow> nat option" where
  "least pattern = map_option min_len (re_compile pattern)"

lemma Search_least:
  assumes "least pattern = Some k" and "Search pattern s = Some m"
  shows "0 \<le> m_start m \<and> m_start m + int k \<le> m_end m \<and> m_end m \<le> py_len s"
proof -
  from assms(1) obtain r where r: "re_compile pattern = Some r" "min_len r = k" by (auto simp: least_def)
  from Search_wf [OF assms(2)] occurs_length [OF Search_occurs [OF assms(2) r(1)]] r(2) show ?thesis
    by (auto simp: m_start_def m_end_def py_len_def dest!: suffix_length_le)
qed

lemma Match_least:
  assumes "least pattern = Some k" and "Match pattern s = Some m"
  shows "k \<le> length s"
proof -
  from assms(1) obtain r where r: "re_compile pattern = Some r" "min_len r = k" by (auto simp: least_def)
  from Match_occurs [OF assms(2) r(1)] occurs_length r(2) show ?thesis by fastforce
qed

section \<open>Groups of literals\<close>

fun words :: "regex \<Rightarrow> string list option" where
  "words REmpty = Some [[]]"
| "words (RSet False [CChr c]) = Some [[c]]"
| "words (RSeq a b) = Option.bind (words a) (\<lambda>us. map_option (\<lambda>vs. [u @ v. u \<leftarrow> us, v \<leftarrow> vs]) (words b))"
| "words (RAlt a b) = Option.bind (words a) (\<lambda>us. map_option (\<lambda>vs. us @ vs) (words b))"
| "words r = None"

lemma words_lang: "lang r u \<Longrightarrow> words r = Some ws \<Longrightarrow> u \<in> set ws"
proof (induction r arbitrary: u ws rule: words.induct)
  case (3 a b)
  then obtain us vs x y where w: "words a = Some us" "words b = Some vs" "ws = concat (map (\<lambda>u. map ((@) u) vs) us)"
    and "u = x @ y" "lang a x" "lang b y" by (auto elim!: lang_SeqE split: Option.bind_splits)
  with 3 have "x \<in> set us" "y \<in> set vs" by auto
  with w \<open>u = x @ y\<close> show ?case by auto
next
  case (4 a b)
  then show ?case by (auto elim!: lang_AltE split: Option.bind_splits)
qed (auto elim: lang_EmptyE lang_SetE)

lemma words_plain: "words r = Some ws \<Longrightarrow> plain r"
  by (induction r arbitrary: ws rule: words.induct) (auto split: Option.bind_splits)

text \<open>The patterns inside the groups with number \<open>n\<close>.\<close>

primrec bodies :: "nat \<Rightarrow> regex \<Rightarrow> regex list" where
  "bodies n REmpty = []" | "bodies n RAny = []" | "bodies n (RSet b cs) = []"
| "bodies n (RSeq a b) = bodies n a @ bodies n b" | "bodies n (RAlt a b) = bodies n a @ bodies n b"
| "bodies n (RRep g l h a) = bodies n a"
| "bodies n (RGrp k a) = (if k = n then [a] else []) @ bodies n a"
| "bodies n RBol = []" | "bodies n REol = []" | "bodies n RWordB = []" | "bodies n RNWordB = []"
| "bodies n (RAhead b a) = bodies n a" | "bodies n (RRef k) = []"

text \<open>What group \<open>n\<close> holds after a step: what it held, or a text of one of the patterns.\<close>

definition holds_body :: "nat \<Rightarrow> regex list \<Rightarrow> caps \<Rightarrow> caps \<Rightarrow> bool" where
  "holds_body n as c d \<longleftrightarrow>
     d n = c n \<or> (\<exists>a \<in> set as. \<exists>u y. d n = Some (u @ y, y) \<and> (plain a \<longrightarrow> lang a u))"

lemma holds_body_refl [simp]: "holds_body n as c c"
  by (simp add: holds_body_def)

lemma holds_body_trans: "holds_body n as c d \<Longrightarrow> holds_body n as d e \<Longrightarrow> holds_body n as c e"
  by (auto simp: holds_body_def)

lemma holds_body_mono: "holds_body n as c d \<Longrightarrow> set as \<subseteq> set bs \<Longrightarrow> holds_body n bs c d"
  by (auto simp: holds_body_def)

lemma ends_bodies: "(q, t, d) \<in> set (ends r (p, s, c)) \<Longrightarrow> holds_body n (bodies n r) c d"
proof (induction r arbitrary: p s c q t d)
  case (RSeq a b)
  from RSeq.prems obtain p1 s1 c1 where 1: "(p1, s1, c1) \<in> set (ends a (p, s, c))"
    and 2: "(q, t, d) \<in> set (ends b (p1, s1, c1))" by auto
  from RSeq.IH(1) [OF 1] RSeq.IH(2) [OF 2] show ?case
    using holds_body_mono [of n _ _ _ "bodies n (RSeq a b)"] by (auto intro: holds_body_trans)
next
  case (RAlt a b)
  from RAlt.prems consider "(q, t, d) \<in> set (ends a (p, s, c))" | "(q, t, d) \<in> set (ends b (p, s, c))" by auto
  then show ?case
  proof cases
    case 1
    from holds_body_mono [OF RAlt.IH(1) [OF 1]] show ?thesis by simp
  next
    case 2
    from holds_body_mono [OF RAlt.IH(2) [OF 2]] show ?thesis by simp
  qed
next
  case (RRep g lo hi a)
  have "(q, t, d) \<in> set (ends (RRep g lo hi a) st) \<Longrightarrow> holds_body n (bodies n a) (snd (snd st)) d" for lo hi st
  proof (induction "RRep g lo hi a" st arbitrary: lo hi rule: ends.induct)
    case (6 lo hi st)
    have body: "(p1, s1, c1) \<in> set (ends a st) \<Longrightarrow> holds_body n (bodies n a) (snd (snd st)) c1" for p1 s1 c1
      using RRep.IH [of p1 s1 c1 "fst st" "fst (snd st)" "snd (snd st)"] by simp
    from "6.prems" show ?case
    proof (cases rule: ends_Rep_cases)
      case (more st1)
      obtain p1 s1 c1 where st1: "st1 = (p1, s1, c1)" by (cases st1)
      have "holds_body n (bodies n a) c1 d"
      proof (cases lo)
        case 0
        with more 6 show ?thesis unfolding st1 by fastforce
      next
        case (Suc lo')
        with more 6 show ?thesis unfolding st1 by fastforce
      qed
      with body more(1) show ?thesis unfolding st1 by (blast intro: holds_body_trans)
    qed (use body in auto)
  qed
  from this [OF RRep.prems] show ?case by simp
next
  case (RGrp k a)
  from RGrp.prems obtain e where el: "(q, t, e) \<in> set (ends a (p, s, c))" and d: "d = e(k := Some (s, t))"
    by (auto simp: in_Grp)
  from RGrp.IH [OF el] have "holds_body n (bodies n a) c e" .
  moreover from el obtain u where "s = u @ t" "plain a \<longrightarrow> lang a u"
    using ends_sound [of a q t e "(p, s, c)"] ends_suffix [OF el] by (auto simp: suffix_def)
  ultimately show ?case by (auto simp: holds_body_def d)
next
  case (RAhead neg a)
  show ?case
  proof (cases "ends a (p, s, c)")
    case Nil
    with RAhead.prems show ?thesis by (auto split: if_splits)
  next
    case (Cons st1 sts)
    obtain p1 s1 c1 where "st1 = (p1, s1, c1)" by (cases st1)
    with Cons RAhead.IH [of p1 s1 c1 p s c] RAhead.prems show ?thesis by (auto split: if_splits)
  qed
next
  case (RRef k)
  then show ?case using ends_other_caps [OF RRef, of n] by (simp add: holds_body_def)
qed (auto split: list.splits if_splits)

text \<open>The words a group can be, when all its patterns are made of literals.\<close>

definition choices :: "string \<Rightarrow> nat \<Rightarrow> string list option" where
  "choices pattern n = Option.bind (re_compile pattern) (\<lambda>r.
     map_option concat (those (map words (bodies n r))))"

lemma those_Some: "those xs = Some ys \<Longrightarrow> x \<in> set xs \<Longrightarrow> \<exists>y \<in> set ys. x = Some y"
  by (induction xs arbitrary: ys) (auto split: option.splits)

lemma occurs_choices:
  assumes "occurs r s m" and "those (map words (bodies n r)) = Some wss" and "n \<noteq> 0"
    and "group_opt m n = Some g"
  shows "g \<in> set (concat wss)"
proof -
  from assms(1) obtain p q where "(q, at_end m, mcaps m) \<in> set (ends r (p, at_start m, no_caps))"
    by (auto simp: occurs_def)
  from ends_bodies [OF this, of n] assms(3,4) obtain a u y where a: "a \<in> set (bodies n r)"
    and "mcaps m n = Some (u @ y, y)" "plain a \<longrightarrow> lang a u"
    by (auto simp: holds_body_def no_caps_def group_opt_def)
  with assms(3,4) have g: "g = u" by (simp add: group_opt_def)
  from those_Some [OF assms(2), of "words a"] a obtain ws where "words a = Some ws" "ws \<in> set wss" by auto
  with words_plain words_lang \<open>plain a \<longrightarrow> lang a u\<close> g show ?thesis by fastforce
qed

lemma Match_choices:
  assumes "choices pattern n = Some ws" and "tail pattern n \<noteq> None" and "Match pattern s = Some m" and "n \<noteq> 0"
  shows "group m n \<in> set ws"
proof -
  from assms(2) obtain k where "tail pattern n = Some k" by blast
  then obtain r where r: "re_compile pattern = Some r" "tails n r = Some k" by (rule tailE)
  with Match_occurs [OF assms(3)] have o: "occurs r s m" by simp
  from assms(1) r(1) show ?thesis
    using occurs_choices [OF o _ assms(4)] occurs_tail [OF o r(2) assms(4)] by (auto simp: choices_def)
qed

lemma finditer_choices:
  assumes "choices pattern n = Some ws" and "tail pattern n \<noteq> None" and "re_compile pattern = Some r"
    and "m \<in> set (re_finditer r s)" and "n \<noteq> 0"
  shows "group m n \<in> set ws"
proof -
  from assms(2,3) obtain k where "tails n r = Some k" by (auto simp: tail_def)
  with re_finditer_occurs [OF assms(4)] occurs_choices assms occurs_tail show ?thesis
    by (fastforce simp: choices_def)
qed

section \<open>The last character, and patterns that differ in their groups\<close>

text \<open>The literal a pattern ends with.\<close>

fun last_lit :: "regex \<Rightarrow> char option" where
  "last_lit (RSeq a b) = last_lit b"
| "last_lit (RSet False [CChr c]) = Some c"
| "last_lit r = None"

lemma ends_last_lit: "last_lit r = Some x \<Longrightarrow> (q, t, d) \<in> set (ends r (p, s, c)) \<Longrightarrow> \<exists>u. s = u @ x # t"
proof (induction r arbitrary: p s c rule: last_lit.induct)
  case (1 a b)
  from "1.prems"(2) obtain p1 s1 c1 where a: "(p1, s1, c1) \<in> set (ends a (p, s, c))"
    and b: "(q, t, d) \<in> set (ends b (p1, s1, c1))" by auto
  from ends_suffix [OF a] obtain v where "s = v @ s1" by (auto simp: suffix_def)
  with "1.IH" [OF _ b] "1.prems"(1) show ?case by fastforce
next
  case (2 y)
  then show ?case by (auto split: list.splits if_splits)
qed auto

lemma Search_last_lit:
  assumes "Option.bind (re_compile pattern) last_lit = Some x" and "Search pattern s = Some m"
  shows "0 < m_end m \<and> py_nth s (m_end m - 1) = ret x"
proof -
  from assms(1) obtain r where r: "re_compile pattern = Some r" "last_lit r = Some x"
    by (auto split: Option.bind_splits)
  from Search_occurs [OF assms(2) r(1)] obtain p q where
    m: "subject m = s" "suffix (at_start m) s" "(q, at_end m, mcaps m) \<in> set (ends r (p, at_start m, no_caps))"
    by (auto simp: occurs_def)
  from ends_last_lit [OF r(2) m(3)] m(2) obtain u where u: "s = u @ x # at_end m" by (auto simp: suffix_def)
  with m(1) have "m_end m = int (length u) + 1" by (simp add: m_end_def)
  with u show ?thesis by (simp add: py_nth_ret)
qed

text \<open>The language of a sequence as a concatenation, associative; groups do not change it.\<close>

definition conc :: "(string \<Rightarrow> bool) \<Rightarrow> (string \<Rightarrow> bool) \<Rightarrow> string \<Rightarrow> bool" where
  "conc P Q u \<longleftrightarrow> (\<exists>x y. u = x @ y \<and> P x \<and> Q y)"

lemma conc_assoc: "conc (conc P Q) R = conc P (conc Q R)"
  unfolding conc_def fun_eq_iff by (metis append_assoc)

lemma lang_Seq: "lang (RSeq a b) = conc (lang a) (lang b)"
  unfolding conc_def fun_eq_iff by (blast intro: lang.Seq elim: lang_SeqE)

lemma lang_Grp: "lang (RGrp n a) = lang a"
  by (auto simp: fun_eq_iff intro: lang.Grp elim: lang_GrpE)

lemma lang_Rep_Grp: "lang (RRep g l h (RGrp n a)) = lang (RRep g l h a)"
  by (auto simp: fun_eq_iff lang_Grp elim!: lang_RepE intro!: lang.Rep)

lemmas lang_shape = lang_Seq lang_Grp lang_Rep_Grp conc_assoc

lemma re_search_None_iff: "re_search r s = None \<longleftrightarrow> search_at r None s = None"
  by (auto simp: re_search_def split: option.splits)

lemma wordb_found:
  assumes "plain r"
  shows "re_search (RSeq RWordB r) s \<noteq> None \<longleftrightarrow>
    (\<exists>u v w. s = u @ v @ w \<and> boundary (adv None u) (v @ w) \<and> lang r v)"
proof -
  have "ends (RSeq RWordB r) (p, t, no_caps) \<noteq> [] \<longleftrightarrow> boundary p t \<and> (\<exists>v w. t = v @ w \<and> lang r v)" for p t
  proof
    assume "ends (RSeq RWordB r) (p, t, no_caps) \<noteq> []"
    then have b: "boundary p t" and "ends r (p, t, no_caps) \<noteq> []" by (auto split: if_splits)
    then obtain q t' c where "(q, t', c) \<in> set (ends r (p, t, no_caps))" by (metis list.set_sel(1) prod_cases3)
    from ends_sound [OF assms this] b show "boundary p t \<and> (\<exists>v w. t = v @ w \<and> lang r v)" by auto
  next
    assume "boundary p t \<and> (\<exists>v w. t = v @ w \<and> lang r v)"
    then obtain v w where "boundary p t" "t = v @ w" "lang r v" by auto
    with ends_complete [OF _ assms, of v p w no_caps] show "ends (RSeq RWordB r) (p, t, no_caps) \<noteq> []" by auto
  qed
  moreover have "re_search (RSeq RWordB r) s \<noteq> None \<longleftrightarrow>
      (\<exists>u t. s = u @ t \<and> ends (RSeq RWordB r) (adv None u, t, no_caps) \<noteq> [])"
    by (simp only: re_search_None_iff search_at_None not_all not_imp)
  ultimately show ?thesis by (simp only:) (metis (no_types, lifting))
qed

lemma wordb_same:
  assumes "plain r1" and "plain r2" and "lang r1 = lang r2"
  shows "(re_search (RSeq RWordB r1) s = None) = (re_search (RSeq RWordB r2) s = None)"
  using wordb_found [OF assms(1)] wordb_found [OF assms(2)] assms(3) by metis

end
