(* ===== verification/Cleansing_Facts.thy ===== *)
theory Cleansing_Facts
  imports Cleansing
begin

text \<open>
  Correctness of the preprocessing of theory \<open>Cleansing\<close>: every step returns (no Python exception is
  reachable), keeps the number of lines, and does nothing to lines without the construct it removes;
  the multi-line comment pass leaves no comment open; the quote count of \<open>IsCppString\<close> is a scan with
  a one-character memory.
\<close>

section \<open>Raw strings\<close>

lemma leading_space_matches:
  assumes "\<not> list_all py_space line"
  shows "Match (raw ''^(`s*)`S'') line \<noteq> None"
proof -
  have c: "re_compile (raw ''^(`s*)`S'') =
      Some (RSeq RBol (RSeq (RGrp 1 (RRep True 0 None (RSet False [CSpace]))) (RSet False [CNSpace])))"
    by code_simp
  let ?u = "takeWhile py_space line" and ?t = "dropWhile py_space line"
  from assms obtain x xs where t: "?t = x # xs" "\<not> py_space x"
    by (metis dropWhile_eq_Nil_conv list_all_iff hd_dropWhile list.exhaust list.sel(1))
  have "list_all (cls_has False [CSpace]) ?u" by (auto simp: list_all_iff cls_has_def dest: set_takeWhileD)
  from in_class_star [OF this, of None ?t no_caps]
  have "(adv None ?u, ?t, no_caps) \<in> set (ends (RRep True 0 None (RSet False [CSpace])) (None, line, no_caps))"
    by simp
  then have "(adv None ?u, ?t, no_caps(1 := Some (line, ?t))) \<in>
      set (ends (RGrp 1 (RRep True 0 None (RSet False [CSpace]))) (None, line, no_caps))"
    unfolding in_Grp by blast
  from ends_seq_nonempty [OF this, of "RSet False [CNSpace]"] t
  show ?thesis unfolding Match_def c
    by (simp add: re_match_nonempty cls_has_def)
qed

lemma prefix_find_nat: "find_nat sub s \<noteq> None \<longleftrightarrow> sublist sub s"
  by (induction sub s rule: find_nat.induct) (auto simp: sublist_Cons_right)

lemma cleanse_raw_line_delimiter:
  "cleanse_raw_line line = (line', Some d) \<Longrightarrow> CHR '')'' \<in> set d"
  by (induction line rule: cleanse_raw_line.induct)
    (subst (asm) (2) cleanse_raw_line.simps, auto simp: Let_def split: option.splits if_splits)

lemma py_find_not_space:
  assumes "0 \<le> py_find line d" and "CHR '')'' \<in> set d"
  shows "\<not> list_all py_space line"
proof -
  from assms(1) have "sublist d line"
    using prefix_find_nat [of d line] by (auto simp: py_find_def split: option.splits)
  with assms(2) have "CHR '')'' \<in> set line" using set_mono_sublist by blast
  moreover have "\<not> py_space (CHR '')'')" by code_simp
  ultimately show ?thesis unfolding list_all_iff by blast
qed

definition delimiter_ok :: "string option \<Rightarrow> bool" where
  "delimiter_ok d \<longleftrightarrow> (case d of None \<Rightarrow> True | Some t \<Rightarrow> CHR '')'' \<in> set t)"

lemma cleanse_raw_line_ok: "cleanse_raw_line line = (line', d) \<Longrightarrow> delimiter_ok d"
  by (cases d) (auto simp: delimiter_ok_def dest: cleanse_raw_line_delimiter)

lemma cleanse_raw_total:
  "delimiter_ok d \<Longrightarrow> \<exists>ls'. cleanse_raw d ls = ret ls' \<and> length ls' = length ls"
proof (induction d ls rule: cleanse_raw.induct)
  case (2 line rest)
  obtain line' d' where l: "cleanse_raw_line line = (line', d')" by fastforce
  from "2.IH" [OF l [symmetric] refl] cleanse_raw_line_ok [OF l] show ?case by (auto simp: l)
next
  case (3 delimiter line rest)
  show ?case
  proof (cases "0 \<le> py_find line delimiter")
    case True
    then obtain m where m: "Match (raw ''^(`s*)`S'') line = Some m"
      using leading_space_matches [of line] py_find_not_space [OF True] 3(3)
      by (auto simp: delimiter_ok_def)
    obtain line' d' where l: "cleanse_raw_line (group m 1 @ [dquote, dquote] @
        slice_from line (py_find line delimiter + py_len delimiter)) = (line', d')" by fastforce
    from "3.IH"(1) [OF refl True m l [symmetric] refl] cleanse_raw_line_ok [OF l] True m l
    show ?thesis by auto
  next
    case False
    with "3.IH"(2) [OF refl] 3(3) show ?thesis by auto
  qed
qed auto

lemma CleanseRawStrings_returns: "\<exists>ls'. CleanseRawStrings ls = ret ls' \<and> length ls' = length ls"
  unfolding CleanseRawStrings_def by (rule cleanse_raw_total) (simp add: delimiter_ok_def)

text \<open>C20. \<open>CleanseRawStrings\<close> returns for every list of lines (its loop over a line ends, and the match
  object it dereferences without a test is never \<open>None\<close>) and keeps the number of lines.\<close>

theorem CleanseRawStrings_total:
  "\<exists>ls'. CleanseRawStrings ls = ret ls' \<and> length ls' = length ls"
  unfolding CleanseRawStrings_def by (rule cleanse_raw_total) (simp add: delimiter_ok_def)

lemma no_raw_marker:
  assumes "\<not> sublist [CHR ''R'', dquote] line"
  shows "cleanse_raw_line line = (line, None)"
proof -
  have "Match RAW_STRING line = None"
  proof (rule ccontr)
    assume "Match RAW_STRING line \<noteq> None"
    then obtain m where "Match RAW_STRING line = Some m" by blast
    from RAW_STRING_groups [OF this] obtain a b where "line = a @ [CHR ''R'', dquote] @ b"
      by (metis append_assoc)
    with assms show False by (metis sublist_appendI)
  qed
  then show ?thesis by (simp add: cleanse_raw_line.simps)
qed

text \<open>Lines without the raw string marker \<open>R"\<close> pass through \<open>CleanseRawStrings\<close> unchanged.\<close>

theorem CleanseRawStrings_identity:
  assumes "\<forall>line \<in> set ls. \<not> sublist [CHR ''R'', dquote] line"
  shows "CleanseRawStrings ls = ret ls"
  using assms unfolding CleanseRawStrings_def by (induction ls) (auto simp: no_raw_marker)

theorem CleanseRawStrings_identity_witness:
  "CleanseRawStrings [''int a;'', [CHR ''R'', CHR ''('', dquote]] = ret [''int a;'', [CHR ''R'', CHR ''('', dquote]]"
  by (rule CleanseRawStrings_identity) (simp add: sublist_code)

section \<open>Multi-line comments\<close>

text \<open>A line that opens a comment and does not close it.\<close>

definition opens_comment :: "string \<Rightarrow> bool" where
  "opens_comment line \<longleftrightarrow> startswith (strip line) ''/*'' \<and> py_find_from (strip line) ''*/'' 2 < 0"

lemma comment_start_spec:
  "i \<le> length ls \<Longrightarrow> j = FindNextMultiLineCommentStart ls i \<Longrightarrow>
    i \<le> j \<and> j \<le> length ls \<and> (\<forall>k. i \<le> k \<and> k < j \<longrightarrow> \<not> opens_comment (ls ! k)) \<and>
    (j < length ls \<longrightarrow> opens_comment (ls ! j))"
proof (induction ls i rule: FindNextMultiLineCommentStart.induct)
  case (1 ls i)
  show ?case
  proof (cases "i < length ls \<and> \<not> opens_comment (ls ! i)")
    case True
    then have "j = FindNextMultiLineCommentStart ls (i + 1)"
      using 1(3) by (subst (asm) FindNextMultiLineCommentStart.simps) (auto simp: opens_comment_def)
    with 1(1) True show ?thesis
      by (auto simp: opens_comment_def Suc_le_eq) (metis le_neq_implies_less)+
  next
    case False
    then have "j = i"
      using 1(2,3) by (subst (asm) FindNextMultiLineCommentStart.simps) (auto simp: opens_comment_def)
    with False 1(2) show ?thesis by auto
  qed
qed

lemma comment_end_spec:
  "i \<le> length ls \<Longrightarrow> j = FindNextMultiLineCommentEnd ls i \<Longrightarrow>
    i \<le> j \<and> j \<le> length ls \<and> (\<forall>k. i \<le> k \<and> k < j \<longrightarrow> \<not> endswith (strip (ls ! k)) ''*/'')"
proof (induction ls i rule: FindNextMultiLineCommentEnd.induct)
  case (1 ls i)
  show ?case
  proof (cases "i < length ls \<and> \<not> endswith (strip (ls ! i)) ''*/''")
    case True
    then have "j = FindNextMultiLineCommentEnd ls (i + 1)"
      using 1(3) by (subst (asm) FindNextMultiLineCommentEnd.simps) auto
    with 1(1) True show ?thesis by (auto simp: Suc_le_eq) (metis le_neq_implies_less)
  next
    case False
    then have "j = i" using 1(2,3) by (subst (asm) FindNextMultiLineCommentEnd.simps) auto
    with 1(2) show ?thesis by auto
  qed
qed

lemma nth_RemoveRange:
  "k < length ls \<Longrightarrow> RemoveMultiLineCommentsFromRange ls b e ! k =
    (if b \<le> k \<and> k < e then ''/**/'' else ls ! k)"
proof -
  have "k < length ls \<Longrightarrow> fold (\<lambda>i ls. ls[i := ''/**/'']) is ls ! k = (if k \<in> set is then ''/**/'' else ls ! k)"
    for "is" by (induction "is" arbitrary: ls) (auto simp: nth_list_update)
  then show "k < length ls \<Longrightarrow> ?thesis" by (auto simp: RemoveMultiLineCommentsFromRange_def)
qed

lemma dummy_not_open [simp]: "\<not> opens_comment ''/**/''"
  by code_simp

definition unclosed :: "string \<Rightarrow> string list \<Rightarrow> call list \<Rightarrow> bool" where
  "unclosed fn ls cs \<longleftrightarrow> (\<exists>j < length ls. opens_comment (ls ! j) \<and>
     (\<forall>k. j \<le> k \<and> k < length ls \<longrightarrow> \<not> endswith (strip (ls ! k)) ''*/'') \<and>
     cs = [Report fn (Some (int j + 1)) ''readability/multiline_comment'' 5
             ''Could not find end of multi-line comment''])"

definition blanked :: "string \<Rightarrow> string \<Rightarrow> bool" where
  "blanked a b \<longleftrightarrow> b = a \<or> b = ''/**/''"

lemma blanked_trans: "list_all2 blanked a b \<Longrightarrow> list_all2 blanked b c \<Longrightarrow> list_all2 blanked a c"
  by (rule list_all2_trans) (auto simp: blanked_def)

lemma blanked_Range: "list_all2 blanked ls (RemoveMultiLineCommentsFromRange ls b e)"
  by (auto simp: list_all2_conv_all_nth nth_RemoveRange blanked_def)

lemma remove_comments_spec:
  "i \<le> length ls \<Longrightarrow> \<forall>k < i. \<not> opens_comment (ls ! k) \<Longrightarrow>
    \<exists>ls'. result (remove_comments fn ls i) = Inr ls' \<and> list_all2 blanked ls ls' \<and>
      (calls (remove_comments fn ls i) = [] \<and> (\<forall>k < length ls. \<not> opens_comment (ls' ! k)) \<or>
       unclosed fn ls' (calls (remove_comments fn ls i)))"
proof (induction fn ls i rule: remove_comments.induct)
  case (1 fn ls i)
  let ?b = "FindNextMultiLineCommentStart ls i"
  let ?e = "FindNextMultiLineCommentEnd ls ?b"
  let ?ls = "RemoveMultiLineCommentsFromRange ls ?b (?e + 1)"
  have refl2: "list_all2 blanked xs xs" for xs by (simp add: list_all2_conv_all_nth blanked_def)
  from comment_start_spec [OF 1(2) refl] have b: "i \<le> ?b" "?b \<le> length ls"
    "\<forall>k. i \<le> k \<and> k < ?b \<longrightarrow> \<not> opens_comment (ls ! k)" "?b < length ls \<longrightarrow> opens_comment (ls ! ?b)" by auto
  from comment_end_spec [OF b(2) refl] have e: "?b \<le> ?e" "?e \<le> length ls"
    "\<forall>k. ?b \<le> k \<and> k < ?e \<longrightarrow> \<not> endswith (strip (ls ! k)) ''*/''" by auto
  show ?case
  proof (cases "i < length ls \<and> ?b < length ls")
    case in_range: False
    then have "remove_comments fn ls i = ret ls"
      by (subst remove_comments.simps) (auto simp: Let_def)
    moreover have "\<forall>k < length ls. \<not> opens_comment (ls ! k)"
    proof (intro allI impI)
      fix k assume k: "k < length ls"
      show "\<not> opens_comment (ls ! k)"
      proof (cases "k < i")
        case True
        with 1(3) show ?thesis by blast
      next
        case False
        with k in_range have "i \<le> k" "k < ?b" by simp_all
        with b(3) show ?thesis by blast
      qed
    qed
    ultimately show ?thesis using refl2 by auto
  next
    case in_range: True
    show ?thesis
    proof (cases "?e < length ls")
      case True
      have step: "remove_comments fn ls i = remove_comments fn ?ls (?e + 1)"
        using in_range True by (subst remove_comments.simps) (auto simp: Let_def)
      have "\<forall>k < ?e + 1. \<not> opens_comment (?ls ! k)"
        using True 1(3) b(3) by (auto simp: nth_RemoveRange less_Suc_eq_le not_le) (meson not_le)
      then obtain ls' where
        "result (remove_comments fn ?ls (?e + 1)) = Inr ls'" "list_all2 blanked ?ls ls'"
        "calls (remove_comments fn ?ls (?e + 1)) = [] \<and> (\<forall>k < length ls. \<not> opens_comment (ls' ! k)) \<or>
          unclosed fn ls' (calls (remove_comments fn ?ls (?e + 1)))"
        using "1.IH" [OF _ refl _ refl] in_range True by (auto simp: not_le)
      then show ?thesis unfolding step using blanked_trans [OF blanked_Range] by blast
    next
      case False
      then have "remove_comments fn ls i =
          seq (report fn (int ?b + 1) ''readability/multiline_comment'' 5
            ''Could not find end of multi-line comment'') (ret ls)"
        using in_range by (subst remove_comments.simps) (auto simp: Let_def)
      moreover have "unclosed fn ls [Report fn (Some (int ?b + 1)) ''readability/multiline_comment'' 5
            ''Could not find end of multi-line comment'']"
        using in_range False b(4) e by (auto simp: unclosed_def)
      ultimately show ?thesis using refl2
        by (auto simp: seq_def calls_bind result_bind)
    qed
  qed
qed

text \<open>C7. \<open>RemoveMultiLineComments\<close> only replaces lines by the dummy comment; afterwards either it
  reported nothing and no line opens a comment, or it reported once, at a line that opens a comment
  none of the following lines ends.\<close>

theorem RemoveMultiLineComments_outcome:
  "\<exists>ls'. result (RemoveMultiLineComments fn ls) = Inr ls' \<and> list_all2 blanked ls ls' \<and>
    (calls (RemoveMultiLineComments fn ls) = [] \<and> list_all (\<lambda>l. \<not> opens_comment l) ls' \<or>
     unclosed fn ls' (calls (RemoveMultiLineComments fn ls)))"
  using remove_comments_spec [of 0 ls fn]
  by (auto simp: RemoveMultiLineComments_def list_all_length dest: list_all2_lengthD)
    (metis list_all2_lengthD)

lemma remove_comments_none:
  assumes "\<forall>k < length ls. \<not> opens_comment (ls ! k)" and "i \<le> length ls"
  shows "remove_comments fn ls i = ret ls"
proof -
  from comment_start_spec [OF assms(2) refl] assms(1) have "\<not> FindNextMultiLineCommentStart ls i < length ls"
    by auto
  then show ?thesis by (subst remove_comments.simps) (auto simp: Let_def)
qed

text \<open>A second pass of \<open>RemoveMultiLineComments\<close> over what a silent first pass left changes nothing.\<close>

theorem RemoveMultiLineComments_idempotent:
  assumes "RemoveMultiLineComments fn ls = ret ls'"
  shows "RemoveMultiLineComments fn' ls' = ret ls'"
proof -
  from assms have "calls (RemoveMultiLineComments fn ls) = []" "result (RemoveMultiLineComments fn ls) = Inr ls'"
    by simp_all
  with remove_comments_spec [of 0 ls fn] have "\<forall>k < length ls'. \<not> opens_comment (ls' ! k)"
    by (auto simp: RemoveMultiLineComments_def unclosed_def dest: list_all2_lengthD)
  then show ?thesis unfolding RemoveMultiLineComments_def by (rule remove_comments_none) simp
qed

theorem RemoveMultiLineComments_idempotent_witness:
  "RemoveMultiLineComments ''a.cc'' [''/**/'', ''/**/'', ''int x;''] = ret [''/**/'', ''/**/'', ''int x;'']"
  by (rule RemoveMultiLineComments_idempotent [of "''a.cc''" "[''/* a'', ''b */'', ''int x;'']"]) code_simp

section \<open>Comments and literals on a line\<close>

lemma ReplaceAll_shrinks: "length (ReplaceAll p [] s) \<le> length s"
  by (auto simp: ReplaceAll_def intro: re_sub_length split: option.splits)

lemma CleanseComments_length: "length (CleanseComments line) \<le> length line"
proof -
  have "length (rstrip (slice_to line i)) \<le> length line" for i
    using length_rstrip_by [of py_space "slice_to line i"] by (simp add: rstrip_def slice_to_def)
  then show ?thesis
    using order_trans [OF ReplaceAll_shrinks] by (auto simp: CleanseComments_def Let_def)
qed

lemma SEPARATED_DIGITS_matches:
  assumes "newline \<notin> set s"
  shows "Match SEPARATED_DIGITS s \<noteq> None"
proof -
  let ?A = "RRep True 0 None (RSeq (RRep True 0 (Some 1) (RLit squote)) (RSet False [CRng (CHR ''0'') (CHR ''9''),
        CRng (CHR ''a'') (CHR ''z''), CRng (CHR ''A'') (CHR ''Z''), CChr (CHR ''_'')]))"
  let ?D = "RRep True 0 None RAny"
  have "(None, s, no_caps) \<in> set (ends ?A (None, s, no_caps))" by (rule ends_Rep_self)
  then have 1: "(None, s, no_caps(1 := Some (s, s))) \<in> set (ends (RGrp 1 ?A) (None, s, no_caps))"
    unfolding in_Grp by blast
  from in_dot_star [OF assms, of None "[]" "no_caps(1 := Some (s, s))"] obtain d where
    "(adv None s, [], d) \<in> set (ends ?D (None, s, no_caps(1 := Some (s, s))))" by auto
  then have 2: "(adv None s, [], d(2 := Some (s, []))) \<in> set (ends (RGrp 2 ?D) (None, s, no_caps(1 := Some (s, s))))"
    unfolding in_Grp by blast
  have "ends (RSeq (RGrp 2 ?D) REol) (None, s, no_caps(1 := Some (s, s))) \<noteq> []"
    by (rule ends_seq_nonempty [OF 2]) simp
  from ends_seq_nonempty [OF 1 this]
  have "ends (RSeq (RGrp 1 ?A) (RSeq (RGrp 2 ?D) REol)) (None, s, no_caps) \<noteq> []" .
  from ends_seq_nonempty [OF _ this, of RBol "(None, s, no_caps)"]
  show ?thesis unfolding Match_def SEPARATED_DIGITS_compiled by (simp add: re_match_nonempty)
qed

lemma length_py_replace_erase: "length (py_replace s old []) \<le> length s"
proof (induction s old "[] :: string" rule: py_replace.induct)
  case (1 s old)
  show ?case
  proof (cases s)
    case Nil
    then show ?thesis by (subst py_replace.simps) simp
  next
    case (Cons c cs)
    with 1 show ?thesis
      by (subst py_replace.simps) (auto simp: map_replicate_const concat_map_singleton intro: le_trans [OF _ diff_le_self])
  qed
qed

lemma collapse_total:
  "\<exists>t. collapse_loop collapsed line = ret t \<and> length t \<le> length collapsed + length line"
proof (induction collapsed line rule: collapse_loop.induct)
  case (1 collapsed line)
  show ?case
  proof (cases "Match FIRST_QUOTE line")
    case None
    then show ?thesis by (simp add: collapse_loop.simps [of collapsed line])
  next
    case (Some m)
    from FIRST_QUOTE_groups [OF Some] obtain c rest where
      l: "line = group m 1 @ c # group m 3 @ rest" and nl: "newline \<notin> set (group m 3)" by blast
    have len: "length line \<ge> length (group m 1) + 1 + length (group m 3)" by (subst l) simp
    have sl: "length (slice_from (group m 3) (i + 1)) + 1 \<le> length (group m 3)"
      if "i = py_find (group m 3) q" "0 \<le> i" "length q = 1" for i q
      using py_find_bound [of "group m 3" q] that by (auto simp: clip_nonneg py_len_def)
    show ?thesis
    proof (cases "group m 2 = [dquote]")
      case dq: True
      show ?thesis
      proof (cases "0 \<le> py_find (group m 3) [dquote]")
        case True
        with 1(1) [OF Some dq refl True] dq len sl [OF refl True] Some show ?thesis
          by (fastforce simp: collapse_loop.simps [of collapsed line])
      qed (use dq Some in \<open>simp add: collapse_loop.simps [of collapsed line]\<close>)
    next
      case sq: False
      show ?thesis
      proof (cases "found DIGITS_BEFORE_QUOTE (group m 1)")
        case dig: True
        from nl obtain l where l: "Match SEPARATED_DIGITS (squote # group m 3) = Some l"
          using SEPARATED_DIGITS_matches [of "squote # group m 3"] by auto
        from SEPARATED_DIGITS_groups [OF l] have
          "length (group l 1) + length (group l 2) \<le> 1 + length (group m 3)"
          by (metis (no_types, lifting) add.assoc le_add1 length_Cons length_append plus_1_eq_Suc)
        with 1(2) [OF Some sq dig l] length_py_replace_erase [of "group l 1" "[squote]"] len
        show ?thesis using Some sq dig l
          by (fastforce simp: collapse_loop.simps [of collapsed line])
      next
        case nodig: False
        show ?thesis
        proof (cases "0 \<le> py_find (group m 3) [squote]")
          case True
          with 1(3) [OF Some sq nodig refl True] sq nodig len sl [OF refl True] Some show ?thesis
            by (fastforce simp: collapse_loop.simps [of collapsed line])
        qed (use sq nodig Some in \<open>simp add: collapse_loop.simps [of collapsed line]\<close>)
      qed
    qed
  qed
qed

lemma CollapseStrings_returns: "\<exists>t. CollapseStrings line = ret t"
  using collapse_total [of "[]" "ReplaceAll CLEANSE_LINE_ESCAPES [] line"]
  by (auto simp: CollapseStrings_def)

text \<open>C19. \<open>_CollapseStrings\<close> returns for every line: its loop ends, the digit separator match it
  dereferences is never \<open>None\<close>, and the collapsed line is never longer than the line.\<close>

theorem CollapseStrings_total:
  "\<exists>t. CollapseStrings line = ret t \<and> length t \<le> length line"
proof (cases "matches PATTERN_INCLUDE line")
  case False
  from collapse_total [of "[]" "ReplaceAll CLEANSE_LINE_ESCAPES [] line"]
    ReplaceAll_shrinks [of CLEANSE_LINE_ESCAPES line] False
  show ?thesis by (auto simp: CollapseStrings_def)
qed (simp add: CollapseStrings_def)

lemma escapes_need_backslash: "needs CLEANSE_LINE_ESCAPES backslash"
  by code_simp

text \<open>A line without quotes and backslashes is left as it is by \<open>_CollapseStrings\<close>.\<close>

theorem CollapseStrings_identity:
  assumes "dquote \<notin> set line" and "squote \<notin> set line" and "backslash \<notin> set line"
  shows "CollapseStrings line = ret line"
proof -
  have "Match FIRST_QUOTE line = None"
  proof (rule ccontr)
    assume "Match FIRST_QUOTE line \<noteq> None"
    then obtain m where "Match FIRST_QUOTE line = Some m" by blast
    from FIRST_QUOTE_groups [OF this] obtain c where "c \<in> set line" "c = squote \<or> c = dquote"
      by (metis in_set_conv_decomp)
    with assms show False by auto
  qed
  with ReplaceAll_needs [OF escapes_need_backslash assms(3)] show ?thesis
    by (simp add: CollapseStrings_def collapse_loop.simps)
qed

theorem CollapseStrings_identity_witness:
  "CollapseStrings ''x = a + b;'' = ret ''x = a + b;''"
  by (rule CollapseStrings_identity) simp_all

section \<open>The copies of a file\<close>

lemma cleanse_each_total:
  "\<exists>es cs. cleanse_each ls = ret (es, cs) \<and> length es = length ls \<and> length cs = length ls"
proof (induction ls)
  case (Cons l ls)
  moreover obtain t where "CollapseStrings l = ret t" using CollapseStrings_returns [of l] by blast
  ultimately show ?case by auto
qed simp

lemma cleansed_aligned:
  "\<exists>c. CleansedLines ls = ret c \<and> raw_lines c = ls \<and> NumLines c = int (length ls) \<and>
    length (elided c) = length ls \<and> length (line_list c) = length ls \<and>
    length (lines_without_raw_strings c) = length ls"
proof -
  obtain ls' where 1: "CleanseRawStrings ls = ret ls'" "length ls' = length ls"
    using CleanseRawStrings_returns [of ls] by blast
  obtain es cs where 2: "cleanse_each ls' = ret (es, cs)" "length es = length ls'" "length cs = length ls'"
    using cleanse_each_total [of ls'] by blast
  show ?thesis using 1 2 by (simp add: CleansedLines_def NumLines_def py_len_def)
qed

text \<open>C25. \<open>CleansedLines\<close> can be built from any file, and its four copies have as many lines as the
  file, which its \<open>NumLines\<close> is.\<close>

theorem CleansedLines_aligned:
  "\<exists>c. CleansedLines ls = ret c \<and> raw_lines c = ls \<and> NumLines c = int (length ls) \<and>
    length (elided c) = length ls \<and> length (line_list c) = length ls \<and>
    length (lines_without_raw_strings c) = length ls"
  by (rule cleansed_aligned)

section \<open>The quote count\<close>

text \<open>A scan that remembers whether it is inside a string; a backslash hides the next character.\<close>

fun in_string :: "bool \<Rightarrow> string \<Rightarrow> bool" where
  "in_string b [] = b"
| "in_string b [c] = (if c = dquote then \<not> b else b)"
| "in_string b (c # d # s) =
     (if c = backslash then in_string b s
      else in_string (if c = dquote then \<not> b else b) (d # s))"

lemma count_quote [simp]:
  "py_count [] [x] = 0" "py_count (y # s) [x] = (if y = x then Suc (py_count s [x]) else py_count s [x])"
  by (subst py_count.simps, simp)+

lemma count_escaped [simp]:
  "py_count [] [x, y] = 0" "py_count (x # y # s) [x, y] = Suc (py_count s [x, y])"
  "z \<noteq> x \<Longrightarrow> py_count (z # s) [x, y] = py_count s [x, y]"
  "z \<noteq> y \<Longrightarrow> py_count (x # z # s) [x, y] = py_count (z # s) [x, y]"
  "py_count [x] [x, y] = 0"
  by (subst py_count.simps, simp; (subst py_count.simps, simp)?)+

lemma replace_pairs [simp]:
  "py_replace [] [x, x] t = []" "py_replace (x # x # s) [x, x] t = t @ py_replace s [x, x] t"
  "z \<noteq> x \<Longrightarrow> py_replace (z # s) [x, x] t = z # py_replace s [x, x] t"
  "z \<noteq> x \<Longrightarrow> py_replace (x # z # s) [x, x] t = x # z # py_replace s [x, x] t"
  "py_replace [x] [x, x] t = [x]"
  by (subst py_replace.simps, simp; (subst py_replace.simps, simp; (subst py_replace.simps, simp)?)?)+

lemma quote_parity:
  "in_string b line \<longleftrightarrow> b \<noteq> odd (int (py_count (py_replace line [backslash, backslash] ''XX'') [dquote])
     - int (py_count (py_replace line [backslash, backslash] ''XX'') [backslash, dquote]))"
proof (induction b line rule: in_string.induct)
  case (3 b c d s)
  show ?case
  proof (cases "c = backslash")
    case True
    then show ?thesis using 3(1) by (cases "d = backslash"; cases "d = dquote") auto
  next
    case False
    then show ?thesis using 3(2) by (auto simp del: in_string.simps simp: in_string.simps(3))
  qed
next
  case (2 b c)
  show ?case by (cases "c = backslash") auto
qed simp

lemma no_triple:
  assumes "squote \<notin> set s"
  shows "py_count s [squote, dquote, squote] = 0"
  using assms
proof (induction s)
  case (Cons y s)
  then show ?case by (subst py_count.simps) simp
qed (subst py_count.simps, simp)

lemma replace_keeps_out: "x \<notin> set s \<Longrightarrow> x \<notin> set new \<Longrightarrow> x \<notin> set (py_replace s old new)"
proof (induction s old new rule: py_replace.induct)
  case (1 s old new)
  show ?case
  proof (cases s)
    case Nil
    with 1 show ?thesis by (subst py_replace.simps) simp
  next
    case (Cons c cs)
    from 1(3) have "x \<notin> set (drop (length old) s)" by (auto dest: in_set_dropD)
    with Cons 1 show ?thesis by (subst py_replace.simps) auto
  qed
qed

text \<open>C24. On a line without single quotes, \<open>IsCppString\<close> (three counts and a parity) answers what a
  left-to-right scan with escapes answers: whether the text after the line is inside a string.\<close>

theorem IsCppString_scan:
  assumes "squote \<notin> set line"
  shows "IsCppString line \<longleftrightarrow> in_string False line"
proof -
  have "raw ''``'' = [backslash, backslash]" by code_simp
  then show ?thesis
    using no_triple [OF replace_keeps_out [OF assms, of "''XX''" "[backslash, backslash]"]]
    by (simp add: IsCppString_def quote_parity [of False] Let_def)
qed

theorem IsCppString_scan_witness:
  "IsCppString [CHR ''f'', dquote, backslash, dquote, CHR ''/''] \<longleftrightarrow> True"
  using IsCppString_scan [of "[CHR ''f'', dquote, backslash, dquote, CHR ''/'']"] by simp

text \<open>A line without a slash has no comment to remove.\<close>

theorem CleanseComments_identity:
  assumes "CHR ''/'' \<notin> set line"
  shows "CleanseComments line = line"
proof -
  have "py_find line ''//'' = -1"
  proof (rule ccontr)
    assume "py_find line ''//'' \<noteq> -1"
    then have "sublist ''//'' line"
      using prefix_find_nat [of "''//''" line] by (auto simp: py_find_def split: option.splits)
    with assms show False by (meson list.set_intros(1) set_mono_sublist subsetD)
  qed
  moreover have "needs CLEANSE_LINE_C_COMMENTS (CHR ''/'')" by code_simp
  ultimately show ?thesis
    using assms by (simp add: CleanseComments_def ReplaceAll_needs)
qed

theorem CleanseComments_identity_witness: "CleanseComments ''a = b; '' = ''a = b; ''"
  by (rule CleanseComments_identity) simp

text \<open>The search for a line comment does not look at block comments: a double slash inside one cuts the
  line there, and the code after the block comment is lost.\<close>

lemma url_in_block_comment:
  "CleanseComments ''/* http://x */ int y;'' = ''/* http:''"
  by code_simp

end
