(* ===== verification/Paths_Facts.thy ===== *)
theory Paths_Facts
  imports Paths
begin

text \<open>
  Facts about file names: \<open>RepositoryName\<close> returns unless the root directory of the file system is a
  subversion checkout, and the list of \<open>PathSplitToList\<close> joins back to the path.
\<close>

section \<open>Absolute paths\<close>

definition absolute :: "string \<Rightarrow> bool" where
  "absolute p \<longleftrightarrow> startswith p ''/''"

lemma absolute_Cons: "absolute p \<longleftrightarrow> (\<exists>q. p = CHR ''/'' # q)"
  by (auto simp: absolute_def startswith_def prefix_def)

lemma absolute_rstrip:
  assumes "absolute h" and "h \<noteq> replicate (length h) (CHR ''/'')"
  shows "absolute (rstrip_slash h)"
proof -
  from assms(2) obtain c where c: "c \<in> set h" "c \<noteq> CHR ''/''" by (metis replicate_eqI)
  then have "rstrip_slash h \<noteq> []" by (auto simp: rstrip_slash_def rstrip_by_def)
  moreover from rstrip_by_prefix have "prefix (rstrip_slash h) h" by (simp add: rstrip_slash_def)
  ultimately show ?thesis using assms(1) by (cases "rstrip_slash h") (auto simp: absolute_Cons prefix_def)
qed

lemma absolute_dirname:
  assumes "absolute p"
  shows "absolute (dirname p)"
proof -
  define i where "i = py_rfind p (CHR ''/'') + 1"
  from assms obtain q where q: "p = CHR ''/'' # q" by (auto simp: absolute_Cons)
  then have "1 \<le> i" by (simp add: i_def py_rfind_def)
  with q have "absolute (slice_to p i)" by (auto simp: slice_to_def clip_def absolute_Cons take_Cons' nat_le_eq_zle)
  then show ?thesis
    by (auto simp: dirname_def path_split_def Let_def i_def [symmetric] absolute_rstrip)
qed

lemma absolute_normpath: "absolute p \<Longrightarrow> absolute (normpath p)"
  by (auto simp: normpath_def Let_def absolute_Cons startswith_def)

lemma absolute_replace: "absolute p \<Longrightarrow> absolute (py_replace p [c] ''/'')"
  by (auto simp: absolute_Cons py_replace.simps [of _ "[c]"])

definition rooted :: "world \<Rightarrow> bool" where
  "rooted w \<longleftrightarrow> absolute (cwd w)"

lemma absolute_abspath: "rooted w \<Longrightarrow> absolute (abspath w p)"
  by (auto simp: abspath_def rooted_def path_join2_def intro!: absolute_normpath)
    (auto simp: absolute_Cons startswith_def prefix_def)

lemma absolute_FullName: "rooted w \<Longrightarrow> absolute (FullName w p)"
  by (simp add: FullName_def absolute_replace absolute_abspath)

section \<open>\<open>RepositoryName\<close>\<close>

definition no_svn_root :: "world \<Rightarrow> bool" where
  "no_svn_root w \<longleftrightarrow> rooted w \<and> (\<forall>d. absolute d \<and> dirname d = d \<longrightarrow> \<not> has_entry w d ''.svn'')"

lemma svn_top_total: "no_svn_root w \<Longrightarrow> absolute d \<Longrightarrow> svn_top w r d \<noteq> None"
proof (induction "length d" arbitrary: r d rule: less_induct)
  case less
  show ?case
  proof (cases "has_entry w d ''.svn''")
    case True
    with less.prems have "dirname d \<noteq> d" by (auto simp: no_svn_root_def)
    with less.hyps [OF dirname_shorter] less.prems absolute_dirname True show ?thesis
      by (subst svn_top.simps) simp
  qed (simp add: svn_top.simps)
qed

lemma repository_total: "no_svn_root w \<Longrightarrow> RepositoryName o' w filename \<noteq> None"
  using svn_top_total absolute_dirname absolute_FullName
  by (auto simp: RepositoryName_def Let_def no_svn_root_def split: option.splits)

text \<open>C38. \<open>RepositoryName\<close> returns on every file, whatever checkouts lie around it, when the file system has
  no \<open>.svn\<close> entry in its root directory: the walk up a subversion checkout stops below the root.\<close>

theorem RepositoryName_total: "no_svn_root w \<Longrightarrow> RepositoryName o' w filename \<noteq> None"
  by (rule repository_total)

theorem RepositoryName_total_witness:
  "RepositoryName \<lparr>root = [], repository = [], hpp_headers = [], valid_extensions = [], max_line_length = 80\<rparr>
     \<lparr>exists = (\<lambda>p. p \<in> {''/p/a.cc'', ''/p/.svn''}), cwd = ''/p''\<rparr> ''a.cc'' \<noteq> None"
proof (rule RepositoryName_total)
  let ?w = "\<lparr>exists = (\<lambda>p. p \<in> {''/p/a.cc'', ''/p/.svn''}), cwd = ''/p''\<rparr>"
  have "\<not> has_entry ?w d ''.svn''" if "dirname d = d" for d
  proof
    assume "has_entry ?w d ''.svn''"
    then have "d @ ''.svn'' \<in> {''/p/a.cc'', ''/p/.svn''} \<or> d @ ''/.svn'' \<in> {''/p/a.cc'', ''/p/.svn''}"
      by (simp add: has_entry_def path_join2_def startswith_def split: if_splits)
    then have "d = ''/p/'' \<or> d = ''/p''"
      using append_same_eq [of d "''.svn''" "''/p/''"] append_same_eq [of d "''/.svn''" "''/p''"]
      by (auto simp: append_eq_Cons_conv)
    moreover have "dirname ''/p'' \<noteq> ''/p''" "dirname ''/p/'' \<noteq> ''/p/''" by code_simp+
    ultimately show False using that by auto
  qed
  then show "no_svn_root ?w" by (simp add: no_svn_root_def rooted_def absolute_def startswith_def)
qed

lemma svn_top_at_root:
  assumes "has_entry w ''/'' ''.svn''"
  shows "svn_top w r ''/'' = None"
proof -
  have root: "dirname ''/'' = ''/''" by code_simp
  have "svn_top w' r d = Some x \<Longrightarrow> w' = w \<longrightarrow> d \<noteq> ''/''" for w' d x
    by (erule svn_top.raw_induct [rotated]) (use root assms in \<open>auto split: if_splits\<close>)
  then show ?thesis by (cases "svn_top w r ''/''") auto
qed

text \<open>C39. Without the \<open>--repository\<close> option, and with a \<open>.svn\<close> entry in the root directory, \<open>RepositoryName\<close>
  does not return for an existing file of that directory: the loop asks the parent of the root, which is
  the root, for ever.\<close>

theorem RepositoryName_hangs:
  assumes "exists w (FullName w f)" and "dirname (FullName w f) = ''/''" and "has_entry w ''/'' ''.svn''"
    and "repository o' = []"
  shows "RepositoryName o' w f = None"
proof -
  have "dirname ''/'' = ''/''" by code_simp
  with assms svn_top_at_root show ?thesis by (simp add: RepositoryName_def Let_def)
qed

theorem RepositoryName_hangs_witness:
  "RepositoryName \<lparr>root = [], repository = [], hpp_headers = [], valid_extensions = [], max_line_length = 80\<rparr>
     \<lparr>exists = (\<lambda>p. True), cwd = ''/''\<rparr> ''/a.cc'' = None"
  by (rule RepositoryName_hangs, simp, code_simp, simp add: has_entry_def, simp)

end
