(* ===== verification/Outcomes.thy ===== *)
theory Outcomes
  imports Process_File Nesting_Facts Expression_Facts Regex_Groups Cleansing_Facts
    Paths_Facts
begin

text \<open>
  A calculus of outcomes: \<open>raises_only E m\<close> says that the run \<open>m\<close> ends with a value or an exception of
  \<open>E\<close>. Its rules are equations for the simplifier, so a check over lines in range is decided by
  unfolding it. The bounds of the bracket scans follow.
\<close>

section \<open>The calculus\<close>

named_theorems outcome

definition raises_only :: "exc set \<Rightarrow> 'a run \<Rightarrow> bool" where
  "raises_only E m \<longleftrightarrow> (\<forall>e. result m = Inl e \<longrightarrow> e \<in> E)"

lemma returns_iff: "returns m \<longleftrightarrow> raises_only {} m"
  by (cases "result m") (auto simp: returns_def raises_only_def)

lemma raises_only_mono: "raises_only E m \<Longrightarrow> E \<subseteq> F \<Longrightarrow> raises_only F m"
  by (auto simp: raises_only_def)

lemma raises_only_returns: "returns m \<Longrightarrow> raises_only E m"
  by (auto simp: returns_iff intro: raises_only_mono)

lemma raises_only_basic [outcome]:
  "raises_only E (ret x)" "raises_only E (report fn n cat k msg)" "raises_only E (nolint fn l n)"
  "raises_only E (raise e) \<longleftrightarrow> e \<in> E"
  by (simp_all add: raises_only_def)

lemma raises_only_bind [outcome]:
  "raises_only E (bind m f) \<longleftrightarrow> raises_only E m \<and> (\<forall>x. result m = Inr x \<longrightarrow> raises_only E (f x))"
  by (auto simp: raises_only_def result_bind split: sum.splits)

lemma raises_only_seq [outcome]:
  "raises_only E (seq m k) \<longleftrightarrow> raises_only E m \<and> (returns m \<longrightarrow> raises_only E k)"
  by (auto simp: seq_def raises_only_bind returns_def)

lemma raises_only_when_do [outcome]: "raises_only E (when_do b m) \<longleftrightarrow> (b \<longrightarrow> raises_only E m)"
  by (simp add: when_do_def raises_only_basic)

lemma raises_only_if [outcome]: "raises_only E (if b then m else n) \<longleftrightarrow> (b \<longrightarrow> raises_only E m) \<and> (\<not> b \<longrightarrow> raises_only E n)"
  by simp

lemma raises_only_option [outcome]:
  "raises_only E (case x of None \<Rightarrow> m | Some y \<Rightarrow> f y) \<longleftrightarrow>
    (x = None \<longrightarrow> raises_only E m) \<and> (\<forall>y. x = Some y \<longrightarrow> raises_only E (f y))"
  by (cases x) simp_all

lemma raises_only_prod [outcome]:
  "raises_only E (case x of (a, b) \<Rightarrow> f a b) \<longleftrightarrow> raises_only E (f (fst x) (snd x))"
  by (cases x) simp

lemma raises_only_let [outcome]: "raises_only E (let x = v in f x) \<longleftrightarrow> raises_only E (f v)"
  by simp

lemma raises_only_kind [outcome]:
  "raises_only E (case k of BlockInfo \<Rightarrow> a | ExternCInfo \<Rightarrow> b | ClassInfo d \<Rightarrow> g d | NamespaceInfo x \<Rightarrow> f x) \<longleftrightarrow>
    (k = BlockInfo \<longrightarrow> raises_only E a) \<and> (k = ExternCInfo \<longrightarrow> raises_only E b) \<and>
    (\<forall>x. k = NamespaceInfo x \<longrightarrow> raises_only E (f x)) \<and> (\<forall>d. k = ClassInfo d \<longrightarrow> raises_only E (g d))"
  by (cases k) simp_all

lemma raises_only_for_each: "(\<And>x. x \<in> set xs \<Longrightarrow> raises_only E (f x)) \<Longrightarrow> raises_only E (for_each f xs)"
  by (induction xs) (auto simp: outcome)

lemma raises_only_nth [outcome]:
  "raises_only E (py_nth xs i) \<longleftrightarrow> IndexError \<in> E \<or> - py_len xs \<le> i \<and> i < py_len xs"
  by (auto simp: raises_only_def py_nth_def Let_def py_len_def)

lemma raises_only_from_opt [outcome]: "raises_only E (from_opt x) \<longleftrightarrow> x \<noteq> None \<or> Diverges \<in> E"
  by (cases x) (auto simp: from_opt_def outcome)

lemma py_nth_Inr: "result (py_nth xs i) = Inr x \<Longrightarrow> 0 \<le> i \<Longrightarrow> x = xs ! nat i \<and> i < py_len xs"
  by (auto simp: py_nth_def Let_def py_len_def split: if_splits)

text \<open>Loops over lines by index.\<close>

lemma scan_lines_up: "0 \<le> i \<Longrightarrow> i + int n \<le> py_len ls \<Longrightarrow> raises_only E (scan_lines P ls i 1 n)"
  by (induction n arbitrary: i) (auto simp: outcome py_len_def)

lemma scan_lines_down: "i < py_len ls \<Longrightarrow> n = 0 \<or> int n \<le> i + 1 \<Longrightarrow> raises_only E (scan_lines P ls i (- 1) n)"
  by (induction n arbitrary: i) (auto simp: outcome py_len_def)

lemma scan_lines_hit:
  "result (scan_lines P ls i d n) = Inr (Some (j, l)) \<Longrightarrow> d = 1 \<or> d = - 1 \<Longrightarrow> d = - 1 \<longrightarrow> int n \<le> i + 1 \<Longrightarrow> 0 \<le> i \<or> n = 0 \<Longrightarrow>
    P l \<and> 0 \<le> j \<and> j < py_len ls \<and> l = ls ! nat j \<and> (d = 1 \<longrightarrow> i \<le> j) \<and> (d = - 1 \<longrightarrow> j \<le> i)"
proof (induction n arbitrary: i)
  case (Suc n)
  from Suc.prems(1) obtain x where x: "result (py_nth ls i) = Inr x"
    by (auto simp: result_bind split: sum.splits)
  from py_nth_Inr [OF this] Suc.prems(4) have "x = ls ! nat i" "i < py_len ls" "0 \<le> i" by auto
  with x Suc.prems Suc.IH [of "i + d"] show ?case
    by (cases "n = 0") (auto simp: result_bind split: if_splits)
qed simp

section \<open>Lines in range\<close>

definition copies_ok :: "cleansed \<Rightarrow> bool" where
  "copies_ok cl \<longleftrightarrow> py_len (elided cl) = NumLines cl \<and> py_len (raw_lines cl) = NumLines cl \<and>
     py_len (line_list cl) = NumLines cl \<and> py_len (lines_without_raw_strings cl) = NumLines cl"

definition at_line :: "cleansed \<Rightarrow> int \<Rightarrow> bool" where
  "at_line cl n \<longleftrightarrow> copies_ok cl \<and> 0 \<le> n \<and> n < NumLines cl"

text \<open>Everything an index computation on a line of the file needs.\<close>

lemma at_lineD:
  "at_line cl n \<Longrightarrow> py_len (elided cl) = NumLines cl \<and> py_len (raw_lines cl) = NumLines cl \<and>
    py_len (line_list cl) = NumLines cl \<and> py_len (lines_without_raw_strings cl) = NumLines cl \<and> 0 \<le> n \<and> n < NumLines cl"
  by (simp add: at_line_def copies_ok_def)

lemma at_line_nth:
  assumes "at_line cl n"
  shows "py_nth (elided cl) n = ret (elided cl ! nat n)" "py_nth (raw_lines cl) n = ret (raw_lines cl ! nat n)"
    "py_nth (line_list cl) n = ret (line_list cl ! nat n)"
    "py_nth (lines_without_raw_strings cl) n = ret (lines_without_raw_strings cl ! nat n)"
  using at_lineD [OF assms] by (auto intro!: at_index)

lemma at_line_file_ok: "at_line cl n \<Longrightarrow> file_ok cl"
  by (simp add: at_line_def copies_ok_def file_ok_def py_len_def)

section \<open>Bracket scans\<close>

text \<open>Where \<open>CloseExpression\<close> ends.\<close>

definition close_at :: "cleansed \<Rightarrow> int \<Rightarrow> string \<times> int \<times> int \<Rightarrow> bool" where
  "close_at cl n p \<longleftrightarrow> (case p of (l, m, e) \<Rightarrow>
     e = - 1 \<and> m = NumLines cl \<or> at_line cl m \<and> n \<le> m \<and> l = elided cl ! nat m \<and> 0 < e \<and> e \<le> py_len l)"

lemma close_outcome:
  assumes "at_line cl n" and "0 \<le> pos" and "pos < py_len (elided cl ! nat n)"
  shows "raises_only E (CloseExpression cl n pos)"
    and "result (CloseExpression cl n pos) = Inr p \<Longrightarrow> close_at cl n p"
proof -
  have "0 \<le> n" "n < py_len (elided cl)" "NumLines cl = py_len (elided cl)" using at_lineD [OF assms(1)] by simp_all
  from close_expression_range [OF this assms(2,3)] obtain l m e where c: "CloseExpression cl n pos = ret (l, m, e)"
    and r: "e = - 1 \<and> m = NumLines cl \<or>
     n \<le> m \<and> m < NumLines cl \<and> l = elided cl ! nat m \<and> 0 < e \<and> e \<le> py_len l" by blast
  then show "raises_only E (CloseExpression cl n pos)" by (simp add: outcome)
  from c r assms(1) show "result (CloseExpression cl n pos) = Inr p \<Longrightarrow> close_at cl n p"
    by (auto simp: close_at_def at_line_def)
qed

text \<open>Where \<open>ReverseCloseExpression\<close> starts.\<close>

definition start_at :: "cleansed \<Rightarrow> int \<Rightarrow> string \<times> int \<times> int \<Rightarrow> bool" where
  "start_at cl n p \<longleftrightarrow> (case p of (l, m, b) \<Rightarrow> 0 \<le> m \<and> m \<le> n \<and> - 1 \<le> b)"

lemma start_loop_low: "start_loop s after st = (b, r) \<Longrightarrow> - 1 \<le> b"
  by (induction s after st arbitrary: b r rule: start_loop.induct) (auto simp: py_len_def split: rscan.splits)

lemma FindStart_low: "FindStartOfExpressionInLine line p st = (b, r) \<Longrightarrow> - 1 \<le> b"
  by (auto simp: FindStartOfExpressionInLine_def dest: start_loop_low)

lemma reverse_loop_start:
  "reverse_loop line n ls st = (l, m, b) \<Longrightarrow> int (length ls) \<le> n \<Longrightarrow> 0 \<le> m \<and> m \<le> n \<and> - 1 \<le> b"
proof (induction line n ls st rule: reverse_loop.induct)
  case (2 line n prev_line rest st)
  obtain b' st' where f: "FindStartOfExpressionInLine prev_line (py_len prev_line - 1) (the st) = (b', st')" by fastforce
  show ?case
  proof (cases "st = None \<or> st = Some [] \<or> b' > - 1")
    case True
    with 2(2,3) f show ?thesis by (auto split: if_splits)
  next
    case False
    with 2(2) f have "reverse_loop prev_line (n - 1) rest st' = (l, m, b)" by auto
    with 2(1) False f 2(3) show ?thesis by fastforce
  qed
qed auto

lemma reverse_outcome:
  assumes "at_line cl n" and "- py_len (elided cl ! nat n) \<le> pos" and "pos < py_len (elided cl ! nat n)"
  shows "raises_only E (ReverseCloseExpression cl n pos)"
    and "result (ReverseCloseExpression cl n pos) = Inr p \<Longrightarrow> start_at cl n p"
proof -
  note nth = at_line_nth(1) [OF assms(1)]
  from assms(2,3) show "raises_only E (ReverseCloseExpression cl n pos)"
    by (auto simp: ReverseCloseExpression_def nth outcome split: prod.splits)
  assume "result (ReverseCloseExpression cl n pos) = Inr p"
  moreover have "int (length (rev (slice_to (elided cl) n))) \<le> n"
    using at_lineD [OF assms(1)] by (auto simp: slice_to_def clip_def py_len_def min_def)
  ultimately show "start_at cl n p"
    using at_lineD [OF assms(1)]
    by (auto simp: ReverseCloseExpression_def nth result_bind start_at_def split: sum.splits if_splits prod.splits
        dest: FindStart_low reverse_loop_start)
qed

end
