(* ===== verification/Style_Total.thy ===== *)
theory Style_Total
  imports Outcomes
begin

text \<open>
  Totality of the style checks: on every line of a file none of them raises.
\<close>

lemmas in_range = at_lineD py_len_def

section \<open>Spacing\<close>

lemma function_call_total [outcome]: "at_line cl n \<Longrightarrow> raises_only E (CheckSpacingForFunctionCall fn cl n)"
  by (auto simp: CheckSpacingForFunctionCall_def at_line_nth outcome)

lemma todo_total [outcome]: "raises_only E (todo_checks fn n c)"
  by (auto simp: todo_checks_def outcome)

lemma comment_total [outcome]: "raises_only E (CheckComment line fn n k)"
  by (auto simp: CheckComment_def outcome)

lemma blank_line_total [outcome]:
  assumes "at_line cl n"
  shows "raises_only E (blank_line_checks fn cl n)"
  using at_lineD [OF assms]
  by (auto simp: blank_line_checks_def blank_line_exception_def outcome intro!: scan_lines_down split: if_splits)

lemma spacing_total [outcome]:
  assumes "at_line cl n"
  shows "raises_only E (CheckSpacing fn cl n st)"
  using at_lineD [OF assms] assms
  by (auto simp: CheckSpacing_def at_line_nth outcome)

lemma parenthesis_total [outcome]: "at_line cl n \<Longrightarrow> raises_only E (CheckParenthesisSpacing fn cl n)"
  by (auto simp: CheckParenthesisSpacing_def at_line_nth outcome)

lemma comma_total [outcome]: "at_line cl n \<Longrightarrow> raises_only E (CheckCommaSpacing fn cl n)"
  by (auto simp: CheckCommaSpacing_def at_line_nth outcome)

lemma alt_pattern: "choices ALT_TOKEN_REPLACEMENT_PATTERN 1 = Some (map fst ALT_TOKEN_REPLACEMENT)"
  "tail ALT_TOKEN_REPLACEMENT_PATTERN 1 \<noteq> None"
  by code_simp+

lemma alt_tokens_total [outcome]: "at_line cl n \<Longrightarrow> raises_only E (CheckAltTokens fn cl n)"
proof -
  assume "at_line cl n"
  obtain r where r: "re_compile ALT_TOKEN_REPLACEMENT_PATTERN = Some r"
    using alt_pattern(2) by (auto simp: tail_def split: Option.bind_splits)
  have "group m 1 \<in> dom (map_of ALT_TOKEN_REPLACEMENT)" if "m \<in> set (re_finditer r s)" for m s
    using finditer_choices [OF alt_pattern r that] by (simp add: dom_map_of_conv_image_fst)
  then show ?thesis using \<open>at_line cl n\<close>
    by (fastforce simp: CheckAltTokens_def at_line_nth outcome r lookup_or_raise_def intro!: raises_only_for_each)
qed

section \<open>Operators and braces\<close>

text \<open>A position taken from a group of the line is a position of the line.\<close>

lemma group_position:
  assumes "tail pattern n = Some (Suc k)" and "n \<noteq> 0" and "Match pattern s = Some m" and "length s \<le> length l"
  shows "0 \<le> py_len (group m n) \<and> py_len (group m n) < py_len l"
  using Match_tail [OF assms(1,3,2)] assms(4) by (simp add: py_len_def)

lemma angle_tails: "tail (raw ''^(.*[^`s<])<[^`s=<,]'') 1 = Some (Suc 1)" "tail (raw ''^(.*[^-`s>])>[^`s=>,]'') 1 = Some (Suc 1)"
  by code_simp+

lemma angles_total:
  assumes "at_line cl n" and "length line \<le> length (elided cl ! nat n)"
  shows "raises_only E (space_around_angles fn cl n line)"
proof -
  have "raises_only E (CloseExpression cl n (py_len (group m 1)))"
    if "Match (raw ''^(.*[^`s<])<[^`s=<,]'') line = Some m" for m
    using close_outcome(1) [OF assms(1)] group_position [OF angle_tails(1) _ that assms(2)] by simp
  moreover have "raises_only E (ReverseCloseExpression cl n (py_len (group m 1)))"
    if "Match (raw ''^(.*[^-`s>])>[^`s=>,]'') line = Some m" for m
    using reverse_outcome(1) [OF assms(1)] group_position [OF angle_tails(2) _ that assms(2)] by simp
  ultimately show ?thesis by (simp add: space_around_angles_def outcome)
qed

lemma shift_total [outcome]: "raises_only E (space_around_shift fn n line)"
  by (auto simp: space_around_shift_def outcome)

lemma operator_spacing_total [outcome]: "at_line cl n \<Longrightarrow> raises_only E (CheckOperatorSpacing fn cl n)"
  by (auto simp: CheckOperatorSpacing_def at_line_nth outcome space_around_assign_def hide_operators_length
      intro!: angles_total)

text \<open>The blocks of the stack begin on lines of the file.\<close>

definition block_on_line :: "cleansed \<Rightarrow> block \<Rightarrow> bool" where
  "block_on_line cl b \<longleftrightarrow> 0 \<le> starting_linenum b \<and> starting_linenum b < NumLines cl"

lemma declared_total:
  "list_all (block_on_line cl) bs \<Longrightarrow> py_len (elided cl) = NumLines cl \<Longrightarrow>
    raises_only E (declared_in_blocks pattern (elided cl) bs)"
proof (induction bs)
  case (Cons b below)
  let ?last = "starting_linenum b" and ?next = "case below of [] \<Rightarrow> 0 | b' # _ \<Rightarrow> starting_linenum b'"
  let ?scan = "scan_lines (\<lambda>l. 0 \<le> py_find l ''template'') (elided cl) ?last (- 1) (nat (?last - ?next + 1))"
  have b: "0 \<le> ?last" "?last < py_len (elided cl)" "0 \<le> ?next"
    using Cons.prems by (auto simp: block_on_line_def split: list.splits)
  then have n: "int (nat (?last - ?next + 1)) \<le> ?last + 1" by simp
  with b have down: "raises_only E ?scan" by (intro scan_lines_down) simp_all
  have up: "raises_only E (scan_lines P (elided cl) f 1 (nat (?last + 1 - f)))"
    if "result ?scan = Inr (Some (f, l))" for P f l
  proof -
    from scan_lines_hit [OF that] b n have "0 \<le> f" "f \<le> ?last" by simp_all
    with b show ?thesis by (intro scan_lines_up) simp_all
  qed
  from Cons down up show ?case
    by (auto simp: Let_def outcome split: option.splits)
qed (simp add: outcome)

definition stack_on_lines :: "cleansed \<Rightarrow> nesting \<Rightarrow> bool" where
  "stack_on_lines cl st \<longleftrightarrow> list_all (block_on_line cl) (stack st)"

lemma is_type_total: "stack_on_lines cl st \<Longrightarrow> at_line cl n \<Longrightarrow> raises_only E (IsType cl st expr)"
  by (auto simp: IsType_def outcome stack_on_lines_def dest: at_lineD intro!: declared_total)

lemma brace_tail: "tail ''^(.*[^ ({>]){'' 1 = Some (Suc 0)"
  by code_simp

lemma missing_space_total:
  assumes "at_line cl n" and "stack_on_lines cl st"
  shows "raises_only E (missing_space_before_brace fn cl n st (elided cl ! nat n))"
proof -
  have "raises_only E (CloseExpression cl n (py_len (group m 1)))"
    if "Match ''^(.*[^ ({>]){'' (elided cl ! nat n) = Some m" for m
    using close_outcome(1) [OF assms(1)] group_position [OF brace_tail _ that order_refl] by simp
  then show ?thesis
    using is_type_total [OF assms(2,1)] by (simp add: missing_space_before_brace_def outcome)
qed

lemma braces_spacing_total [outcome]:
  "at_line cl n \<Longrightarrow> stack_on_lines cl st \<Longrightarrow> raises_only E (CheckBracesSpacing fn cl n st)"
  by (simp add: CheckBracesSpacing_def at_line_nth outcome missing_space_total)

lemma section_spacing_total:
  assumes "at_line cl n" and "0 \<le> start"
  shows "raises_only E (CheckSectionSpacing fn cl start d n)"
  using at_lineD [OF assms(1)] assms
  by (auto simp: CheckSectionSpacing_def at_line_nth outcome intro!: scan_lines_up)

lemma innermost_on_line:
  "InnermostClass st = Some b \<Longrightarrow> stack_on_lines cl st \<Longrightarrow> block_on_line cl b"
  by (metis InnermostClass_def stack_on_lines_def find_Some_iff list_all_length length_rev list_all_rev)

lemma previous_line_total [outcome]:
  assumes "at_line cl n"
  shows "raises_only E (GetPreviousNonBlankLine cl n)"
  using at_lineD [OF assms] by (auto simp: GetPreviousNonBlankLine_def outcome intro!: scan_lines_down)

section \<open>Statements\<close>

lemma brace_line_total [outcome]: "at_line cl n \<Longrightarrow> raises_only E (brace_on_own_line o' fn cl n line)"
  by (simp add: brace_on_own_line_def outcome)

lemma else_line_total [outcome]: "at_line cl n \<Longrightarrow> raises_only E (else_on_own_line fn cl n line)"
  by (simp add: else_on_own_line_def outcome)

lemma find_nat_less: "find_nat sub s = Some i \<Longrightarrow> sub \<noteq> [] \<Longrightarrow> i < length s"
  by (induction sub s arbitrary: i rule: find_nat.induct) (auto split: if_splits)

lemma py_find_bounds: "sub \<noteq> [] \<Longrightarrow> py_find s sub = - 1 \<or> 0 \<le> py_find s sub \<and> py_find s sub < py_len s"
  by (auto simp: py_find_def py_len_def dest: find_nat_less split: option.splits)

lemma py_find_from_bounds:
  assumes "sub \<noteq> []"
  shows "py_find_from s sub i = - 1 \<or> 0 \<le> py_find_from s sub i \<and> py_find_from s sub i < py_len s"
proof (cases "find_nat sub (slice_from s i)")
  case (Some j)
  from find_nat_less [OF this assms] have "clip (length s) i + j < length s" by (simp add: slice_from_def)
  with Some show ?thesis by (simp add: py_find_from_def py_len_def)
qed (simp add: py_find_from_def)

lemma py_rfind_bounds: "py_rfind s c = - 1 \<or> 0 \<le> py_rfind s c \<and> py_rfind s c < py_len s"
proof (cases "c \<in> set s")
  case True
  then have "0 < length s" by auto
  with True show ?thesis by (simp add: py_rfind_def py_len_def)
qed (simp add: py_rfind_def)

lemma else_braces_total [outcome]:
  assumes "at_line cl n"
  shows "raises_only E (else_braces fn cl n (elided cl ! nat n))"
proof -
  have "raises_only E (CloseExpression cl n p)" if "p = py_find_from (elided cl ! nat n) ''('' i" "0 < p" for p i
    using close_outcome(1) [OF assms] py_find_from_bounds [of "''(''" "elided cl ! nat n" i] that by simp
  then show ?thesis by (auto simp: else_braces_def outcome)
qed

lemma unbraced_total:
  assumes "0 \<le> m"
  shows "raises_only E (unbraced_body fn ls n b k m e)"
proof -
  have "i \<le> semicolon_line rest x i" for rest x i
    by (induction rest x i rule: semicolon_line.induct) auto
  then have "0 \<le> semicolon_line rest x m" for rest x using assms by (rule order_trans [rotated])
  moreover have "- py_len ls \<le> k" if "0 \<le> k" for k using that by (simp add: py_len_def)
  ultimately show ?thesis by (simp add: unbraced_body_def outcome)
qed

lemma opens_body_total [outcome]: "0 \<le> m \<Longrightarrow> raises_only E (opens_body ls l m e)"
  by (simp add: opens_body_def outcome)

lemma conditional_least: "least (raw ''`b(if`s*`(|else`b)'') = Some 3" "least (raw ''`bif`s*`('') = Some 3"
  by code_simp+

lemma close_at_line: "close_at cl n p \<Longrightarrow> at_line cl n \<Longrightarrow> 0 \<le> fst (snd p)"
  by (auto simp: close_at_def at_line_def split: prod.splits)

lemma single_statement_total [outcome]:
  assumes "at_line cl n"
  shows "raises_only E (single_statement fn cl n (elided cl ! nat n))"
proof -
  have c: "raises_only E (CloseExpression cl n (m_end m - 1))"
    "result (CloseExpression cl n (m_end m - 1)) = Inr p \<Longrightarrow> 0 \<le> fst (snd p)"
    if "Search (raw ''`bif`s*`('') (elided cl ! nat n) = Some m" for m p
    using close_outcome [OF assms, of "m_end m - 1"] close_at_line [OF _ assms]
      Search_least [OF conditional_least(2) that] by simp_all
  show ?thesis using at_lineD [OF assms] c
    by (auto simp: single_statement_def outcome intro!: unbraced_total split: option.splits)
qed

lemma braces_total [outcome]: "at_line cl n \<Longrightarrow> raises_only E (CheckBraces o' fn cl n)"
  by (simp add: CheckBraces_def at_line_nth outcome)

lemma semicolon_tails: "tail (raw ''^(.*`)`s*)`{'') 1 = Some (Suc 0)" "tail (raw ''^(.*(?:else|`)`s*const)`s*)`{'') 1 = Some (Suc 0)"
  "tail (raw ''^(`s*)`{'') 1 = Some (Suc 0)"
  by code_simp+

lemma candidate_total:
  assumes "at_line cl n"
  shows "raises_only E (semicolon_candidate cl n (elided cl ! nat n))"
proof -
  have "raises_only E (ReverseCloseExpression cl n (py_rfind (group m 1) (CHR '')'')))"
    "result (ReverseCloseExpression cl n (py_rfind (group m 1) (CHR '')''))) = Inr (l, k, b) \<Longrightarrow>
      1 < k \<Longrightarrow> - NumLines cl \<le> k - 1 \<and> k - 1 < NumLines cl"
    if "Match (raw ''^(.*`)`s*)`{'') (elided cl ! nat n) = Some m" for m l k b
  proof -
    have "length (group m 1) + 1 \<le> length (elided cl ! nat n)"
      using Match_tail [OF semicolon_tails(1) that] by simp
    with py_rfind_bounds [of "group m 1" "CHR '')''"]
    have "- py_len (elided cl ! nat n) \<le> py_rfind (group m 1) (CHR '')'')"
      "py_rfind (group m 1) (CHR '')'') < py_len (elided cl ! nat n)" by (auto simp: py_len_def)
    note r = reverse_outcome [OF assms this]
    from r(1) show "raises_only E (ReverseCloseExpression cl n (py_rfind (group m 1) (CHR '')'')))" .
    show "- NumLines cl \<le> k - 1 \<and> k - 1 < NumLines cl"
      if "result (ReverseCloseExpression cl n (py_rfind (group m 1) (CHR '')''))) = Inr (l, k, b)" "1 < k"
      using r(2) [OF that(1)] that(2) at_lineD [OF assms] by (simp add: start_at_def)
  qed
  then show ?thesis using at_lineD [OF assms] assms
    by (auto simp: semicolon_candidate_def outcome)
qed

lemma candidate_position:
  assumes "result (semicolon_candidate cl n line) = Inr (Some pos)"
  shows "0 \<le> pos \<and> pos < py_len line"
  using assms group_position [OF semicolon_tails(1) _ _ order_refl, of line]
    group_position [OF semicolon_tails(2) _ _ order_refl, of line]
    group_position [OF semicolon_tails(3) _ _ order_refl, of line]
  by (auto simp: semicolon_candidate_def result_bind split: option.splits sum.splits prod.splits if_splits)

lemma trailing_semicolon_total [outcome]:
  assumes "at_line cl n"
  shows "raises_only E (CheckTrailingSemicolon fn cl n)"
proof -
  have "raises_only E (CloseExpression cl n pos)"
    "result (CloseExpression cl n pos) = Inr (l, k, e) \<Longrightarrow> - 1 < e \<Longrightarrow>
      - NumLines cl < k \<and> - NumLines cl \<le> k \<and> k < NumLines cl \<and> k - 1 < NumLines cl"
    if "result (semicolon_candidate cl n (elided cl ! nat n)) = Inr (Some pos)" for pos l k e
    using candidate_position [OF that] close_outcome [OF assms] at_lineD [OF assms]
    by (fastforce simp: close_at_def at_line_def)+
  then show ?thesis using at_lineD [OF assms] assms candidate_total [OF assms]
    by (auto simp: CheckTrailingSemicolon_def at_line_nth outcome)
qed

section \<open>Empty bodies\<close>

lemma find_opening_at:
  "find_opening rest i fragment = Some (j, f) \<Longrightarrow> rest = drop (Suc (nat i)) ls \<Longrightarrow> 0 \<le> i \<Longrightarrow>
    found (raw ''^`s*`{'') f \<and> (j = i \<and> f = fragment \<or> i < j \<and> j < py_len ls \<and> f = ls ! nat j)"
proof (induction rest i fragment rule: find_opening.induct)
  case (1 rest i fragment)
  show ?case
  proof (cases "found (raw ''^`s*`{'') fragment \<or> found (raw ''^(?!`s*$)'') fragment \<or> rest = []")
    case True
    with 1(2) show ?thesis by (auto simp: find_opening.simps [of rest i fragment] split: if_splits)
  next
    case False
    then obtain l rs where rest: "rest = l # rs" by (cases rest) auto
    with 1(3) have "Suc (nat i) < length ls" by (metis drop_all leI list.distinct(1))
    with 1(3) rest have l: "l = ls ! nat (i + 1)" and rs: "rs = drop (Suc (nat (i + 1))) ls"
      using 1(4) by (auto simp: Cons_nth_drop_Suc [symmetric] nat_add_distrib)
    from False 1(2) rest have "find_opening rs (i + 1) l = Some (j, f)"
      by (simp add: find_opening.simps [of "l # rs" i fragment])
    from 1(1) [OF _ _ rest this rs] False 1(4) l \<open>Suc (nat i) < length ls\<close> show ?thesis
      by (auto simp: py_len_def)
  qed
qed

lemma py_find_char:
  assumes "c \<in> set s"
  shows "0 \<le> py_find s [c] \<and> py_find s [c] < py_len s"
proof -
  from assms obtain a b where "s = a @ [c] @ b" by (metis append_Cons append_Nil split_list)
  then have "find_nat [c] s \<noteq> None" unfolding prefix_find_nat by (metis sublist_appendI)
  then have "py_find s [c] \<noteq> - 1" by (auto simp: py_find_def)
  with py_find_bounds [of "[c]" s] show ?thesis by auto
qed

lemma brace_needs: "needs (raw ''^`s*`{'') (CHR ''{'')"
  by code_simp

lemma empty_if_total:
  assumes "close_at cl n (l, m, e)" and "0 \<le> e" and "at_line cl n"
  shows "raises_only E (empty_if_body fn cl l m e)"
proof -
  from assms have m: "at_line cl m" "l = elided cl ! nat m" "e \<le> py_len l" by (auto simp: close_at_def)
  note r = at_lineD [OF m(1)]
  have sl: "slice_from (elided cl) (m + 1) = drop (Suc (nat m)) (elided cl)"
    using r by (auto simp: slice_from_def clip_def py_len_def nat_add_distrib min_def)
  show ?thesis
  proof (cases "find_opening (slice_from (elided cl) (m + 1)) m (slice_from l e)")
    case (Some jf)
    obtain j f where jf: "jf = (j, f)" by (cases jf)
    let ?p = "py_find f ''{'' + (if j = m then e else 0)"
    from find_opening_at [OF Some [unfolded jf] sl] r have f: "found (raw ''^`s*`{'') f"
      "j = m \<and> f = slice_from l e \<or> m < j \<and> j < NumLines cl \<and> f = elided cl ! nat j" by auto
    from f(1) found_needs [OF brace_needs] have "CHR ''{'' \<in> set f" by blast
    then have p: "0 \<le> py_find f ''{''" "py_find f ''{'' < py_len f" by (simp_all add: py_find_char)
    have "py_len (slice_from l e) = py_len l - e" using m(3) assms(2) by (simp add: slice_from_def clip_def py_len_def)
    with p f(2) m r assms(2) have at: "at_line cl j" "0 \<le> ?p" "?p < py_len (elided cl ! nat j)"
      by (auto simp: at_line_def)
    note c = close_outcome [OF at]
    have "- py_len (elided cl) \<le> k \<and> k < py_len (elided cl)"
      if "result (CloseExpression cl j ?p) = Inr (l', k, e')" "0 \<le> e'" for l' k e'
      using c(2) [OF that(1)] that(2) at_lineD [of cl k] by (auto simp: close_at_def)
    with c(1) at_line_nth [OF at(1)] Some jf show ?thesis
      by (auto simp: empty_if_body_def outcome)
  qed (simp add: empty_if_body_def outcome)
qed

lemma body_patterns: "tail (raw ''`s*(for|while|if)`s*`('') 1 \<noteq> None" "needs (raw ''`s*(for|while|if)`s*`('') (CHR ''('')"
  by code_simp+

lemma empty_body_total [outcome]:
  assumes "at_line cl n"
  shows "raises_only E (CheckEmptyBlockBody fn cl n)"
proof -
  let ?l = "elided cl ! nat n"
  have c: "raises_only E (CloseExpression cl n (py_find ?l ''(''))"
    "result (CloseExpression cl n (py_find ?l ''('')) = Inr (l, m, e) \<Longrightarrow> 0 \<le> e \<Longrightarrow> raises_only E (empty_if_body fn cl l m e)"
    if "Match (raw ''`s*(for|while|if)`s*`('') ?l = Some k" for k l m e
  proof -
    from Match_needs [OF body_patterns(2)] that have "CHR ''('' \<in> set ?l" by fastforce
    from close_outcome [OF assms py_find_char [OF this, THEN conjunct1] py_find_char [OF this, THEN conjunct2]]
    show "raises_only E (CloseExpression cl n (py_find ?l ''(''))"
      "result (CloseExpression cl n (py_find ?l ''('')) = Inr (l, m, e) \<Longrightarrow> 0 \<le> e \<Longrightarrow> raises_only E (empty_if_body fn cl l m e)"
      using empty_if_total assms by blast+
  qed
  then show ?thesis using assms by (auto simp: CheckEmptyBlockBody_def at_line_nth outcome)
qed

section \<open>Check macros\<close>

lemma macro_tails: "list_all (\<lambda>macro. tail (raw ''^(.*`b'' @ macro @ raw ''`s*)`('') 1 = Some (Suc 0)) CHECK_MACROS"
  by code_simp

lemma find_macro_at:
  "find_macro line macros = Some (macro, pos) \<Longrightarrow>
    list_all (\<lambda>macro. tail (raw ''^(.*`b'' @ macro @ raw ''`s*)`('') 1 = Some (Suc 0)) macros \<Longrightarrow>
    macro \<in> set macros \<and> 0 \<le> pos \<and> pos < py_len line"
  by (induction macros) (auto split: if_splits option.splits dest: group_position [OF _ _ _ order_refl])

lemma token_choices: "choices EXPR_TOKEN 1 = Some [''<<'', ''<<='', ''>>'', ''>>='', ''->*'', ''->'', ''&&'', ''||'', ''=='',
    ''!='', ''>='', ''>'', ''<='', ''<'', ''('']" "tail EXPR_TOKEN 1 \<noteq> None"
  by code_simp+

definition RELATIONS :: "string list" where
  "RELATIONS = [''=='', ''!='', ''>='', ''>'', ''<='', ''<'']"

lemma parse_relation_operator: "parse_relation lhs e = Some (l, Some (operator, rhs)) \<Longrightarrow> operator \<in> set RELATIONS"
proof (induction lhs e rule: parse_relation.induct)
  case (1 lhs e)
  show ?case
  proof (cases "Match EXPR_TOKEN e")
    case (Some m)
    with Match_choices [OF token_choices Some] 1 show ?thesis
      by (auto simp: parse_relation.simps [of lhs e] RELATIONS_def Let_def split: if_splits)
  next
    case None
    with 1 show ?thesis by (auto simp: parse_relation.simps [of lhs e] split: if_splits option.splits)
  qed
qed

lemma replacements: "list_all (\<lambda>macro. case map_of CHECK_REPLACEMENT macro of None \<Rightarrow> False
    | Some table \<Rightarrow> list_all (\<lambda>r. map_of table r \<noteq> None) RELATIONS) CHECK_MACROS"
  by code_simp

lemma replacement_total:
  assumes "macro \<in> set CHECK_MACROS" and "replaceable e = Some operator"
  shows "\<exists>table r. map_of CHECK_REPLACEMENT macro = Some table \<and> map_of table operator = Some r"
proof -
  from assms(2) obtain lhs rhs where "parse_relation [] e = Some (lhs, Some (operator, rhs))"
    by (auto simp: replaceable_def split: option.splits if_splits)
  then have "operator \<in> set RELATIONS" by (rule parse_relation_operator)
  with replacements assms(1) show ?thesis by (auto simp: list_all_iff split: option.splits)
qed

lemma check_total [outcome]:
  assumes "at_line cl n"
  shows "raises_only E (CheckCheck fn cl n)"
proof -
  have "raises_only E (CloseExpression cl n pos) \<and> macro \<in> set CHECK_MACROS"
    if "FindCheckMacro (elided cl ! nat n) = Some (macro, pos)" for macro pos
    using find_macro_at [OF that [unfolded FindCheckMacro_def] macro_tails] close_outcome(1) [OF assms] by blast
  then show ?thesis using assms replacement_total
    by (fastforce simp: CheckCheck_def at_line_nth outcome lookup_or_raise_def)
qed

section \<open>\<open>CheckStyle\<close>\<close>

lemma guard_variable_total: "no_svn_root w \<Longrightarrow> GetHeaderGuardCPPVariable o' w fn \<noteq> None"
  using repository_total by (simp add: GetHeaderGuardCPPVariable_def Let_def)

lemma line_style_total [outcome]:
  assumes "at_line cl n" and "no_svn_root w"
  shows "raises_only E (line_style o' w fn cl n ext)"
  using at_lineD [OF assms(1)] assms guard_variable_total
  by (auto simp: line_style_def is_header_guard_def many_commands_def at_line_nth outcome)

lemma style_total [outcome]:
  assumes "at_line cl n" and "no_svn_root w" and "stack_on_lines cl st"
  shows "raises_only E (CheckStyle o' w fn cl n ext st)"
  using assms innermost_on_line
  by (fastforce simp: CheckStyle_def outcome block_on_line_def intro!: section_spacing_total)

end
