(* ===== verification/Language_Total.thy ===== *)
theory Language_Total
  imports Style_Total
begin

text \<open>
  Totality of the checks on the language: members, casts, \<open>printf\<close> and the like. One of them may raise
  \<open>IndexError\<close>, the test for a cast that is dereferenced, and only on a line with an angle bracket.
\<close>

section \<open>Checks of one line\<close>

lemma line_checks_total [outcome]:
  assumes "at_line cl n"
  shows "raises_only E (CheckForMultilineCommentsAndStrings fn cl n)" "raises_only E (CheckPosixThreading fn cl n)"
    "raises_only E (CheckVlogArguments fn cl n)" "raises_only E (CheckInvalidIncrement fn cl n)"
    "raises_only E (CheckMakePairUsesDeduction fn cl n)" "raises_only E (FlagCxx11Features fn cl n)"
    "raises_only E (CheckPrintf fn cl n)"
  by (auto simp: CheckForMultilineCommentsAndStrings_def CheckPosixThreading_def CheckVlogArguments_def
      CheckInvalidIncrement_def CheckMakePairUsesDeduction_def FlagCxx11Features_def CheckPrintf_def
      at_line_nth [OF assms] outcome intro!: raises_only_for_each)

lemma override_total [outcome]:
  assumes "at_line cl n"
  shows "raises_only E (CheckRedundantOverrideOrFinal fn cl n)"
  using at_lineD [OF assms] by (auto simp: CheckRedundantOverrideOrFinal_def at_line_nth [OF assms] outcome)

lemma specifier_total:
  "0 \<le> i \<Longrightarrow> i + int k \<le> py_len ls \<Longrightarrow> raises_only E (specifier_after fn n ls i e k)"
  by (induction k arbitrary: i e) (auto simp: outcome py_len_def)

lemma paren_tail: "tail (raw ''^([^(]*)`('') 1 = Some (Suc 0)"
  by code_simp

lemma parameter_list_total:
  assumes "copies_ok cl"
  shows "0 \<le> i \<Longrightarrow> i + int k \<le> NumLines cl \<Longrightarrow> 0 \<le> c \<Longrightarrow>
    raises_only E (parameter_list_end cl i c k) \<and>
    (\<forall>j e. result (parameter_list_end cl i c k) = Inr (j, e) \<longrightarrow> 0 \<le> e \<longrightarrow> at_line cl j)"
proof (induction k arbitrary: i c)
  case (Suc k)
  from Suc.prems assms have at: "at_line cl i" by (simp add: at_line_def)
  let ?l = "elided cl ! nat i"
  show ?case
  proof (cases "Match (raw ''^([^(]*)`('') (slice_from ?l c)")
    case None
    with Suc.IH [of "i + 1" 0] Suc.prems at show ?thesis by (simp add: at_line_nth)
  next
    case (Some m)
    from group_position [OF paren_tail _ Some order_refl] have "py_len (group m 1) < py_len (slice_from ?l c)" by simp
    then have "0 \<le> c + py_len (group m 1)" "c + py_len (group m 1) < py_len ?l"
      using Suc.prems(3) by (auto simp: slice_from_def clip_def py_len_def)
    note r = close_outcome [OF at this]
    have "result (CloseExpression cl i (c + py_len (group m 1))) = Inr (l, j, e) \<Longrightarrow> 0 \<le> e \<Longrightarrow> at_line cl j" for l j e
      using r(2) by (fastforce simp: close_at_def)
    with r(1) Some at show ?thesis
      by (auto simp: at_line_nth outcome result_bind split: sum.splits)
  qed
qed (auto simp: outcome)

lemma virtual_total [outcome]:
  assumes "at_line cl n"
  shows "raises_only E (CheckRedundantVirtual fn cl n)"
proof -
  note r = at_lineD [OF assms]
  have "copies_ok cl" using assms by (simp add: at_line_def)
  from parameter_list_total [OF this, of n "nat (min (n + 3) (NumLines cl) - n)"] r
  have p: "0 \<le> c \<Longrightarrow> raises_only E (parameter_list_end cl n c (nat (min (n + 3) (NumLines cl) - n)))"
    "0 \<le> c \<Longrightarrow> result (parameter_list_end cl n c (nat (min (n + 3) (NumLines cl) - n))) = Inr (j, e) \<Longrightarrow> 0 \<le> e \<Longrightarrow> at_line cl j"
    for c j e by auto
  have s: "raises_only E (specifier_after fn n (elided cl) j e (nat (min (j + 3) (NumLines cl) - j)))" if "at_line cl j" for j e
    using at_lineD [OF that] by (intro specifier_total) auto
  have "raises_only E (specifier_after fn n (elided cl) j e (nat (min (j + 3) (NumLines cl) - j)))"
    if "result (parameter_list_end cl n (py_len g) (nat (min (n + 3) (NumLines cl) - n))) = Inr (j, e)" "0 \<le> e" for g :: string and j e
    using s p(2) [OF _ that] by (simp add: py_len_def)
  then show ?thesis using p(1) [of "py_len g" for g :: string]
    by (auto simp: CheckRedundantVirtual_def at_line_nth [OF assms] outcome py_len_def)
qed

section \<open>Casts\<close>

lemma expecting_total [outcome]:
  assumes "at_line cl n"
  shows "raises_only E (ExpectingFunctionArgs cl n)"
  using at_lineD [OF assms] by (auto simp: ExpectingFunctionArgs_def at_line_nth [OF assms] outcome)

lemma c_cast_total [outcome]:
  assumes "at_line cl n"
  shows "raises_only E (CheckCStyleCast fn cl n t pattern)"
  by (auto simp: CheckCStyleCast_def at_line_nth [OF assms] outcome)

lemma function_cast_total [outcome]: "raises_only E (function_cast fn n line)"
  by (auto simp: function_cast_def Let_def outcome)

lemma cast_tail: "tail (raw ''^(.*&(?:static|dynamic|down|reinterpret)_cast`b)<'') 1 = Some (Suc 0)"
  by code_simp

text \<open>The character after the closing bracket of the cast is read without a test.\<close>

lemma dereferenced_raises:
  assumes "at_line cl n"
  shows "raises_only {IndexError} (dereferenced_cast cl n (elided cl ! nat n))"
proof (cases "Match (raw ''^(.*&(?:static|dynamic|down|reinterpret)_cast`b)<'') (elided cl ! nat n)")
  case (Some m)
  note p = group_position [OF cast_tail _ Some order_refl]
  from close_outcome [OF assms p [THEN conjunct1] p [THEN conjunct2]]
  have c: "raises_only E (CloseExpression cl n (py_len (group m 1)))"
    "result (CloseExpression cl n (py_len (group m 1))) = Inr (l, j, e) \<Longrightarrow> 0 \<le> e \<Longrightarrow> at_line cl j \<and> l = elided cl ! nat j"
    for l j e E by (fastforce simp: close_at_def)+
  have inner: "raises_only E (CloseExpression cl j e)"
    if "at_line cl j" "0 \<le> e" "result (py_nth (elided cl ! nat j) e) = Inr x" for j e x E
    using close_outcome(1) [OF that(1,2)] py_nth_Inr [OF that(3,2)] by simp
  have "raises_only {IndexError} (bind (py_nth (elided cl) j) (\<lambda>l1. bind (py_nth l1 e) (\<lambda>c.
            if c = CHR ''('' then
              bind (CloseExpression cl j e) (\<lambda>(_, y2, x2).
              if x2 \<ge> 0 then
                bind (py_nth (elided cl) y2) (\<lambda>l2.
                bind (if y2 < NumLines cl - 1 then py_nth (elided cl) (y2 + 1) else ret []) (\<lambda>l3.
                ret (matches (raw ''`s*(?:->|`[)'') (slice_from l2 x2 @ l3))))
              else ret False)
            else ret False)))" if "at_line cl j" "0 \<le> e" for j e
    using inner [OF that] by (auto simp: at_line_nth [OF that(1)] outcome)
  with c Some show ?thesis by (auto simp: dereferenced_cast_def outcome)
qed (simp add: dereferenced_cast_def outcome)

text \<open>A line without angle brackets, or leave to raise \<open>IndexError\<close>.\<close>

definition angle_safe :: "exc set \<Rightarrow> string \<Rightarrow> bool" where
  "angle_safe E l \<longleftrightarrow> IndexError \<in> E \<or> CHR ''<'' \<notin> set l"

lemma cast_needs: "needs (raw ''^(.*&(?:static|dynamic|down|reinterpret)_cast`b)<'') (CHR ''<'')"
  by code_simp

lemma dereferenced_outcome:
  assumes "at_line cl n" and "angle_safe E (elided cl ! nat n)"
  shows "raises_only E (dereferenced_cast cl n (elided cl ! nat n))"
proof (cases "IndexError \<in> E")
  case True
  with dereferenced_raises [OF assms(1)] show ?thesis by (blast intro: raises_only_mono)
next
  case False
  with assms(2) Match_needs [OF cast_needs] show ?thesis by (simp add: angle_safe_def dereferenced_cast_def outcome)
qed

lemma casts_outcome:
  assumes "at_line cl n" and "angle_safe E (elided cl ! nat n)"
  shows "raises_only E (CheckCasts fn cl n)"
  using assms dereferenced_outcome [OF assms]
  by (auto simp: CheckCasts_def address_of_cast_def at_line_nth outcome)

section \<open>\<open>printf\<close>\<close>

text \<open>The two spellings of the pattern differ in their groups only, so the second search succeeds.\<close>

lemma printf_patterns:
  "\<exists>r1 r2. re_compile (raw ''(?i)`b(string)?printf`s*`('') = Some (RSeq RWordB r1) \<and>
    re_compile_icase (raw ''`b((?:string)?printf)`s*`('') = Some (RSeq RWordB r2) \<and>
    plain r1 \<and> plain r2 \<and> lang r1 = lang r2"
  (is "\<exists>r1 r2. ?c1 = _ \<and> ?c2 = _ \<and> _")
proof -
  let ?i = "\<lambda>a b. RSet False [CChr a, CChr b]"
  let ?string = "RSeq (?i (CHR ''s'') (CHR ''S'')) (RSeq (?i (CHR ''t'') (CHR ''T'')) (RSeq (?i (CHR ''r'') (CHR ''R''))
    (RSeq (?i (CHR ''i'') (CHR ''I'')) (RSeq (?i (CHR ''n'') (CHR ''N'')) (?i (CHR ''g'') (CHR ''G''))))))"
  let ?printf = "\<lambda>end. RSeq (?i (CHR ''p'') (CHR ''P'')) (RSeq (?i (CHR ''r'') (CHR ''R'')) (RSeq (?i (CHR ''i'') (CHR ''I''))
    (RSeq (?i (CHR ''n'') (CHR ''N'')) (RSeq (?i (CHR ''t'') (CHR ''T'')) (end (?i (CHR ''f'') (CHR ''F''))))))) "
  let ?paren = "RSeq (RRep True 0 None (RSet False [CSpace])) (RLit (CHR ''(''))"
  let ?r1 = "RSeq (RRep True 0 (Some 1) (RGrp 1 ?string)) (?printf (\<lambda>f. RSeq f ?paren))"
  let ?r2 = "RSeq (RGrp 1 (RSeq (RRep True 0 (Some 1) ?string) (?printf (\<lambda>f. f)))) ?paren"
  have "?c1 = Some (RSeq RWordB ?r1)" "?c2 = Some (RSeq RWordB ?r2)" by code_simp+
  moreover have "lang ?r1 = lang ?r2" by (simp only: lang_shape)
  moreover have "plain ?r1" "plain ?r2" by simp_all
  ultimately show ?thesis by blast
qed

lemma printf_paren: "Option.bind (re_compile (raw ''(?i)`b(string)?printf`s*`('')) last_lit = Some (CHR ''('')"
  by code_simp

lemma text_inside_total:
  "\<exists>x. GetTextInside line (raw ''(?i)`b(string)?printf`s*`('') = ret x \<and>
    (x \<noteq> None \<longrightarrow> Search (raw ''(?i)`b(string)?printf`s*`('') line \<noteq> None)"
  using Search_last_lit [OF printf_paren] by (fastforce simp: GetTextInside_def split: option.split)

lemma printf_total [outcome]: "raises_only E (printf_format fn n line)"
proof -
  obtain x where x: "GetTextInside line (raw ''(?i)`b(string)?printf`s*`('') = ret x"
    and s: "x \<noteq> None \<longrightarrow> Search (raw ''(?i)`b(string)?printf`s*`('') line \<noteq> None"
    using text_inside_total by blast
  from printf_patterns obtain r1 r2 where r: "re_compile (raw ''(?i)`b(string)?printf`s*`('') = Some (RSeq RWordB r1)"
    "re_compile_icase (raw ''`b((?:string)?printf)`s*`('') = Some (RSeq RWordB r2)" "plain r1" "plain r2" "lang r1 = lang r2"
    by blast
  from s wordb_same [OF r(3-5), of line] r(1)
  have "x \<noteq> None \<longrightarrow> re_search (RSeq RWordB r2) line \<noteq> None" by (simp add: Search_def)
  with x r(2) show ?thesis by (auto simp: printf_format_def outcome)
qed

lemma other_language_total [outcome]: "raises_only E (other_language_checks o' fn n ext line)"
  by (auto simp: other_language_checks_def basic_types_def memset_order_def using_directive_def variable_array_def outcome)

lemma global_static_total [outcome]:
  assumes "at_line cl n"
  shows "raises_only E (CheckGlobalStatic fn cl n)"
  using at_lineD [OF assms] by (auto simp: CheckGlobalStatic_def at_line_nth [OF assms] outcome)

end
