(* ===== verification/Declaration_Total.thy ===== *)
theory Declaration_Total
  imports Language_Total
begin

text \<open>
  Totality of the remaining checks of a line: function lengths, constructors, namespaces, include lines
  and reference parameters.
\<close>

section \<open>Function lengths\<close>

text \<open>The class of the first character of every text a group can hold.\<close>

fun head_class :: "regex \<Rightarrow> citem list option" where
  "head_class (RSeq a b) = head_class a"
| "head_class (RGrp n a) = head_class a"
| "head_class (RSet False cs) = Some cs"
| "head_class r = None"

lemma lang_head_class: "lang r u \<Longrightarrow> head_class r = Some cs \<Longrightarrow> \<exists>c v. u = c # v \<and> cls_has False cs c"
  by (induction r arbitrary: u rule: head_class.induct) (fastforce elim: lang_SeqE lang_GrpE lang_SetE)+

text \<open>A group that always takes part in the match holds a word of the pattern inside it.\<close>

lemma Match_body:
  assumes "re_compile pattern = Some r" and "tails n r \<noteq> None" and "bodies n r = [a]" and "plain a"
    and "Match pattern s = Some m" and "n \<noteq> 0"
  shows "lang a (group m n)"
proof -
  from assms(2) obtain k where k: "tails n r = Some k" by blast
  from Match_occurs [OF assms(5,1)] have o: "occurs r s m" ..
  then obtain p q where "(q, at_end m, mcaps m) \<in> set (ends r (p, at_start m, no_caps))" by (auto simp: occurs_def)
  from ends_bodies [OF this, of n] occurs_tail [OF o k assms(6)] assms(3,4,6) show ?thesis
    by (auto simp: holds_body_def no_caps_def group_opt_def)
qed

definition group_head :: "string \<Rightarrow> nat \<Rightarrow> citem list option" where
  "group_head pattern n = Option.bind (re_compile pattern) (\<lambda>r.
     case bodies n r of [a] \<Rightarrow> if plain a \<and> tails n r \<noteq> None then head_class a else None | _ \<Rightarrow> None)"

lemma Match_group_head:
  assumes "group_head pattern n = Some cs" and "Match pattern s = Some m" and "n \<noteq> 0"
  shows "\<exists>c v. group m n = c # v \<and> cls_has False cs c"
proof -
  from assms(1) obtain r a k where r: "re_compile pattern = Some r" and a: "bodies n r = [a]" "plain a" "head_class a = Some cs"
    and k: "tails n r = Some k"
    by (auto simp: group_head_def split: Option.bind_splits list.splits if_splits)
  from Match_body [OF r _ a(1,2) assms(2,3)] k have "lang a (group m n)" by simp
  with a(3) show ?thesis by (rule lang_head_class [rotated])
qed

lemma word_not_space: "py_word c \<Longrightarrow> \<not> py_space c"
proof -
  have "list_all (\<lambda>c. py_word c \<longrightarrow> \<not> py_space c) all_chars" by code_simp
  then show "py_word c \<Longrightarrow> \<not> py_space c" by (simp add: list_all_iff)
qed

lemma split_ws_word: "w \<noteq> [] \<Longrightarrow> split_ws_from w s \<noteq> []"
  by (induction w s rule: split_ws_from.induct) auto

lemma function_start_head: "group_head FUNCTION_START 1 = Some [CWord]" "needs FUNCTION_START (CHR ''('')"
  by code_simp+

lemma starts_function_total:
  "raises_only E (starts_function line) \<and> (result (starts_function line) = Inr True \<longrightarrow> CHR ''('' \<in> set line)"
proof (cases "Match FUNCTION_START line")
  case (Some m)
  from Match_group_head [OF function_start_head(1) Some] obtain c v where "group m 1 = c # v" "py_word c"
    by (auto simp: cls_has_def)
  then have "split_ws (group m 1) \<noteq> []" by (simp add: split_ws_def word_not_space split_ws_word)
  moreover have "CHR ''('' \<in> set line" using Match_needs [OF function_start_head(2), of line] Some by auto
  ultimately show ?thesis by (cases "split_ws (group m 1)" rule: rev_cases) (auto simp: starts_function_def Some outcome py_len_def)
qed (simp add: starts_function_def outcome)

lemma name_found: "CHR ''('' \<in> set line \<Longrightarrow> Search (raw ''((`w|:)*)`('') line \<noteq> None"
proof -
  assume "CHR ''('' \<in> set line"
  then obtain u v where line: "line = u @ [CHR ''(''] @ v" by (auto simp: in_set_conv_decomp)
  let ?w = "RRep True 0 None (RGrp 2 (RAlt (RSet False [CWord]) (RLit (CHR '':''))))"
  have c: "re_compile (raw ''((`w|:)*)`('') = Some (RSeq (RGrp 1 ?w) (RLit (CHR ''('')))" by code_simp
  have "lang ?w (concat [])" by (rule lang.Rep) (simp_all add: at_most_def)
  then have "lang (RSeq (RGrp 1 ?w) (RLit (CHR ''(''))) ([] @ ''('')" by (intro lang.Seq lang.Grp) (simp_all add: lang_RLit)
  moreover have "sublist ''('' line" unfolding line by (auto simp: sublist_def)
  ultimately have "re_search (RSeq (RGrp 1 ?w) (RLit (CHR ''(''))) line \<noteq> None"
    by (subst re_search_lang) auto
  with c show ?thesis by (simp add: Search_def)
qed

lemma find_body_total: "CHR ''('' \<in> set line \<Longrightarrow> raises_only E (find_body line joined ls st)"
  by (induction line joined ls st rule: find_body.induct)
    (auto simp: Let_def outcome function_label_def dest: name_found)

lemma function_lengths_total [outcome]:
  assumes "at_line cl n"
  shows "raises_only E (CheckForFunctionLengths v fn cl n st)"
  using starts_function_total [of E "line_list cl ! nat n"] find_body_total
  by (auto simp: CheckForFunctionLengths_def at_line_nth [OF assms] outcome FCheck_def Let_def)

section \<open>Classes and namespaces\<close>

text \<open>The pattern of a constructor, compiled around a name that is not known: its second group holds the
  arguments.\<close>

lemma lazy_escape: "lazy_mark (re_escape s @ backslash # t) = (True, re_escape s @ backslash # t)"
  by (cases s) (auto simp: lazy_mark_def re_escape_def re_special_def)

lemma lazy_mark_simps: "lazy_mark [] = (True, [])" "lazy_mark (q # r) = (if q = CHR ''?'' then (False, r) else (True, q # r))"
  by (simp_all add: lazy_mark_def)

lemma bodies_lits: "bodies n (foldl (\<lambda>acc y. RSeq y acc) x (map RLit ys)) = bodies n x"
  by (induction ys arbitrary: x) auto

lemma groups_lits: "groups (foldl (\<lambda>acc y. RSeq y acc) x (map RLit ys)) = groups x"
  by (induction ys arbitrary: x) auto

lemma tails_lits: "n \<in> groups x \<Longrightarrow> tails n (foldl (\<lambda>acc y. RSeq y acc) x (map RLit ys)) = tails n x"
  by (induction ys arbitrary: x) auto

definition ARGUMENTS :: regex where
  "ARGUMENTS = RRep True 0 None (RAlt (RSet True [CChr (CHR ''(''), CChr (CHR '')'')])
     (RSeq (RLit (CHR ''('')) (RSeq (RRep True 0 None (RSet True [CChr (CHR ''(''), CChr (CHR '')'')])) (RLit (CHR '')'')))))"

lemmas parse_simps = parse.simps quantifier_def lazy_escape lazy_mark_simps group_mark_def group_kind_def range_end_def
  escape_atom_def class_escape_def lit_atom_def close_frame_def parse_escape

lemma constructor_arguments:
  "\<exists>r. re_compile (CONSTRUCTOR name) = Some r \<and> bodies 2 r = [ARGUMENTS] \<and> tails 2 r \<noteq> None"
  unfolding re_compile_def CONSTRUCTOR_def
  by (simp add: raw_def parse_simps ascii_alnum_def ascii_lower_def ascii_upper_def py_digit_def)
    (simp add: seq_of_def bodies_lits ARGUMENTS_def rev_map groups_lits tails_lits numeral_2_eq_2)

text \<open>The arguments are nested, so without angle brackets the loop that joins them finds each closing
  parenthesis.\<close>

definition nested :: "string \<Rightarrow> bool" where
  "nested u \<longleftrightarrow> (\<forall>a b. u = a @ b \<longrightarrow> count_list a (CHR '')'') \<le> count_list a (CHR ''('')) \<and>
     count_list u (CHR ''('') = count_list u (CHR '')'')"

lemma nested_flat: "CHR ''('' \<notin> set u \<Longrightarrow> CHR '')'' \<notin> set u \<Longrightarrow> nested u"
  by (auto simp: nested_def count_notin)

lemma nested_append: "nested u \<Longrightarrow> nested v \<Longrightarrow> nested (u @ v)"
  by (fastforce simp: nested_def append_eq_append_conv2)

lemma nested_group:
  assumes "CHR ''('' \<notin> set u" and "CHR '')'' \<notin> set u"
  shows "nested (''('' @ u @ '')'')"
  using assms by (auto simp: nested_def count_notin append_eq_append_conv2 Cons_eq_append_conv)

lemma nested_concat: "\<forall>u \<in> set us. nested u \<Longrightarrow> nested (concat us)"
  by (induction us) (auto intro: nested_append nested_flat)

lemma arguments_nested: "lang ARGUMENTS u \<Longrightarrow> nested u"
proof -
  let ?c = "RSet True [CChr (CHR ''(''), CChr (CHR '')'')]"
  have flat: "nested v" if "lang ?c v" for v
    using that by (auto simp: cls_has_def elim!: lang_SetE intro: nested_flat)
  have "nested v" if "lang (RSeq (RLit (CHR ''('')) (RSeq (RRep True 0 None ?c) (RLit (CHR '')'')))) v" for v
  proof -
    from that obtain w where v: "v = ''('' @ w @ '')''" and w: "lang (RRep True 0 None ?c) w"
      by (auto elim!: lang_SeqE simp: lang_RLit)
    from lang_class_star [OF w] show ?thesis unfolding v
      by (intro nested_group) (auto simp: list_all_iff cls_has_def)
  qed
  with flat show "lang ARGUMENTS u \<Longrightarrow> nested u"
    unfolding ARGUMENTS_def by (auto elim!: lang_RepE lang_AltE intro!: nested_concat)
qed

lemma py_count_char: "py_count s [c] = count_list s c"
  by (induction s) (subst py_count.simps, simp)+

lemma join_split: "join [c] (split_on c s) = s \<and> split_on c s \<noteq> []"
proof (induction s)
  case (Cons x s)
  then show ?case by (cases "split_on c s") (auto split: list.split, (case_tac list, auto)+)
qed simp

lemma collapse_nested:
  "nested (join '','' args) \<Longrightarrow> CHR ''<'' \<notin> set (join '','' args) \<Longrightarrow> raises_only {} (collapse_args args)"
proof (induction args rule: collapse_args.induct)
  case (2 arg)
  then show ?case by (auto simp: unbalanced_def py_count_char count_notin nested_def outcome)
next
  case (3 arg next_arg rest)
  have j: "join '','' ((arg @ '','' @ next_arg) # rest) = join '','' (arg # next_arg # rest)" by (cases rest) auto
  show ?case
  proof (cases "unbalanced arg")
    case True
    with 3(1) [OF True] 3(3,4) j show ?thesis by simp
  next
    case False
    let ?rest = "join '','' (next_arg # rest)"
    have pre: "count_list a (CHR '')'') \<le> count_list a (CHR ''('')"
      if "join '','' (arg # next_arg # rest) = a @ b" for a b
      using 3(3) that unfolding nested_def by blast
    have "count_list (arg @ '','' @ a) (CHR '')'') \<le> count_list (arg @ '','' @ a) (CHR ''('')" if "?rest = a @ b" for a b
      using that by (intro pre [of _ b]) simp
    note pre' = this
    have "count_list arg (CHR '')'') \<le> count_list arg (CHR ''('')" by (rule pre [of _ "'','' @ ?rest"]) simp
    with False have eq: "count_list arg (CHR ''('') = count_list arg (CHR '')'')"
      by (simp add: unbalanced_def py_count_char)
    with pre' 3(3) have "nested ?rest" by (auto simp: nested_def)
    with 3(2) [OF False] 3(4) have "raises_only {} (collapse_args (next_arg # rest))" by simp
    with False show ?thesis by (simp add: outcome)
  qed
qed (simp add: outcome)

lemma collapse_raises: "raises_only {IndexError} (collapse_args args)"
  by (induction args rule: collapse_args.induct) (auto simp: outcome)

lemma constructor_outcome:
  assumes "angle_safe E line"
  shows "raises_only E (constructor_checks fn n name line)"
proof -
  have "raises_only E (collapse_args (if group m 2 = [] then [] else split_on (CHR '','') (group m 2)))"
    if m: "Match (CONSTRUCTOR name) line = Some m" for m
  proof (cases "IndexError \<in> E")
    case True
    with collapse_raises show ?thesis by (blast intro: raises_only_mono)
  next
    case False
    obtain r where r: "re_compile (CONSTRUCTOR name) = Some r" "bodies 2 r = [ARGUMENTS]" "tails 2 r \<noteq> None"
      using constructor_arguments by blast
    have "plain ARGUMENTS" by (simp add: ARGUMENTS_def)
    with Match_body [OF r(1,3,2) _ m] have nest: "nested (group m 2)" by (simp add: arguments_nested)
    from Match_wf [OF m] have "sublist (group m 2) line" by (simp add: group_sublist)
    then have "set (group m 2) \<subseteq> set line" by (auto simp: sublist_def)
    with False assms have "CHR ''<'' \<notin> set (group m 2)" by (auto simp: angle_safe_def)
    with nest join_split [of "CHR '',''" "group m 2"] have "raises_only {} (collapse_args (split_on (CHR '','') (group m 2)))"
      by (intro collapse_nested) simp_all
    then show ?thesis by (auto simp: outcome intro: raises_only_mono)
  qed
  then show ?thesis by (auto simp: constructor_checks_def explicit_report_def Let_def outcome)
qed

lemma nonstandard_outcome [outcome]:
  assumes "at_line cl n" and "angle_safe E (elided cl ! nat n)"
  shows "raises_only E (CheckForNonStandardConstructs fn cl n st)"
  using constructor_outcome [OF assms(2)]
  by (auto simp: CheckForNonStandardConstructs_def nonstandard_line_def at_line_nth [OF assms(1)] outcome)

lemma namespace_indentation_total [outcome]:
  assumes "at_line cl n"
  shows "raises_only E (CheckForNamespaceIndentation fn st cl n)"
  using at_lineD [OF assms]
  by (auto simp: CheckForNamespaceIndentation_def ShouldCheckNamespaceIndentation_def IsForwardClassDeclaration_def
      IsMacroDefinition_def CheckItemIndentationInNamespace_def Let_def at_line_nth [OF assms] outcome)

section \<open>Include lines\<close>

lemma paths_total [outcome]: "no_svn_root w \<Longrightarrow> raises_only E (from_opt (RepositoryName o' w f))"
  "no_svn_root w \<Longrightarrow> raises_only E (from_opt (BaseName o' w f))"
  "no_svn_root w \<Longrightarrow> raises_only E (from_opt (Extension o' w f))"
  using repository_total by (auto simp: outcome BaseName_def Extension_def Split_def)

lemma nonempty_cases: "xs \<noteq> [] \<Longrightarrow> \<exists>ys y. xs = ys @ [y]"
  by (cases xs rule: rev_cases) auto

lemma foreign_total [outcome]: "no_svn_root w \<Longrightarrow> raises_only E (foreign_source o' w fn inc exts)"
  by (induction exts) (auto simp: paths_total raises_only_bind raises_only_basic)

lemma third_src_total [outcome]: "no_svn_root w \<Longrightarrow> raises_only E (third_src_header o' w fn inc exts)"
  by (induction exts) (auto simp: Let_def paths_total raises_only_bind raises_only_basic)

lemma alphabetical_total [outcome]:
  assumes "at_line cl n"
  shows "raises_only E (IsInAlphabeticalOrder cl n path st)"
  using at_lineD [OF assms] by (auto simp: IsInAlphabeticalOrder_def outcome)

lemma classify_total [outcome]: "no_svn_root w \<Longrightarrow> raises_only E (from_opt (ClassifyInclude o' w fn inc sys))"
  using repository_total by (auto simp: outcome ClassifyInclude_def)

text \<open>The checks on an include line keep a current branch in the include list.\<close>

definition keeps_branch :: "include_state run \<Rightarrow> bool" where
  "keeps_branch m \<longleftrightarrow> (\<forall>st. result m = Inr st \<longrightarrow> include_list st \<noteq> [])"

lemma keeps_branch_rules:
  "keeps_branch (ret st) \<longleftrightarrow> include_list st \<noteq> []"
  "keeps_branch (raise e)"
  "keeps_branch (bind m f) \<longleftrightarrow> (\<forall>x. result m = Inr x \<longrightarrow> keeps_branch (f x))"
  "keeps_branch (seq u k) \<longleftrightarrow> (returns u \<longrightarrow> keeps_branch k)"
  by (auto simp: keeps_branch_def result_bind seq_def returns_def split: sum.splits)

lemma order_checks_total:
  assumes "at_line cl n" and "no_svn_root w" and "include_list st \<noteq> []"
  shows "raises_only E (order_checks o' w fn cl n inc sys st)" and "keeps_branch (order_checks o' w fn cl n inc sys st)"
proof -
  have "include_list (snd (CheckNextIncludeOrder h st)) = include_list st" for h
    by (cases h) (simp_all add: CheckNextIncludeOrder_def Let_def)
  with assms show "raises_only E (order_checks o' w fn cl n inc sys st)" "keeps_branch (order_checks o' w fn cl n inc sys st)"
    by (auto simp: order_checks_def Let_def case_prod_beta SetLastHeader_def keeps_branch_rules alphabetical_total
        classify_total paths_total raises_only_bind raises_only_seq raises_only_basic raises_only_when_do)
qed

lemma record_total:
  assumes "include_list st \<noteq> []"
  shows "\<exists>st'. record_include inc n st = ret st' \<and> include_list st' \<noteq> []"
  using assms by (simp add: record_include_def)

lemma include_line_total:
  assumes "at_line cl n" and "no_svn_root w" and "include_list st \<noteq> []"
  shows "raises_only E (CheckIncludeLine o' w fn cl n st)" and "keeps_branch (CheckIncludeLine o' w fn cl n st)"
proof -
  note rules = raises_only_bind raises_only_seq raises_only_when_do raises_only_basic raises_only_option keeps_branch_rules
  have order: "raises_only E (record_include inc n st)"
    "result (record_include inc n st) = Inr x \<longrightarrow> raises_only E (order_checks o' w fn cl n inc sys x)"
    "result (record_include inc n st) = Inr x \<longrightarrow> keeps_branch (order_checks o' w fn cl n inc sys x)" for inc sys x
    using record_total [OF assms(3), of inc n] order_checks_total [OF assms(1,2)] by (auto simp: rules)
  have branch: "keeps_branch (case x of None \<Rightarrow> k | Some e \<Rightarrow> f e) \<longleftrightarrow>
      (x = None \<longrightarrow> keeps_branch k) \<and> (\<forall>e. x = Some e \<longrightarrow> keeps_branch (f e))" for x :: "'b option" and k f
    by (cases x) simp_all
  show "raises_only E (CheckIncludeLine o' w fn cl n st)"
    by (simp add: CheckIncludeLine_def Let_def at_line_nth [OF assms(1)] rules order foreign_total third_src_total assms(2))
  show "keeps_branch (CheckIncludeLine o' w fn cl n st)"
    by (simp add: CheckIncludeLine_def Let_def at_line_nth [OF assms(1)] rules order branch assms(3))
qed

lemma language_outcome:
  assumes "at_line cl n" and "no_svn_root w" and "include_list st \<noteq> []" and "angle_safe E (elided cl ! nat n)"
  shows "raises_only E (CheckLanguage o' w fn cl n ext st)" and "keeps_branch (CheckLanguage o' w fn cl n ext st)"
proof -
  note rules = raises_only_bind raises_only_seq raises_only_basic keeps_branch_rules
  let ?directive = "case Match CONDITIONAL (elided cl ! nat n) of None \<Rightarrow> ret st | Some m \<Rightarrow> ResetSection (group m 1) st"
  obtain st' where reset: "?directive = ret st'" "include_list st' \<noteq> []"
    using reset_keeps_nonempty [OF assms(3)] assms(3) by (cases "Match CONDITIONAL (elided cl ! nat n)") auto
  show "raises_only E (CheckLanguage o' w fn cl n ext st)"
    by (simp add: CheckLanguage_def at_line_nth [OF assms(1)] reset rules include_line_total [OF assms(1-3)]
        casts_outcome [OF assms(1,4)] global_static_total [OF assms(1)] line_checks_total [OF assms(1)] other_language_total)
  show "keeps_branch (CheckLanguage o' w fn cl n ext st)"
    by (simp add: CheckLanguage_def at_line_nth [OF assms(1)] reset rules include_line_total [OF assms(1-3)] assms(3))
qed

section \<open>Reference parameters\<close>

lemma function_line_total [outcome]:
  assumes "at_line cl n"
  shows "raises_only E (function_line cl n)"
  using at_lineD [OF assms] by (auto simp: function_line_def intro!: scan_lines_down)

lemma function_line_hit:
  assumes "at_line cl n" and "result (function_line cl n) = Inr (Some (i, l))"
  shows "at_line cl i \<and> l = elided cl ! nat i"
proof -
  from at_lineD [OF assms(1)] scan_lines_hit [OF assms(2) [unfolded function_line_def]] show ?thesis
    using assms(1) by (auto simp: at_line_def)
qed

lemma function_head_tail: "tail FUNCTION_HEAD 1 = Some (Suc 0)"
  by code_simp

lemma derived_total [outcome]:
  assumes "at_line cl n"
  shows "raises_only E (IsDerivedFunction cl n)"
proof -
  have "raises_only E (CloseExpression cl i (py_len (group m 1)))"
    if "result (function_line cl n) = Inr (Some (i, l))" "Match FUNCTION_HEAD l = Some m" for i l m
    using function_line_hit [OF assms that(1)] group_position [OF function_head_tail _ that(2) order_refl]
    by (auto intro!: close_outcome(1))
  with function_line_total [OF assms] show ?thesis
    by (auto simp: IsDerivedFunction_def outcome)
qed

lemma out_of_line_total [outcome]: "at_line cl n \<Longrightarrow> raises_only E (IsOutOfLineMethodDefinition cl n)"
  by (simp add: IsOutOfLineMethodDefinition_def outcome)

lemma initializer_scan_total: "i < py_len ls \<Longrightarrow> k = 0 \<or> int k \<le> i + 1 \<Longrightarrow> raises_only E (initializer_scan ls n i k)"
  by (induction k arbitrary: i) (auto simp: Let_def outcome py_len_def)

lemma initializer_total [outcome]:
  assumes "at_line cl n"
  shows "raises_only E (IsInitializerList cl n)"
  using at_lineD [OF assms] by (auto simp: IsInitializerList_def intro!: initializer_scan_total split: if_splits)

lemma colon_before_total: "i < py_len ls \<Longrightarrow> k = 0 \<or> int k \<le> i + 1 \<Longrightarrow> raises_only E (colon_before ls i k)"
  by (induction k arbitrary: i) (auto simp: outcome py_len_def)

lemma joined_line_total [outcome]:
  assumes "at_line cl n" and "line = elided cl ! nat n"
  shows "raises_only E (joined_line cl n line)"
proof -
  have "raises_only E (ReverseCloseExpression cl n p)" if "p = py_rfind line (CHR ''>'')" "p > - 1" for p
    using py_rfind_bounds [of line "CHR ''>''"] that assms by (intro reverse_outcome(1)) auto
  with at_lineD [OF assms(1)] show ?thesis
    by (auto simp: joined_line_def Let_def outcome)
qed

lemma whitelisted_total [outcome]:
  assumes "at_line cl n"
  shows "raises_only E (whitelisted cl n line)"
  using at_lineD [OF assms] by (auto simp: whitelisted_def outcome)

lemma references_total [outcome]:
  assumes "at_line cl n"
  shows "raises_only E (CheckForNonConstReference fn cl n st)"
proof -
  have "raises_only E (colon_before (elided cl) (n - 1) (nat (n - 1 - max 0 (n - 10))))"
    using at_lineD [OF assms] by (intro colon_before_total) auto
  with assms show ?thesis
    by (simp add: CheckForNonConstReference_def report_references_def at_line_nth outcome raises_only_for_each)
qed

end
