(* ===== verification/Line_Total.thy ===== *)
theory Line_Total
  imports Declaration_Total
begin

text \<open>
  One line and the loop over the lines: the blocks on the nesting stack begin on lines of the file, the
  include list keeps a current branch, and under these invariants \<open>ProcessLine\<close> raises nothing but the
  \<open>IndexError\<close>s of a line with angle brackets.
\<close>

section \<open>The blocks begin on lines of the file\<close>

definition pp_on_lines :: "cleansed \<Rightarrow> pp_info \<Rightarrow> bool" where
  "pp_on_lines cl pp \<longleftrightarrow> list_all (block_on_line cl) (stack_before_if pp) \<and> list_all (block_on_line cl) (stack_before_else pp)"

definition nesting_on_lines :: "cleansed \<Rightarrow> nesting \<Rightarrow> bool" where
  "nesting_on_lines cl st \<longleftrightarrow> stack_on_lines cl st \<and> list_all (pp_on_lines cl) (pp_stack st)"

lemma on_lines_copies [simp]: "list_all (block_on_line cl) (copies n bs) = list_all (block_on_line cl) bs"
  by (simp add: copies_def list_all_length block_on_line_def)

lemma on_lines_butlast: "list_all P bs \<Longrightarrow> list_all P (butlast bs)"
  by (auto simp: list_all_iff dest: in_set_butlastD)

lemma on_lines_push: "nesting_on_lines cl st \<Longrightarrow> block_on_line cl b \<Longrightarrow> nesting_on_lines cl (push_block b st)"
  by (simp add: nesting_on_lines_def stack_on_lines_def push_block_def)

lemma on_lines_pop: "nesting_on_lines cl st \<Longrightarrow> nesting_on_lines cl (pop_block st)"
  by (simp add: nesting_on_lines_def stack_on_lines_def pop_block_def on_lines_butlast)

lemma on_lines_top:
  assumes "nesting_on_lines cl st" and "stack st \<noteq> []"
    and "starting_linenum (f (last (stack st))) = starting_linenum (last (stack st))"
  shows "nesting_on_lines cl (map_top f st)"
  using assms
  by (auto simp: nesting_on_lines_def stack_on_lines_def map_top_def block_on_line_def list_all_iff dest: in_set_butlastD)

lemma on_lines_preprocessor: "nesting_on_lines cl st \<Longrightarrow> nesting_on_lines cl (UpdatePreprocessor line st)"
  using list_all_last [of "pp_on_lines cl" "pp_stack st"]
  by (auto simp: UpdatePreprocessor_def Let_def nesting_on_lines_def stack_on_lines_def pp_on_lines_def)

lemma on_lines_entered:
  assumes "nesting_on_lines cl st"
  shows "nesting_on_lines cl (entered line st)"
proof -
  have "nesting_on_lines cl (st\<lparr>previous_stack_top := x\<rparr>)" for x
    using assms by (simp add: nesting_on_lines_def stack_on_lines_def)
  from on_lines_preprocessor [OF this] show ?thesis
    by (auto simp: entered_def Let_def count_parentheses_def intro: on_lines_top)
qed

lemma new_blocks_on_line:
  "at_line cl n \<Longrightarrow> block_on_line cl (new_block i n s)" "at_line cl n \<Longrightarrow> block_on_line cl (new_extern_c i n)"
  "at_line cl n \<Longrightarrow> block_on_line cl (new_namespace i name n)"
  "at_line cl n \<Longrightarrow> block_on_line cl ((new_namespace i name n)\<lparr>seen_open_brace := True\<rparr>)"
  "at_line cl n \<Longrightarrow> block_on_line cl ((new_block i n s)\<lparr>inline_asm := BLOCK_ASM\<rparr>)"
  "at_line cl n \<Longrightarrow> result (new_class i cname c cl n) = Inr b \<Longrightarrow> block_on_line cl b"
  by (auto simp: block_on_line_def new_block_def new_extern_c_def new_namespace_def new_class_def Let_def at_line_nth dest: at_lineD)

lemma on_lines_namespaces:
  "at_line cl n \<Longrightarrow> nesting_on_lines cl st \<Longrightarrow> nesting_on_lines cl (snd (namespace_loop n line st))"
proof (induction n line st rule: namespace_loop.induct)
  case (1 n line st)
  then show ?case
    by (subst namespace_loop.simps) (auto simp: on_lines_push new_blocks_on_line split: option.split)
qed

lemma on_lines_class:
  assumes "at_line cl n" and "nesting_on_lines cl st" and "result (class_declaration cl n line st) = Inr (line', st')"
  shows "nesting_on_lines cl st'"
proof -
  have "nesting_on_lines cl (push_block b st)" if "result (new_class i name c cl n) = Inr b" for i name c b
    using on_lines_push [OF assms(2) new_blocks_on_line(6) [OF assms(1) that]] .
  with assms(2,3) show ?thesis
    by (auto simp: class_declaration_def elim!: result_bindE split: option.splits if_splits)
qed

lemma on_lines_begin:
  assumes "nesting_on_lines cl st" and "result (begin_checks cl n st) = Inr st'"
  shows "nesting_on_lines cl st'"
proof (cases "SeenOpenBrace st")
  case False
  with assms(2) obtain b where b: "result (CheckBegin cl n (last (stack st))) = Inr b" and st': "st' = map_top (\<lambda>_. b) st"
    by (auto simp: begin_checks_def elim!: result_bindE)
  from b have "starting_linenum b = starting_linenum (last (stack st))"
    by (auto simp: CheckBegin_def elim!: result_bindE split: block_kind.splits if_splits)
  with False assms(1) st' show ?thesis by (auto simp: SeenOpenBrace_def intro: on_lines_top)
qed (use assms in \<open>simp add: begin_checks_def\<close>)

lemma on_lines_access:
  assumes "nesting_on_lines cl st" and "result (access_control fn n line st) = Inr st'"
  shows "nesting_on_lines cl st'"
proof -
  from assms(2) have "st' = st \<or> stack st \<noteq> [] \<and> (\<exists>k. st' = map_top (\<lambda>b. b\<lparr>kind := k\<rparr>) st)"
    by (auto simp: access_control_def seq_def elim!: result_bindE split: block_kind.splits option.splits if_splits)
  with assms(1) show ?thesis by (auto intro: on_lines_top)
qed

lemma on_lines_token:
  assumes "at_line cl n" and "nesting_on_lines cl st" and "result (brace_token fn cl n line token st) = Inr st'"
  shows "nesting_on_lines cl st'"
proof -
  have "\<not> SeenOpenBrace st \<Longrightarrow> nesting_on_lines cl (map_top (\<lambda>b. b\<lparr>seen_open_brace := True\<rparr>) st)"
    using assms(2) by (auto simp: SeenOpenBrace_def intro: on_lines_top)
  with assms show ?thesis
    by (auto simp: brace_token_def seq_def Let_def new_blocks_on_line on_lines_push on_lines_pop elim!: result_bindE split: if_splits)
qed

lemma on_lines_braces:
  "at_line cl n \<Longrightarrow> nesting_on_lines cl st \<Longrightarrow> result (brace_loop fn cl n line st) = Inr st' \<Longrightarrow> nesting_on_lines cl st'"
proof (induction fn cl n line st rule: brace_loop.induct)
  case (1 fn cl n line st)
  show ?case
  proof (cases "Match BRACE line")
    case None
    with 1 show ?thesis by (subst (asm) brace_loop.simps) simp
  next
    case (Some m)
    with "1.prems"(3) obtain st1 where t: "result (brace_token fn cl n line (group m 1) st) = Inr st1"
      and l: "result (brace_loop fn cl n (group m 2) st1) = Inr st'"
      by (subst (asm) brace_loop.simps) (auto elim: result_bindE)
    from "1.IH" [OF Some t "1.prems"(1) on_lines_token [OF "1.prems"(1,2) t] l] show ?thesis .
  qed
qed

lemma on_lines_update:
  assumes "at_line cl n" and "nesting_on_lines cl st" and "result (Update fn cl n st) = Inr st'"
  shows "nesting_on_lines cl st'"
  using assms(3)
proof (rule Update_stages)
  fix line l4 st4 l5 st5 st6 st7
  assume 4: "namespace_loop n line (entered line st) = (l4, st4)"
    and 5: "result (class_declaration cl n l4 st4) = Inr (l5, st5)" and 6: "result (begin_checks cl n st5) = Inr st6"
    and 7: "result (access_control fn n l5 st6) = Inr st7" and 8: "result (brace_loop fn cl n l5 st7) = Inr st'"
  from on_lines_namespaces [OF assms(1) on_lines_entered [OF assms(2)], of line line] 4 have "nesting_on_lines cl st4" by simp
  from on_lines_class [OF assms(1) this 5] have "nesting_on_lines cl st5" .
  from on_lines_access [OF on_lines_begin [OF this 6] 7] have "nesting_on_lines cl st7" .
  from on_lines_braces [OF assms(1) this 8] show ?thesis .
qed

section \<open>One line\<close>

text \<open>What the three state objects keep from line to line.\<close>

definition line_inv :: "cleansed \<Rightarrow> line_state \<Rightarrow> bool" where
  "line_inv cl st \<longleftrightarrow> include_list (fst st) \<noteq> [] \<and> nesting_on_lines cl (snd (snd st))"

lemma update_total [outcome]: "at_line cl n \<Longrightarrow> raises_only E (Update fn cl n st)"
  by (rule raises_only_returns [OF update_returns]) (auto simp: at_line_file_ok dest: at_lineD)

lemma line_checks_outcome:
  assumes "at_line cl n" and "no_svn_root w" and "include_list st \<noteq> []" and "stack_on_lines cl nst"
    and "angle_safe E (elided cl ! nat n)"
  shows "raises_only E (line_checks o' w fn ext cl n st nst)" and "keeps_branch (line_checks o' w fn ext cl n st nst)"
proof -
  note lang = language_outcome [OF assms(1-3,5), of o' fn ext]
  show "raises_only E (line_checks o' w fn ext cl n st nst)"
    by (simp add: line_checks_def raises_only_bind raises_only_seq raises_only_basic lang(1)
        line_checks_total [OF assms(1)] style_total [OF assms(1,2,4)] references_total [OF assms(1)]
        nonstandard_outcome [OF assms(1,5)] virtual_total [OF assms(1)] override_total [OF assms(1)])
  show "keeps_branch (line_checks o' w fn ext cl n st nst)"
    using lang(2) by (simp add: line_checks_def keeps_branch_rules assms) (simp add: keeps_branch_def)
qed

lemma process_line_outcome:
  assumes "at_line cl n" and "no_svn_root w" and "line_inv cl st" and "angle_safe E (elided cl ! nat n)"
  shows "raises_only E (ProcessLine o' w v [] fn ext cl n st)"
    and "result (ProcessLine o' w v [] fn ext cl n st) = Inr st' \<Longrightarrow> line_inv cl st'"
proof -
  obtain ist fst' nst where st: "st = (ist, fst', nst)" by (cases st)
  with assms(3) have inv: "include_list ist \<noteq> []" "nesting_on_lines cl nst" by (simp_all add: line_inv_def)
  have upd: "nesting_on_lines cl nst'" if "result (Update fn cl n nst) = Inr nst'" for nst'
    using on_lines_update [OF assms(1) inv(2) that] .
  then have checks: "raises_only E (line_checks o' w fn ext cl n ist nst')" "keeps_branch (line_checks o' w fn ext cl n ist nst')"
    if "result (Update fn cl n nst) = Inr nst'" for nst'
    using line_checks_outcome [OF assms(1,2) inv(1) _ assms(4)] that by (simp_all add: nesting_on_lines_def)
  show "raises_only E (ProcessLine o' w v [] fn ext cl n st)"
    using checks by (simp add: ProcessLine_def st at_line_nth [OF assms(1)] raises_only_bind raises_only_seq raises_only_basic
        update_total [OF assms(1)] namespace_indentation_total [OF assms(1)] function_lengths_total [OF assms(1)])
  show "result (ProcessLine o' w v [] fn ext cl n st) = Inr st' \<Longrightarrow> line_inv cl st'"
    using checks(2) upd inv unfolding ProcessLine_def st seq_def
    by (auto simp: line_inv_def keeps_branch_def elim!: result_bindE split: if_splits)
qed

lemma process_lines_outcome:
  assumes "copies_ok cl" and "no_svn_root w" and "\<forall>l \<in> set (elided cl). angle_safe E l"
  shows "0 \<le> n \<Longrightarrow> n + int k \<le> NumLines cl \<Longrightarrow> line_inv cl st \<Longrightarrow>
    raises_only E (process_lines o' w v [] fn ext cl n k st) \<and>
    (\<forall>st'. result (process_lines o' w v [] fn ext cl n k st) = Inr st' \<longrightarrow> line_inv cl st')"
proof (induction k arbitrary: n st)
  case (Suc k)
  then have at: "at_line cl n" using assms(1) by (simp add: at_line_def)
  then have "elided cl ! nat n \<in> set (elided cl)" by (auto dest!: at_lineD simp: py_len_def)
  note line = process_line_outcome [OF at assms(2) Suc.prems(3), of E o' v fn ext] and IH = Suc.IH [of "n + 1"]
  from assms(3) \<open>elided cl ! nat n \<in> _\<close> have safe: "angle_safe E (elided cl ! nat n)" by blast
  have rest: "raises_only E (process_lines o' w v [] fn ext cl (n + 1) k st1)"
      "\<forall>st'. result (process_lines o' w v [] fn ext cl (n + 1) k st1) = Inr st' \<longrightarrow> line_inv cl st'"
    if "result (ProcessLine o' w v [] fn ext cl n st) = Inr st1" for st1
    using IH [of st1] line(2) [OF safe that] Suc.prems(1,2) by simp_all
  with line(1) [OF safe] line_checks_total(6) [OF at, of E fn] show ?case
    by (auto simp: raises_only_bind raises_only_seq seq_def elim!: result_bindE)
qed (simp add: outcome)

end
