(* ===== verification/Reporting.thy ===== *)
theory Reporting
  imports Lint_State
begin

text \<open>
  Correctness of the reporting state: which errors are printed (\<open>ShouldPrintError_verdict\<close>), what a
  NOLINT comment suppresses, that replaying the calls of a check never fails on a well-formed filter
  list and only adds to the counters, and that the counters per category add up to the total. The
  handler interface \<open>call_handler\<close> is what the driver relies on.
\<close>

section \<open>Interface: a handler of calls\<close>

locale call_handler =
  fixes handle :: "call \<Rightarrow> 's \<Rightarrow> exc + 's"
    and inv :: "'s \<Rightarrow> bool"
    and count :: "'s \<Rightarrow> nat"
  assumes handle_total: "inv s \<Longrightarrow> \<exists>s'. handle c s = Inr s' \<and> inv s' \<and> count s \<le> count s'"
begin

lemma replay_total:
  "inv s \<Longrightarrow> \<exists>s'. replay_with handle cs s = Inr s' \<and> inv s' \<and> count s \<le> count s'"
proof (induction cs arbitrary: s)
  case Nil
  then show ?case by simp
next
  case (Cons c cs)
  from handle_total [OF Cons.prems, of c] obtain s1
    where s1: "handle c s = Inr s1" "inv s1" "count s \<le> count s1" by blast
  from Cons.IH [OF s1(2)] s1 show ?case by fastforce
qed

lemma replay_append:
  "replay_with handle (cs @ ds) s =
    (case replay_with handle cs s of Inl e \<Rightarrow> Inl e | Inr s' \<Rightarrow> replay_with handle ds s')"
  by (induction cs arbitrary: s) (auto split: sum.splits)

lemma replay_inv: "inv s \<Longrightarrow> replay_with handle cs s = Inr s' \<Longrightarrow> inv s'"
  using replay_total [of s cs] by auto

lemma replay_count: "inv s \<Longrightarrow> replay_with handle cs s = Inr s' \<Longrightarrow> count s \<le> count s'"
  using replay_total [of s cs] by auto

end

section \<open>Filters\<close>

definition filters_ok :: "lint \<Rightarrow> bool" where
  "filters_ok st \<longleftrightarrow> list_all filter_ok (filters st)"

text \<open>The specification: the last filter that is a prefix of the category decides.\<close>

definition decides :: "string \<Rightarrow> string \<Rightarrow> bool" where
  "decides category f \<longleftrightarrow> startswith category (drop 1 f)"

definition verdict :: "string \<Rightarrow> string list \<Rightarrow> bool \<Rightarrow> bool" where
  "verdict category fs b =
     (case filter (decides category) (rev fs) of [] \<Rightarrow> b | f # _ \<Rightarrow> startswith f ''-'')"

lemma filter_ok_cases: "filter_ok f \<Longrightarrow> startswith f ''+'' = (\<not> startswith f ''-'')"
  by (cases f) (auto simp: filter_ok_def startswith_def)

lemma verdict_Cons: "verdict category (f # fs) b =
    verdict category fs (if decides category f then startswith f ''-'' else b)"
  by (auto simp: verdict_def split: list.splits)

lemma filter_loop_verdict:
  "list_all filter_ok fs \<Longrightarrow> filter_loop category fs b = Inr (verdict category fs b)"
proof (induction fs arbitrary: b)
  case Nil
  then show ?case by (simp add: verdict_def)
next
  case (Cons f fs)
  then show ?case using filter_ok_cases [of f]
    by (auto simp: verdict_Cons decides_def filter_ok_def)
qed

lemma ShouldPrintError_eq:
  "filters_ok st \<Longrightarrow> ShouldPrintError category confidence n st =
    Inr (\<not> IsErrorSuppressedByNolint category n st \<and> verbose_level st \<le> confidence \<and>
         \<not> verdict category (filters st) False)"
  by (auto simp: ShouldPrintError_def filters_ok_def filter_loop_verdict)

text \<open>C5. An error is printed exactly when no suppression covers its line, its confidence reaches the
  verbosity level, and the last filter whose text is a prefix of its category, if any, is a \<open>+\<close>
  filter. With a well-formed filter list the assertion in the loop never fails.\<close>

theorem ShouldPrintError_verdict:
  assumes "filters_ok st"
  shows "ShouldPrintError category confidence n st =
    Inr (\<not> IsErrorSuppressedByNolint category n st \<and> verbose_level st \<le> confidence \<and>
         (case filter (decides category) (rev (filters st)) of [] \<Rightarrow> True
          | f # _ \<Rightarrow> startswith f ''+''))"
proof (cases "filter (decides category) (rev (filters st))")
  case Nil
  with ShouldPrintError_eq [OF assms, of category confidence n] show ?thesis by (simp add: verdict_def)
next
  case (Cons f fs)
  then have "f \<in> set (filters st)" by (metis filter_is_subset in_mono list.set_intros(1) set_rev)
  with assms have "startswith f ''+'' = (\<not> startswith f ''-'')"
    using filter_ok_cases by (auto simp: filters_ok_def list_all_iff)
  with Cons ShouldPrintError_eq [OF assms, of category confidence n] show ?thesis by (simp add: verdict_def)
qed

theorem ShouldPrintError_verdict_witness:
  "ShouldPrintError ''whitespace/tab'' 3 (Some 7)
     (init_lint\<lparr>filters := [''-whitespace'', ''+whitespace/tab'', ''-build'']\<rparr>) = Inr True"
  using ShouldPrintError_verdict [of "init_lint\<lparr>filters := [''-whitespace'', ''+whitespace/tab'', ''-build'']\<rparr>"
      "''whitespace/tab''" 3 "Some 7"]
  by (simp add: filters_ok_def filter_ok_def startswith_def decides_def init_lint_def
      IsErrorSuppressedByNolint_def no_suppressions_def on_line_def)

section \<open>Frame of the reporting operations\<close>

lemma IncrementErrorCount_fields [simp]:
  "filters (IncrementErrorCount c st) = filters st"
  "verbose_level (IncrementErrorCount c st) = verbose_level st"
  "counting (IncrementErrorCount c st) = counting st"
  "output_format (IncrementErrorCount c st) = output_format st"
  "error_suppressions (IncrementErrorCount c st) = error_suppressions st"
  "global_error_suppressions (IncrementErrorCount c st) = global_error_suppressions st"
  "filters_backup (IncrementErrorCount c st) = filters_backup st"
  "quiet (IncrementErrorCount c st) = quiet st"
  "error_count (IncrementErrorCount c st) = Suc (error_count st)"
  by (simp_all add: IncrementErrorCount_def Let_def)

lemma PrintError_fields [simp]:
  "filters (PrintError m st) = filters st" "verbose_level (PrintError m st) = verbose_level st"
  "counting (PrintError m st) = counting st" "error_count (PrintError m st) = error_count st"
  "errors_by_category (PrintError m st) = errors_by_category st"
  "error_suppressions (PrintError m st) = error_suppressions st"
  "global_error_suppressions (PrintError m st) = global_error_suppressions st"
  "filters_backup (PrintError m st) = filters_backup st" "quiet (PrintError m st) = quiet st"
  "output_format (PrintError m st) = output_format st"
  by (simp_all add: PrintError_def)

lemma AddJUnitFailure_fields [simp]:
  "filters (AddJUnitFailure f n m c k st) = filters st"
  "verbose_level (AddJUnitFailure f n m c k st) = verbose_level st"
  "counting (AddJUnitFailure f n m c k st) = counting st"
  "error_count (AddJUnitFailure f n m c k st) = error_count st"
  "errors_by_category (AddJUnitFailure f n m c k st) = errors_by_category st"
  "error_suppressions (AddJUnitFailure f n m c k st) = error_suppressions st"
  "global_error_suppressions (AddJUnitFailure f n m c k st) = global_error_suppressions st"
  "filters_backup (AddJUnitFailure f n m c k st) = filters_backup st"
  "quiet (AddJUnitFailure f n m c k st) = quiet st"
  by (simp_all add: AddJUnitFailure_def)

lemma suppress_on_fields [simp]:
  "filters (suppress_on k n st) = filters st" "verbose_level (suppress_on k n st) = verbose_level st"
  "counting (suppress_on k n st) = counting st" "error_count (suppress_on k n st) = error_count st"
  "errors_by_category (suppress_on k n st) = errors_by_category st"
  "global_error_suppressions (suppress_on k n st) = global_error_suppressions st"
  "filters_backup (suppress_on k n st) = filters_backup st" "quiet (suppress_on k n st) = quiet st"
  by (simp_all add: suppress_on_def)

text \<open>What \<open>Error\<close> does to the state, in one case distinction.\<close>

lemma Error_reported:
  assumes "ShouldPrintError cat conf n st = Inr True" and "Error fn n cat conf msg st = Inr st'"
  shows "error_count st' = Suc (error_count st) \<and>
    errors_by_category st' = errors_by_category (IncrementErrorCount cat st) \<and>
    filters st' = filters st \<and> verbose_level st' = verbose_level st \<and> counting st' = counting st \<and>
    error_suppressions st' = error_suppressions st \<and>
    global_error_suppressions st' = global_error_suppressions st \<and>
    filters_backup st' = filters_backup st \<and> quiet st' = quiet st"
  using assms by (simp add: Error_def Let_def split: if_splits) (force split: if_splits)+

lemma Error_cases [consumes 1, case_names dropped reported]:
  assumes "Error fn n cat conf msg st = Inr st'"
  obtains "ShouldPrintError cat conf n st = Inr False" and "st' = st"
  | "ShouldPrintError cat conf n st = Inr True" and "error_count st' = Suc (error_count st)"
      and "errors_by_category st' = errors_by_category (IncrementErrorCount cat st)"
      and "filters st' = filters st" and "verbose_level st' = verbose_level st"
      and "counting st' = counting st" and "error_suppressions st' = error_suppressions st"
      and "global_error_suppressions st' = global_error_suppressions st"
      and "filters_backup st' = filters_backup st" and "quiet st' = quiet st"
proof (cases "ShouldPrintError cat conf n st")
  case (Inl e)
  with assms show thesis by (simp add: Error_def)
next
  case (Inr b)
  show thesis
  proof (cases b)
    case True
    with Inr Error_reported [OF _ assms] show thesis by (intro that(2)) auto
  next
    case False
    with Inr assms show thesis by (intro that(1)) (auto simp: Error_def)
  qed
qed

lemma Error_total:
  assumes "filters_ok st"
  shows "\<exists>st'. Error fn n cat conf msg st = Inr st'"
  by (auto simp: Error_def Let_def ShouldPrintError_eq [OF assms] split: bool.splits)

lemma Nolint_total:
  assumes "filters_ok st"
  shows "\<exists>st'. ParseNolintSuppressions fn l n st = Inr st'"
  using Error_total [OF assms]
  by (auto simp: ParseNolintSuppressions_def Let_def split: option.splits)

text \<open>Every state change of \<open>ParseNolintSuppressions\<close> is one suppression or one reported error.\<close>

lemma Nolint_cases [consumes 1, case_names unchanged suppressed unknown]:
  assumes "ParseNolintSuppressions fn l n st = Inr st'"
  obtains "st' = st"
  | k m where "st' = suppress_on k m st" and "m = n \<or> m = n + 1"
  | cat where "Error fn (Some n) ''readability/nolint'' 5 (''Unknown NOLINT error category: '' @ cat) st = Inr st'"
proof -
  have "st' = st \<or> (\<exists>k m. st' = suppress_on k m st \<and> (m = n \<or> m = n + 1)) \<or>
    (\<exists>cat. Error fn (Some n) ''readability/nolint'' 5 (''Unknown NOLINT error category: '' @ cat) st = Inr st')"
  proof (cases "Search NOLINT_PATTERN l")
    case None
    with assms show ?thesis by (simp add: ParseNolintSuppressions_def)
  next
    case (Some m)
    define t where "t = (case group_opt m 1 of None \<Rightarrow> n | Some g \<Rightarrow> if g = [] then n else n + 1)"
    then have tdef: "(case group_opt m 1 of None \<Rightarrow> n | Some g \<Rightarrow> if g = [] then n else n + 1) = t"
      and t: "t = n \<or> t = n + 1" by (auto split: option.splits)
    show ?thesis
    proof (cases "group_opt m 2")
      case None
      with assms Some tdef t show ?thesis by (auto simp: ParseNolintSuppressions_def)
    next
      case (Some category)
      with assms \<open>Search NOLINT_PATTERN l = Some m\<close> tdef t show ?thesis
        by (auto simp: ParseNolintSuppressions_def Let_def split: if_splits)
    qed
  qed
  with that show thesis by blast
qed

lemma handle_call_keeps:
  assumes "handle_call c st = Inr st'"
  shows "filters st' = filters st \<and> error_count st \<le> error_count st' \<and> verbose_level st' = verbose_level st \<and>
    counting st' = counting st \<and> filters_backup st' = filters_backup st \<and> quiet st' = quiet st"
proof (cases c)
  case (Report fn n cat conf msg)
  with assms have "Error fn n cat conf msg st = Inr st'" by simp
  then show ?thesis by (cases rule: Error_cases) auto
next
  case (Nolint fn l n)
  with assms have "ParseNolintSuppressions fn l n st = Inr st'" by simp
  then show ?thesis
  proof (cases rule: Nolint_cases)
    case (unknown cat)
    then show ?thesis by (cases rule: Error_cases) auto
  qed auto
qed

interpretation lint_handler: call_handler handle_call filters_ok error_count
proof
  fix st c assume ok: "filters_ok st"
  have "\<exists>st'. handle_call c st = Inr st'"
    using Error_total [OF ok] Nolint_total [OF ok] by (cases c) simp_all
  then obtain st' where st': "handle_call c st = Inr st'" by blast
  then have "filters_ok st'" using handle_call_keeps [OF st'] ok by (simp add: filters_ok_def)
  with st' handle_call_keeps [OF st'] show "\<exists>s'. handle_call c st = Inr s' \<and> filters_ok s' \<and> error_count st \<le> error_count s'"
    by blast
qed

lemma replay_safe:
  assumes "list_all filter_ok (filters st)"
  shows "\<exists>st'. replay cs st = Inr st' \<and> filters st' = filters st \<and> error_count st \<le> error_count st'"
proof -
  have keep: "replay_with handle_call cs st = Inr st' \<Longrightarrow> filters st' = filters st" for st'
  proof (induction cs arbitrary: st)
    case (Cons c cs)
    then show ?case by (auto split: sum.splits dest: handle_call_keeps)
  qed simp
  from lint_handler.replay_total [of st cs] assms keep show ?thesis
    by (fastforce simp: replay_def filters_ok_def)
qed

text \<open>C27. Replaying any sequence of reports and suppressions on a state with a well-formed filter list
  never raises, keeps the filter list, and never lowers the error count.\<close>

theorem replay_never_raises:
  assumes "list_all filter_ok (filters st)"
  shows "\<exists>st'. replay cs st = Inr st' \<and> filters st' = filters st \<and> error_count st \<le> error_count st'"
  using assms by (rule replay_safe)

theorem replay_never_raises_witness:
  "\<exists>st'. replay [Report ''a.cc'' (Some 1) ''build/c++11'' 5 ''x'', Nolint ''a.cc'' ''// NOLINT'' 2] init_lint = Inr st' \<and>
     filters st' = filters init_lint \<and> error_count init_lint \<le> error_count st'"
  by (rule replay_never_raises) (simp add: init_lint_def DEFAULT_FILTERS_def filter_ok_def startswith_def)

section \<open>NOLINT comments\<close>

lemma suppress_on_effect:
  "IsErrorSuppressedByNolint cat k (suppress_on key n st) \<longleftrightarrow>
    IsErrorSuppressedByNolint cat k st \<or> (k = Some n \<and> (key = None \<or> key = Some cat))"
  by (auto simp: IsErrorSuppressedByNolint_def suppress_on_def on_line_def split: option.splits)

lemma Error_suppressed:
  "IsErrorSuppressedByNolint cat n st \<Longrightarrow> Error fn n cat conf msg st = Inr st"
  by (simp add: Error_def ShouldPrintError_def)

definition nolint_target :: "mtch \<Rightarrow> int \<Rightarrow> int" where
  "nolint_target m n = (if group m 1 = [] then n else n + 1)"

lemma nolint_target_eq:
  "(case group_opt m 1 of None \<Rightarrow> n | Some g \<Rightarrow> if g = [] then n else n + 1) = nolint_target m n"
  by (auto simp: nolint_target_def group_def split: option.splits)

lemma Nolint_all:
  assumes "Search NOLINT_PATTERN l = Some m" and "group_opt m 2 \<in> {None, Some ''(*)''}"
  shows "ParseNolintSuppressions fn l n st = Inr (suppress_on None (nolint_target m n) st)"
  using assms nolint_target_eq [of n m] by (auto simp: ParseNolintSuppressions_def)

text \<open>C17. A NOLINT or NOLINT(*) comment on a line (or a NOLINTNEXTLINE on the line before) silences
  every category on that line: reporting there leaves the whole state as it is; on every other line
  the same errors are suppressed as before.\<close>

theorem nolint_silences_line:
  assumes "Search NOLINT_PATTERN l = Some m" and "group_opt m 2 \<in> {None, Some ''(*)''}"
  shows "\<exists>st'. ParseNolintSuppressions fn l n st = Inr st' \<and>
    (\<forall>fn' cat conf msg. Error fn' (Some (nolint_target m n)) cat conf msg st' = Inr st') \<and>
    (\<forall>cat k. k \<noteq> Some (nolint_target m n) \<longrightarrow>
       IsErrorSuppressedByNolint cat k st' = IsErrorSuppressedByNolint cat k st)"
  using Nolint_all [OF assms] by (auto simp: suppress_on_effect intro!: Error_suppressed)

theorem nolint_silences_line_witness:
  "\<exists>m st'. Search NOLINT_PATTERN ''int x; // NOLINTNEXTLINE'' = Some m \<and> nolint_target m 4 = 5 \<and>
    ParseNolintSuppressions ''a.cc'' ''int x; // NOLINTNEXTLINE'' 4 init_lint = Inr st' \<and>
    (\<forall>fn' cat conf msg. Error fn' (Some 5) cat conf msg st' = Inr st')"
proof -
  have *: "(case Search NOLINT_PATTERN ''int x; // NOLINTNEXTLINE'' of None \<Rightarrow> False
     | Some m \<Rightarrow> group_opt m 2 = None \<and> nolint_target m 4 = 5)" by code_simp
  then obtain m where m: "Search NOLINT_PATTERN ''int x; // NOLINTNEXTLINE'' = Some m"
      "group_opt m 2 = None" "nolint_target m 4 = 5" by (auto split: option.splits)
  with nolint_silences_line [OF m(1), of "''a.cc''" 4 init_lint] show ?thesis by auto
qed

lemma nolint_pattern_shape:
  "\<exists>r. re_compile NOLINT_PATTERN = Some (RSeq RWordB (lits_then ''NOLINT'' r))"
proof -
  have "(case re_compile NOLINT_PATTERN of
      Some (RSeq a (RSeq b (RSeq c (RSeq d (RSeq e (RSeq f (RSeq g r))))))) \<Rightarrow>
        RSeq a (RSeq b (RSeq c (RSeq d (RSeq e (RSeq f (RSeq g r)))))) =
        RSeq RWordB (lits_then ''NOLINT'' r)
      | _ \<Rightarrow> False)" by code_simp
  then show ?thesis by (auto split: option.splits regex.splits)
qed

text \<open>A line without the word NOLINT changes nothing.\<close>

theorem nolint_needs_marker:
  assumes "\<not> sublist ''NOLINT'' l"
  shows "ParseNolintSuppressions fn l n st = Inr st"
  using nolint_pattern_shape Search_wordb_lits [OF _ assms]
  by (auto simp: ParseNolintSuppressions_def)

theorem nolint_needs_marker_witness:
  "ParseNolintSuppressions ''a.cc'' ''// nolint'' 3 init_lint = Inr init_lint"
  by (rule nolint_needs_marker) code_simp

section \<open>Counters\<close>

definition counters_agree :: "lint \<Rightarrow> bool" where
  "counters_agree st \<longleftrightarrow> counting st \<in> {''toplevel'', ''detailed''} \<longrightarrow>
     sum_list (map snd (errors_by_category st)) = error_count st \<and>
     distinct (map fst (errors_by_category st))"

lemma bump_sum: "sum_list (map snd (bump k xs)) = Suc (sum_list (map snd xs))"
  by (induction k xs rule: bump.induct) auto

lemma bump_keys: "set (map fst (bump k xs)) = insert k (set (map fst xs))"
  by (induction k xs rule: bump.induct) auto

lemma bump_distinct: "distinct (map fst xs) \<Longrightarrow> distinct (map fst (bump k xs))"
proof (induction k xs rule: bump.induct)
  case (2 k k' n xs)
  then show ?case using bump_keys [of k xs] by auto
qed simp

lemma counters_agree_increment: "counters_agree st \<Longrightarrow> counters_agree (IncrementErrorCount c st)"
  by (auto simp: counters_agree_def IncrementErrorCount_def Let_def bump_sum intro: bump_distinct)

lemma counters_agree_cong:
  "counting st' = counting st \<Longrightarrow> error_count st' = error_count st \<Longrightarrow>
    errors_by_category st' = errors_by_category st \<Longrightarrow> counters_agree st' = counters_agree st"
  by (simp add: counters_agree_def)

lemma Error_counters:
  assumes "Error fn n cat conf msg st = Inr st'" and "counters_agree st"
  shows "counters_agree st'"
  using assms(1)
proof (cases rule: Error_cases)
  case reported
  have "counters_agree st' = counters_agree (IncrementErrorCount cat st)"
    by (rule counters_agree_cong) (simp_all add: reported)
  then show ?thesis using counters_agree_increment [OF assms(2)] by simp
qed (simp add: assms)

lemma handle_call_counters:
  assumes "handle_call c st = Inr st'" and "counters_agree st"
  shows "counters_agree st'"
proof (cases c)
  case (Report fn n cat conf msg)
  with assms Error_counters show ?thesis by auto
next
  case (Nolint fn l n)
  with assms have "ParseNolintSuppressions fn l n st = Inr st'" by simp
  then show ?thesis
  proof (cases rule: Nolint_cases)
    case (suppressed k m)
    then show ?thesis using assms counters_agree_cong [of st' st] by simp
  qed (use assms Error_counters in auto)
qed

text \<open>C18. With per-category counting on, the counts per category that \<open>PrintErrorCounts\<close> prints add up
  to the total it prints, one entry per category, after any sequence of calls.\<close>

theorem counters_add_up:
  assumes "counters_agree st" and "replay cs st = Inr st'"
  shows "counters_agree st'"
  using assms unfolding replay_def
proof (induction cs arbitrary: st)
  case (Cons c cs)
  then show ?case by (auto split: sum.splits intro: handle_call_counters)
qed simp

theorem counters_add_up_witness:
  "\<exists>st'. replay [Report ''a.cc'' (Some 1) ''build/c++11'' 5 ''x'', Report ''a.cc'' (Some 2) ''build/class'' 5 ''y'']
      (init_lint\<lparr>counting := ''toplevel''\<rparr>) = Inr st' \<and> counters_agree st' \<and> error_count st' = 2"
proof -
  let ?st = "init_lint\<lparr>counting := ''toplevel''\<rparr>"
  let ?cs = "[Report ''a.cc'' (Some 1) ''build/c++11'' 5 ''x'', Report ''a.cc'' (Some 2) ''build/class'' 5 ''y'']"
  have 0: "counters_agree ?st" by (simp add: counters_agree_def init_lint_def)
  have "(case replay ?cs ?st of Inl _ \<Rightarrow> False | Inr st' \<Rightarrow> error_count st' = 2)" by code_simp
  then obtain st' where "replay ?cs ?st = Inr st'" "error_count st' = 2" by (auto split: sum.splits)
  with counters_add_up [OF 0] show ?thesis by blast
qed

section \<open>Changing the filters\<close>

lemma AddFilters_result:
  "fst (AddFilters fs st) = None \<longleftrightarrow> filters_ok (snd (AddFilters fs st))"
  by (simp add: AddFilters_def Let_def filters_ok_def)

text \<open>The filters an option names, and the verdict of a category that the defaults come before.\<close>

definition named_filters :: "string \<Rightarrow> string list" where
  "named_filters fs = filter (\<lambda>f. f \<noteq> []) (map strip (split_on (CHR '','') fs))"

lemma SetFilters_named:
  "SetFilters fs st = (if list_all filter_ok (named_filters fs) then None else Some ValueError,
     st\<lparr>filters := DEFAULT_FILTERS @ named_filters fs\<rparr>)"
  by (simp add: SetFilters_def AddFilters_def Let_def DEFAULT_FILTERS_def filter_ok_def startswith_def named_filters_def)

lemma verdict_after_defaults:
  assumes "list_all filter_ok fs"
  shows "(\<not> verdict category (DEFAULT_FILTERS @ fs) False) =
    (case filter (decides category) (rev fs) of
       [] \<Rightarrow> \<not> startswith category ''build/include_alpha'' | f # _ \<Rightarrow> startswith f ''+'')"
proof (cases "filter (decides category) (rev fs)")
  case Nil
  then show ?thesis by (simp add: verdict_def DEFAULT_FILTERS_def decides_def startswith_def)
next
  case (Cons f r)
  then have "f \<in> set fs" by (metis filter_is_subset in_mono list.set_intros(1) set_rev)
  with assms have "startswith f ''+'' = (\<not> startswith f ''-'')" using filter_ok_cases by (auto simp: list_all_iff)
  with Cons show ?thesis by (simp add: verdict_def)
qed

text \<open>The per-file filters of a configuration file do not outlive the file: backing the filters up,
  adding any filters, replaying any calls and restoring gives back the filter list of before.\<close>

theorem filters_restored:
  assumes "replay cs (snd (AddFilters fs (BackupFilters st))) = Inr st'"
  shows "filters (RestoreFilters st') = filters st"
proof -
  have "replay cs st1 = Inr st2 \<Longrightarrow> filters_backup st2 = filters_backup st1" for st1 st2
    unfolding replay_def
    by (induction cs arbitrary: st1) (auto split: sum.splits dest!: handle_call_keeps)
  from this [OF assms] show ?thesis by (simp add: RestoreFilters_def AddFilters_def BackupFilters_def Let_def)
qed

theorem filters_restored_witness:
  "filters (RestoreFilters (snd (AddFilters ''-build, +legal'' (BackupFilters init_lint)))) = filters init_lint"
  by (rule filters_restored [of "[]"]) (simp add: replay_def)

text \<open>The quiet option does not reach \<open>PrintInfo\<close>: the global it tests is never assigned.\<close>

lemma PrintInfo_ignores_quiet:
  "std_out (PrintInfo msg (snd (SetQuiet b st))) = std_out (PrintInfo msg st)"
  by (simp add: PrintInfo_def SetQuiet_def)

end
