(* ===== verification/File_Total.thy ===== *)
theory File_Total
  imports Line_Total Reporting
begin

text \<open>
  A whole file: the checks of the file, and \<open>ProcessFileData\<close> on any file and any state with well-formed
  filters. The only exception that escapes is the \<open>IndexError\<close> of a line with an angle bracket.
\<close>

section \<open>The header guard\<close>

definition guard_on_lines :: "int \<Rightarrow> guard_scan \<Rightarrow> bool" where
  "guard_on_lines n g \<longleftrightarrow> 0 \<le> ifndef_linenum g \<and> ifndef_linenum g < n \<and> 0 \<le> endif_linenum g \<and> endif_linenum g < n"

lemma guard_line_on_lines: "guard_on_lines n g \<Longrightarrow> 0 \<le> i \<Longrightarrow> i < n \<Longrightarrow> guard_on_lines n (guard_line (i, l) g)"
  by (simp add: guard_line_def Let_def guard_on_lines_def)

lemma scan_guard_on_lines:
  assumes "ls \<noteq> []"
  shows "guard_on_lines (py_len ls) (scan_guard ls)"
proof -
  have "guard_on_lines n (fold guard_line xs g)" if "guard_on_lines n g" "\<forall>p \<in> set xs. 0 \<le> fst p \<and> fst p < n" for n xs g
    using that by (induction xs arbitrary: g) (auto simp: guard_line_on_lines)
  moreover have "\<forall>p \<in> set (py_enumerate ls). 0 \<le> fst p \<and> fst p < py_len ls"
    by (auto simp: py_enumerate_def py_len_def set_zip)
  moreover have "guard_on_lines (py_len ls) \<lparr>ifndef = [], ifndef_linenum = 0, define_arg = [], endif = [], endif_linenum = 0\<rparr>"
    using assms by (simp add: guard_on_lines_def py_len_def)
  ultimately show ?thesis unfolding scan_guard_def by blast
qed

lemma check_endif_total [outcome]: "raises_only E (check_endif fn ls cppvar g)"
  by (simp add: check_endif_def Let_def raises_only_option raises_only_when_do raises_only_basic)

lemma header_guard_total:
  assumes "no_svn_root w" and "lines_without_raw_strings cl \<noteq> []"
  shows "raises_only E (CheckForHeaderGuard o' w fn cl)"
proof -
  from scan_guard_on_lines [OF assms(2)] guard_variable_total [OF assms(1)] show ?thesis
    by (auto simp: CheckForHeaderGuard_def Let_def guard_on_lines_def raises_only_bind raises_only_seq raises_only_basic
        raises_only_nth raises_only_from_opt check_endif_total)
qed

section \<open>The checks after the lines\<close>

lemma completed_blocks_total [outcome]: "raises_only E (CheckCompletedBlocks fn st)"
  by (simp add: CheckCompletedBlocks_def outcome raises_only_for_each)

lemma same_module_total: "no_svn_root w \<Longrightarrow> raises_only E (FilesBelongToSameModule o' w cc h)"
  by (simp add: FilesBelongToSameModule_def Let_def raises_only_bind raises_only_basic paths_total)

lemma module_headers_total: "no_svn_root w \<Longrightarrow> raises_only E (module_headers o' w rh fn hs dict found')"
  by (induction hs arbitrary: dict found')
    (auto simp: raises_only_bind raises_only_basic same_module_total split: prod.split)

lemma include_use_total: "no_svn_root w \<Longrightarrow> raises_only E (CheckForIncludeWhatYouUse o' w rh fn cl st)"
  by (auto simp: CheckForIncludeWhatYouUse_def Let_def report_missing_def raises_only_bind raises_only_basic
      module_headers_total intro!: raises_only_for_each split: prod.split)

lemma header_exts_total: "no_svn_root w \<Longrightarrow> raises_only E (header_exts_loop o' w fn extension st exts)"
  by (induction exts)
    (auto simp: Let_def raises_only_bind raises_only_basic paths_total raises_only_seq raises_only_option,
     simp add: raises_only_def result_def)

lemma header_included_total: "no_svn_root w \<Longrightarrow> raises_only E (CheckHeaderFileIncluded o' w fn st)"
  by (simp add: CheckHeaderFileIncluded_def raises_only_bind raises_only_basic paths_total header_exts_total)

lemma characters_total: "raises_only E (CheckForBadCharacters fn ls)"
  by (auto simp: CheckForBadCharacters_def outcome intro!: raises_only_for_each)

lemma newline_total: "raises_only E (CheckForNewlineAtEOF fn ls)"
  by (auto simp: CheckForNewlineAtEOF_def Let_def outcome py_len_def)

section \<open>The file\<close>

text \<open>The lines the checks read, comments and strings gone.\<close>

definition elided_file :: "string \<Rightarrow> string list \<Rightarrow> string list" where
  "elided_file fn lines = (case result (bind (RemoveMultiLineComments fn lines) CleansedLines) of
     Inl _ \<Rightarrow> [] | Inr cl \<Rightarrow> elided cl)"

lemma multi_line_returns: "\<exists>ls'. result (RemoveMultiLineComments fn ls) = Inr ls' \<and> length ls' = length ls"
  using remove_comments_spec [of 0 ls fn] by (auto simp: RemoveMultiLineComments_def dest: list_all2_lengthD)

lemma file_checks_outcome:
  assumes "no_svn_root w" and "lines \<noteq> []" and "\<forall>l \<in> set (elided_file fn lines). angle_safe E l"
  shows "raises_only E (file_checks o' w rh v [] fn ext lines)"
proof -
  obtain ls where ls: "result (RemoveMultiLineComments fn lines) = Inr ls" "length ls = length lines"
    using multi_line_returns by blast
  obtain cl where cl: "CleansedLines ls = ret cl" "raw_lines cl = ls" "NumLines cl = int (length ls)"
    "length (elided cl) = length ls" "length (line_list cl) = length ls" "length (lines_without_raw_strings cl) = length ls"
    using cleansed_aligned by blast
  have copies: "copies_ok cl" using cl by (simp add: copies_ok_def py_len_def)
  have safe: "\<forall>l \<in> set (elided cl). angle_safe E l"
    using assms(3) ls(1) cl(1) by (simp add: elided_file_def result_bind)
  have inv: "line_inv cl (init_include_state, init_function_state, init_nesting)"
    by (simp add: line_inv_def init_include_state_def nesting_on_lines_def stack_on_lines_def init_nesting_def)
  from process_lines_outcome [OF copies assms(1) safe, of 0 "nat (NumLines cl)"] inv
  have loop: "raises_only E (process_lines o' w v [] fn ext cl 0 (nat (NumLines cl))
      (init_include_state, init_function_state, init_nesting))" using cl(3) by simp
  have guard: "raises_only E (CheckForHeaderGuard o' w fn cl)"
    using header_guard_total [OF assms(1)] assms(2) ls(2) cl(6) by (metis length_0_conv)
  have comments: "raises_only E (RemoveMultiLineComments fn lines)" using ls(1) by (simp add: raises_only_def)
  show ?thesis
    using loop guard comments ls(1) cl(1)
    by (auto simp: file_checks_def raises_only_bind raises_only_seq raises_only_basic completed_blocks_total
        include_use_total [OF assms(1)] header_included_total [OF assms(1)] characters_total newline_total split: prod.split)
qed

lemma exec_outcome:
  assumes "list_all filter_ok (filters st)" and "raises_only E m"
  shows "case exec m st of Inl e \<Rightarrow> e \<in> E | Inr (x, st') \<Rightarrow> filters st' = filters st \<and> error_count st \<le> error_count st'"
  using replay_safe [OF assms(1), of "calls m"] assms(2) by (auto simp: exec_def raises_only_def split: sum.split)

lemma global_suppressions_keep:
  "filters (ProcessGlobalSuppresions ls st) = filters st \<and> error_count (ProcessGlobalSuppresions ls st) = error_count st \<and>
    filters_backup (ProcessGlobalSuppresions ls st) = filters_backup st \<and>
    verbose_level (ProcessGlobalSuppresions ls st) = verbose_level st"
proof -
  let ?on = "\<lambda>cs st. fold (\<lambda>c st. st\<lparr>global_error_suppressions := (global_error_suppressions st)(c := True)\<rparr>) cs st"
  have inner: "filters (?on cs st) = filters st \<and> error_count (?on cs st) = error_count st \<and>
      filters_backup (?on cs st) = filters_backup st \<and> verbose_level (?on cs st) = verbose_level st" for cs and st :: lint
    by (induction cs arbitrary: st) auto
  show ?thesis unfolding ProcessGlobalSuppresions_def
    by (induction ls arbitrary: st) (auto simp: inner)
qed

lemma file_data_outcome:
  assumes "no_svn_root w" and "list_all filter_ok (filters st)"
    and "\<forall>l \<in> set (elided_file fn (with_markers lines)). angle_safe E l"
  shows "case ProcessFileData o' w rh [] fn ext lines st of Inl e \<Rightarrow> e \<in> E
    | Inr st' \<Rightarrow> filters st' = filters st \<and> error_count st \<le> error_count st'"
proof -
  let ?lines = "with_markers lines"
  have "raises_only {} (CheckForCopyright fn ?lines)" by (simp add: CheckForCopyright_def outcome)
  from exec_outcome [OF _ this, of "ResetNolintSuppressions st"] assms(2) obtain st1 where
    1: "exec (CheckForCopyright fn ?lines) (ResetNolintSuppressions st) = Inr ((), st1)"
      "filters st1 = filters st" "error_count st \<le> error_count st1"
    by (auto simp: ResetNolintSuppressions_def split: sum.splits)
  let ?st2 = "ProcessGlobalSuppresions ?lines st1"
  from global_suppressions_keep [of ?lines st1] 1 assms(2) have 2: "list_all filter_ok (filters ?st2)"
    "filters ?st2 = filters st" "error_count st \<le> error_count ?st2" by auto
  have "?lines \<noteq> []" by (simp add: with_markers_def)
  from exec_outcome [OF 2(1) file_checks_outcome [OF assms(1) this assms(3), of o' rh "cpplint_VerboseLevel ?st2" ext]] 2
  show ?thesis by (auto simp: ProcessFileData_def Let_def 1 split: sum.splits)
qed

section \<open>The theorems\<close>

text \<open>C1. On any file, with any well-formed filters and no \<open>.svn\<close> in the root directory, \<open>ProcessFileData\<close>
  ends: it returns with the filters as they were and an error count that did not fall, or it raises
  \<open>IndexError\<close>, and then some line has an angle bracket once comments and strings are gone.\<close>

theorem ProcessFileData_outcome:
  assumes "no_svn_root w" and "list_all filter_ok (filters st)"
  shows "case ProcessFileData o' w rh [] fn ext lines st of
      Inl e \<Rightarrow> e = IndexError \<and> (\<exists>l \<in> set (elided_file fn (with_markers lines)). CHR ''<'' \<in> set l)
    | Inr st' \<Rightarrow> filters st' = filters st \<and> error_count st \<le> error_count st'"
proof (cases "\<exists>l \<in> set (elided_file fn (with_markers lines)). CHR ''<'' \<in> set l")
  case True
  with file_data_outcome [OF assms, of fn lines "{IndexError}" o' rh ext] show ?thesis
    by (simp add: angle_safe_def split: sum.splits)
next
  case False
  with file_data_outcome [OF assms, of fn lines "{}" o' rh ext] show ?thesis
    by (auto simp: angle_safe_def split: sum.splits)
qed

theorem ProcessFileData_outcome_witness:
  "case ProcessFileData \<lparr>root = [], repository = [], hpp_headers = [], valid_extensions = [], max_line_length = 80\<rparr>
      \<lparr>exists = (\<lambda>p. False), cwd = ''/p''\<rparr> (\<lambda>_. None) [] ''a.cc'' ''cc'' [''int x = 1 < 2;''] init_lint of
      Inl e \<Rightarrow> e = IndexError \<and> (\<exists>l \<in> set (elided_file ''a.cc'' (with_markers [''int x = 1 < 2;''])). CHR ''<'' \<in> set l)
    | Inr st' \<Rightarrow> filters st' = filters init_lint \<and> error_count init_lint \<le> error_count st'"
  by (rule ProcessFileData_outcome)
    (simp_all add: no_svn_root_def rooted_def absolute_def has_entry_def init_lint_def DEFAULT_FILTERS_def filter_ok_def startswith_def)

lemma split_on_absent: "c \<notin> set s \<Longrightarrow> split_on c s = [s]"
  by (induction s) auto

text \<open>C34. The first of the two ways to raise: the argument of a constructor has more opening than closing
  angle brackets, as in a default value that compares. The loop that joins the arguments runs past the
  last one.\<close>

theorem constructor_argument_crash:
  assumes "Match (CONSTRUCTOR name) line = Some m" and "CHR '','' \<notin> set (group m 2)"
    and "count_list (group m 2) (CHR ''<'') > count_list (group m 2) (CHR ''>'')"
  shows "constructor_checks fn n name line = raise IndexError"
proof -
  have "unbalanced (group m 2)" using assms(3) by (simp add: unbalanced_def py_count_char)
  moreover have "group m 2 \<noteq> []" using assms(3) by auto
  ultimately show ?thesis by (simp add: constructor_checks_def assms(1) split_on_absent [OF assms(2)])
qed

theorem constructor_argument_crash_witness:
  "constructor_checks ''a.h'' 7 ''Foo'' ''  Foo(bool b = 1 < 2);'' = raise IndexError"
proof -
  have "case Match (CONSTRUCTOR ''Foo'') ''  Foo(bool b = 1 < 2);'' of None \<Rightarrow> False | Some m \<Rightarrow> group m 2 = ''bool b = 1 < 2''"
    by code_simp
  then obtain m where "Match (CONSTRUCTOR ''Foo'') ''  Foo(bool b = 1 < 2);'' = Some m" "group m 2 = ''bool b = 1 < 2''"
    by (auto split: option.splits)
  then show ?thesis by (intro constructor_argument_crash) auto
qed

text \<open>C35. The second: when the closing bracket of a cast whose address is taken ends its line, the
  character after it is read all the same.\<close>

theorem dereferenced_cast_crash:
  assumes "Match (raw ''^(.*&(?:static|dynamic|down|reinterpret)_cast`b)<'') line = Some m"
    and "result (CloseExpression cl n (py_len (group m 1))) = Inr (l, j, e)"
    and "0 \<le> j \<and> j < py_len (elided cl)" and "e = py_len (elided cl ! nat j)"
  shows "result (dereferenced_cast cl n line) = Inl IndexError"
  using assms by (simp add: dereferenced_cast_def result_bind at_index) (simp add: py_nth_def py_len_def)

theorem dereferenced_cast_crash_witness:
  "result (dereferenced_cast \<lparr>elided = [''x = &static_cast<int*>'', ''(y);''], line_list = [], raw_lines = [], num_lines = 2,
     lines_without_raw_strings = []\<rparr> 0 ''x = &static_cast<int*>'') = Inl IndexError"
proof -
  let ?cl = "\<lparr>elided = [''x = &static_cast<int*>'', ''(y);''], line_list = [], raw_lines = [], num_lines = 2,
     lines_without_raw_strings = []\<rparr>" and ?p = "raw ''^(.*&(?:static|dynamic|down|reinterpret)_cast`b)<''"
  have "case Match ?p ''x = &static_cast<int*>'' of None \<Rightarrow> False | Some m \<Rightarrow> py_len (group m 1) = 16" by code_simp
  then obtain m where m: "Match ?p ''x = &static_cast<int*>'' = Some m" "py_len (group m 1) = 16"
    by (auto split: option.splits)
  have "result (CloseExpression ?cl 0 16) = Inr (''x = &static_cast<int*>'', 0, 22)" by code_simp
  with m(2) have c: "result (CloseExpression ?cl 0 (py_len (group m 1))) = Inr (''x = &static_cast<int*>'', 0, 22)" by simp
  show ?thesis by (rule dereferenced_cast_crash [OF m(1) c]) (simp_all add: py_len_def)
qed

end
