(* ===== verification/Config.thy ===== *)
theory Config
  imports Paths Junit
begin

text \<open>
  \<open>ProcessConfigOverrides\<close>: the \<open>CPPLINT.cfg\<close> files from the directory of the file up to the root. The
  options they set are global variables: the model passes them on, together with the lint state.
\<close>

text \<open>The file system and the regular expressions of the user, as parameters: \<open>None\<close> from
  \<open>source_text\<close> and \<open>header_lines\<close> is an \<open>IOError\<close>; \<open>None\<close> from \<open>user_match\<close> is an invalid expression.
  \<open>config_lines\<close> gives the lines a text file yields and how reading ends: at the end of the file, with an
  \<open>IOError\<close> (at once when it cannot be opened), or with a \<open>UnicodeDecodeError\<close>, a subclass of
  \<open>ValueError\<close>.\<close>

datatype read_end = All_Read | Read_Failed | Not_Decoded

record files = world +
  is_file :: "string \<Rightarrow> bool"
  config_lines :: "string \<Rightarrow> string list \<times> read_end"
  source_text :: "string \<Rightarrow> string option"
  header_lines :: "string \<Rightarrow> string list option"
  user_match :: "string \<Rightarrow> string \<Rightarrow> bool option"

definition world_of :: "files \<Rightarrow> world" where
  "world_of fs = \<lparr>exists = exists fs, cwd = cwd fs\<rparr>"

section \<open>\<open>int(s)\<close>\<close>

text \<open>Decimal digits, with single underscores between them.\<close>

fun int_digits :: "bool \<Rightarrow> string \<Rightarrow> bool" where
  "int_digits after_digit [] = after_digit"
| "int_digits after_digit (c # cs) =
     (if py_digit c then int_digits True cs
      else if c = CHR ''_'' \<and> after_digit then int_digits False cs else False)"

definition py_int :: "string \<Rightarrow> int option" where
  "py_int s =
     (let t = strip s; neg = startswith t ''-'';
          ds = (if neg \<or> startswith t ''+'' then tl t else t)
      in if int_digits False ds then
           Some ((if neg then - 1 else 1) * int (digits_val (filter (\<lambda>c. c \<noteq> CHR ''_'') ds)))
         else None)"

section \<open>One line of a configuration file\<close>

record cfg_state =
  keep_looking :: bool
  cfg_filters :: "string list"
  cfg_opts :: opts
  cfg_lint :: lint

definition invalid_option :: "string \<Rightarrow> string \<Rightarrow> string" where
  "invalid_option name cfg_file =
     ''Invalid configuration option ('' @ name @ '') in file '' @ cfg_file @ [newline]"

definition ignoring :: "string \<Rightarrow> string \<Rightarrow> string \<Rightarrow> string \<Rightarrow> string" where
  "ignoring fn cfg_file base_name val =
     ''Ignoring '' @ [dquote] @ fn @ [dquote] @ '': file excluded by '' @ [dquote] @ cfg_file @ [dquote] @
     ''. File path component '' @ [dquote] @ base_name @ [dquote] @ '' matches pattern '' @ [dquote] @ val @ [dquote] @
     [newline]"

text \<open>\<open>(False, s)\<close>: the function returns \<open>False\<close>, the file is excluded.\<close>

definition exclude_files :: "files \<Rightarrow> string \<Rightarrow> string \<Rightarrow> string \<Rightarrow> string \<Rightarrow> cfg_state \<Rightarrow> exc + (bool \<times> cfg_state)" where
  "exclude_files fs fn cfg_file base_name val s =
     (if base_name = [] then Inr (True, s)
      else
        (case user_match fs val base_name of
           None \<Rightarrow> Inl ReError
         | Some False \<Rightarrow> Inr (True, s)
         | Some True \<Rightarrow>
             Inr (False, if quiet (cfg_lint s) then s
                         else s\<lparr>cfg_lint := PrintInfo (ignoring fn cfg_file base_name val) (cfg_lint s)\<rparr>)))"

definition config_option :: "files \<Rightarrow> string \<Rightarrow> string \<Rightarrow> string \<Rightarrow> string \<Rightarrow> string \<Rightarrow> cfg_state \<Rightarrow> exc + (bool \<times> cfg_state)" where
  "config_option fs fn cfg_file base_name name val s =
     (if name = ''set noparent'' then Inr (True, s\<lparr>keep_looking := False\<rparr>)
      else if name = ''filter'' then Inr (True, s\<lparr>cfg_filters := cfg_filters s @ [val]\<rparr>)
      else if name = ''exclude_files'' then exclude_files fs fn cfg_file base_name val s
      else if name = ''linelength'' then
        Inr (True, case py_int val of
                     Some n \<Rightarrow> s\<lparr>cfg_opts := (cfg_opts s)\<lparr>max_line_length := n\<rparr>\<rparr>
                   | None \<Rightarrow> s\<lparr>cfg_lint := PrintError ''Line length must be numeric.'' (cfg_lint s)\<rparr>)
      else if name = ''extensions'' then Inr (True, s\<lparr>cfg_opts := ProcessExtensionsOption val (cfg_opts s)\<rparr>)
      else if name = ''root'' then
        Inr (True, s\<lparr>cfg_opts := (cfg_opts s)\<lparr>root := path_join2 (dirname cfg_file) val\<rparr>\<rparr>)
      else if name = ''headers'' then Inr (True, s\<lparr>cfg_opts := ProcessHppHeadersOption val (cfg_opts s)\<rparr>)
      else Inr (True, s\<lparr>cfg_lint := PrintError (invalid_option name cfg_file) (cfg_lint s)\<rparr>))"

definition config_line :: "files \<Rightarrow> string \<Rightarrow> string \<Rightarrow> string \<Rightarrow> string \<Rightarrow> cfg_state \<Rightarrow> exc + (bool \<times> cfg_state)" where
  "config_line fs fn cfg_file base_name line s =
     (let text = fst (partition line (CHR ''#'')) in
      if strip text = [] then Inr (True, s)
      else
        (case partition text (CHR ''='') of (name, _, val) \<Rightarrow>
           config_option fs fn cfg_file base_name (strip name) (strip val) s))"

section \<open>The files up to the root\<close>

text \<open>The loop over the lines; an \<open>IOError\<close> ends the search, any other error leaves the function.\<close>

definition config_end :: "string \<Rightarrow> read_end \<Rightarrow> cfg_state \<Rightarrow> exc + (bool \<times> cfg_state)" where
  "config_end cfg_file stop s =
     (case stop of
        All_Read \<Rightarrow> Inr (True, s)
      | Read_Failed \<Rightarrow>
          Inr (True, s\<lparr>keep_looking := False,
            cfg_lint := PrintError (''Skipping config file '' @ [squote] @ cfg_file @ [squote] @
              '': Can'' @ [squote] @ ''t open for reading'' @ [newline]) (cfg_lint s)\<rparr>)
      | Not_Decoded \<Rightarrow> Inl ValueError)"

fun config_file :: "files \<Rightarrow> string \<Rightarrow> string \<Rightarrow> string \<Rightarrow> string list \<times> read_end \<Rightarrow> cfg_state \<Rightarrow> exc + (bool \<times> cfg_state)" where
  "config_file fs fn cfg_file base_name ([], stop) s = config_end cfg_file stop s"
| "config_file fs fn cfg_file base_name (line # rest, stop) s =
     (case config_line fs fn cfg_file base_name line s of
        Inr (True, s') \<Rightarrow> config_file fs fn cfg_file base_name (rest, stop) s'
      | r \<Rightarrow> r)"

lemma path_split_base:
  assumes "(h, t) = path_split p" and "t \<noteq> []"
  shows "length h < length p"
proof -
  from assms have t: "snd (path_split p) \<noteq> []" and h: "h = fst (path_split p)" by (metis fst_conv snd_conv)+
  define i where "i = py_rfind p (CHR ''/'') + 1"
  have "length (fst (path_split p)) \<le> length (slice_to p i)"
    by (auto simp: path_split_def Let_def i_def rstrip_slash_def intro: length_rstrip_by)
  moreover have "length (slice_to p i) + length (slice_from p i) = length p"
    unfolding slice_to_def slice_from_def by (metis append_take_drop_id length_append)
  moreover have "slice_from p i \<noteq> []" using t by (simp add: path_split_def Let_def i_def)
  ultimately show ?thesis unfolding h by (metis add_less_cancel_left add.right_neutral length_greater_0_conv le_less_trans less_add_same_cancel1)
qed

text \<open>\<open>while keep_looking\<close>: up one directory per round.\<close>

function config_loop :: "files \<Rightarrow> string \<Rightarrow> string \<Rightarrow> cfg_state \<Rightarrow> exc + (bool \<times> cfg_state)" where
  "config_loop fs fn abs_filename s =
     (if \<not> keep_looking s then Inr (True, s)
      else
        (let (abs_path, base_name) = path_split abs_filename in
         if base_name = [] then Inr (True, s)
         else
           (let cfg_file = path_join2 abs_path ''CPPLINT.cfg'' in
            if \<not> is_file fs cfg_file then config_loop fs fn abs_path s
            else
              (case config_file fs fn cfg_file base_name (config_lines fs cfg_file) s of
                 Inr (True, s') \<Rightarrow> config_loop fs fn abs_path s'
               | r \<Rightarrow> r))))"
  by pat_completeness auto
termination
  by (relation "measure (\<lambda>(fs, fn, abs_filename, s). length abs_filename)") (auto intro: path_split_base)

declare config_loop.simps [simp del]

text \<open>The filters of the files, those of the topmost directory first.\<close>

fun add_all :: "string list \<Rightarrow> lint \<Rightarrow> exc + lint" where
  "add_all [] st = Inr st"
| "add_all (f # fs) st = (case cpplint_AddFilters f st of (Some e, _) \<Rightarrow> Inl e | (None, st') \<Rightarrow> add_all fs st')"

definition ProcessConfigOverrides :: "files \<Rightarrow> string \<Rightarrow> opts \<Rightarrow> lint \<Rightarrow> exc + (bool \<times> opts \<times> lint)" where
  "ProcessConfigOverrides fs fn o' st =
     (case config_loop fs fn (abspath (world_of fs) fn)
             \<lparr>keep_looking = True, cfg_filters = [], cfg_opts = o', cfg_lint = st\<rparr> of
        Inl e \<Rightarrow> Inl e
      | Inr (False, s) \<Rightarrow> Inr (False, cfg_opts s, cfg_lint s)
      | Inr (True, s) \<Rightarrow>
          (case add_all (rev (cfg_filters s)) (cfg_lint s) of
             Inl e \<Rightarrow> Inl e | Inr st' \<Rightarrow> Inr (True, cfg_opts s, st')))"

end
