(* ===== verification/Driver.thy ===== *)
theory Driver
  imports Process_File Config
begin

text \<open>
  The program: \<open>ProcessFile\<close> reads a file, applies the configuration and runs the checks;
  \<open>ParseArguments\<close> reads the command line with \<open>getopt\<close>; \<open>main\<close> lints the files and exits with whether an
  error was counted.
\<close>

section \<open>\<open>ProcessFile\<close>\<close>

text \<open>The lines without their carriage returns, and the numbers of the lines with and without; the last
  piece of the split is not looked at.\<close>

definition rstrip_cr :: "string \<Rightarrow> string" where
  "rstrip_cr = rstrip_by (\<lambda>c. c = CHR 0x0D)"

fun line_endings :: "int \<Rightarrow> string list \<Rightarrow> string list \<times> int list \<times> int list" where
  "line_endings n [] = ([], [], [])"
| "line_endings n [line] = ([line], [], [])"
| "line_endings n (line # rest) =
     (case line_endings (n + 1) rest of (lines, lf_lines, crlf_lines) \<Rightarrow>
        if endswith line [CHR 0x0D] then (rstrip_cr line # lines, lf_lines, (n + 1) # crlf_lines)
        else (line # lines, (n + 1) # lf_lines, crlf_lines))"

definition file_extension_of :: "string \<Rightarrow> string" where
  "file_extension_of fn = slice_from fn (py_rfind fn (CHR ''.'') + 1)"

definition cr_reports :: "string \<Rightarrow> int list \<Rightarrow> int list \<Rightarrow> call list" where
  "cr_reports fn lf_lines crlf_lines =
     (if lf_lines \<noteq> [] \<and> crlf_lines \<noteq> [] then
        map (\<lambda>n. Report fn (Some n) ''whitespace/newline'' 1
               (''Unexpected '' @ raw ''`r'' @ '' (^M) found; better to use only '' @ raw ''`n'')) crlf_lines
      else [])"

definition lint_text :: "opts \<Rightarrow> files \<Rightarrow> extra_check list \<Rightarrow> string \<Rightarrow> string \<Rightarrow> lint \<Rightarrow> exc + lint" where
  "lint_text o' fs extra fn text st =
     (case line_endings 0 (split_on newline text) of (lines, lf_lines, crlf_lines) \<Rightarrow>
        let ext = file_extension_of fn in
        if fn \<noteq> ''-'' \<and> ext \<notin> set (GetAllExtensions o') then
          Inr (PrintError (''Ignoring '' @ fn @ ''; not a valid file name ('' @
                 join '', '' (GetAllExtensions o') @ '')'' @ [newline]) st)
        else
          (case ProcessFileData o' (world_of fs) (header_lines fs) extra fn ext lines st of
             Inl e \<Rightarrow> Inl e
           | Inr st1 \<Rightarrow> replay (cr_reports fn lf_lines crlf_lines) st1))"

definition ProcessFile :: "files \<Rightarrow> extra_check list \<Rightarrow> string \<Rightarrow> int \<Rightarrow> opts \<times> lint \<Rightarrow> exc + (opts \<times> lint)" where
  "ProcessFile fs extra fn vlevel g =
     (case g of (o', st) \<Rightarrow>
      let st1 = cpplint_BackupFilters (snd (cpplint_SetVerboseLevel vlevel st)); old_errors = error_count st1 in
      case ProcessConfigOverrides fs fn o' st1 of
        Inl e \<Rightarrow> Inl e
      | Inr (False, o2, st2) \<Rightarrow> Inr (o2, cpplint_RestoreFilters st2)
      | Inr (True, o2, st2) \<Rightarrow>
          (case source_text fs fn of
             None \<Rightarrow>
               Inr (o2, cpplint_RestoreFilters
                 (PrintError (''Skipping input '' @ [squote] @ fn @ [squote] @ '': Can'' @ [squote] @
                    ''t open for reading'' @ [newline]) st2))
           | Some text \<Rightarrow>
               (case lint_text o2 fs extra fn text st2 of
                  Inl e \<Rightarrow> Inl e
                | Inr st3 \<Rightarrow>
                    Inr (o2, cpplint_RestoreFilters
                      (if \<not> quiet st3 \<or> old_errors \<noteq> error_count st3
                       then PrintInfo (''Done processing '' @ fn @ [newline]) st3 else st3)))))"

section \<open>\<open>getopt\<close>\<close>

text \<open>\<open>getopt.getopt(args, '', longopts)\<close>: \<open>None\<close> is \<open>GetoptError\<close>. A long option may be abbreviated to
  an unambiguous prefix; there are no short options, so one raises.\<close>

definition long_options :: "string list" where
  "long_options = [''help'', ''output='', ''verbose='', ''v='', ''version'', ''counting='', ''filter='', ''root='',
     ''repository='', ''linelength='', ''extensions='', ''exclude='', ''recursive'', ''headers='', ''quiet'']"

definition long_has_args :: "string \<Rightarrow> (bool \<times> string) option" where
  "long_has_args opt =
     (let possibilities = filter (\<lambda>o'. startswith o' opt) long_options in
      if opt \<in> set possibilities then Some (False, opt)
      else if opt @ ''='' \<in> set possibilities then Some (True, opt)
      else (case possibilities of
              [match] \<Rightarrow> if endswith match ''='' then Some (True, butlast match) else Some (False, match)
            | _ \<Rightarrow> None))"

fun getopt :: "string list \<Rightarrow> ((string \<times> string) list \<times> string list) option" where
  "getopt [] = Some ([], [])"
| "getopt (arg # args) =
     (if \<not> startswith arg ''-'' \<or> arg = ''-'' then Some ([], arg # args)
      else if arg = ''--'' then Some ([], args)
      else if startswith arg ''--'' then
        (case partition (drop 2 arg) (CHR ''='') of (name, eq, optarg) \<Rightarrow>
           (case long_has_args name of
              None \<Rightarrow> None
            | Some (True, opt) \<Rightarrow>
                if eq \<noteq> [] then map_option (\<lambda>(os, rest). ((''--'' @ opt, optarg) # os, rest)) (getopt args)
                else (case args of [] \<Rightarrow> None
                      | a # args' \<Rightarrow> map_option (\<lambda>(os, rest). ((''--'' @ opt, a) # os, rest)) (getopt args'))
            | Some (False, opt) \<Rightarrow>
                if eq \<noteq> [] then None
                else map_option (\<lambda>(os, rest). ((''--'' @ opt, []) # os, rest)) (getopt args)))
      else None)"

section \<open>\<open>ParseArguments\<close>\<close>

record shell =
  glob_files :: "string \<Rightarrow> string list"
  is_dir :: "string \<Rightarrow> bool"
  walk :: "string \<Rightarrow> (string \<times> string list) list"   \<comment> \<open>\<open>os.walk\<close>: directory and file names\<close>

text \<open>\<open>PrintUsage\<close>, \<open>PrintVersion\<close> and \<open>PrintCategories\<close> write their text and exit.\<close>

definition PrintUsage :: "bool \<Rightarrow> exc" where
  "PrintUsage message = SystemExit (if message then 1 else 0)"

definition PrintVersion :: exc where
  "PrintVersion = SystemExit 0"

definition PrintCategories :: exc where
  "PrintCategories = SystemExit 0"

definition ExpandDirectories :: "shell \<Rightarrow> opts \<Rightarrow> string list \<Rightarrow> string list" where
  "ExpandDirectories sh o' filenames =
     (let expanded = remdups (concat (map (\<lambda>filename.
            if \<not> is_dir sh filename then [filename]
            else concat (map (\<lambda>(dir, loopfiles). map (\<lambda>loopfile.
                   let fullname = path_join2 dir loopfile
                   in if startswith fullname ''./'' then drop 2 fullname else fullname) loopfiles) (walk sh filename)))
            filenames))
      in filter (\<lambda>filename. drop 1 (snd (splitext filename)) \<in> set (GetAllExtensions o')) expanded)"

definition FilterExcludedFiles :: "world \<Rightarrow> string list \<Rightarrow> string list \<Rightarrow> string list" where
  "FilterExcludedFiles w excludes filenames =
     filter (\<lambda>f. abspath w f \<notin> abspath w ` set excludes) filenames"

record arg_state =
  arg_verbosity :: int
  arg_format :: string
  arg_filters :: string
  arg_quiet :: bool
  arg_counting :: string
  arg_recursive :: bool
  arg_excludes :: "string list"
  arg_opts :: opts

definition parse_option :: "shell \<Rightarrow> string \<times> string \<Rightarrow> arg_state \<Rightarrow> exc + arg_state" where
  "parse_option sh ov s = (case ov of (opt, val) \<Rightarrow>
     (if opt = ''--help'' then Inl (PrintUsage False)
      else if opt = ''--version'' then Inl PrintVersion
      else if opt = ''--output'' then
        (if val \<notin> {''emacs'', ''vs7'', ''eclipse'', ''junit''} then Inl (PrintUsage True)
         else Inr (s\<lparr>arg_format := val\<rparr>))
      else if opt = ''--quiet'' then Inr (s\<lparr>arg_quiet := True\<rparr>)
      else if opt = ''--verbose'' \<or> opt = ''--v'' then
        (case py_int val of None \<Rightarrow> Inl ValueError | Some n \<Rightarrow> Inr (s\<lparr>arg_verbosity := n\<rparr>))
      else if opt = ''--filter'' then
        (if val = [] then Inl PrintCategories else Inr (s\<lparr>arg_filters := val\<rparr>))
      else if opt = ''--counting'' then
        (if val \<notin> {''total'', ''toplevel'', ''detailed''} then Inl (PrintUsage True)
         else Inr (s\<lparr>arg_counting := val\<rparr>))
      else if opt = ''--root'' then Inr (s\<lparr>arg_opts := (arg_opts s)\<lparr>root := val\<rparr>\<rparr>)
      else if opt = ''--repository'' then Inr (s\<lparr>arg_opts := (arg_opts s)\<lparr>repository := val\<rparr>\<rparr>)
      else if opt = ''--linelength'' then
        (case py_int val of None \<Rightarrow> Inl (PrintUsage True)
         | Some n \<Rightarrow> Inr (s\<lparr>arg_opts := (arg_opts s)\<lparr>max_line_length := n\<rparr>\<rparr>))
      else if opt = ''--exclude'' then Inr (s\<lparr>arg_excludes := arg_excludes s @ glob_files sh val\<rparr>)
      else if opt = ''--extensions'' then Inr (s\<lparr>arg_opts := ProcessExtensionsOption val (arg_opts s)\<rparr>)
      else if opt = ''--headers'' then Inr (s\<lparr>arg_opts := ProcessHppHeadersOption val (arg_opts s)\<rparr>)
      else if opt = ''--recursive'' then Inr (s\<lparr>arg_recursive := True\<rparr>)
      else Inr s))"

fun parse_options :: "shell \<Rightarrow> (string \<times> string) list \<Rightarrow> arg_state \<Rightarrow> exc + arg_state" where
  "parse_options sh [] s = Inr s"
| "parse_options sh (ov # rest) s = (case parse_option sh ov s of Inl e \<Rightarrow> Inl e | Inr s' \<Rightarrow> parse_options sh rest s')"

definition arg_start :: "opts \<Rightarrow> lint \<Rightarrow> arg_state" where
  "arg_start o' st = \<lparr>arg_verbosity = cpplint_VerboseLevel st, arg_format = cpplint_OutputFormat st,
     arg_filters = [], arg_quiet = cpplint_Quiet st, arg_counting = [], arg_recursive = False,
     arg_excludes = [], arg_opts = o'\<rparr>"

text \<open>The settings applied to the lint state, in the order of the code.\<close>

definition apply_settings :: "arg_state \<Rightarrow> lint \<Rightarrow> exc + lint" where
  "apply_settings s st =
     (let st1 = cpplint_SetOutputFormat (arg_format s) st;
          st2 = snd (cpplint_SetQuiet (arg_quiet s) st1);
          st3 = snd (cpplint_SetVerboseLevel (arg_verbosity s) st2)
      in case cpplint_SetFilters (arg_filters s) st3 of
           (Some e, _) \<Rightarrow> Inl e
         | (None, st4) \<Rightarrow> Inr (cpplint_SetCountingStyle (arg_counting s) st4))"

definition ParseArguments :: "shell \<Rightarrow> world \<Rightarrow> string list \<Rightarrow> opts \<times> lint \<Rightarrow> exc + (string list \<times> opts \<times> lint)" where
  "ParseArguments sh w args g =
     (case g of (o', st) \<Rightarrow>
      case getopt args of
        None \<Rightarrow> Inl (PrintUsage True)
      | Some (os, filenames) \<Rightarrow>
          (case parse_options sh os (arg_start o' st) of
             Inl e \<Rightarrow> Inl e
           | Inr s \<Rightarrow>
               if filenames = [] then Inl (PrintUsage True)
               else
                 (let expanded = (if arg_recursive s then ExpandDirectories sh (arg_opts s) filenames else filenames);
                      selected = (if arg_excludes s \<noteq> [] then FilterExcludedFiles w (arg_excludes s) expanded else expanded)
                  in case apply_settings s st of
                       Inl e \<Rightarrow> Inl e
                     | Inr st' \<Rightarrow> Inr (selected, arg_opts s, st'))))"

section \<open>\<open>main\<close>\<close>

fun process_files :: "files \<Rightarrow> string list \<Rightarrow> opts \<times> lint \<Rightarrow> exc + (opts \<times> lint)" where
  "process_files fs [] g = Inr g"
| "process_files fs (filename # rest) g =
     (case ProcessFile fs [] filename (verbose_level (snd g)) g of
        Inl e \<Rightarrow> Inl e | Inr g' \<Rightarrow> process_files fs rest g')"

text \<open>\<open>Inl (SystemExit n)\<close> or an uncaught exception from the options or a check, otherwise the exit code
  and the final state.\<close>

definition cpplint_main :: "(xml \<Rightarrow> string) \<Rightarrow> shell \<Rightarrow> files \<Rightarrow> string list \<Rightarrow> opts \<times> lint \<Rightarrow> exc + (int \<times> lint)" where
  "cpplint_main tostring sh fs args g =
     (case ParseArguments sh (world_of fs) args g of
        Inl e \<Rightarrow> Inl e
      | Inr (filenames, o1, st1) \<Rightarrow>
          (case process_files fs filenames (o1, ResetErrorCounts st1) of
             Inl e \<Rightarrow> Inl e
           | Inr (o2, st2) \<Rightarrow>
               (let st3 = (if \<not> quiet st2 \<or> error_count st2 > 0 then PrintErrorCounts st2 else st2);
                    st4 = (if output_format st3 = ''junit''
                           then st3\<lparr>err_out := err_out st3 @ [FormatJUnitXML tostring st3]\<rparr> else st3)
                in Inr (if error_count st4 > 0 then 1 else 0, st4))))"

definition initial_opts :: opts where
  "initial_opts = \<lparr>root = [], repository = [], hpp_headers = [], valid_extensions = [], max_line_length = 80\<rparr>"

end
