(* ===== verification/Config_Facts.thy ===== *)
theory Config_Facts
  imports Config Reporting
begin

text \<open>
  The configuration files: what they change of the lint state, which exceptions they raise, and what
  nested files amount to.
\<close>

section \<open>Frames\<close>

text \<open>Two lint states with the same settings, the second one with at least the errors of the first.\<close>

definition same_settings :: "lint \<Rightarrow> lint \<Rightarrow> bool" where
  "same_settings st st' \<longleftrightarrow> filters_backup st' = filters_backup st \<and> verbose_level st' = verbose_level st \<and>
     error_count st \<le> error_count st'"

lemma same_settings_refl [simp]: "same_settings st st"
  by (simp add: same_settings_def)

lemma same_settings_trans: "same_settings a b \<Longrightarrow> same_settings b c \<Longrightarrow> same_settings a c"
  by (simp add: same_settings_def)

lemma printing_keeps [simp]:
  "same_settings st (PrintInfo m st)" "filters (PrintInfo m st) = filters st"
  "same_settings st (PrintError m st)" "filters (PrintError m st) = filters st"
  by (simp_all add: same_settings_def PrintInfo_def PrintError_def)

text \<open>A configuration line prints at most: the filters it names are only collected.\<close>

definition config_keeps :: "cfg_state \<Rightarrow> cfg_state \<Rightarrow> bool" where
  "config_keeps s s' \<longleftrightarrow> same_settings (cfg_lint s) (cfg_lint s') \<and> filters (cfg_lint s') = filters (cfg_lint s)"

lemma config_keeps_trans: "config_keeps a b \<Longrightarrow> config_keeps b c \<Longrightarrow> config_keeps a c"
  by (auto simp: config_keeps_def intro: same_settings_trans)

definition config_result :: "cfg_state \<Rightarrow> exc + (bool \<times> cfg_state) \<Rightarrow> bool" where
  "config_result s r \<longleftrightarrow> (case r of Inl e \<Rightarrow> e \<in> {ReError, ValueError} | Inr (_, s') \<Rightarrow> config_keeps s s')"

lemma config_result_trans: "config_keeps s s' \<Longrightarrow> config_result s' r \<Longrightarrow> config_result s r"
  by (auto simp: config_result_def split: sum.splits intro: config_keeps_trans)

lemma config_line_outcome: "config_result s (config_line fs fn cfg base line s)"
  by (auto simp: config_result_def config_line_def config_option_def exclude_files_def Let_def config_keeps_def
      split: option.split bool.split prod.split)

lemma config_file_outcome: "config_result s (config_file fs fn cfg base (ls, stop) s)"
proof (induction ls arbitrary: s)
  case (Cons l ls)
  show ?case
  proof (cases "config_line fs fn cfg base l s")
    case (Inr r)
    obtain b s' where r: "r = (b, s')" by (cases r)
    with config_line_outcome [of s fs fn cfg base l] Inr have k: "config_keeps s s'" by (simp add: config_result_def)
    then show ?thesis using config_result_trans [OF k Cons.IH] Inr r by (cases b) (simp_all add: config_result_def)
  qed (use config_line_outcome [of s fs fn cfg base l] in \<open>simp add: config_result_def\<close>)
qed (simp add: config_result_def config_keeps_def config_end_def split: read_end.split)

lemma config_loop_outcome: "config_result s (config_loop fs fn path s)"
proof (induction fs fn path s rule: config_loop.induct)
  case (1 fs fn path s)
  obtain d base where split: "path_split path = (d, base)" by fastforce
  let ?cfg = "path_join2 d ''CPPLINT.cfg''"
  have stop: "config_result s (Inr (True, s))" by (simp add: config_result_def config_keeps_def)
  consider "\<not> keep_looking s \<or> base = []" | "keep_looking s" "base \<noteq> []" "\<not> is_file fs ?cfg"
    | "keep_looking s" "base \<noteq> []" "is_file fs ?cfg" by blast
  then show ?case
  proof cases
    case 1
    with stop split show ?thesis by (subst config_loop.simps) auto
  next
    case 2
    with "1.IH"(1) [OF _ refl split [symmetric] _ refl] split show ?thesis by (subst config_loop.simps) simp
  next
    case 3
    note use = config_loop.simps [of fs fn path s]
    have cfg: "config_result s (config_file fs fn ?cfg base (config_lines fs ?cfg) s)"
      using config_file_outcome [of s fs fn ?cfg base "fst (config_lines fs ?cfg)" "snd (config_lines fs ?cfg)"] by simp
    show ?thesis
    proof (cases "config_file fs fn ?cfg base (config_lines fs ?cfg) s")
      case (Inl e)
      with 3 split cfg show ?thesis by (simp add: use config_result_def)
    next
      case (Inr r)
      obtain b s' where r: "r = (b, s')" by (cases r)
      with cfg Inr have k: "config_keeps s s'" by (simp add: config_result_def)
      show ?thesis
      proof (cases b)
        case True
        with "1.IH"(2) [OF _ refl split [symmetric] _ refl _ Inr r [symmetric]] 3 k have "config_result s (config_loop fs fn d s')"
          by (auto intro: config_result_trans)
        with True r Inr 3 split show ?thesis by (simp add: use)
      next
        case False
        with k r Inr 3 split show ?thesis by (simp add: use config_result_def)
      qed
    qed
  qed
qed

lemma add_all_outcome:
  "case add_all fs st of Inl e \<Rightarrow> e = ValueError
    | Inr st' \<Rightarrow> same_settings st st' \<and> (filters_ok st \<longrightarrow> filters_ok st')"
proof (induction fs arbitrary: st)
  case (Cons f fs)
  let ?st = "snd (AddFilters f st)"
  have "same_settings st ?st" "fst (AddFilters f st) = None \<longleftrightarrow> filters_ok ?st" "fst (AddFilters f st) \<in> {None, Some ValueError}"
    by (simp_all add: AddFilters_def Let_def same_settings_def filters_ok_def)
  with Cons [of ?st] show ?case
    by (auto simp: cpplint_AddFilters_def split: prod.splits option.splits sum.splits intro: same_settings_trans)
qed simp


lemma overrides_outcome:
  "case ProcessConfigOverrides fs fn o' st of Inl e \<Rightarrow> e \<in> {ReError, ValueError}
    | Inr (_, _, st') \<Rightarrow> same_settings st st' \<and> (filters_ok st \<longrightarrow> filters_ok st')"
proof -
  let ?s = "\<lparr>keep_looking = True, cfg_filters = [], cfg_opts = o', cfg_lint = st\<rparr>"
  show ?thesis
  proof (cases "config_loop fs fn (abspath (world_of fs) fn) ?s")
    case (Inl e)
    with config_loop_outcome [of ?s fs fn "abspath (world_of fs) fn"] show ?thesis
      by (simp add: ProcessConfigOverrides_def config_result_def)
  next
    case (Inr r)
    obtain b s' where r: "r = (b, s')" by (cases r)
    with config_loop_outcome [of ?s fs fn "abspath (world_of fs) fn"] Inr
    have "same_settings st (cfg_lint s')" "filters (cfg_lint s') = filters st"
      by (simp_all add: config_result_def config_keeps_def)
    with Inr r add_all_outcome [where fs = "rev (cfg_filters s')" and st = "cfg_lint s'"] show ?thesis
      by (cases b) (auto simp: ProcessConfigOverrides_def filters_ok_def split: sum.splits intro: same_settings_trans)
  qed
qed

text \<open>A file system with one configuration file, for the examples.\<close>

definition sample_files :: "string list \<Rightarrow> files" where
  "sample_files cfg = \<lparr>exists = (\<lambda>_. False), cwd = ''/p/d'', is_file = (\<lambda>p. p = ''/p/CPPLINT.cfg''),
     config_lines = (\<lambda>_. (cfg, All_Read)), source_text = (\<lambda>_. None), header_lines = (\<lambda>_. None), user_match = (\<lambda>_ _. None)\<rparr>"

section \<open>Decimal numbers\<close>

lemma digit_char: "n < 10 \<Longrightarrow> py_digit (char_of (48 + n)) \<and> (of_char (char_of (48 + n) :: char) :: nat) - 48 = n"
proof -
  assume "n < 10"
  then have "n \<in> set [0..<10]" by simp
  moreover have "list_all (\<lambda>n. py_digit (char_of (48 + n)) \<and> (of_char (char_of (48 + n) :: char) :: nat) - 48 = n) [0..<10]"
    by code_simp
  ultimately show ?thesis unfolding list_all_iff by blast
qed

lemma digits_val_snoc: "digits_val (ds @ [d]) = 10 * digits_val ds + (of_char d - 48)"
  by (simp add: digits_val_def)

lemma digits_of_spec: "digits_of n \<noteq> [] \<and> list_all py_digit (digits_of n) \<and> digits_val (digits_of n) = n"
proof (induction n rule: digits_of.induct)
  case (1 n)
  show ?case
  proof (cases "n < 10")
    case True
    with digit_char [OF True] show ?thesis by (subst (1 2 3) digits_of.simps) (simp add: digits_val_def)
  next
    case False
    with "1.IH" digit_char [of "n mod 10"] show ?thesis
      by (subst (1 2 3) digits_of.simps) (simp add: digits_val_snoc)
  qed
qed

lemma digit_facts: "py_digit c \<Longrightarrow> \<not> py_space c \<and> c \<noteq> CHR ''#'' \<and> c \<noteq> CHR ''='' \<and> c \<noteq> CHR ''-'' \<and> c \<noteq> CHR ''+'' \<and> c \<noteq> CHR ''_''"
proof -
  have "list_all (\<lambda>c. py_digit c \<longrightarrow> \<not> py_space c \<and> c \<noteq> CHR ''#'' \<and> c \<noteq> CHR ''='' \<and> c \<noteq> CHR ''-'' \<and> c \<noteq> CHR ''+'' \<and> c \<noteq> CHR ''_'')
      all_chars" by code_simp
  then show "py_digit c \<Longrightarrow> ?thesis" by (simp add: list_all_iff)
qed

lemma strip_same: "list_all (\<lambda>c. \<not> py_space c) s \<Longrightarrow> strip s = s"
proof -
  assume a: "list_all (\<lambda>c. \<not> py_space c) s"
  have same: "dropWhile py_space t = t" if "list_all (\<lambda>c. \<not> py_space c) t" for t
    using that by (cases t) auto
  from a same [of s] same [of "rev s"] have "dropWhile py_space s = s" "dropWhile py_space (rev s) = rev s" by simp_all
  then show ?thesis by (simp add: strip_def lstrip_def rstrip_def lstrip_by_def rstrip_by_def)
qed

lemma str_int_chars: "list_all (\<lambda>c. \<not> py_space c \<and> c \<noteq> CHR ''#'' \<and> c \<noteq> CHR ''='') (str_int n) \<and> str_int n \<noteq> []"
proof -
  have "list_all (\<lambda>c. \<not> py_space c \<and> c \<noteq> CHR ''#'' \<and> c \<noteq> CHR ''='') (digits_of k)" for k
    using digits_of_spec [of k] digit_facts by (auto simp: list_all_iff)
  moreover have "\<not> py_space (CHR ''-'')" by code_simp
  ultimately show ?thesis using digits_of_spec by (simp add: str_int_def)
qed

lemma int_digits_all: "list_all py_digit ds \<Longrightarrow> int_digits b ds \<longleftrightarrow> ds \<noteq> [] \<or> b"
  by (induction ds arbitrary: b) auto

lemma py_int_print: "py_int (str_int n) = Some n"
proof -
  let ?ds = "digits_of (nat \<bar>n\<bar>)"
  have d: "?ds \<noteq> []" "list_all py_digit ?ds" "digits_val ?ds = nat \<bar>n\<bar>" using digits_of_spec by auto
  then have f: "filter (\<lambda>c. c \<noteq> CHR ''_'') ?ds = ?ds" and i: "int_digits False ?ds"
    using digit_facts by (auto simp: filter_id_conv list_all_iff int_digits_all)
  from d have h: "\<not> startswith ?ds ''-'' \<and> \<not> startswith ?ds ''+''"
    using digit_facts by (cases ?ds) (auto simp: startswith_def)
  have "strip (str_int n) = str_int n"
    using str_int_chars [of n] by (intro strip_same) (auto simp: list_all_iff)
  with d f i h show ?thesis
    by (cases "n < 0") (simp_all add: py_int_def str_int_def Let_def startswith_def)
qed

section \<open>Nested configuration files\<close>

lemma config_loop_without_files: "\<forall>p. \<not> is_file fs p \<Longrightarrow> config_loop fs fn path s = Inr (True, s)"
proof (induction fs fn path s rule: config_loop.induct)
  case (1 fs fn path s)
  then show ?case by (subst config_loop.simps) (auto split: prod.split)
qed

lemma partition_absent: "c \<notin> set s \<Longrightarrow> fst (partition s c) = s"
  by (auto simp: partition_def Let_def takeWhile_eq_all_conv)

lemma partition_at: "c \<notin> set s \<Longrightarrow> partition (s @ c # t) c = (s, [c], t)"
  by (induction s) (auto simp: partition_def Let_def)

lemma linelength_line:
  "config_line fs fn cfg base (''linelength='' @ str_int n) s =
    Inr (True, s\<lparr>cfg_opts := (cfg_opts s)\<lparr>max_line_length := n\<rparr>\<rparr>)"
proof -
  let ?l = "''linelength='' @ str_int n"
  have chars: "list_all (\<lambda>c. \<not> py_space c \<and> c \<noteq> CHR ''#'') ?l"
    using str_int_chars [of n] by (simp add: list_all_iff) code_simp
  then have "fst (partition ?l (CHR ''#'')) = ?l" by (intro partition_absent) (auto simp: list_all_iff)
  moreover have "strip ?l = ?l" using chars by (intro strip_same) (simp add: list_all_iff)
  moreover have "partition ?l (CHR ''='') = (''linelength'', ''='', str_int n)"
    using partition_at [of "CHR ''=''" "''linelength''" "str_int n"] by simp
  moreover have "strip (str_int n) = str_int n" using str_int_chars [of n] by (intro strip_same) (auto simp: list_all_iff)
  moreover have "strip ''linelength'' = ''linelength''" by code_simp
  ultimately show ?thesis by (simp add: config_line_def config_option_def py_int_print)
qed

text \<open>Two nested files of one \<open>linelength\<close> line each, and none further up.\<close>

lemma config_loop_none_above:
  "\<forall>p. length p < length path \<longrightarrow> \<not> is_file fs (path_join2 p ''CPPLINT.cfg'') \<Longrightarrow> config_loop fs fn path s = Inr (True, s)"
proof (induction fs fn path s rule: config_loop.induct)
  case (1 fs fn path s)
  obtain d base where split: "path_split path = (d, base)" by fastforce
  show ?case
  proof (cases "keep_looking s \<and> base \<noteq> []")
    case True
    then have shorter: "length d < length path" using path_split_base [of d base path] split by simp
    with 1(3) have "\<not> is_file fs (path_join2 d ''CPPLINT.cfg'')"
      "\<forall>p. length p < length d \<longrightarrow> \<not> is_file fs (path_join2 p ''CPPLINT.cfg'')" by auto
    with 1(1) [OF _ refl split [symmetric] _ refl] True split show ?thesis by (subst config_loop.simps) simp
  qed (subst config_loop.simps, auto simp: split)
qed

lemma nested_linelength:
  assumes "path_split (abspath (world_of fs) fn) = (d, base)" and "base \<noteq> []"
    and "path_split d = (outer, name)" and "name \<noteq> []"
    and "is_file fs (path_join2 d ''CPPLINT.cfg'')" and "is_file fs (path_join2 outer ''CPPLINT.cfg'')"
    and "config_lines fs (path_join2 d ''CPPLINT.cfg'') = ([''linelength='' @ str_int n], All_Read)"
    and "config_lines fs (path_join2 outer ''CPPLINT.cfg'') = ([''linelength='' @ str_int m], All_Read)"
    and "\<forall>p. length p < length outer \<longrightarrow> \<not> is_file fs (path_join2 p ''CPPLINT.cfg'')"
  shows "ProcessConfigOverrides fs fn o' st = Inr (True, o'\<lparr>max_line_length := m\<rparr>, st)"
proof -
  let ?s = "\<lparr>keep_looking = True, cfg_filters = [], cfg_opts = o', cfg_lint = st\<rparr>"
  have "config_loop fs fn (abspath (world_of fs) fn) ?s =
      config_loop fs fn d (?s\<lparr>cfg_opts := o'\<lparr>max_line_length := n\<rparr>\<rparr>)"
    using assms(1,2,5,7) linelength_line by (subst config_loop.simps) (simp add: config_end_def)
  also have "\<dots> = config_loop fs fn outer (?s\<lparr>cfg_opts := o'\<lparr>max_line_length := m\<rparr>\<rparr>)"
    using assms(3,4,6,8) linelength_line by (subst config_loop.simps) (simp add: config_end_def)
  finally show ?thesis by (simp add: ProcessConfigOverrides_def config_loop_none_above [OF assms(9)])
qed

end
