(* ===== verification/Driver_Facts.thy ===== *)
theory Driver_Facts
  imports File_Total Driver Config_Facts
begin

text \<open>
  The program as a whole: what a file leaves behind for the next one, and which exceptions leave \<open>main\<close>.
\<close>

section \<open>One file\<close>

lemma replay_keeps: "replay cs st = Inr st' \<Longrightarrow> same_settings st st' \<and> filters st' = filters st"
  unfolding replay_def
proof (induction cs arbitrary: st)
  case (Cons c cs)
  then show ?case by (fastforce split: sum.splits simp: same_settings_def dest: handle_call_keeps)
qed simp

lemma exec_keeps: "exec m st = Inr (x, st') \<Longrightarrow> same_settings st st' \<and> filters st' = filters st"
  by (auto simp: exec_def split: sum.splits dest: replay_keeps)

lemma file_data_keeps:
  assumes "ProcessFileData o' w rh extra fn ext lines st = Inr st'"
  shows "same_settings st st' \<and> filters st' = filters st"
proof -
  have g: "same_settings st (ProcessGlobalSuppresions ls st) \<and> filters (ProcessGlobalSuppresions ls st) = filters st" for ls st
    using global_suppressions_keep [of ls st] by (simp add: same_settings_def)
  have r: "same_settings st (ResetNolintSuppressions st) \<and> filters (ResetNolintSuppressions st) = filters st" for st
    by (simp add: ResetNolintSuppressions_def same_settings_def)
  from assms r [of st] g show ?thesis
    by (auto simp: ProcessFileData_def Let_def split: sum.splits dest!: exec_keeps) (metis same_settings_trans)
qed

lemma lint_text_keeps:
  assumes "lint_text o' fs extra fn text st = Inr st'"
  shows "same_settings st st' \<and> filters st' = filters st"
  using assms
  by (auto simp: lint_text_def Let_def split: prod.splits if_splits sum.splits dest!: file_data_keeps replay_keeps
      intro: same_settings_trans)

lemma process_file_keeps:
  assumes "ProcessFile fs extra fn v (o', st) = Inr (o2, st')"
  shows "filters st' = filters st \<and> verbose_level st' = v \<and> error_count st \<le> error_count st'"
proof -
  let ?st1 = "cpplint_BackupFilters (snd (cpplint_SetVerboseLevel v st))"
  have 1: "filters_backup ?st1 = filters st" "verbose_level ?st1 = v" "error_count ?st1 = error_count st"
    by (simp_all add: cpplint_BackupFilters_def BackupFilters_def cpplint_SetVerboseLevel_def SetVerboseLevel_def)
  have fin: "filters (cpplint_RestoreFilters st2) = filters st \<and> verbose_level (cpplint_RestoreFilters st2) = v \<and>
      error_count st \<le> error_count (cpplint_RestoreFilters st2)" if "same_settings ?st1 st2" for st2
    using that 1 by (simp add: same_settings_def cpplint_RestoreFilters_def RestoreFilters_def)
  obtain b o3 st2 where c: "ProcessConfigOverrides fs fn o' ?st1 = Inr (b, o3, st2)"
    using assms by (auto simp: ProcessFile_def Let_def split: sum.splits)
  with overrides_outcome [where fs = fs and fn = fn and o' = o' and st = ?st1] have 2: "same_settings ?st1 st2" by simp
  show ?thesis
  proof (cases "b \<and> source_text fs fn \<noteq> None")
    case False
    with c assms fin [OF 2] fin [OF same_settings_trans [OF 2 printing_keeps(3)]] show ?thesis
      by (auto simp: ProcessFile_def Let_def split: bool.splits option.splits)
  next
    case True
    then obtain contents st3 where 3: "source_text fs fn = Some contents" "lint_text o3 fs extra fn contents st2 = Inr st3"
      using c assms by (auto simp: ProcessFile_def Let_def split: sum.splits)
    from lint_text_keeps [OF 3(2)] 2 have 4: "same_settings ?st1 st3" by (blast intro: same_settings_trans)
    from True c 3 assms fin [OF 4] fin [OF same_settings_trans [OF 4 printing_keeps(1)]] show ?thesis
      by (auto simp: ProcessFile_def Let_def split: if_splits)
  qed
qed

text \<open>C32. A file leaves no filter behind: whenever \<open>ProcessFile\<close> returns, the filters are those of before
  the call, whatever its configuration files added, the verbosity is the one it was called with, and no
  error was forgotten.\<close>

theorem ProcessFile_restores:
  assumes "ProcessFile fs extra fn v (o', st) = Inr (o2, st')"
  shows "filters st' = filters st \<and> verbose_level st' = v \<and> error_count st \<le> error_count st'"
  using assms by (rule process_file_keeps)

theorem ProcessFile_restores_witness:
  "\<exists>o2 st'. ProcessFile (sample_files [''filter=-build'']) [] ''a.cc'' 2 (initial_opts, init_lint) = Inr (o2, st') \<and>
     filters st' = filters init_lint"
proof -
  have "case ProcessFile (sample_files [''filter=-build'']) [] ''a.cc'' 2 (initial_opts, init_lint) of Inl e \<Rightarrow> False | Inr p \<Rightarrow> True"
    by code_simp
  then obtain o2 st' where r: "ProcessFile (sample_files [''filter=-build'']) [] ''a.cc'' 2 (initial_opts, init_lint) = Inr (o2, st')"
    by (auto split: sum.splits)
  with ProcessFile_restores [OF r] show ?thesis by blast
qed

section \<open>Nested configuration files\<close>

lemma process_file_options:
  assumes "\<And>st. ProcessConfigOverrides fs fn o' st = Inr (True, o1, st)"
    and "ProcessFile fs extra fn v (o', st) = Inr (o2, st2)"
  shows "o2 = o1"
  using assms by (auto simp: ProcessFile_def Let_def split: option.splits sum.splits)



section \<open>The filter option\<close>

lemma getopt_filter:
  assumes "\<not> startswith name ''-''"
  shows "getopt [''--filter='' @ fs, name] = Some ([(''--filter'', fs)], [name])"
proof -
  have "partition (''filter='' @ fs) (CHR ''='') = (''filter'', ''='', fs)"
    using partition_at [of "CHR ''=''" "''filter''" fs] by simp
  moreover have "long_has_args ''filter'' = Some (True, ''filter'')" by code_simp
  ultimately show ?thesis using assms by (simp add: startswith_def)
qed



section \<open>The program\<close>

text \<open>A result is an exception of \<open>E\<close> or a value with \<open>P\<close>.\<close>

definition ends_in :: "exc set \<Rightarrow> ('a \<Rightarrow> bool) \<Rightarrow> exc + 'a \<Rightarrow> bool" where
  "ends_in E P r \<longleftrightarrow> (case r of Inl e \<Rightarrow> e \<in> E | Inr x \<Rightarrow> P x)"

lemma ends_in_simps [simp]: "ends_in E P (Inl e) \<longleftrightarrow> e \<in> E" "ends_in E P (Inr x) \<longleftrightarrow> P x"
  by (simp_all add: ends_in_def)

lemma ends_inI: "(\<And>e. r = Inl e \<Longrightarrow> e \<in> E) \<Longrightarrow> (\<And>x. r = Inr x \<Longrightarrow> P x) \<Longrightarrow> ends_in E P r"
  by (cases r) auto

lemma ends_inD: "ends_in E P r \<Longrightarrow> r = Inl e \<Longrightarrow> e \<in> E" "ends_in E P r \<Longrightarrow> r = Inr x \<Longrightarrow> P x"
  by auto

lemma lint_text_outcome:
  assumes "no_svn_root (world_of fs)" and "filters_ok st"
  shows "ends_in {IndexError} filters_ok (lint_text o' fs [] fn text st)"
proof (rule ends_inI)
  fix st' assume "lint_text o' fs [] fn text st = Inr st'"
  from lint_text_keeps [OF this] assms(2) show "filters_ok st'" by (simp add: filters_ok_def)
next
  fix e assume e: "lint_text o' fs [] fn text st = Inl e"
  have data: "ends_in {IndexError} filters_ok (ProcessFileData o' (world_of fs) rh [] fn ext lines st)" for rh ext lines
    using file_data_outcome [OF assms(1), of st fn lines "{IndexError}" o' rh ext] assms(2)
    by (auto simp: angle_safe_def filters_ok_def ends_in_def split: sum.splits)
  have rep: "replay cs st1 \<noteq> Inl e" if "filters_ok st1" for cs st1
    using replay_safe [of st1 cs] that by (auto simp: filters_ok_def)
  obtain lines lf crlf where "line_endings 0 (split_on newline text) = (lines, lf, crlf)" by (metis prod_cases3)
  with e show "e \<in> {IndexError}"
    using data [of "header_lines fs" "file_extension_of fn" lines, THEN ends_inD(1)]
      data [of "header_lines fs" "file_extension_of fn" lines, THEN ends_inD(2), THEN rep]
    by (auto simp: lint_text_def Let_def split: if_splits sum.splits)
qed

lemma process_file_outcome:
  assumes "no_svn_root (world_of fs)" and "filters_ok (snd g)"
  shows "ends_in {ReError, ValueError, IndexError} (\<lambda>g'. filters_ok (snd g')) (ProcessFile fs [] fn v g)"
proof (rule ends_inI)
  fix g' assume "ProcessFile fs [] fn v g = Inr g'"
  with process_file_keeps [of fs "[]" fn v "fst g" "snd g" "fst g'" "snd g'"] assms(2) show "filters_ok (snd g')"
    by (simp add: filters_ok_def)
next
  fix e assume e: "ProcessFile fs [] fn v g = Inl e"
  obtain o' st where g: "g = (o', st)" by (cases g)
  let ?st1 = "cpplint_BackupFilters (snd (cpplint_SetVerboseLevel v st))"
  have ok: "filters_ok ?st1" using assms(2)
    by (simp add: g filters_ok_def cpplint_BackupFilters_def BackupFilters_def cpplint_SetVerboseLevel_def SetVerboseLevel_def)
  note over = overrides_outcome [where fs = fs and fn = fn and o' = o' and st = ?st1]
  show "e \<in> {ReError, ValueError, IndexError}"
  proof (cases "ProcessConfigOverrides fs fn o' ?st1")
    case (Inl e')
    with over e show ?thesis by (auto simp: ProcessFile_def g Let_def)
  next
    case (Inr r)
    obtain b o2 st2 where r: "r = (b, o2, st2)" by (cases r)
    with Inr over ok have "filters_ok st2" by simp
    from lint_text_outcome [OF assms(1) this, of o2 fn, THEN ends_inD(1)] Inr r e show ?thesis
      by (auto simp: ProcessFile_def g Let_def split: bool.splits option.splits sum.splits)
  qed
qed

lemma process_files_outcome:
  assumes "no_svn_root (world_of fs)"
  shows "filters_ok (snd g) \<Longrightarrow>
    ends_in {ReError, ValueError, IndexError} (\<lambda>g'. filters_ok (snd g')) (process_files fs names g)"
proof (induction names arbitrary: g)
  case (Cons n names)
  from process_file_outcome [OF assms Cons.prems, of n "verbose_level (snd g)"] Cons.IH show ?case
    by (cases "ProcessFile fs [] n (verbose_level (snd g)) g") auto
qed simp

lemma parse_option_raises:
  "parse_option sh ov s = Inl e \<Longrightarrow> e \<in> {SystemExit 0, SystemExit 1, ValueError}"
  by (auto simp: parse_option_def PrintUsage_def PrintVersion_def PrintCategories_def split: prod.splits if_splits option.splits)

lemma parse_options_raises:
  "parse_options sh os s = Inl e \<Longrightarrow> e \<in> {SystemExit 0, SystemExit 1, ValueError}"
proof (induction os arbitrary: s)
  case (Cons ov os)
  then show ?case by (auto split: sum.splits dest!: parse_option_raises)
qed simp

lemma settings_outcome: "ends_in {ValueError} filters_ok (apply_settings s st)"
  by (auto simp: apply_settings_def Let_def cpplint_SetFilters_def SetFilters_def AddFilters_def filters_ok_def
      cpplint_SetCountingStyle_def SetCountingStyle_def)

lemma parse_arguments_outcome:
  "ends_in {SystemExit 0, SystemExit 1, ValueError} (\<lambda>(_, _, st'). filters_ok st') (ParseArguments sh w args g)"
proof -
  obtain o' st where g: "g = (o', st)" by (cases g)
  show ?thesis
  proof (cases "getopt args")
    case None
    then show ?thesis by (simp add: ParseArguments_def g PrintUsage_def)
  next
    case (Some r)
    obtain os names where r: "r = (os, names)" by (cases r)
    show ?thesis
    proof (cases "parse_options sh os (arg_start o' st)")
      case (Inl e)
      with parse_options_raises [OF this] Some r show ?thesis by (simp add: ParseArguments_def g)
    next
      case (Inr s)
      with settings_outcome [of s st] Some r show ?thesis
        by (cases "apply_settings s st") (simp_all add: ParseArguments_def g Let_def PrintUsage_def)
    qed
  qed
qed

lemma print_counts_keeps: "filters (PrintErrorCounts st) = filters st \<and> error_count (PrintErrorCounts st) = error_count st"
proof -
  have info: "filters (PrintInfo m st) = filters st \<and> error_count (PrintInfo m st) = error_count st" for m st
    by (simp add: PrintInfo_def)
  have "filters (fold (\<lambda>(c, n). PrintInfo (f c n)) xs st) = filters st \<and>
      error_count (fold (\<lambda>(c, n). PrintInfo (f c n)) xs st) = error_count st" for f :: "string \<Rightarrow> nat \<Rightarrow> string" and xs and st
    by (induction xs arbitrary: st) (auto simp: info)
  then show ?thesis by (simp add: PrintErrorCounts_def Let_def info)
qed



end
