(* ===== verification/Isolation.thy ===== *)
theory Isolation
  imports Driver_Facts
begin

text \<open>
  Files do not influence each other: what \<open>ProcessFile\<close> prints and counts for a file is what it prints and
  counts for the file alone, added to what was there. The operations commute with adding an earlier log
  and with forgetting the suppressions; the two are instances of one interface.
\<close>

section \<open>Interface: maps of the lint state the operations commute with\<close>

locale printing_map =
  fixes h :: "lint \<Rightarrow> lint"
  assumes info: "PrintInfo m (h st) = h (PrintInfo m st)"
    and error: "PrintError m (h st) = h (PrintError m st)"
    and quiet_same: "quiet (h st) = quiet st"
    and add: "AddFilters f (h st) = map_prod id h (AddFilters f st)"
begin

definition on_cfg :: "cfg_state \<Rightarrow> cfg_state" where
  "on_cfg s = s\<lparr>cfg_lint := h (cfg_lint s)\<rparr>"

lemma on_cfg_sel [simp]:
  "keep_looking (on_cfg s) = keep_looking s" "cfg_filters (on_cfg s) = cfg_filters s"
  "cfg_opts (on_cfg s) = cfg_opts s" "cfg_lint (on_cfg s) = h (cfg_lint s)"
  by (simp_all add: on_cfg_def)

lemma config_option_map:
  "config_option fs fn cfg base name val (on_cfg s) = map_sum id (map_prod id on_cfg) (config_option fs fn cfg base name val s)"
  by (simp add: config_option_def exclude_files_def quiet_same info error on_cfg_def split: option.split bool.split)

lemma config_line_map:
  "config_line fs fn cfg base line (on_cfg s) = map_sum id (map_prod id on_cfg) (config_line fs fn cfg base line s)"
  by (simp add: config_line_def Let_def config_option_map split: prod.split)

lemma config_end_map: "config_end cfg stop (on_cfg s) = map_sum id (map_prod id on_cfg) (config_end cfg stop s)"
  by (cases stop) (simp_all add: config_end_def on_cfg_def error)

lemma config_file_map:
  "config_file fs fn cfg base (ls, stop) (on_cfg s) = map_sum id (map_prod id on_cfg) (config_file fs fn cfg base (ls, stop) s)"
  by (induction ls arbitrary: s)
    (auto simp: config_line_map config_end_map split: sum.split prod.split bool.split)

lemma config_loop_map:
  "config_loop fs fn path (on_cfg s) = map_sum id (map_prod id on_cfg) (config_loop fs fn path s)"
proof (induction fs fn path s rule: config_loop.induct)
  case (1 fs fn path s)
  obtain dir base where p: "path_split path = (dir, base)" by fastforce
  let ?cfg = "path_join2 dir ''CPPLINT.cfg''"
  show ?case
  proof (cases "keep_looking s \<and> base \<noteq> []")
    case False
    then show ?thesis by (simp add: config_loop.simps p)
  next
    case go: True
    show ?thesis
    proof (cases "is_file fs ?cfg")
      case False
      then show ?thesis
        using 1(1) [of "(dir, base)" dir base] go p by (simp add: config_loop.simps [of fs fn path] p)
    next
      case exists: True
      have lines: "config_file fs fn ?cfg base (config_lines fs ?cfg) (on_cfg s) =
          map_sum id (map_prod id on_cfg) (config_file fs fn ?cfg base (config_lines fs ?cfg) s)"
        using config_file_map [of fs fn ?cfg base "fst (config_lines fs ?cfg)" "snd (config_lines fs ?cfg)" s] by simp
      show ?thesis
      proof (cases "config_file fs fn ?cfg base (config_lines fs ?cfg) s")
        case (Inl e)
        then show ?thesis
          using go exists lines by (simp add: config_loop.simps [of fs fn path] p)
      next
        case (Inr r)
        obtain b s' where r: "r = (b, s')" by (cases r)
        have "b \<Longrightarrow> config_loop fs fn dir (on_cfg s') = map_sum id (map_prod id on_cfg) (config_loop fs fn dir s')"
          using 1(2) [of "(dir, base)" dir base] go exists Inr r p by (simp add: id_def)
        then show ?thesis
          using go exists Inr r lines by (cases b) (simp_all add: config_loop.simps [of fs fn path] p id_def)
      qed
    qed
  qed
qed

lemma add_all_map: "add_all fs (h st) = map_sum id h (add_all fs st)"
  by (induction fs arbitrary: st) (auto simp: cpplint_AddFilters_def add split: prod.split option.split)

lemma overrides_map:
  "ProcessConfigOverrides fs fn o' (h st) = map_sum id (\<lambda>(b, o2, st'). (b, o2, h st')) (ProcessConfigOverrides fs fn o' st)"
proof -
  have s: "\<lparr>keep_looking = True, cfg_filters = [], cfg_opts = o', cfg_lint = h st\<rparr> =
      on_cfg \<lparr>keep_looking = True, cfg_filters = [], cfg_opts = o', cfg_lint = st\<rparr>" by (simp add: on_cfg_def)
  show ?thesis unfolding ProcessConfigOverrides_def s config_loop_map
    by (auto simp: add_all_map split: sum.split bool.split prod.split)
qed

end

section \<open>Adding an earlier log\<close>

fun bump_by :: "string \<Rightarrow> nat \<Rightarrow> (string \<times> nat) list \<Rightarrow> (string \<times> nat) list" where
  "bump_by k n [] = [(k, n)]"
| "bump_by k n ((k', m) # xs) = (if k' = k then (k', m + n) # xs else (k', m) # bump_by k n xs)"

definition merge_counts :: "(string \<times> nat) list \<Rightarrow> (string \<times> nat) list \<Rightarrow> (string \<times> nat) list" where
  "merge_counts xs ys = fold (\<lambda>(k, n). bump_by k n) ys xs"

text \<open>\<open>after st d\<close>: the counters and the output of \<open>d\<close>, added to those of \<open>st\<close>; \<open>alone st\<close>: the settings of
  \<open>st\<close>, with nothing counted, printed or suppressed.\<close>

definition after :: "lint \<Rightarrow> lint \<Rightarrow> lint" where
  "after st d = d\<lparr>error_count := error_count st + error_count d,
     errors_by_category := merge_counts (errors_by_category st) (errors_by_category d),
     junit_errors := junit_errors st @ junit_errors d, junit_failures := junit_failures st @ junit_failures d,
     err_out := err_out st @ err_out d, std_out := std_out st @ std_out d\<rparr>"

definition blank_log :: "lint \<Rightarrow> lint" where
  "blank_log st = st\<lparr>error_count := 0, errors_by_category := [], junit_errors := [], junit_failures := [],
     err_out := [], std_out := []\<rparr>"

definition alone :: "lint \<Rightarrow> lint" where
  "alone st = ResetNolintSuppressions (blank_log st)"

lemma after_blank: "after st (blank_log st) = st"
  by (simp add: after_def blank_log_def merge_counts_def)

lemma bump_by_keys: "fst ` set (bump_by k n xs) = insert k (fst ` set xs)"
proof (induction xs)
  case (Cons x xs)
  then show ?case by (cases x, cases "fst x = k") (simp_all add: insert_commute)
qed simp

lemma bump_bump_by: "k \<in> fst ` set xs \<Longrightarrow> bump k (bump_by k' n xs) = bump_by k' n (bump k xs)"
proof (induction xs)
  case (Cons x xs)
  then show ?case by (cases x, cases "fst x = k") simp_all
qed simp

lemma bump_merge: "k \<in> fst ` set xs \<Longrightarrow> bump k (merge_counts xs ys) = merge_counts (bump k xs) ys"
proof (induction ys arbitrary: xs)
  case (Cons y ys)
  then show ?case by (cases y) (simp add: merge_counts_def bump_bump_by bump_by_keys)
qed (simp add: merge_counts_def)

lemma bump_by_1: "bump_by k (Suc 0) xs = bump k xs"
  by (induction xs) auto

lemma bump_by_Suc: "bump k (bump_by k n xs) = bump_by k (Suc n) xs"
  by (induction xs) auto

lemma merge_bump: "merge_counts xs (bump k ys) = bump k (merge_counts xs ys)"
proof (induction ys arbitrary: xs)
  case Nil
  then show ?case by (simp add: merge_counts_def bump_by_1)
next
  case (Cons y ys)
  obtain k' n where y: "y = (k', n)" by (cases y)
  have "bump k (merge_counts (bump_by k n xs) ys) = merge_counts (bump k (bump_by k n xs)) ys"
    by (rule bump_merge) (simp add: bump_by_keys)
  with Cons y show ?case by (auto simp: merge_counts_def bump_by_Suc)
qed

text \<open>Settings and suppressions are those of \<open>d\<close>.\<close>

lemma after_sel [simp]:
  "verbose_level (after st d) = verbose_level d" "filters (after st d) = filters d" "quiet (after st d) = quiet d"
  "filters_backup (after st d) = filters_backup d" "counting (after st d) = counting d"
  "output_format (after st d) = output_format d" "error_suppressions (after st d) = error_suppressions d"
  "global_error_suppressions (after st d) = global_error_suppressions d"
  "error_count (after st d) = error_count st + error_count d"
  by (simp_all add: after_def)

lemma after_info: "PrintInfo m (after st d) = after st (PrintInfo m d)"
  by (simp add: PrintInfo_def after_def)

lemma after_error: "PrintError m (after st d) = after st (PrintError m d)"
  by (simp add: PrintError_def after_def)

lemma after_count: "IncrementErrorCount c (after st d) = after st (IncrementErrorCount c d)"
  by (simp add: IncrementErrorCount_def after_def Let_def merge_bump)

lemma after_suppress: "suppress_on k n (after st d) = after st (suppress_on k n d)"
  by (simp add: suppress_on_def after_def)

lemma after_Error: "Error fn n c k m (after st d) = map_sum id (after st) (Error fn n c k m d)"
proof -
  have "ShouldPrintError c k n (after st d) = ShouldPrintError c k n d"
    by (simp add: ShouldPrintError_def IsErrorSuppressedByNolint_def)
  then show ?thesis
    by (simp add: Error_def Let_def after_count after_error split: sum.split bool.split)
      (simp add: after_def AddJUnitFailure_def)
qed

lemma after_Nolint:
  "ParseNolintSuppressions fn l n (after st d) = map_sum id (after st) (ParseNolintSuppressions fn l n d)"
  by (simp add: ParseNolintSuppressions_def Let_def after_suppress after_Error split: option.split)

lemma after_call: "handle_call c (after st d) = map_sum id (after st) (handle_call c d)"
  by (cases c) (simp_all add: after_Error after_Nolint)

lemma after_filters: "AddFilters f (after st d) = map_prod id (after st) (AddFilters f d)"
  by (simp add: AddFilters_def Let_def after_def)

interpretation add_log: printing_map "after st" for st
  by unfold_locales (simp_all add: after_info after_error after_filters)

lemma forget_sel [simp]:
  "verbose_level (ResetNolintSuppressions st) = verbose_level st" "quiet (ResetNolintSuppressions st) = quiet st"
  "error_count (ResetNolintSuppressions st) = error_count st"
  by (simp_all add: ResetNolintSuppressions_def)

interpretation forget: printing_map ResetNolintSuppressions
  by unfold_locales
    (simp_all add: PrintInfo_def PrintError_def AddFilters_def Let_def ResetNolintSuppressions_def)

section \<open>One file\<close>

lemma after_replay: "replay cs (after st d) = map_sum id (after st) (replay cs d)"
  unfolding replay_def by (induction cs arbitrary: d) (auto simp: after_call split: sum.split)

lemma after_exec: "exec m (after st d) = map_sum id (map_prod id (after st)) (exec m d)"
  by (simp add: exec_def after_replay split: sum.split)

lemma after_global: "ProcessGlobalSuppresions ls (after st d) = after st (ProcessGlobalSuppresions ls d)"
proof -
  have add: "fold (\<lambda>c st. st\<lparr>global_error_suppressions := (global_error_suppressions st)(c := True)\<rparr>) cs (after st d) =
      after st (fold (\<lambda>c st. st\<lparr>global_error_suppressions := (global_error_suppressions st)(c := True)\<rparr>) cs d)" for cs d
  proof (induction cs arbitrary: d)
    case (Cons c cs)
    have "(after st d)\<lparr>global_error_suppressions := g\<rparr> = after st (d\<lparr>global_error_suppressions := g\<rparr>)" for g
      by (simp add: after_def)
    with Cons show ?case by simp
  qed simp
  show ?thesis unfolding ProcessGlobalSuppresions_def
    by (induction ls arbitrary: d) (simp_all add: Let_def add)
qed

lemma after_forget: "ResetNolintSuppressions (after st d) = after st (ResetNolintSuppressions d)"
  by (simp add: ResetNolintSuppressions_def after_def)

lemma after_file_data:
  "ProcessFileData o' w rh extra fn ext ls (after st d) = map_sum id (after st) (ProcessFileData o' w rh extra fn ext ls d)"
  by (simp add: ProcessFileData_def Let_def after_forget after_exec after_global cpplint_VerboseLevel_def
      split: sum.split prod.split)

lemma file_data_forgets:
  "ProcessFileData o' w rh extra fn ext ls (ResetNolintSuppressions st) = ProcessFileData o' w rh extra fn ext ls st"
proof -
  have "ResetNolintSuppressions (ResetNolintSuppressions st) = ResetNolintSuppressions st"
    by (simp add: ResetNolintSuppressions_def)
  then show ?thesis by (simp add: ProcessFileData_def)
qed

lemma after_lint_text:
  "lint_text o' fs extra fn contents (after st d) = map_sum id (after st) (lint_text o' fs extra fn contents d)"
  by (simp add: lint_text_def Let_def after_error after_file_data after_replay split: prod.split sum.split)

lemma lint_text_forgets:
  "map_sum id ResetNolintSuppressions (lint_text o' fs extra fn contents (ResetNolintSuppressions st)) =
    map_sum id ResetNolintSuppressions (lint_text o' fs extra fn contents st)"
proof -
  have "ResetNolintSuppressions (ResetNolintSuppressions st) = ResetNolintSuppressions st" for st
    by (simp add: ResetNolintSuppressions_def)
  then show ?thesis
    by (simp add: lint_text_def Let_def forget.error file_data_forgets split: prod.split)
qed

lemma restore_map:
  "cpplint_RestoreFilters (after st d) = after st (cpplint_RestoreFilters d)"
  "cpplint_RestoreFilters (ResetNolintSuppressions d) = ResetNolintSuppressions (cpplint_RestoreFilters d)"
  by (simp_all add: cpplint_RestoreFilters_def RestoreFilters_def after_def ResetNolintSuppressions_def)

lemma start_map:
  "cpplint_BackupFilters (snd (cpplint_SetVerboseLevel v (after st d))) =
    after st (cpplint_BackupFilters (snd (cpplint_SetVerboseLevel v d)))"
  "cpplint_BackupFilters (snd (cpplint_SetVerboseLevel v (ResetNolintSuppressions d))) =
    ResetNolintSuppressions (cpplint_BackupFilters (snd (cpplint_SetVerboseLevel v d)))"
  by (simp_all add: cpplint_BackupFilters_def BackupFilters_def cpplint_SetVerboseLevel_def SetVerboseLevel_def
      after_def ResetNolintSuppressions_def)

lemma overrides_cases [case_names raises excluded linted]:
  obtains (raises) e where "ProcessConfigOverrides fs fn o' st = Inl e"
    | (excluded) o2 st2 where "ProcessConfigOverrides fs fn o' st = Inr (False, o2, st2)"
    | (linted) o2 st2 where "ProcessConfigOverrides fs fn o' st = Inr (True, o2, st2)"
  by (cases "ProcessConfigOverrides fs fn o' st") auto

lemma after_file:
  "ProcessFile fs extra fn v (o', after st d) = map_sum id (map_prod id (after st)) (ProcessFile fs extra fn v (o', d))"
proof (cases fs fn o' "cpplint_BackupFilters (snd (cpplint_SetVerboseLevel v d))" rule: overrides_cases)
  case (linted o2 st2)
  show ?thesis
  proof (cases "source_text fs fn")
    case None
    with linted show ?thesis
      by (simp add: ProcessFile_def Let_def start_map add_log.overrides_map after_error restore_map)
  next
    case (Some contents)
    with linted show ?thesis
      by (cases "lint_text o2 fs extra fn contents st2")
        (simp_all add: ProcessFile_def Let_def start_map add_log.overrides_map after_lint_text restore_map after_info)
  qed
qed (simp_all add: ProcessFile_def Let_def start_map add_log.overrides_map restore_map)

lemma forget_forget [simp]: "ResetNolintSuppressions (ResetNolintSuppressions st) = ResetNolintSuppressions st"
  by (simp add: ResetNolintSuppressions_def)

lemma forget_eqD:
  assumes "ResetNolintSuppressions a = ResetNolintSuppressions b"
  shows "quiet a = quiet b" "error_count a = error_count b"
    "ResetNolintSuppressions (cpplint_RestoreFilters a) = ResetNolintSuppressions (cpplint_RestoreFilters b)"
    "ResetNolintSuppressions (PrintInfo m a) = ResetNolintSuppressions (PrintInfo m b)"
  using assms by (metis forget_sel, metis forget_sel, metis restore_map(2), metis forget.info)

lemma file_forgets:
  "map_sum id (map_prod id ResetNolintSuppressions) (ProcessFile fs extra fn v (o', ResetNolintSuppressions st)) =
    map_sum id (map_prod id ResetNolintSuppressions) (ProcessFile fs extra fn v (o', st))"
proof (cases fs fn o' "cpplint_BackupFilters (snd (cpplint_SetVerboseLevel v st))" rule: overrides_cases)
  case (linted o2 st2)
  show ?thesis
  proof (cases "source_text fs fn")
    case None
    with linted show ?thesis
      by (simp add: ProcessFile_def Let_def start_map forget.overrides_map forget.error restore_map)
  next
    case (Some contents)
    from lint_text_forgets [of o2 fs extra fn contents st2]
    consider e where "lint_text o2 fs extra fn contents st2 = Inl e" "lint_text o2 fs extra fn contents (ResetNolintSuppressions st2) = Inl e"
      | a b where "lint_text o2 fs extra fn contents st2 = Inr a" "lint_text o2 fs extra fn contents (ResetNolintSuppressions st2) = Inr b"
        "ResetNolintSuppressions b = ResetNolintSuppressions a"
      by (cases "lint_text o2 fs extra fn contents st2"; cases "lint_text o2 fs extra fn contents (ResetNolintSuppressions st2)") auto
    then show ?thesis
    proof cases
      case 2
      with linted Some forget_eqD(1,2) [OF 2(3)] forget_eqD(3) [OF 2(3)] forget_eqD(3) [OF forget_eqD(4) [OF 2(3)]]
      show ?thesis by (simp add: ProcessFile_def Let_def start_map forget.overrides_map)
    qed (use linted Some in \<open>simp add: ProcessFile_def Let_def start_map forget.overrides_map\<close>)
  qed
qed (simp_all add: ProcessFile_def Let_def start_map forget.overrides_map restore_map)

lemma file_isolated:
  "map_sum id (map_prod id ResetNolintSuppressions) (ProcessFile fs extra fn v (o', st)) =
    map_sum id (map_prod id (\<lambda>d. ResetNolintSuppressions (after st d))) (ProcessFile fs extra fn v (o', alone st))"
proof -
  let ?R = ResetNolintSuppressions
  have "map_sum id (map_prod id ?R) (ProcessFile fs extra fn v (o', st)) =
      map_sum id (map_prod id ?R) (ProcessFile fs extra fn v (o', after st (blank_log st)))"
    by (simp add: after_blank)
  also have "\<dots> = map_sum id (map_prod id ?R) (ProcessFile fs extra fn v (o', after st (alone st)))"
    using file_forgets [of fs extra fn v o' "after st (blank_log st)"] by (simp add: after_forget alone_def)
  finally show ?thesis by (simp add: after_file sum.map_comp prod.map_comp comp_def id_def)
qed

section \<open>The properties\<close>

text \<open>C4. Linting a file is independent of the files linted before. Up to the suppressions it leaves, which
  the next file resets, \<open>ProcessFile\<close> raises what it raises in a state with the same settings and nothing
  counted, printed or suppressed, or returns what it returns there with the earlier counters and output put
  in front.\<close>

theorem ProcessFile_isolated:
  "map_sum id (map_prod id ResetNolintSuppressions) (ProcessFile fs extra fn v (o', st)) =
    map_sum id (map_prod id (\<lambda>d. ResetNolintSuppressions (after st d))) (ProcessFile fs extra fn v (o', alone st))"
  by (rule file_isolated)

text \<open>The errors of each file of a list, linted alone with the options the files before it left.\<close>

fun errors_alone :: "files \<Rightarrow> string list \<Rightarrow> opts \<times> lint \<Rightarrow> exc + nat list" where
  "errors_alone fs [] g = Inr []"
| "errors_alone fs (filename # rest) (o', st) =
     (case ProcessFile fs [] filename (verbose_level st) (o', alone st) of
        Inl e \<Rightarrow> Inl e
      | Inr (o2, d) \<Rightarrow> map_sum id (\<lambda>ns. error_count d # ns) (errors_alone fs rest (o2, d)))"

lemma isolated_cases:
  obtains (raises) e where "ProcessFile fs extra fn v (o', st) = Inl e" "ProcessFile fs extra fn v (o', alone st) = Inl e"
    | (returns) o2 st2 d where "ProcessFile fs extra fn v (o', st) = Inr (o2, st2)"
      "ProcessFile fs extra fn v (o', alone st) = Inr (o2, d)"
      "ResetNolintSuppressions st2 = ResetNolintSuppressions (after st d)"
  using file_isolated [of fs extra fn v o' st]
  by (cases "ProcessFile fs extra fn v (o', st)"; cases "ProcessFile fs extra fn v (o', alone st)") auto

lemma alone_blank: "alone st = blank_log (ResetNolintSuppressions st)"
  by (cases st) (simp add: alone_def blank_log_def ResetNolintSuppressions_def)

lemma blank_after: "blank_log (ResetNolintSuppressions (after st d)) = blank_log (ResetNolintSuppressions d)"
  by (cases d) (simp add: blank_log_def ResetNolintSuppressions_def after_def)

lemma alone_after: "ResetNolintSuppressions a = ResetNolintSuppressions (after st d) \<Longrightarrow> alone a = alone d"
  by (simp add: alone_blank blank_after)

lemma errors_alone_cong:
  "alone a = alone b \<Longrightarrow> verbose_level a = verbose_level b \<Longrightarrow> errors_alone fs names (o', a) = errors_alone fs names (o', b)"
  by (cases names) simp_all

lemma process_files_errors:
  "map_sum id (\<lambda>g. error_count (snd g)) (process_files fs names (o', st)) =
    map_sum id (\<lambda>ns. error_count st + sum_list ns) (errors_alone fs names (o', st))"
proof (induction names arbitrary: o' st)
  case (Cons name names)
  show ?case
  proof (cases fs "[] :: extra_check list" name "verbose_level st" o' st rule: isolated_cases)
    case (returns o2 st2 d)
    from returns(3) have "verbose_level st2 = verbose_level d" "error_count st2 = error_count st + error_count d"
      by (metis forget_sel(1) after_sel(1), metis forget_sel(3) after_sel(9))
    with errors_alone_cong [OF alone_after [OF returns(3)]] Cons [of o2 st2] returns(1,2) show ?thesis
      by (simp add: sum.map_comp comp_def add.assoc id_def)
  qed simp
qed simp

text \<open>C3. The exit code. When the options are accepted, the program ends with the first exception that
  linting a file alone raises; otherwise its code is 1 if one of the files, linted alone with the options
  the files before it left, has an error, and 0 if none has.\<close>

theorem main_exit_code:
  "map_sum id fst (cpplint_main tostring sh fs args g) =
    (case ParseArguments sh (world_of fs) args g of Inl e \<Rightarrow> Inl e
     | Inr (names, o1, st1) \<Rightarrow>
         map_sum id (\<lambda>ns. if \<exists>n \<in> set ns. 0 < n then 1 else 0) (errors_alone fs names (o1, ResetErrorCounts st1)))"
proof (cases "ParseArguments sh (world_of fs) args g")
  case (Inr r)
  obtain names o1 st1 where r: "r = (names, o1, st1)" by (cases r)
  have pos: "(0 < sum_list ns) = (\<exists>n \<in> set ns. 0 < n)" for ns :: "nat list" by (induction ns) auto
  from process_files_errors [of fs names o1 "ResetErrorCounts st1"] Inr r show ?thesis
    by (cases "process_files fs names (o1, ResetErrorCounts st1)"; cases "errors_alone fs names (o1, ResetErrorCounts st1)")
      (auto simp: cpplint_main_def Let_def print_counts_keeps ResetErrorCounts_def pos)
qed (simp add: cpplint_main_def)

end
