(* ===== verification/Header_Guard.thy ===== *)
theory Header_Guard
  imports File_Total
begin

text \<open>
  The header guard the messages ask for is accepted: the characters of the name of a guard, the pattern
  of the closing line around that name, and the scan for the three lines of a guard.
\<close>

section \<open>The name of a guard\<close>

definition guard_char :: "char \<Rightarrow> bool" where
  "guard_char c \<longleftrightarrow> ascii_alnum c \<or> c = CHR ''_''"

lemma guard_chars:
  assumes "guard_char c"
  shows "py_word c" "\<not> re_special c" "\<not> py_space c" "guard_char (upper_char c)"
proof -
  have "list_all (\<lambda>c. guard_char c \<longrightarrow> py_word c \<and> \<not> re_special c \<and> \<not> py_space c \<and> guard_char (upper_char c)) all_chars"
    by code_simp
  then show "py_word c" "\<not> re_special c" "\<not> py_space c" "guard_char (upper_char c)"
    using assms by (simp_all add: list_all_iff)
qed

text \<open>A substitution of a class by one character works on each character alone.\<close>

lemma search_at_class:
  "search_at (RSet ng cls) p (x # xs) =
    (if cls_has ng cls x then Some (x # xs, (Some x, xs, no_caps)) else search_at (RSet ng cls) (Some x) xs)"
  by (simp add: search_at.simps [of "RSet ng cls" p "x # xs"])

lemma search_at_class_end: "search_at (RSet ng cls) p [] = None"
  by (simp add: search_at.simps [of "RSet ng cls" p "[]"])

lemma search_at_class_result:
  "search_at (RSet ng cls) p s = Some (a, q, b, c) \<Longrightarrow> length b < length a \<and> length a \<le> length s"
  by (induction s arbitrary: p) (auto simp: search_at_class search_at_class_end le_Suc_eq split: if_splits)

lemma sub_from_class:
  "sub_from (RSet ng cls) (\<lambda>_. [r]) subj p s = map (\<lambda>c. if cls_has ng cls c then r else c) s"
proof (induction s arbitrary: p)
  case Nil
  show ?case by (subst sub_from.simps) (simp add: search_at_class_end)
next
  case (Cons x xs)
  show ?case
  proof (cases "cls_has ng cls x")
    case True
    then show ?thesis by (subst sub_from.simps) (simp add: search_at_class span_text_def Cons.IH)
  next
    case False
    have "sub_from (RSet ng cls) (\<lambda>_. [r]) subj p (x # xs) = x # sub_from (RSet ng cls) (\<lambda>_. [r]) subj (Some x) xs"
    proof (cases "search_at (RSet ng cls) (Some x) xs")
      case None
      with False show ?thesis by (subst (1 2) sub_from.simps) (simp add: search_at_class)
    next
      case (Some res)
      obtain a q b c where res: "res = (a, q, b, c)" by (cases res)
      with search_at_class_result Some have "length b < length a" "length a \<le> length xs" by blast+
      with False Some res show ?thesis
        by (subst (1 2) sub_from.simps) (simp add: search_at_class span_text_def Suc_diff_le)
    qed
    with False Cons.IH show ?thesis by simp
  qed
qed

lemma guard_name:
  assumes "GetHeaderGuardCPPVariable o' w fn = Some V"
  shows "V \<noteq> []" "list_all guard_char V"
proof -
  obtain s where V: "V = upper (ReplaceAll ''[^a-zA-Z0-9]'' ''_'' s) @ ''_''"
    using assms by (auto simp: GetHeaderGuardCPPVariable_def Let_def)
  then show "V \<noteq> []" by simp
  have c: "re_compile ''[^a-zA-Z0-9]'' = Some (RSet True [CRng (CHR ''a'') (CHR ''z''), CRng (CHR ''A'') (CHR ''Z''), CRng (CHR ''0'') (CHR ''9'')])"
    by code_simp
  have "list_all guard_char (ReplaceAll ''[^a-zA-Z0-9]'' ''_'' s)"
    by (auto simp: ReplaceAll_def c re_sub_def sub_from_class list_all_iff guard_char_def cls_has_def ascii_alnum_def
        ascii_lower_def ascii_upper_def py_digit_def)
  then show "list_all guard_char V"
    by (auto simp: V upper_def list_all_iff guard_chars(4)) (simp add: guard_char_def)
qed

section \<open>The closing line\<close>

fun lits_before :: "string \<Rightarrow> regex \<Rightarrow> regex" where
  "lits_before [] r = r"
| "lits_before (c # cs) r = RSeq (RLit c) (lits_before cs r)"

lemma lits_before_append: "lits_before (s @ t) r = lits_before s (lits_before t r)"
  by (induction s) simp_all

lemma foldl_lits: "foldl (\<lambda>acc y. RSeq y acc) x (map RLit (rev s)) = lits_before s x"
  by (induction s arbitrary: x rule: rev_induct) (auto simp: lits_before_append)

lemma ends_lits: "ends (lits_before s r) (p, s @ t, c) = ends r (adv p s, t, c)"
proof (induction s arbitrary: p)
  case (Cons x s)
  then show ?case by (simp add: adv_Cons [of x s p])
qed simp

definition ENDIF :: "string \<Rightarrow> string" where
  "ENDIF cppvar = raw ''#endif`s*//`s*'' @ cppvar @ raw ''(_)?`b''"

lemma escape_guard: "list_all guard_char V \<Longrightarrow> re_escape V = V"
  by (induction V) (auto simp: re_escape_def guard_chars(2))

lemma lazy_escape_group: "lazy_mark (re_escape s @ CHR ''('' # t) = (True, re_escape s @ CHR ''('' # t)"
  by (cases s) (auto simp: lazy_mark_def re_escape_def re_special_def)

lemma ENDIF_compiled:
  assumes "list_all guard_char V"
  shows "re_compile (ENDIF V) = Some (lits_before ''#endif'' (RSeq (RRep True 0 None (RSet False [CSpace]))
    (lits_before ''//'' (RSeq (RRep True 0 None (RSet False [CSpace]))
      (lits_before V (RSeq (RRep True 0 (Some 1) (RGrp 1 (RLit (CHR ''_'')))) RWordB))))))"
proof -
  have "ENDIF V = raw ''#endif`s*//`s*'' @ re_escape V @ raw ''(_)?`b''"
    by (simp add: ENDIF_def escape_guard [OF assms])
  then show ?thesis unfolding re_compile_def
    by (simp add: raw_def parse_simps lazy_escape_group ascii_alnum_def ascii_lower_def ascii_upper_def py_digit_def)
      (simp add: seq_of_def foldl_lits rev_map)
qed

text \<open>The line the message suggests matches, without the optional underscore.\<close>

definition closing :: "string \<Rightarrow> string" where
  "closing V = ''#endif  // '' @ V"

lemma boundary_end: "V \<noteq> [] \<Longrightarrow> list_all guard_char V \<Longrightarrow> boundary (adv p V) []"
  by (cases V rule: rev_cases) (simp_all add: boundary_def adv_def word_at_def hd_opt_def guard_chars(1))

lemma space_star:
  "ends (RRep True 0 None (RSet False [CSpace])) (p, s, c) =
    (case s of [] \<Rightarrow> [] | x # xs \<Rightarrow> if py_space x then ends (RRep True 0 None (RSet False [CSpace])) (Some x, xs, c) else []) @ [(p, s, c)]"
  by (subst ends_Rep_0) (auto simp: pred_opt_def cls_has_def Let_def split: list.split)

lemma closing_matches:
  assumes "V \<noteq> []" and "list_all guard_char V"
  shows "\<exists>m. Match (ENDIF V) (closing V) = Some m \<and> group_opt m 1 = None"
proof -
  let ?tail = "RSeq (RRep True 0 (Some (Suc 0)) (RGrp (Suc 0) (RLit (CHR ''_'')))) RWordB"
  obtain v V' where V: "V = v # V'" using assms(1) by (cases V) auto
  with assms(2) have v: "\<not> py_space v" by (simp add: guard_chars(3))
  have tail: "ends ?tail (adv p V, [], c) = [(adv p V, [], c)]" for p c
    using boundary_end [OF assms] by (simp add: ends_Rep_0 pred_opt_def)
  have V_ends: "ends (lits_before V ?tail) (p, V, c) = [(adv p V, [], c)]" for p c
    using ends_lits [of V ?tail p "[]" c] tail by simp
  have other: "ends (lits_before V ?tail) (p, CHR '' '' # s, c) = []" for p s c
    using v by (auto simp: V cls_has_def py_space_def)
  have star: "ends (RRep True 0 None (RSet False [CSpace])) (p, V, c) = [(p, V, c)]" for p c
    using v by (subst space_star) (simp add: V)
  have "re_match (the (re_compile (ENDIF V))) (closing V) = Some \<lparr>subject = closing V, at_start = closing V, at_end = [],
      mcaps = no_caps\<rparr>"
    unfolding re_match_def ENDIF_compiled [OF assms(2)] option.sel
    by (simp add: closing_def space_star [of _ "_ # _"] py_space_def star V_ends other)
  then show ?thesis by (simp add: Match_def ENDIF_compiled [OF assms(2)] group_opt_def no_caps_def)
qed

section \<open>The scan\<close>

fun numbered :: "nat \<Rightarrow> 'a list \<Rightarrow> (int \<times> 'a) list" where
  "numbered i [] = []"
| "numbered i (x # xs) = (int i, x) # numbered (Suc i) xs"

lemma numbered_append: "numbered i (xs @ ys) = numbered i xs @ numbered (i + length xs) ys"
  by (induction xs arbitrary: i) simp_all

lemma numbered_snd: "p \<in> set (numbered i xs) \<Longrightarrow> snd p \<in> set xs"
  by (induction xs arbitrary: i) auto

lemma zip_numbered: "zip (map int [i..<i + length xs]) xs = numbered i xs"
proof (induction xs arbitrary: i)
  case (Cons x xs)
  have "[i..<i + length (x # xs)] = i # [Suc i..<Suc i + length xs]" by (simp add: upt_conv_Cons del: upt_Suc)
  with Cons.IH [of "Suc i"] show ?case by simp
qed simp

lemma py_enumerate_numbered: "py_enumerate xs = numbered 0 xs"
  using zip_numbered [of 0 xs] by (simp add: py_enumerate_def)

text \<open>A line with the first word \<open>#ifndef\<close> or \<open>#define\<close> and a second word.\<close>

definition guard_opening :: "string \<Rightarrow> bool" where
  "guard_opening line \<longleftrightarrow> (let ws = split_ws line in 2 \<le> length ws \<and> ws ! 0 \<in> {''#ifndef'', ''#define''})"

lemma scan_before:
  "\<forall>p \<in> set ns. \<not> guard_opening (snd p) \<Longrightarrow> ifndef g = [] \<Longrightarrow> define_arg g = [] \<Longrightarrow>
    ifndef (fold guard_line ns g) = [] \<and> define_arg (fold guard_line ns g) = []"
  by (induction ns arbitrary: g) (auto simp: guard_line_def Let_def guard_opening_def)

lemma scan_inside:
  "ifndef g \<noteq> [] \<Longrightarrow> define_arg g \<noteq> [] \<Longrightarrow>
    ifndef (fold guard_line ns g) = ifndef g \<and> define_arg (fold guard_line ns g) = define_arg g"
proof (induction ns arbitrary: g)
  case (Cons p ns)
  have "ifndef (guard_line p g) = ifndef g" "define_arg (guard_line p g) = define_arg g"
    using Cons.prems by (cases p; simp add: guard_line_def Let_def)+
  with Cons show ?case by simp
qed simp

lemma scan_no_endif:
  "\<forall>p \<in> set ns. \<not> startswith (snd p) ''#endif'' \<Longrightarrow>
    endif (fold guard_line ns g) = endif g \<and> endif_linenum (fold guard_line ns g) = endif_linenum g"
  by (induction ns arbitrary: g) (auto simp: guard_line_def Let_def)

lemma split_one_word: "w @ u \<noteq> [] \<Longrightarrow> list_all (\<lambda>c. \<not> py_space c) u \<Longrightarrow> split_ws_from (rev w) u = [w @ u]"
proof (induction u arbitrary: w)
  case (Cons x u)
  then show ?case using Cons.IH [of "w @ [x]"] by simp
qed simp

lemma directive_words:
  assumes "V \<noteq> []" and "list_all guard_char V"
  shows "split_ws (''#ifndef '' @ V) = [''#ifndef'', V]" "split_ws (''#define '' @ V) = [''#define'', V]"
proof -
  have "list_all (\<lambda>c. \<not> py_space c) V" using assms(2) guard_chars(3) by (simp add: list_all_iff)
  then have "split_ws_from [] V = [V]" using split_one_word [of "[]" V] assms(1) by simp
  then show "split_ws (''#ifndef '' @ V) = [''#ifndef'', V]" "split_ws (''#define '' @ V) = [''#define'', V]"
    by (simp_all add: split_ws_def py_space_def)
qed

text \<open>A file with a guard: what is before, the two opening lines, the body, the closing line, the rest.\<close>

definition guarded :: "string list \<Rightarrow> string \<Rightarrow> string list \<Rightarrow> string list \<Rightarrow> string list" where
  "guarded pre V body post = pre @ (''#ifndef '' @ V) # (''#define '' @ V) # body @ closing V # post"

lemma scan_guarded:
  assumes V: "V \<noteq> []" "list_all guard_char V"
    and pre: "\<forall>l \<in> set pre. \<not> guard_opening l" and post: "\<forall>l \<in> set post. \<not> startswith l ''#endif''"
    and g_def: "g = scan_guard (guarded pre V body post)"
  shows "ifndef g = V" "define_arg g = V" "endif g = closing V" "endif_linenum g = int (length pre + 2 + length body)"
proof -
  let ?i = "length pre" and ?k = "length pre + 2 + length body"
  define ns ms where "ns = numbered (Suc (Suc ?i)) body" and "ms = numbered (Suc ?k) post"
  have e: "py_enumerate (guarded pre V body post) = numbered 0 pre @ (int ?i, ''#ifndef '' @ V) #
      (int (Suc ?i), ''#define '' @ V) # ns @ (int ?k, closing V) # ms"
    unfolding guarded_def py_enumerate_numbered numbered_append numbered.simps ns_def ms_def by simp
  define g1 where "g1 = fold guard_line (numbered 0 pre)
     \<lparr>ifndef = [], ifndef_linenum = 0, define_arg = [], endif = [], endif_linenum = 0\<rparr>"
  have g1: "ifndef g1 = [] \<and> define_arg g1 = []"
    unfolding g1_def by (rule scan_before) (use pre in \<open>blast dest: numbered_snd\<close>, simp_all)
  define g2 where "g2 = guard_line (int (Suc ?i), ''#define '' @ V) (guard_line (int ?i, ''#ifndef '' @ V) g1)"
  have g2: "ifndef g2 = V" "define_arg g2 = V"
    using directive_words [OF V] g1 V(1) by (simp_all add: g2_def guard_line_def Let_def startswith_def)
  define g3 where "g3 = fold guard_line ns g2"
  have g3: "ifndef g3 = V" "define_arg g3 = V"
    using scan_inside [of g2 ns] g2 V(1) by (simp_all add: g3_def)
  define g4 where "g4 = guard_line (int ?k, closing V) g3"
  have g4: "ifndef g4 = V" "define_arg g4 = V" "endif g4 = closing V" "endif_linenum g4 = int ?k"
    using g3 V(1) by (simp_all add: g4_def guard_line_def Let_def closing_def startswith_def)
  have g: "g = fold guard_line ms g4"
    by (simp add: g_def scan_guard_def e g1_def g2_def g3_def g4_def)
  show "ifndef g = V" "define_arg g = V"
    using scan_inside [of g4 ms] g4 V(1) by (simp_all add: g)
  have "\<forall>p \<in> set ms. \<not> startswith (snd p) ''#endif''" using post unfolding ms_def by (blast dest: numbered_snd)
  from scan_no_endif [OF this] g4 show "endif g = closing V" "endif_linenum g = int ?k" by (simp_all add: g)
qed

section \<open>The property\<close>

text \<open>C13. The guard the messages ask for is accepted: a header that opens with \<open>#ifndef\<close> and \<open>#define\<close> of the
  name computed for the file, after lines that are neither of the two, and closes with \<open>#endif  //\<close> and that
  name, before lines that are no \<open>#endif\<close>, gets no report; the only call is the one that reads a NOLINT comment
  on the closing line.\<close>

theorem header_guard_accepted:
  assumes "GetHeaderGuardCPPVariable o' w fn = Some V"
    and "lines_without_raw_strings clean_lines = guarded pre V body post"
    and "\<forall>l \<in> set pre. \<not> guard_opening l" and "\<forall>l \<in> set post. \<not> startswith l ''#endif''"
  shows "CheckForHeaderGuard o' w fn clean_lines \<in>
    {ret (), nolint fn (closing V) (int (length pre + 2 + length body))}"
proof -
  let ?ls = "guarded pre V body post" and ?k = "length pre + 2 + length body"
  note V = guard_name [OF assms(1)]
  note scan = scan_guarded [OF V assms(3,4) refl, of body]
  obtain m where m: "Match (ENDIF V) (closing V) = Some m" "group_opt m 1 = None" using closing_matches [OF V] by blast
  have "?ls ! ?k = closing V" "?k < length ?ls" by (simp_all add: guarded_def nth_append)
  then have nth: "py_nth ?ls (int ?k) = ret (closing V)" by (simp only: py_nth_nat)
  have "check_endif fn ?ls V (scan_guard ?ls) = ret ()"
    using m by (simp add: check_endif_def scan ENDIF_def)
  with V(1) scan nth show ?thesis
    by (simp add: CheckForHeaderGuard_def assms(1,2) Let_def seq_def)
qed

theorem header_guard_accepted_witness:
  "CheckForHeaderGuard \<lparr>root = [], repository = [], hpp_headers = [], valid_extensions = [], max_line_length = 80\<rparr>
      \<lparr>exists = (\<lambda>p. False), cwd = ''/p''\<rparr> ''a.h''
      \<lparr>elided = [], line_list = [], raw_lines = [], num_lines = 5,
        lines_without_raw_strings = [''// Copyright'', ''#ifndef _P_A_H_'', ''#define _P_A_H_'', ''int f();'', ''#endif  // _P_A_H_'']\<rparr> \<in>
    {ret (), nolint ''a.h'' ''#endif  // _P_A_H_'' 4}"
proof -
  have "GetHeaderGuardCPPVariable \<lparr>root = [], repository = [], hpp_headers = [], valid_extensions = [], max_line_length = 80\<rparr>
      \<lparr>exists = (\<lambda>p. False), cwd = ''/p''\<rparr> ''a.h'' = Some ''_P_A_H_''" by code_simp
  from header_guard_accepted [OF this, of _ "[''// Copyright'']" "[''int f();'']" "[]"]
  show ?thesis by (simp add: guarded_def closing_def guard_opening_def split_ws_def py_space_def)
qed

section \<open>A guard of another name\<close>

lemma opening_words:
  assumes "U \<noteq> []" and "list_all (\<lambda>c. \<not> py_space c) U"
  shows "split_ws (''#ifndef '' @ U) = [''#ifndef'', U]" "split_ws (''#define '' @ U) = [''#define'', U]"
  using split_one_word [of "[]" U] assms by (simp_all add: split_ws_def py_space_def)

lemma scan_keeps_opening:
  "ifndef g \<noteq> [] \<Longrightarrow> ifndef_linenum (fold guard_line ns g) = ifndef_linenum g"
proof (induction ns arbitrary: g)
  case (Cons p ns)
  have "ifndef (guard_line p g) = ifndef g" "ifndef_linenum (guard_line p g) = ifndef_linenum g"
    using Cons.prems by (cases p; simp add: guard_line_def Let_def)+
  with Cons show ?case by simp
qed simp

text \<open>The two opening lines after lines that open nothing, whatever follows.\<close>

definition opened :: "string list \<Rightarrow> string \<Rightarrow> string \<Rightarrow> string list \<Rightarrow> string list" where
  "opened pre U D rest = pre @ (''#ifndef '' @ U) # (''#define '' @ D) # rest"

lemma scan_opened:
  assumes U: "U \<noteq> []" "list_all (\<lambda>c. \<not> py_space c) U" and D: "D \<noteq> []" "list_all (\<lambda>c. \<not> py_space c) D"
    and pre: "\<forall>l \<in> set pre. \<not> guard_opening l" and g_def: "g = scan_guard (opened pre U D rest)"
  shows "ifndef g = U" "define_arg g = D" "ifndef_linenum g = int (length pre)"
proof -
  let ?i = "length pre"
  define ns where "ns = numbered (Suc (Suc ?i)) rest"
  have e: "py_enumerate (opened pre U D rest) = numbered 0 pre @ (int ?i, ''#ifndef '' @ U) #
      (int (Suc ?i), ''#define '' @ D) # ns"
    unfolding opened_def py_enumerate_numbered numbered_append numbered.simps ns_def by simp
  define g1 where "g1 = fold guard_line (numbered 0 pre)
     \<lparr>ifndef = [], ifndef_linenum = 0, define_arg = [], endif = [], endif_linenum = 0\<rparr>"
  have g1: "ifndef g1 = [] \<and> define_arg g1 = []"
    unfolding g1_def by (rule scan_before) (use pre in \<open>blast dest: numbered_snd\<close>, simp_all)
  define g2 where "g2 = guard_line (int (Suc ?i), ''#define '' @ D) (guard_line (int ?i, ''#ifndef '' @ U) g1)"
  have g2: "ifndef g2 = U" "define_arg g2 = D" "ifndef_linenum g2 = int ?i"
    using opening_words [OF U] opening_words [OF D] g1 U(1) by (simp_all add: g2_def guard_line_def Let_def startswith_def)
  have "g = fold guard_line ns g2" by (simp add: g_def scan_guard_def e g1_def g2_def)
  with g2 scan_inside [of g2 ns] scan_keeps_opening [of g2 ns] U(1) D(1)
  show "ifndef g = U" "define_arg g = D" "ifndef_linenum g = int ?i" by simp_all
qed

text \<open>C40. A header guard of another name is reported. Let a header without a \<open>NOLINT(build/header_guard)\<close>
  comment and without \<open>#pragma once\<close> open with \<open>#ifndef U\<close> and \<open>#define D\<close>, whatever follows, and let \<open>V\<close> be
  the name computed for the file. When \<open>D\<close> is not \<open>U\<close>, the only call of the check is an error of confidence 5
  that suggests \<open>V\<close>. When both are the same name but not \<open>V\<close>, the first calls are the reading of a NOLINT
  comment on the \<open>#ifndef\<close> line and an error on that line, of confidence 0 for \<open>V\<close> with a second underscore
  and of confidence 5 for any other name.\<close>

theorem other_guard_reported:
  assumes "GetHeaderGuardCPPVariable o' w fn = Some V"
    and "lines_without_raw_strings cl = opened pre U D rest"
    and "\<not> list_ex (found GUARD_NOLINT) (opened pre U D rest)" and "\<not> list_ex (found PRAGMA_ONCE) (opened pre U D rest)"
    and "U \<noteq> []" and "list_all (\<lambda>c. \<not> py_space c) U" and "D \<noteq> []" and "list_all (\<lambda>c. \<not> py_space c) D"
    and "\<forall>l \<in> set pre. \<not> guard_opening l" and "U = D \<longrightarrow> U \<noteq> V"
  shows "if U \<noteq> D then calls (CheckForHeaderGuard o' w fn cl) =
      [Report fn (Some 0) ''build/header_guard'' 5 (''No #ifndef header guard found, suggested CPP variable is: '' @ V)]
    else take 2 (calls (CheckForHeaderGuard o' w fn cl)) =
      [Nolint fn (''#ifndef '' @ U) (int (length pre)),
       Report fn (Some (int (length pre))) ''build/header_guard'' (if U = V @ ''_'' then 0 else 5)
         (''#ifndef header guard has wrong style, please use: '' @ V)]"
proof -
  define ls where "ls = opened pre U D rest"
  note scan = scan_opened [OF assms(5-9) ls_def [THEN arg_cong [where f = scan_guard]]]
  have "py_nth (opened pre U D rest) (int (length pre)) = ret (''#ifndef '' @ U)"
    by (subst py_nth_nat) (simp_all add: opened_def nth_append)
  then have line: "py_nth ls (int (length pre)) = ret (''#ifndef '' @ U)" by (simp add: ls_def)
  note check = CheckForHeaderGuard_def assms(1) assms(2-4) [folded ls_def] Let_def seq_def
  show ?thesis
  proof (cases "U = D")
    case True
    with assms(10) have "U \<noteq> V" by simp
    with True scan line assms(5) show ?thesis by (simp add: check calls_bind)
  next
    case False
    with scan assms(5,7) show ?thesis by (simp add: check)
  qed
qed

theorem other_guard_reported_witness:
  "let o' = \<lparr>root = [], repository = [], hpp_headers = [], valid_extensions = [], max_line_length = 80\<rparr>;
       ls = [''// Copyright'', ''#ifndef _P_A_H__'', ''#define _P_A_H__'', ''int f();'', ''#endif'']
   in take 2 (calls (CheckForHeaderGuard o' \<lparr>exists = (\<lambda>p. False), cwd = ''/p''\<rparr> ''a.h''
        \<lparr>elided = [], line_list = [], raw_lines = [], num_lines = 5, lines_without_raw_strings = ls\<rparr>)) =
      [Nolint ''a.h'' ''#ifndef _P_A_H__'' 1,
       Report ''a.h'' (Some 1) ''build/header_guard'' 0 ''#ifndef header guard has wrong style, please use: _P_A_H_'']"
proof -
  let ?o = "\<lparr>root = [], repository = [], hpp_headers = [], valid_extensions = [], max_line_length = 80\<rparr>"
  let ?w = "\<lparr>exists = (\<lambda>p. False), cwd = ''/p''\<rparr>"
  let ?ls = "[''// Copyright'', ''#ifndef _P_A_H__'', ''#define _P_A_H__'', ''int f();'', ''#endif'']"
  let ?cl = "\<lparr>elided = [], line_list = [], raw_lines = [], num_lines = 5, lines_without_raw_strings = ?ls\<rparr>"
  have name: "GetHeaderGuardCPPVariable ?o ?w ''a.h'' = Some ''_P_A_H_''" by code_simp
  have "\<not> list_ex (found GUARD_NOLINT) ?ls" "\<not> list_ex (found PRAGMA_ONCE) ?ls" by code_simp+
  then have "if ''_P_A_H__'' \<noteq> ''_P_A_H__'' then calls (CheckForHeaderGuard ?o ?w ''a.h'' ?cl) =
      [Report ''a.h'' (Some 0) ''build/header_guard'' 5 (''No #ifndef header guard found, suggested CPP variable is: '' @ ''_P_A_H_'')]
    else take 2 (calls (CheckForHeaderGuard ?o ?w ''a.h'' ?cl)) =
      [Nolint ''a.h'' (''#ifndef '' @ ''_P_A_H__'') (int (length [''// Copyright''])),
       Report ''a.h'' (Some (int (length [''// Copyright'']))) ''build/header_guard'' (if ''_P_A_H__'' = ''_P_A_H_'' @ ''_'' then 0 else 5)
         (''#ifndef header guard has wrong style, please use: '' @ ''_P_A_H_'')]"
    by (intro other_guard_reported [OF name, where rest = "[''int f();'', ''#endif'']"])
      (simp_all add: opened_def py_space_def guard_opening_def split_ws_def)
  then show ?thesis by simp
qed

end
