(* ===== verification/Nesting_Refs.thy ===== *)
theory Nesting_Refs
  imports Nesting_Facts
begin

text \<open>
  The nesting stack as the code holds it: a list of references to mutable block objects. \<open>Nesting\<close>
  models the stack by the contents of its blocks, which is right only if no change of a block on the
  stack shows in a checkpoint. Here the objects are in a heap, \<open>copy.deepcopy\<close> allocates, a change of the
  innermost block writes through its reference, and the checkpoints are lists of references; the two
  models agree after every sequence of operations, because the code copies where it does.
\<close>

section \<open>Operations of the stack\<close>

text \<open>What the methods of \<open>NestingState\<close> do to the stack: push a new block, pop, change the innermost
  block, and \<open>UpdatePreprocessor\<close>.\<close>

datatype nesting_op = Open block | Close | Change "block \<Rightarrow> block" | Directive string

text \<open>On the contents: the operations of \<open>Nesting\<close>.\<close>

fun value_op :: "nesting_op \<Rightarrow> nesting \<Rightarrow> nesting" where
  "value_op (Open b) st = push_block (b\<lparr>oid := next_oid st\<rparr>) st"
| "value_op Close st = pop_block st"
| "value_op (Change f) st =
     (if stack st = [] then st else map_top (\<lambda>b. (f b)\<lparr>oid := oid b\<rparr>) st)"
| "value_op (Directive line) st = UpdatePreprocessor line st"

section \<open>References\<close>

record pp_refs =
  before_if :: "nat list"
  before_else :: "nat list"
  else_seen :: bool

record ref_nesting =
  heap :: "nat \<Rightarrow> block"
  ref_stack :: "nat list"
  ref_pp :: "pp_refs list"
  next_ref :: nat

text \<open>The block behind a reference; its identity is the reference.\<close>

definition object :: "(nat \<Rightarrow> block) \<Rightarrow> nat \<Rightarrow> block" where
  "object h a = (h a)\<lparr>oid := a\<rparr>"

definition empty_refs :: "(nat \<Rightarrow> block) \<Rightarrow> ref_nesting" where
  "empty_refs h = \<lparr>heap = h, ref_stack = [], ref_pp = [], next_ref = 0\<rparr>"

text \<open>\<open>copy.deepcopy\<close> of a list of blocks: the new references, and the heap with the new objects.\<close>

definition deepcopy :: "nat list \<Rightarrow> ref_nesting \<Rightarrow> nat list \<times> ref_nesting" where
  "deepcopy as r =
     (let n = next_ref r in
      ([n..<n + length as],
       r\<lparr>heap := (\<lambda>a. if n \<le> a \<and> a < n + length as then heap r (as ! (a - n)) else heap r a),
         next_ref := n + length as\<rparr>))"

text \<open>The three branches of \<open>UpdatePreprocessor\<close>: only \<open>#endif\<close> assigns a checkpoint to the stack without a
  copy, and it drops the checkpoint.\<close>

definition ref_if :: "ref_nesting \<Rightarrow> ref_nesting" where
  "ref_if r = (let (as, r1) = deepcopy (ref_stack r) r
     in r1\<lparr>ref_pp := ref_pp r1 @ [\<lparr>before_if = as, before_else = [], else_seen = False\<rparr>]\<rparr>)"

definition ref_else :: "ref_nesting \<Rightarrow> ref_nesting" where
  "ref_else r =
     (if ref_pp r = [] then r
      else
        (let pp = last (ref_pp r);
             (pp1, r1) =
               (if else_seen pp then (pp, r)
                else (let (as, r') = deepcopy (ref_stack r) r
                      in (pp\<lparr>else_seen := True, before_else := as\<rparr>, r')));
             (as, r2) = deepcopy (before_if pp1) r1
         in r2\<lparr>ref_pp := butlast (ref_pp r) @ [pp1], ref_stack := as\<rparr>))"

definition ref_endif :: "ref_nesting \<Rightarrow> ref_nesting" where
  "ref_endif r =
     (if ref_pp r = [] then r
      else r\<lparr>ref_stack := (if else_seen (last (ref_pp r)) then before_else (last (ref_pp r)) else ref_stack r),
             ref_pp := butlast (ref_pp r)\<rparr>)"

definition ref_UpdatePreprocessor :: "string \<Rightarrow> ref_nesting \<Rightarrow> ref_nesting" where
  "ref_UpdatePreprocessor line r =
     (if matches PP_IF line then ref_if r
      else if matches PP_ELSE line then ref_else r
      else if matches PP_ENDIF line then ref_endif r
      else r)"

fun ref_op :: "nesting_op \<Rightarrow> ref_nesting \<Rightarrow> ref_nesting" where
  "ref_op (Open b) r =
     r\<lparr>heap := (heap r)(next_ref r := b), ref_stack := ref_stack r @ [next_ref r], next_ref := Suc (next_ref r)\<rparr>"
| "ref_op Close r = r\<lparr>ref_stack := butlast (ref_stack r)\<rparr>"
| "ref_op (Change f) r =
     (if ref_stack r = [] then r
      else (let a = last (ref_stack r) in r\<lparr>heap := (heap r)(a := f (object (heap r) a))\<rparr>))"
| "ref_op (Directive line) r = ref_UpdatePreprocessor line r"

section \<open>Abstraction\<close>

definition pp_contents :: "(nat \<Rightarrow> block) \<Rightarrow> pp_refs \<Rightarrow> pp_info" where
  "pp_contents h pp = \<lparr>stack_before_if = map (object h) (before_if pp),
     stack_before_else = map (object h) (before_else pp), seen_else = else_seen pp\<rparr>"

definition contents :: "ref_nesting \<Rightarrow> nesting" where
  "contents r = \<lparr>stack = map (object (heap r)) (ref_stack r), previous_stack_top = None,
     pp_stack = map (pp_contents (heap r)) (ref_pp r), next_oid = next_ref r\<rparr>"

text \<open>No object is reachable twice from the stack and the checkpoints.\<close>

definition pp_reach :: "pp_refs list \<Rightarrow> nat list" where
  "pp_reach pps = concat (map (\<lambda>pp. before_if pp @ before_else pp) pps)"

definition unshared :: "ref_nesting \<Rightarrow> bool" where
  "unshared r \<longleftrightarrow> distinct (ref_stack r @ pp_reach (ref_pp r)) \<and>
     (\<forall>a \<in> set (ref_stack r @ pp_reach (ref_pp r)). a < next_ref r)"

lemma pp_reach_simps [simp]:
  "pp_reach [] = []"
  "pp_reach (pps @ [pp]) = pp_reach pps @ before_if pp @ before_else pp"
  by (simp_all add: pp_reach_def)

text \<open>A heap that agrees on the references of a list gives the same contents.\<close>

lemma object_cong: "(\<And>a. a \<in> set as \<Longrightarrow> h a = h' a) \<Longrightarrow> map (object h) as = map (object h') as"
  by (simp add: object_def)

lemma pp_contents_cong:
  assumes "\<And>a. a \<in> set (pp_reach pps) \<Longrightarrow> h a = h' a"
  shows "map (pp_contents h) pps = map (pp_contents h') pps"
proof (rule map_cong [OF refl])
  fix pp assume "pp \<in> set pps"
  with assms have "\<And>a. a \<in> set (before_if pp @ before_else pp) \<Longrightarrow> h a = h' a"
    by (auto simp: pp_reach_def)
  then show "pp_contents h pp = pp_contents h' pp"
    by (simp add: pp_contents_def object_def)
qed

lemma contents_sel [simp]:
  "stack (contents r) = map (object (heap r)) (ref_stack r)"
  "pp_stack (contents r) = map (pp_contents (heap r)) (ref_pp r)" "next_oid (contents r) = next_ref r"
  by (simp_all add: contents_def)

lemma pp_contents_sel [simp]:
  "stack_before_if (pp_contents h pp) = map (object h) (before_if pp)"
  "stack_before_else (pp_contents h pp) = map (object h) (before_else pp)"
  "seen_else (pp_contents h pp) = else_seen pp"
  by (simp_all add: pp_contents_def)

text \<open>A deep copy leaves the existing objects alone and its objects are new.\<close>

lemma deepcopy_sel [simp]:
  "fst (deepcopy as r) = [next_ref r..<next_ref r + length as]"
  "ref_stack (snd (deepcopy as r)) = ref_stack r" "ref_pp (snd (deepcopy as r)) = ref_pp r"
  "next_ref (snd (deepcopy as r)) = next_ref r + length as"
  "a < next_ref r \<Longrightarrow> heap (snd (deepcopy as r)) a = heap r a"
  by (simp_all add: deepcopy_def Let_def)

lemma deepcopy_copies [simp]:
  "map (object (heap (snd (deepcopy as r)))) [next_ref r..<next_ref r + length as] =
   copies (next_ref r) (map (object (heap r)) as)"
  by (rule nth_equalityI) (simp_all add: deepcopy_def Let_def copies_def object_def)

lemma deepcopy_keeps:
  assumes "\<forall>a \<in> set bs. a < next_ref r"
  shows "map (object (heap (snd (deepcopy as r)))) bs = map (object (heap r)) bs"
  using assms by (intro object_cong) simp

lemma deepcopy_keeps_pp:
  assumes "\<forall>a \<in> set (pp_reach pps). a < next_ref r"
  shows "map (pp_contents (heap (snd (deepcopy as r)))) pps = map (pp_contents (heap r)) pps"
  using assms by (intro pp_contents_cong) simp

section \<open>Simulation\<close>

lemma unshared_pp:
  assumes "unshared r" and "ref_pp r \<noteq> []"
  obtains pps pp where "ref_pp r = pps @ [pp]"
    and "distinct (ref_stack r @ pp_reach pps @ before_if pp @ before_else pp)"
    and "\<forall>a \<in> set (ref_stack r @ pp_reach pps @ before_if pp @ before_else pp). a < next_ref r"
proof -
  obtain pps pp where "ref_pp r = pps @ [pp]" using assms(2) by (metis append_butlast_last_id)
  with assms(1) that [of pps pp] show thesis by (simp add: unshared_def)
qed

lemma fresh_apart: "\<forall>a \<in> set as. a < n \<Longrightarrow> n \<le> m \<Longrightarrow> set as \<inter> {m..<k} = {}" for n :: nat
  by fastforce

lemma below_mono: "\<forall>a \<in> set as. a < n \<Longrightarrow> n \<le> m \<Longrightarrow> \<forall>a \<in> set as. a < m" for n :: nat
  by fastforce

lemma sim_if:
  assumes "unshared r" and "matches PP_IF line"
  shows "unshared (ref_if r) \<and> contents (ref_if r) = UpdatePreprocessor line (contents r)"
proof -
  let ?r1 = "snd (deepcopy (ref_stack r) r)"
  let ?old = "ref_stack r @ pp_reach (ref_pp r)" and ?n = "next_ref r"
  let ?m = "?n + length (ref_stack r)"
  from assms(1) have old: "distinct ?old" "\<forall>a \<in> set ?old. a < ?n" by (simp_all add: unshared_def)
  then have "distinct (?old @ [?n..<?m])"
    by (simp only: distinct_append distinct_upt set_upt fresh_apart [OF _ le_refl])
  moreover from below_mono [OF old(2), of ?m] have "\<forall>a \<in> set (?old @ [?n..<?m]). a < ?m" by (simp add: ball_Un)
  ultimately have "unshared (ref_if r)"
    by (simp add: unshared_def ref_if_def case_prod_beta)
  moreover from assms(1) have "map (object (heap ?r1)) (ref_stack r) = map (object (heap r)) (ref_stack r)"
    "map (pp_contents (heap ?r1)) (ref_pp r) = map (pp_contents (heap r)) (ref_pp r)"
    by (auto simp: unshared_def intro!: deepcopy_keeps deepcopy_keeps_pp simp del: map_eq_conv)
  ultimately show ?thesis using assms(2)
    by (simp add: ref_if_def case_prod_beta contents_def UpdatePreprocessor_def Let_def pp_contents_def del: map_eq_conv)
qed

lemma sim_endif:
  assumes "unshared r" and "\<not> matches PP_IF line \<and> \<not> matches PP_ELSE line \<and> matches PP_ENDIF line"
  shows "unshared (ref_endif r) \<and> contents (ref_endif r) = UpdatePreprocessor line (contents r)"
proof (cases "ref_pp r = []")
  case False
  from unshared_pp [OF assms(1) False] obtain pps pp where pp: "ref_pp r = pps @ [pp]"
    "distinct (ref_stack r @ pp_reach pps @ before_if pp @ before_else pp)"
    "\<forall>a \<in> set (ref_stack r @ pp_reach pps @ before_if pp @ before_else pp). a < next_ref r" by blast
  then have "unshared (ref_endif r)" by (auto simp: unshared_def ref_endif_def)
  with pp(1) assms(2) show ?thesis
    by (simp add: ref_endif_def contents_def UpdatePreprocessor_def Let_def pp_contents_def)
qed (use assms in \<open>simp add: ref_endif_def UpdatePreprocessor_def Let_def contents_def\<close>)

text \<open>The copy at \<open>#else\<close> that becomes the stack.\<close>

lemma restored:
  assumes "distinct (pp_reach pps)" and "\<forall>a \<in> set (pp_reach pps). a < next_ref r"
    and "\<forall>a \<in> set as. a < next_ref r"
    and "r' = (snd (deepcopy as r))\<lparr>ref_pp := pps, ref_stack := fst (deepcopy as r)\<rparr>"
  shows "unshared r' \<and> contents r' = \<lparr>stack = copies (next_ref r) (map (object (heap r)) as),
     previous_stack_top = None, pp_stack = map (pp_contents (heap r)) pps, next_oid = next_ref r + length as\<rparr>"
proof -
  let ?m = "next_ref r + length as"
  have "set [next_ref r..<?m] \<inter> set (pp_reach pps) = {}"
    using fresh_apart [OF assms(2) le_refl, of ?m] by auto
  moreover have "\<forall>a \<in> set (pp_reach pps). a < ?m" using below_mono [OF assms(2), of ?m] by simp
  ultimately have "unshared r'"
    using assms(1) by (simp add: unshared_def assms(4) ball_Un)
  then show ?thesis
    using deepcopy_keeps_pp [OF assms(2), of as] by (simp add: contents_def assms(4) del: map_eq_conv)
qed

lemma sim_else:
  assumes "unshared r" and "\<not> matches PP_IF line \<and> matches PP_ELSE line"
  shows "unshared (ref_else r) \<and> contents (ref_else r) = UpdatePreprocessor line (contents r)"
proof (cases "ref_pp r = []")
  case False
  from unshared_pp [OF assms(1) False] obtain pps pp where pp: "ref_pp r = pps @ [pp]"
    and d: "distinct (ref_stack r @ pp_reach pps @ before_if pp @ before_else pp)"
    and b: "\<forall>a \<in> set (ref_stack r @ pp_reach pps @ before_if pp @ before_else pp). a < next_ref r" by blast
  show ?thesis
  proof (cases "else_seen pp")
    case True
    then have e: "ref_else r = (snd (deepcopy (before_if pp) r))
        \<lparr>ref_pp := pps @ [pp], ref_stack := fst (deepcopy (before_if pp) r)\<rparr>"
      using pp by (simp add: ref_else_def Let_def case_prod_beta)
    from restored [OF _ _ _ e] d b True assms(2) pp show ?thesis
      by (simp add: UpdatePreprocessor_def Let_def contents_def ball_Un)
  next
    case False
    let ?r1 = "snd (deepcopy (ref_stack r) r)" and ?n = "next_ref r"
    let ?pp = "pp\<lparr>else_seen := True, before_else := [?n..<?n + length (ref_stack r)]\<rparr>"
    have e: "ref_else r = (snd (deepcopy (before_if ?pp) ?r1))
        \<lparr>ref_pp := pps @ [?pp], ref_stack := fst (deepcopy (before_if ?pp) ?r1)\<rparr>"
      using pp False by (simp add: ref_else_def Let_def case_prod_beta)
    let ?old = "pp_reach pps @ before_if pp"
    have old: "\<forall>a \<in> set ?old. a < ?n" "distinct ?old" using d b by auto
    have "distinct (?old @ [?n..<?n + length (ref_stack r)])"
      using old(2) by (simp only: distinct_append distinct_upt set_upt fresh_apart [OF old(1) le_refl])
    then have 1: "distinct (pp_reach (pps @ [?pp]))" by simp
    have 2: "\<forall>a \<in> set (pp_reach (pps @ [?pp])). a < next_ref ?r1"
      using below_mono [OF old(1), of "next_ref ?r1"] by (simp add: ball_Un)
    have 3: "\<forall>a \<in> set (before_if ?pp). a < next_ref ?r1"
      using below_mono [OF old(1), of "next_ref ?r1"] by (simp add: ball_Un)
    have "map (object (heap ?r1)) (before_if pp) = map (object (heap r)) (before_if pp)"
      "map (pp_contents (heap ?r1)) pps = map (pp_contents (heap r)) pps"
      using b by (simp_all add: ball_Un deepcopy_keeps deepcopy_keeps_pp del: map_eq_conv)
    with restored [OF 1 2 3 e] False assms(2) pp show ?thesis
      by (simp add: UpdatePreprocessor_def Let_def contents_def pp_contents_def del: map_eq_conv)
  qed
qed (use assms in \<open>simp add: ref_else_def UpdatePreprocessor_def Let_def contents_def\<close>)

text \<open>A write through the last reference of the stack changes no checkpoint.\<close>

lemma sim_change:
  assumes "unshared r"
  shows "unshared (ref_op (Change f) r) \<and> contents (ref_op (Change f) r) = value_op (Change f) (contents r)"
proof (cases "ref_stack r" rule: rev_cases)
  case (snoc as a)
  let ?h = "(heap r)(a := f (object (heap r) a))"
  from assms snoc have "a \<notin> set as" "a \<notin> set (pp_reach (ref_pp r))" by (auto simp: unshared_def)
  then have "map (object ?h) as = map (object (heap r)) as"
    "map (pp_contents ?h) (ref_pp r) = map (pp_contents (heap r)) (ref_pp r)"
    by (auto intro!: object_cong pp_contents_cong simp del: map_eq_conv)
  moreover have "unshared (ref_op (Change f) r)" using assms snoc by (simp add: unshared_def)
  ultimately show ?thesis using snoc
    by (simp add: contents_def map_top_def object_def del: map_eq_conv)
qed (use assms in \<open>simp add: contents_def\<close>)

lemma sim_open:
  assumes "unshared r"
  shows "unshared (ref_op (Open b) r) \<and> contents (ref_op (Open b) r) = value_op (Open b) (contents r)"
proof -
  let ?h = "(heap r)(next_ref r := b)"
  from assms have "map (object ?h) (ref_stack r) = map (object (heap r)) (ref_stack r)"
    "map (pp_contents ?h) (ref_pp r) = map (pp_contents (heap r)) (ref_pp r)"
    by (auto simp: unshared_def intro!: object_cong pp_contents_cong simp del: map_eq_conv)
  moreover have "unshared (ref_op (Open b) r)"
  proof -
    have "\<forall>a \<in> set (ref_stack r @ pp_reach (ref_pp r)). a < next_ref r" using assms by (simp add: unshared_def)
    then have "next_ref r \<notin> set (ref_stack r @ pp_reach (ref_pp r))"
      "\<forall>a \<in> set (ref_stack r @ pp_reach (ref_pp r)). a < Suc (next_ref r)" by (blast, fastforce)
    with assms show ?thesis by (simp add: unshared_def)
  qed
  ultimately show ?thesis
    by (simp add: contents_def push_block_def object_def del: map_eq_conv)
qed

lemma sim_close:
  assumes "unshared r"
  shows "unshared (ref_op Close r) \<and> contents (ref_op Close r) = value_op Close (contents r)"
  using assms
  by (cases "ref_stack r" rule: rev_cases) (auto simp: unshared_def contents_def pop_block_def)

lemma sim_directive:
  assumes "unshared r"
  shows "unshared (ref_op (Directive l) r) \<and> contents (ref_op (Directive l) r) = value_op (Directive l) (contents r)"
proof -
  consider "matches PP_IF l" | "\<not> matches PP_IF l \<and> matches PP_ELSE l"
    | "\<not> matches PP_IF l \<and> \<not> matches PP_ELSE l \<and> matches PP_ENDIF l"
    | "\<not> matches PP_IF l" "\<not> matches PP_ELSE l" "\<not> matches PP_ENDIF l" by blast
  then show ?thesis
  proof cases
    case 1
    with sim_if [OF assms 1] show ?thesis by (simp add: ref_UpdatePreprocessor_def)
  next
    case 2
    with sim_else [OF assms 2] show ?thesis by (simp add: ref_UpdatePreprocessor_def)
  next
    case 3
    with sim_endif [OF assms 3] show ?thesis by (simp add: ref_UpdatePreprocessor_def)
  next
    case 4
    with assms show ?thesis by (simp add: ref_UpdatePreprocessor_def UpdatePreprocessor_def Let_def)
  qed
qed

lemma sim_op: "unshared r \<Longrightarrow> unshared (ref_op p r) \<and> contents (ref_op p r) = value_op p (contents r)"
  using sim_open sim_close sim_change sim_directive by (cases p) blast+

lemma sim_ops:
  "unshared r \<Longrightarrow> unshared (fold ref_op ps r) \<and> contents (fold ref_op ps r) = fold value_op ps (contents r)"
  using sim_op by (induction ps arbitrary: r) auto

text \<open>C16. The copies of \<open>UpdatePreprocessor\<close> are enough: from an empty stack, whatever blocks are opened,
  closed and changed in place through the reference on top of the stack, and whatever directives come in
  between, the stack and every checkpoint hold what the model on block contents says (a write to a block
  never shows in a checkpoint), and no block object is reachable twice from the stack and the
  checkpoints.\<close>

theorem references_agree:
  "contents (fold ref_op ps (empty_refs h)) = fold value_op ps init_nesting \<and> unshared (fold ref_op ps (empty_refs h))"
proof -
  have "unshared (empty_refs h)" "contents (empty_refs h) = init_nesting"
    by (simp_all add: unshared_def empty_refs_def contents_def init_nesting_def)
  with sim_ops [of "empty_refs h" ps] show ?thesis by simp
qed

section \<open>\<open>Update\<close> is made of these operations\<close>

fun is_directive :: "nesting_op \<Rightarrow> bool" where
  "is_directive (Directive line) = True" | "is_directive p = False"

text \<open>One state comes from another by opening, closing and changing blocks.\<close>

definition block_ops :: "nesting \<Rightarrow> nesting \<Rightarrow> bool" where
  "block_ops st st' \<longleftrightarrow> (\<exists>ps. list_all (\<lambda>p. \<not> is_directive p) ps \<and> st' = fold value_op ps st)"

lemma block_ops_refl [simp]: "block_ops st st"
  unfolding block_ops_def by (rule exI [of _ "[]"]) simp

lemma block_ops_trans: "block_ops st st1 \<Longrightarrow> block_ops st1 st2 \<Longrightarrow> block_ops st st2"
  unfolding block_ops_def by (metis fold_append comp_apply list_all_append)

lemma block_ops_push: "oid b = next_oid st \<Longrightarrow> block_ops st (push_block b st)"
  unfolding block_ops_def by (rule exI [of _ "[Open b]"]) (cases b, simp)

lemma block_ops_pop: "block_ops st (pop_block st)"
  unfolding block_ops_def by (rule exI [of _ "[Close]"]) simp

lemma block_ops_top:
  "stack st \<noteq> [] \<Longrightarrow> oid (f (last (stack st))) = oid (last (stack st)) \<Longrightarrow> block_ops st (map_top f st)"
  unfolding block_ops_def by (rule exI [of _ "[Change f]"]) (simp add: map_top_def)

lemma block_ops_namespaces: "block_ops st (snd (namespace_loop n line st))"
proof (induction n line st rule: namespace_loop.induct)
  case (1 n line st)
  show ?case
  proof (cases "Match NAMESPACE_DECL line")
    case (Some m)
    have new: "block_ops st (push_block (new_namespace (next_oid st) x n) st)"
      "block_ops st (push_block ((new_namespace (next_oid st) x n)\<lparr>seen_open_brace := True\<rparr>) st)" for x
      by (simp_all add: block_ops_push new_namespace_def new_block_def)
    show ?thesis
    proof (cases "py_find (group m 2) ''{'' = - 1")
      case True
      with block_ops_trans [OF new(1) 1(2) [OF Some]] Some show ?thesis by (subst namespace_loop.simps) simp
    next
      case False
      with block_ops_trans [OF new(2) 1(1) [OF Some]] Some show ?thesis by (subst namespace_loop.simps) simp
    qed
  qed (subst namespace_loop.simps, simp)
qed

lemma block_ops_class:
  assumes "result (class_declaration cl n line st) = Inr (line', st')"
  shows "block_ops st st'"
proof (cases "st' = st")
  case False
  with assms obtain name kind b where "result (new_class (next_oid st) name kind cl n) = Inr b"
    and st': "st' = push_block b st"
    by (auto simp: class_declaration_def split: option.splits if_splits elim!: result_bindE)
  then have "oid b = next_oid st"
    by (auto simp: new_class_def new_block_def Let_def elim!: result_bindE)
  with st' show ?thesis by (simp add: block_ops_push)
qed simp

lemma block_ops_begin:
  assumes "result (begin_checks cl n st) = Inr st'"
  shows "block_ops st st'"
proof (cases "SeenOpenBrace st")
  case False
  with assms obtain b where b: "result (CheckBegin cl n (last (stack st))) = Inr b"
    and st': "st' = map_top (\<lambda>_. b) st"
    by (auto simp: begin_checks_def elim!: result_bindE)
  from b have "oid b = oid (last (stack st))"
    by (auto simp: CheckBegin_def elim!: result_bindE split: block_kind.splits if_splits)
  with False st' show ?thesis by (auto simp: SeenOpenBrace_def intro: block_ops_top)
qed (use assms in \<open>simp add: begin_checks_def\<close>)

lemma block_ops_access:
  assumes "result (access_control fn n line st) = Inr st'"
  shows "block_ops st st'"
proof -
  from assms have "st' = st \<or> stack st \<noteq> [] \<and> (\<exists>k. st' = map_top (\<lambda>b. b\<lparr>kind := k\<rparr>) st)"
    by (auto simp: access_control_def seq_def elim!: result_bindE split: block_kind.splits option.splits if_splits)
  then show ?thesis by (auto intro: block_ops_top)
qed

lemma block_ops_token:
  assumes "result (brace_token fn cl n line token st) = Inr st'"
  shows "block_ops st st'"
proof -
  have top: "\<not> SeenOpenBrace st \<Longrightarrow> block_ops st (map_top (\<lambda>b. b\<lparr>seen_open_brace := True\<rparr>) st)"
    by (auto simp: SeenOpenBrace_def intro: block_ops_top)
  note pushes = block_ops_push [of "new_extern_c (next_oid st) n"] block_ops_push [of "new_block (next_oid st) n True"]
    block_ops_push [of "(new_block (next_oid st) n True)\<lparr>inline_asm := BLOCK_ASM\<rparr>"]
  show ?thesis
    using assms top pushes block_ops_pop
    by (auto simp: brace_token_def seq_def new_extern_c_def new_block_def Let_def
        elim!: result_bindE split: if_splits)
qed

lemma block_ops_braces: "result (brace_loop fn cl n line st) = Inr st' \<Longrightarrow> block_ops st st'"
proof (induction fn cl n line st rule: brace_loop.induct)
  case (1 fn cl n line st)
  show ?case
  proof (cases "Match BRACE line")
    case None
    with 1 show ?thesis by (subst (asm) brace_loop.simps) simp
  next
    case (Some m)
    with "1.prems" obtain st1 where r: "result (brace_token fn cl n line (group m 1) st) = Inr st1"
      and rest: "result (brace_loop fn cl n (group m 2) st1) = Inr st'"
      by (subst (asm) brace_loop.simps) (auto elim!: result_bindE)
    from block_ops_trans [OF block_ops_token [OF r] "1.IH" [OF Some r rest]] show ?thesis .
  qed
qed

text \<open>What \<open>Update\<close> remembers of the line before does not take part.\<close>

definition forget_top :: "nesting \<Rightarrow> nesting" where
  "forget_top st = st\<lparr>previous_stack_top := None\<rparr>"

lemma value_op_forget: "value_op p (forget_top st) = forget_top (value_op p st)"
  by (cases p) (simp_all add: forget_top_def push_block_def pop_block_def map_top_def UpdatePreprocessor_def Let_def)

lemma value_ops_forget: "fold value_op ps (forget_top st) = forget_top (fold value_op ps st)"
  by (induction ps arbitrary: st) (simp_all add: value_op_forget)

lemma Update_by_ops:
  assumes "result (Update fn cl n st) = Inr st'"
  obtains line ps where "result (py_nth (elided cl) n) = Inr line" and "list_all (\<lambda>p. \<not> is_directive p) ps"
    and "forget_top st' = fold value_op (Directive line # ps) (forget_top st)"
  using assms
proof (rule Update_stages)
  fix line l4 st4 l5 st5 st6 st7
  assume line: "result (py_nth (elided cl) n) = Inr line" and 4: "namespace_loop n line (entered line st) = (l4, st4)"
    and 5: "result (class_declaration cl n l4 st4) = Inr (l5, st5)" and 6: "result (begin_checks cl n st5) = Inr st6"
    and 7: "result (access_control fn n l5 st6) = Inr st7" and 8: "result (brace_loop fn cl n l5 st7) = Inr st'"
  let ?st1 = "st\<lparr>previous_stack_top := (if stack st \<noteq> [] then Some (last (stack st)) else None)\<rparr>"
  have "block_ops (UpdatePreprocessor line ?st1) (entered line st)"
    by (auto simp: entered_def Let_def count_parentheses_def intro: block_ops_top)
  moreover have "block_ops (entered line st) st4" using block_ops_namespaces [of "entered line st" n line] 4 by simp
  ultimately have "block_ops (UpdatePreprocessor line ?st1) st'"
    using block_ops_class [OF 5] block_ops_begin [OF 6] block_ops_access [OF 7] block_ops_braces [OF 8]
    by (meson block_ops_trans)
  then obtain ps where ps: "list_all (\<lambda>p. \<not> is_directive p) ps" "st' = fold value_op (Directive line # ps) ?st1"
    by (auto simp: block_ops_def)
  have "forget_top ?st1 = forget_top st" by (simp add: forget_top_def)
  with ps(2) have "forget_top st' = fold value_op (Directive line # ps) (forget_top st)"
    by (metis value_ops_forget)
  with that line ps(1) show thesis by blast
qed

text \<open>So a line that \<open>Update\<close> returns on takes contents that a state of references has to contents that the
  operations on references reach from it.\<close>

theorem Update_on_references:
  assumes "result (Update fn cl n st) = Inr st'" and "unshared r" and "contents r = forget_top st"
  obtains line ps where "result (py_nth (elided cl) n) = Inr line" and "list_all (\<lambda>p. \<not> is_directive p) ps"
    and "contents (fold ref_op (Directive line # ps) r) = forget_top st'" and "unshared (fold ref_op (Directive line # ps) r)"
  using Update_by_ops [OF assms(1)] sim_ops [OF assms(2)] assms(3) by metis

end
