(* ===== verification/Include_Use_Facts.thy ===== *)
theory Include_Use_Facts
  imports Include_Use
begin

text \<open>
  The specification of \<open>CheckForIncludeWhatYouUse\<close>: the demands of a line as a list, and the reports as
  the last demand of each header that is not included, in the order of the lines.
\<close>

section \<open>Demands\<close>

definition string_demand :: "int \<Rightarrow> string \<Rightarrow> required" where
  "string_demand n line = (case Search PATTERN_STRING line of None \<Rightarrow> []
     | Some m \<Rightarrow> if in_std line m then [(''<string>'', n, ''string'')] else [])"

definition maybe_demands :: "int \<Rightarrow> string \<Rightarrow> required" where
  "maybe_demands n line = [(header, n, entity). (pattern, entity, header) \<leftarrow> headers_maybe_templates, found pattern line]"

definition template_demands :: "int \<Rightarrow> string \<Rightarrow> required" where
  "template_demands n line = [(header, n, entity). (pattern, entity, header) \<leftarrow> pattern_templates,
     case Search pattern line of None \<Rightarrow> False | Some m \<Rightarrow> in_std line m]"

definition demands :: "int \<times> string \<Rightarrow> required" where
  "demands p = (case p of (n, line) \<Rightarrow>
     if line = [] \<or> hd line = CHR ''#'' then []
     else string_demand n line @ maybe_demands n line @ (if CHR ''<'' \<in> set line then template_demands n line else []))"

definition file_demands :: "cleansed \<Rightarrow> required" where
  "file_demands clean_lines = concat (map demands (py_enumerate (slice (elided clean_lines) 0 (NumLines clean_lines))))"

text \<open>What the dictionary holds after a list of demands.\<close>

definition enter :: "required \<Rightarrow> required \<Rightarrow> required" where
  "enter ds required = fold (\<lambda>(header, v). AList.update header v) ds required"

lemma enter_simps [simp]:
  "enter [] r = r" "enter (d # ds) r = enter ds (AList.update (fst d) (snd d) r)"
  "enter (ds @ es) r = enter es (enter ds r)"
  by (simp_all add: enter_def case_prod_beta)

lemma require_string_enter: "require_string n line r = enter (string_demand n line) r"
  by (simp add: require_string_def string_demand_def split: option.splits)

lemma fold_enter: "(\<And>x r. f x r = enter (g x) r) \<Longrightarrow> fold f xs r = enter (concat (map g xs)) r"
  by (induction xs arbitrary: r) simp_all

lemma require_maybe_enter:
  "fold (require_maybe n line) ps r =
    enter [(header, n, entity). (pattern, entity, header) \<leftarrow> ps, found pattern line] r"
  by (induction ps arbitrary: r) (auto simp: require_maybe_def)

lemma require_template_enter:
  "fold (require_template n line) ps r =
    enter [(header, n, entity). (pattern, entity, header) \<leftarrow> ps,
      case Search pattern line of None \<Rightarrow> False | Some m \<Rightarrow> in_std line m] r"
  by (induction ps arbitrary: r) (auto simp: require_template_def split: option.splits)

lemma require_line_enter: "require_line p r = enter (demands p) r"
  by (cases p) (simp add: require_line_def demands_def Let_def require_string_enter require_maybe_enter
      require_template_enter maybe_demands_def template_demands_def)

lemma required_headers_enter: "required_headers cl = enter (file_demands cl) []"
  by (simp add: required_headers_def file_demands_def fold_enter [of require_line, OF require_line_enter])

text \<open>The last demand wins, and a dictionary has each header once.\<close>

lemma map_of_enter: "map_of (enter ds r) h = (case map_of (rev ds) h of None \<Rightarrow> map_of r h | Some v \<Rightarrow> Some v)"
proof (induction ds arbitrary: r)
  case (Cons d ds)
  show ?case by (simp add: Cons.IH map_add_def update_conv split: option.splits)
qed simp

lemma distinct_enter: "distinct (map fst r) \<Longrightarrow> distinct (map fst (enter ds r))"
  by (induction ds arbitrary: r) (simp_all add: distinct_update)

lemma required_exact:
  "(h, v) \<in> set (required_headers cl) \<longleftrightarrow> map_of (rev (file_demands cl)) h = Some v"
proof -
  have "distinct (map fst (required_headers cl))"
    unfolding required_headers_enter by (rule distinct_enter) simp
  then have "(h, v) \<in> set (required_headers cl) \<longleftrightarrow> map_of (required_headers cl) h = Some v" by simp
  then show ?thesis by (simp add: required_headers_enter map_of_enter split: option.splits)
qed

section \<open>Reports\<close>

lemma missing_exact:
  "(h, v) \<in> set (missing_headers (required_headers cl) dict) \<longleftrightarrow>
    map_of (rev (file_demands cl)) h = Some v \<and> strip_brackets h \<notin> fst ` set dict"
  by (auto simp: missing_headers_def required_exact)

lemma missing_sorted: "sorted (map snd (missing_headers r dict))"
  by (simp add: missing_headers_def sorted_filter)

lemma missing_distinct: "distinct (map fst (missing_headers (required_headers cl) dict))"
proof -
  have "distinct (map fst (required_headers cl))"
    unfolding required_headers_enter by (rule distinct_enter) simp
  then have "distinct (map fst (sort_key snd (required_headers cl)))"
    by (simp add: distinct_map)
  then show ?thesis by (simp add: missing_headers_def distinct_map_filter)
qed

definition iwyu_report :: "string \<Rightarrow> string \<times> int \<times> string \<Rightarrow> call" where
  "iwyu_report fn d = (case d of (header, n, entity) \<Rightarrow>
     Report fn (Some n) ''build/include_what_you_use'' 4 (''Add #include '' @ header @ '' for '' @ entity))"

lemma report_missing_calls: "report_missing fn ds = (map (iwyu_report fn) ds, Inr ())"
  by (induction ds) (auto simp: report_missing_def iwyu_report_def report_def seq_def bind_def ret_def)

text \<open>The headers the file includes itself, and those its module's headers add.\<close>

definition own_includes :: "include_state \<Rightarrow> include_dict" where
  "own_includes st = fold (\<lambda>(k, v). AList.update k v) (concat (include_list st)) []"

definition module_run :: "opts \<Rightarrow> world \<Rightarrow> (string \<Rightarrow> string list option) \<Rightarrow> string \<Rightarrow> include_state \<Rightarrow> (bool \<times> include_dict) run" where
  "module_run o' w read_header fn st = module_headers o' w read_header
     (ReplaceAll (raw ''_flymake`.cc$'') ''.cc'' (FullName w fn)) (map fst (own_includes st)) (own_includes st) False"

lemma setdefault_keeps: "h \<in> fst ` set dict \<Longrightarrow> h \<in> fst ` set (setdefault k v dict)"
  by (auto simp: setdefault_def)

lemma UpdateIncludeState_keeps:
  assumes "h \<in> fst ` set dict"
  shows "h \<in> fst ` set (snd (UpdateIncludeState read_header filename dict))"
proof -
  have "h \<in> fst ` set (fold (\<lambda>(linenum, line) dict.
      case Search PATTERN_INCLUDE (CleanseComments line) of
        None \<Rightarrow> dict | Some m \<Rightarrow> setdefault (group m 2) (linenum + 1) dict) ls dict)" for ls :: "(int \<times> string) list"
    by (rule fold_invariant [where P = "\<lambda>d. h \<in> fst ` set d" and Q = "\<lambda>_. True"])
      (simp_all add: assms setdefault_keeps split: option.splits prod.splits)
  then show ?thesis using assms by (auto simp: UpdateIncludeState_def split: option.splits)
qed

lemma module_headers_keeps:
  "module_headers o' w rh fn hs dict b = ret (hf, dict') \<Longrightarrow> h \<in> fst ` set dict \<Longrightarrow> h \<in> fst ` set dict'"
proof (induction hs arbitrary: dict b)
  case (Cons header hs)
  from Cons.prems(1) obtain same path where m: "FilesBelongToSameModule o' w fn header = ret (same, path)"
    by (auto simp: bind_eq_ret_conv)
  show ?case
  proof (cases same)
    case True
    obtain opened d where u: "UpdateIncludeState rh (path @ header) dict = (opened, d)" by fastforce
    with UpdateIncludeState_keeps [OF Cons.prems(2), of rh "path @ header"] have "h \<in> fst ` set d" by simp
    with Cons m u True show ?thesis by simp
  qed (use Cons m in simp)
qed simp

lemma own_includes_count:
  "module_run o' w rh fn st = ret (hf, dict) \<Longrightarrow> h \<in> fst ` set (own_includes st) \<Longrightarrow> h \<in> fst ` set dict"
  unfolding module_run_def by (rule module_headers_keeps)

definition source_name :: "opts \<Rightarrow> string \<Rightarrow> bool" where
  "source_name o' fn \<longleftrightarrow> list_ex (\<lambda>extension. endswith fn (''.'' @ extension)) (GetNonHeaderExtensions o')"

lemma iwyu_unfold:
  "CheckForIncludeWhatYouUse o' w rh fn cl st =
    bind (module_run o' w rh fn st) (\<lambda>(header_found, dict).
      if \<not> header_found \<and> source_name o' fn then ret ()
      else report_missing fn (missing_headers (required_headers cl) dict))"
  by (simp add: CheckForIncludeWhatYouUse_def module_run_def own_includes_def source_name_def Let_def)

section \<open>The property\<close>

text \<open>C12. What \<open>CheckForIncludeWhatYouUse\<close> reports, once the headers of the module are read: nothing for a
  source file without a readable header of its own; otherwise one report for each header that some line
  demands and that neither the file nor its module's headers include, in the order of the lines, at the line
  and for the entity of the last demand. What the file includes itself is never reported.\<close>

theorem iwyu_exact:
  assumes "module_run o' w rh fn st = ret (header_found, dict)"
  shows "if \<not> header_found \<and> source_name o' fn
    then CheckForIncludeWhatYouUse o' w rh fn cl st = ret ()
    else \<exists>missing. CheckForIncludeWhatYouUse o' w rh fn cl st = (map (iwyu_report fn) missing, Inr ()) \<and>
      distinct (map fst missing) \<and> sorted (map snd missing) \<and>
      (\<forall>h n e. (h, n, e) \<in> set missing \<longleftrightarrow>
        map_of (rev (file_demands cl)) h = Some (n, e) \<and> strip_brackets h \<notin> fst ` set dict) \<and>
      (\<forall>h v. (h, v) \<in> set missing \<longrightarrow> strip_brackets h \<notin> fst ` set (own_includes st))"
proof -
  have "\<exists>missing. report_missing fn (missing_headers (required_headers cl) dict) = (map (iwyu_report fn) missing, Inr ()) \<and>
      distinct (map fst missing) \<and> sorted (map snd missing) \<and>
      (\<forall>h n e. (h, n, e) \<in> set missing \<longleftrightarrow>
        map_of (rev (file_demands cl)) h = Some (n, e) \<and> strip_brackets h \<notin> fst ` set dict) \<and>
      (\<forall>h v. (h, v) \<in> set missing \<longrightarrow> strip_brackets h \<notin> fst ` set (own_includes st))"
    by (intro exI [of _ "missing_headers (required_headers cl) dict"])
      (use own_includes_count [OF assms] in \<open>auto simp: report_missing_calls missing_distinct missing_sorted missing_exact\<close>)
  then show ?thesis by (simp add: iwyu_unfold assms)
qed

definition sample_lines :: cleansed where
  "sample_lines = \<lparr>elided = [''#include <vector>'', ''std::map<int, vector<int> > m;''], line_list = [], raw_lines = [],
     num_lines = 2, lines_without_raw_strings = []\<rparr>"

definition sample_opts :: opts where
  "sample_opts = \<lparr>root = [], repository = [], hpp_headers = [], valid_extensions = [], max_line_length = 80\<rparr>"

definition sample_includes :: include_state where
  "sample_includes = init_include_state\<lparr>include_list := [[(''vector'', 0)]]\<rparr>"

lemma sample_module:
  "module_run sample_opts \<lparr>exists = (\<lambda>p. False), cwd = ''/p''\<rparr> (\<lambda>_. None) ''a.h'' sample_includes = ret (False, [(''vector'', 0)])"
  "\<not> source_name sample_opts ''a.h''"
  by code_simp+

lemma sample_demands: "file_demands sample_lines = [(''<map>'', 1, ''map<>''), (''<vector>'', 1, ''vector<>'')]"
  by code_simp

theorem iwyu_exact_witness:
  "\<exists>missing. CheckForIncludeWhatYouUse sample_opts \<lparr>exists = (\<lambda>p. False), cwd = ''/p''\<rparr> (\<lambda>_. None) ''a.h'' sample_lines
      sample_includes = (map (iwyu_report ''a.h'') missing, Inr ()) \<and> (''<map>'', 1, ''map<>'') \<in> set missing"
  using iwyu_exact [OF sample_module(1), of sample_lines]
  by (auto simp: sample_module(2) sample_demands strip_brackets_def rstrip_by_def lstrip_by_def)

end
