(* ===== verification/Tidy.thy ===== *)
theory Tidy
  imports Paths "HOL-Library.Multiset"
begin

text \<open>
  \<open>run_clang_tidy.py\<close> and \<open>run_clang_tidy_extra.py\<close>: the search for the compilation database, the
  command line of one clang-tidy call, and the main program as a step relation of the main thread and
  the worker threads over the bounded task queue. What the tools answer is a parameter: \<open>exit_of f\<close> is
  the return code of clang-tidy on the file \<open>f\<close>, \<open>decodes f\<close> whether its output is UTF-8. A keyboard
  interrupt, which kills the process group, is not modelled.
\<close>

section \<open>\<open>CheckConfig\<close>\<close>

definition ignore_pats :: "string list" where
  "ignore_pats = [''.*/third_party/.*'']"

definition should_skip :: "string \<Rightarrow> bool" where
  "should_skip path \<longleftrightarrow> list_ex (\<lambda>pat. matches pat path) ignore_pats"

section \<open>The compilation database\<close>

text \<open>The loop may not end: it leaves only at a directory with the file or at the root.\<close>

partial_function (option) database_loop ::
  "(string \<Rightarrow> bool) \<Rightarrow> (string \<Rightarrow> string) \<Rightarrow> string \<Rightarrow> string \<Rightarrow> (exc + string) option" where
  "database_loop isfile realpath path dir =
     (if isfile (path_join2 dir path) then Some (Inr (realpath dir))
      else if realpath dir = ''/'' then Some (Inl (SystemExit 1))
      else database_loop isfile realpath path (dir @ ''../''))"

declare database_loop.simps [code]

definition find_compilation_database ::
  "(string \<Rightarrow> bool) \<Rightarrow> (string \<Rightarrow> string) \<Rightarrow> string \<Rightarrow> (exc + string) option" where
  "find_compilation_database isfile realpath path = database_loop isfile realpath path ''./''"

definition make_absolute :: "string \<Rightarrow> string \<Rightarrow> string" where
  "make_absolute f directory = (if startswith f ''/'' then f else normpath (path_join2 directory f))"

section \<open>Command lines\<close>

record tidy_args =
  clang_tidy_binary :: string
  clang_apply_replacements_binary :: string
  checks :: string            \<comment> \<open>empty when not given\<close>
  config :: string            \<comment> \<open>empty when not given\<close>
  header_filter :: "string option"
  export_fixes :: string      \<comment> \<open>empty when not given\<close>
  jobs :: int
  file_patterns :: "string list"
  fix_it :: bool
  format_after :: bool
  style :: string
  extra_arg :: "string list"
  extra_arg_before :: "string list"
  quiet_run :: bool
  build_path_arg :: "string option"

text \<open>The name of the temporary file, when there is a temporary directory, is an argument.\<close>

definition get_tidy_invocation :: "string \<Rightarrow> tidy_args \<Rightarrow> string option \<Rightarrow> string \<Rightarrow> string list" where
  "get_tidy_invocation f args tmpfile build_path =
     [clang_tidy_binary args]
     @ (case header_filter args of None \<Rightarrow> [] | Some h \<Rightarrow> [''-header-filter='' @ h])
     @ (if checks args \<noteq> [] then [''-checks='' @ checks args] else [])
     @ (case tmpfile of None \<Rightarrow> [] | Some name \<Rightarrow> [''-export-fixes'', name])
     @ map (\<lambda>arg. ''-extra-arg='' @ arg) (extra_arg args)
     @ map (\<lambda>arg. ''-extra-arg-before='' @ arg) (extra_arg_before args)
     @ [''-p='' @ build_path]
     @ (if quiet_run args then [''-quiet''] else [])
     @ (if config args \<noteq> [] then [''-config='' @ config args] else [])
     @ [f]"

text \<open>\<open>merge_replacement_files\<close>: the module \<open>yaml\<close> is not imported, so the first replacement file stops
  it with a \<open>NameError\<close>; without one it empties the output file, if it can be opened for writing.\<close>

definition merge_replacement_files :: "(string \<Rightarrow> bool) \<Rightarrow> string list \<Rightarrow> string \<Rightarrow> exc + unit" where
  "merge_replacement_files writable yaml_files mergefile =
     (case yaml_files of
        [] \<Rightarrow> if writable mergefile then Inr () else Inl OSError
      | replacefile # _ \<Rightarrow> Inl NameError)"

definition apply_fixes :: "tidy_args \<Rightarrow> string \<Rightarrow> string list" where
  "apply_fixes args tmpdir =
     [clang_apply_replacements_binary args]
     @ (if format_after args then [''-format''] else [])
     @ (if style args \<noteq> [] then [''-style='' @ style args] else [])
     @ [tmpdir]"

text \<open>The call that tests the clang-tidy binary before the database is read.\<close>

definition list_checks_invocation :: "tidy_args \<Rightarrow> string \<Rightarrow> string list" where
  "list_checks_invocation args build_path =
     [clang_tidy_binary args, ''-list-checks'', ''-p='' @ build_path]
     @ (if checks args \<noteq> [] then [''-checks='' @ checks args] else [])
     @ [''-'']"

section \<open>The threads\<close>

text \<open>
  The main thread puts the files into the bounded queue; a worker takes one and checks it. A worker in
  which \<open>output.decode('utf-8')\<close> raises is dead: it never calls \<open>task_done\<close> for the file it had.
\<close>

datatype worker = Idle | Checking string | Dead

record tidy_state =
  to_put :: "string list"          \<comment> \<open>the rest of \<open>files\<close> in the main thread's loop\<close>
  task_queue :: "string list"
  workers :: "worker list"
  failed_files :: "string list"

definition tidy_init :: "int \<Rightarrow> string list \<Rightarrow> tidy_state" where
  "tidy_init max_task files =
     \<lparr>to_put = files, task_queue = [], workers = replicate (nat max_task) Idle, failed_files = []\<rparr>"

definition files_re :: "tidy_args \<Rightarrow> string" where
  "files_re args = join ''|'' (file_patterns args)"

text \<open>\<open>queue.Queue(maxsize)\<close> has no bound when \<open>maxsize\<close> is not positive.\<close>

definition has_room :: "int \<Rightarrow> string list \<Rightarrow> bool" where
  "has_room max_task q \<longleftrightarrow> max_task \<le> 0 \<or> int (length q) < max_task"

definition fails :: "(string \<Rightarrow> int) \<Rightarrow> string \<Rightarrow> bool" where
  "fails exit_of f \<longleftrightarrow> \<not> should_skip f \<and> exit_of f \<noteq> 0"

text \<open>\<open>completes\<close>: the body of \<open>run_tidy\<close> reaches \<open>task_done\<close>; \<open>run_tidy\<close>: what it does to the failed
  files after \<open>queue.get()\<close>.\<close>

definition completes :: "(string \<Rightarrow> bool) \<Rightarrow> string \<Rightarrow> bool" where
  "completes decodes f \<longleftrightarrow> should_skip f \<or> decodes f"

definition run_tidy :: "(string \<Rightarrow> int) \<Rightarrow> string \<Rightarrow> string list \<Rightarrow> string list" where
  "run_tidy exit_of name failed = (if fails exit_of name then failed @ [name] else failed)"

inductive tidy_step ::
  "tidy_args \<Rightarrow> int \<Rightarrow> (string \<Rightarrow> int) \<Rightarrow> (string \<Rightarrow> bool) \<Rightarrow> tidy_state \<Rightarrow> tidy_state \<Rightarrow> bool"
  for args max_task exit_of decodes where
  put: "to_put s = f # fs \<Longrightarrow> found (files_re args) f \<Longrightarrow> has_room max_task (task_queue s) \<Longrightarrow>
    tidy_step args max_task exit_of decodes s (s\<lparr>to_put := fs, task_queue := task_queue s @ [f]\<rparr>)"
| spin: "to_put s = f # fs \<Longrightarrow> \<not> found (files_re args) f \<Longrightarrow>
    tidy_step args max_task exit_of decodes s s"
| full: "to_put s = f # fs \<Longrightarrow> found (files_re args) f \<Longrightarrow> \<not> has_room max_task (task_queue s) \<Longrightarrow>
    tidy_step args max_task exit_of decodes s s"
| take: "task_queue s = f # q \<Longrightarrow> i < length (workers s) \<Longrightarrow> workers s ! i = Idle \<Longrightarrow>
    tidy_step args max_task exit_of decodes s (s\<lparr>task_queue := q, workers := (workers s)[i := Checking f]\<rparr>)"
| finish: "i < length (workers s) \<Longrightarrow> workers s ! i = Checking f \<Longrightarrow> completes decodes f \<Longrightarrow>
    tidy_step args max_task exit_of decodes s
      (s\<lparr>workers := (workers s)[i := Idle], failed_files := run_tidy exit_of f (failed_files s)\<rparr>)"
| die: "i < length (workers s) \<Longrightarrow> workers s ! i = Checking f \<Longrightarrow> \<not> completes decodes f \<Longrightarrow>
    tidy_step args max_task exit_of decodes s
      (s\<lparr>workers := (workers s)[i := Dead], failed_files := run_tidy exit_of f (failed_files s)\<rparr>)"

text \<open>\<open>task_queue.join()\<close> returns when every task put was marked done: none is queued, none is being
  checked, and no worker died with one.\<close>

definition joined :: "tidy_state \<Rightarrow> bool" where
  "joined s \<longleftrightarrow> to_put s = [] \<and> task_queue s = [] \<and> list_all (\<lambda>w. w = Idle) (workers s)"

section \<open>The main program\<close>

text \<open>
  What the program meets outside: the file system of \<open>find_compilation_database\<close>, whether a command can
  be run (\<open>check_call\<close> and \<open>call\<close> do not raise), the entries of the database (the keys \<open>file\<close> and
  \<open>directory\<close>), the number of processors, what a run of clang-tidy returns and whether its output decodes, the names
  of the temporary directory and of the temporary file of a check, the replacement files found, and
  which files can be written.
\<close>

record tidy_env =
  env_isfile :: "string \<Rightarrow> bool"
  env_realpath :: "string \<Rightarrow> string"
  env_succeeds :: "string list \<Rightarrow> bool"    \<comment> \<open>\<open>check_call\<close> returns: it starts and exits with 0\<close>
  env_starts :: "string list \<Rightarrow> bool"      \<comment> \<open>\<open>call\<close> returns: it starts\<close>
  env_database :: "string \<Rightarrow> exc + (string \<times> string) list"
  env_cpus :: int
  env_exit :: "string list \<Rightarrow> int"
  env_decodes :: "string list \<Rightarrow> bool"
  env_tmpdir :: string
  env_tmpfile :: "string \<Rightarrow> string"
  env_yaml_files :: "string list"
  env_writable :: "string \<Rightarrow> bool"           \<comment> \<open>can the file be opened for writing\<close>

definition db_path :: string where
  "db_path = ''compile_commands.json''"

definition locate_database :: "tidy_args \<Rightarrow> tidy_env \<Rightarrow> (exc + string) option" where
  "locate_database args env =
     (case build_path_arg args of Some p \<Rightarrow> Some (Inr p)
      | None \<Rightarrow> find_compilation_database (env_isfile env) (env_realpath env) db_path)"

definition needs_tmpdir :: "tidy_args \<Rightarrow> bool" where
  "needs_tmpdir args \<longleftrightarrow> fix_it args \<or> export_fixes args \<noteq> []"

definition check_clang_apply_replacements_binary :: "tidy_args \<Rightarrow> tidy_env \<Rightarrow> exc + unit" where
  "check_clang_apply_replacements_binary args env =
     (if env_succeeds env [clang_apply_replacements_binary args, ''--version''] then Inr ()
      else Inl (SystemExit 1))"

text \<open>From the options to the start of the threads: the files of the database and the number of workers.\<close>

definition tidy_prepare :: "tidy_args \<Rightarrow> tidy_env \<Rightarrow> string \<Rightarrow> exc + (string list \<times> int)" where
  "tidy_prepare args env build_path =
     (if \<not> env_succeeds env (list_checks_invocation args build_path) then Inl (SystemExit 1)
      else
        (case env_database env (path_join2 build_path db_path) of Inl e \<Rightarrow> Inl e
         | Inr database \<Rightarrow>
             (let files = map (\<lambda>(f, directory). make_absolute f directory) database;
                  max_task = (if jobs args = 0 then env_cpus env else jobs args) in
              case (if needs_tmpdir args then check_clang_apply_replacements_binary args env else Inr ()) of
                Inl e \<Rightarrow> Inl e
              | Inr _ \<Rightarrow> (if re_compile (files_re args) = None then Inl ReError else Inr (files, max_task)))))"

text \<open>The exit code after the join: the failures, then the two optional steps on the fixes.\<close>

definition tidy_exit_code :: "tidy_args \<Rightarrow> tidy_env \<Rightarrow> tidy_state \<Rightarrow> int" where
  "tidy_exit_code args env s =
     (let return_code = (if failed_files s \<noteq> [] then 1 else 0);
          return_code = (if export_fixes args \<noteq> [] then
              (case merge_replacement_files (env_writable env) (env_yaml_files env) (export_fixes args) of Inl e \<Rightarrow> 1 | Inr _ \<Rightarrow> return_code)
            else return_code) in
      if fix_it args \<and> \<not> env_starts env (apply_fixes args (env_tmpdir env)) then 1 else return_code)"

text \<open>The command a worker runs on a file, its return code, and whether its output decodes.\<close>

definition worker_command :: "tidy_args \<Rightarrow> tidy_env \<Rightarrow> string \<Rightarrow> string \<Rightarrow> string list" where
  "worker_command args env build_path f =
     get_tidy_invocation f args (if needs_tmpdir args then Some (env_tmpfile env f) else None) build_path"

definition tidy_code :: "tidy_args \<Rightarrow> tidy_env \<Rightarrow> string \<Rightarrow> string \<Rightarrow> int" where
  "tidy_code args env build_path f = env_exit env (worker_command args env build_path f)"

definition tidy_decodes :: "tidy_args \<Rightarrow> tidy_env \<Rightarrow> string \<Rightarrow> string \<Rightarrow> bool" where
  "tidy_decodes args env build_path f = env_decodes env (worker_command args env build_path f)"

text \<open>The code of the process: that of \<open>sys.exit\<close>, or 1 after an uncaught exception.\<close>

definition exit_status :: "exc \<Rightarrow> int" where
  "exit_status e = (case e of SystemExit n \<Rightarrow> n | _ \<Rightarrow> 1)"

inductive tidy_main :: "tidy_args \<Rightarrow> tidy_env \<Rightarrow> int \<Rightarrow> bool" for args env where
  no_database: "locate_database args env = Some (Inl e) \<Longrightarrow> tidy_main args env (exit_status e)"
| stopped: "locate_database args env = Some (Inr p) \<Longrightarrow> tidy_prepare args env p = Inl e \<Longrightarrow>
    tidy_main args env (exit_status e)"
| checked: "locate_database args env = Some (Inr p) \<Longrightarrow> tidy_prepare args env p = Inr (files, max_task) \<Longrightarrow>
    (tidy_step args max_task (tidy_code args env p) (tidy_decodes args env p))\<^sup>*\<^sup>* (tidy_init max_task files) s \<Longrightarrow>
    joined s \<Longrightarrow>
    tidy_main args env (tidy_exit_code args env s)"

inductive_cases tidy_stepE: "tidy_step args max_task exit_of decodes s s'"
inductive_cases tidy_mainE: "tidy_main args env c"

end
