(* ===== verification/Tidy_Facts.thy ===== *)
theory Tidy_Facts
  imports Tidy
begin

text \<open>
  What the main program of \<open>run_clang_tidy.py\<close> computes under every interleaving of its threads: the
  failures it collects are exactly the files clang-tidy fails on, it always finishes when every file
  of the database matches the file patterns and every output decodes, and never when one does not.
\<close>

definition worker_files :: "worker \<Rightarrow> string list" where
  "worker_files w = (case w of Checking f \<Rightarrow> [f] | _ \<Rightarrow> [])"

lemma worker_files_simps [simp]:
  "worker_files Idle = []" "worker_files (Checking f) = [f]" "worker_files Dead = []"
  by (simp_all add: worker_files_def)

definition taken :: "worker list \<Rightarrow> string list" where
  "taken ws = concat (map worker_files ws)"

lemma taken_set:
  "i < length ws \<Longrightarrow> mset (taken (ws[i := w])) + mset (worker_files (ws ! i)) =
    mset (taken ws) + mset (worker_files w)"
proof (induction ws arbitrary: i)
  case (Cons x xs)
  then show ?case by (cases i) (simp_all add: taken_def)
qed simp

lemma mset_taken_take:
  "i < length ws \<Longrightarrow> ws ! i = Idle \<Longrightarrow> mset (taken (ws[i := Checking f])) = add_mset f (mset (taken ws))"
  using taken_set [of i ws "Checking f"] by simp

lemma mset_taken_leave:
  "i < length ws \<Longrightarrow> ws ! i = Checking f \<Longrightarrow> worker_files w = [] \<Longrightarrow>
    mset (taken ws) = add_mset f (mset (taken (ws[i := w])))"
  using taken_set [of i ws w] by simp

lemma taken_idle: "list_all (\<lambda>w. w = Idle) ws \<Longrightarrow> taken ws = []"
  by (induction ws) (simp_all add: taken_def)

lemma taken_replicate [simp]: "taken (replicate n Idle) = []"
  by (rule taken_idle) (simp add: list_all_iff)

lemma set_taken: "set (taken ws) = {f. Checking f \<in> set ws}"
  by (force simp: taken_def worker_files_def split: worker.splits)

text \<open>Everything that fails is in one of the four places.\<close>

definition account :: "(string \<Rightarrow> int) \<Rightarrow> tidy_state \<Rightarrow> string multiset" where
  "account exit_of s = mset (failed_files s) +
     filter_mset (fails exit_of) (mset (taken (workers s)) + mset (task_queue s) + mset (to_put s))"

lemma account_step:
  assumes "tidy_step args n exit_of decodes s s'"
  shows "account exit_of s' = account exit_of s"
  using assms
proof cases
  case (take f q i)
  then show ?thesis by (simp add: account_def mset_taken_take)
next
  case (finish i f)
  then show ?thesis by (simp add: account_def run_tidy_def mset_taken_leave [OF finish(2,3), of Idle])
next
  case (die i f)
  then show ?thesis by (simp add: account_def run_tidy_def mset_taken_leave [OF die(2,3), of Dead])
qed (simp_all add: account_def)

lemma account_run:
  "(tidy_step args n exit_of decodes)\<^sup>*\<^sup>* s s' \<Longrightarrow> account exit_of s' = account exit_of s"
  by (induction rule: rtranclp_induct) (simp_all add: account_step)

lemma joined_failures:
  "(tidy_step args n exit_of decodes)\<^sup>*\<^sup>* (tidy_init n files) s \<Longrightarrow> joined s \<Longrightarrow>
    mset (failed_files s) = filter_mset (fails exit_of) (mset files)"
  using account_run [of args n exit_of decodes "tidy_init n files" s] taken_idle [of "workers s"]
  by (simp add: account_def joined_def tidy_init_def)

section \<open>Runs that finish\<close>

definition tidy_measure :: "tidy_state \<Rightarrow> nat" where
  "tidy_measure s = 3 * length (to_put s) + 2 * length (task_queue s) + length (taken (workers s))"

text \<open>Every file still to do matches the patterns and its check completes, and no worker is dead.\<close>

definition smooth :: "tidy_args \<Rightarrow> (string \<Rightarrow> bool) \<Rightarrow> tidy_state \<Rightarrow> bool" where
  "smooth args decodes s \<longleftrightarrow>
     (\<forall>f \<in> set (to_put s). found (files_re args) f \<and> completes decodes f) \<and>
     (\<forall>f \<in> set (task_queue s). completes decodes f) \<and>
     (\<forall>f. Checking f \<in> set (workers s) \<longrightarrow> completes decodes f) \<and> Dead \<notin> set (workers s)"

lemma smooth_init:
  "\<forall>f \<in> set files. found (files_re args) f \<and> completes decodes f \<Longrightarrow> smooth args decodes (tidy_init n files)"
  by (simp add: smooth_def tidy_init_def)

lemma smooth_step:
  assumes "tidy_step args n exit_of decodes s s'" and "smooth args decodes s"
  shows "smooth args decodes s' \<and> length (workers s') = length (workers s)"
  using assms(1)
proof cases
  case (take f q i)
  with assms(2) show ?thesis by (auto simp: smooth_def dest!: set_update_subset_insert [THEN subsetD])
next
  case (finish i f)
  with assms(2) show ?thesis by (auto simp: smooth_def dest!: set_update_subset_insert [THEN subsetD])
next
  case (die i f)
  with assms(2) show ?thesis by (auto simp: smooth_def dest: nth_mem)
qed (use assms(2) in \<open>auto simp: smooth_def\<close>)

lemma smooth_run:
  "(tidy_step args n exit_of decodes)\<^sup>*\<^sup>* s s' \<Longrightarrow> smooth args decodes s \<Longrightarrow>
    smooth args decodes s' \<and> length (workers s') = length (workers s)"
  by (induction rule: rtranclp_induct) (auto dest: smooth_step)

text \<open>A step of a smooth state brings it nearer to the end, unless the queue was full for 300 seconds.\<close>

lemma tidy_step_decreases:
  assumes "tidy_step args n exit_of decodes s s'" and "smooth args decodes s"
  shows "tidy_measure s' < tidy_measure s \<or> s' = s \<and> \<not> has_room n (task_queue s)"
  using assms(1)
proof cases
  case (take f q i)
  with mset_taken_take [of i "workers s" f] show ?thesis
    by (auto simp: tidy_measure_def dest: arg_cong [where f = size])
next
  case (finish i f)
  with mset_taken_leave [of i "workers s" f Idle] show ?thesis
    by (auto simp: tidy_measure_def dest: arg_cong [where f = size])
next
  case (die i f)
  with mset_taken_leave [of i "workers s" f Dead] show ?thesis
    by (auto simp: tidy_measure_def dest: arg_cong [where f = size])
qed (use assms(2) in \<open>auto simp: tidy_measure_def smooth_def\<close>)

lemma tidy_progress:
  assumes "smooth args decodes s" and "\<not> joined s" and "0 < n" and "workers s \<noteq> []"
  shows "\<exists>s'. tidy_step args n exit_of decodes s s' \<and> s' \<noteq> s"
proof (cases "list_all (\<lambda>w. w = Idle) (workers s)")
  case False
  then obtain i where i: "i < length (workers s)" "workers s ! i \<noteq> Idle" by (auto simp: list_all_length)
  then have "workers s ! i \<in> set (workers s)" by simp
  with i assms(1) obtain f where f: "workers s ! i = Checking f"
    by (cases "workers s ! i") (auto simp: smooth_def)
  with i assms(1) have c: "completes decodes f" by (auto simp: smooth_def dest: nth_mem)
  have "workers s ! i \<noteq> (workers s)[i := Idle] ! i" using i f by simp
  then have "s\<lparr>workers := (workers s)[i := Idle], failed_files := run_tidy exit_of f (failed_files s)\<rparr> \<noteq> s"
    by (auto dest: arg_cong [where f = workers])
  with tidy_step.finish [OF i(1) f c] show ?thesis by blast
next
  case idle: True
  show ?thesis
  proof (cases "task_queue s")
    case (Cons f q)
    from idle assms(4) have "0 < length (workers s)" "workers s ! 0 = Idle" by (auto simp: list_all_length)
    note tidy_step.take [OF Cons this]
    moreover have "s\<lparr>task_queue := q, workers := (workers s)[0 := Checking f]\<rparr> \<noteq> s"
      using Cons by (auto dest: arg_cong [where f = task_queue])
    ultimately show ?thesis by blast
  next
    case Nil
    with idle assms(2) obtain f fs where "to_put s = f # fs" by (cases "to_put s") (auto simp: joined_def)
    moreover from this assms(1) have "found (files_re args) f" by (simp add: smooth_def)
    moreover from Nil assms(3) have "has_room n (task_queue s)" by (simp add: has_room_def)
    moreover have "s\<lparr>to_put := fs, task_queue := task_queue s @ [f]\<rparr> \<noteq> s"
      using Nil by (auto dest: arg_cong [where f = task_queue])
    ultimately show ?thesis by (blast intro: tidy_step.put)
  qed
qed

lemma smooth_reachable:
  assumes "(tidy_step args n exit_of decodes)\<^sup>*\<^sup>* (tidy_init n files) s" and "0 < n"
    and "\<forall>f \<in> set files. found (files_re args) f \<and> completes decodes f"
  shows "smooth args decodes s \<and> workers s \<noteq> []"
  using smooth_run [OF assms(1) smooth_init [OF assms(3)]] assms(2) by (auto simp: tidy_init_def)

text \<open>From a smooth state some run is joined: by induction on the measure.\<close>

lemma smooth_joins:
  "smooth args decodes s \<Longrightarrow> 0 < n \<Longrightarrow> workers s \<noteq> [] \<Longrightarrow>
    \<exists>s'. (tidy_step args n exit_of decodes)\<^sup>*\<^sup>* s s' \<and> joined s'"
proof (induction "tidy_measure s" arbitrary: s rule: less_induct)
  case less
  show ?case
  proof (cases "joined s")
    case False
    from tidy_progress [OF less.prems(1) False less.prems(2,3)] obtain s' where
      s': "tidy_step args n exit_of decodes s s'" "s' \<noteq> s" by blast
    with tidy_step_decreases [OF s'(1) less.prems(1)] smooth_step [OF s'(1) less.prems(1)] less.prems
    have "tidy_measure s' < tidy_measure s" "smooth args decodes s'" "workers s' \<noteq> []" by auto
    from less.hyps [OF this(1,2) less.prems(2) this(3)] s'(1) show ?thesis
      by (blast intro: converse_rtranclp_into_rtranclp)
  qed blast
qed

section \<open>Runs that never finish\<close>

text \<open>A file that does not match stays in front of the main thread's loop: \<open>put_file\<close> is never set. A
  file whose check does not complete leaves a dead worker. Without workers nothing leaves the queue.\<close>

lemma unmatched_step:
  "tidy_step args n exit_of decodes s s' \<Longrightarrow> f \<in> set (to_put s) \<Longrightarrow> \<not> found (files_re args) f \<Longrightarrow>
    f \<in> set (to_put s')"
  by (auto elim!: tidy_stepE)

definition owed :: "string \<Rightarrow> tidy_state \<Rightarrow> bool" where
  "owed f s \<longleftrightarrow> f \<in> set (to_put s) \<or> f \<in> set (task_queue s) \<or> Checking f \<in> set (workers s)"

lemma updated_keeps: "i < length ws \<Longrightarrow> ws ! i \<noteq> x \<Longrightarrow> x \<in> set ws \<Longrightarrow> x \<in> set (ws[i := w])"
  by (metis in_set_conv_nth length_list_update nth_list_update_neq)

lemma uncompleted_step:
  assumes "tidy_step args n exit_of decodes s s'" and "owed f s \<or> Dead \<in> set (workers s)"
    and "\<not> completes decodes f"
  shows "owed f s' \<or> Dead \<in> set (workers s')"
  using assms(1)
proof cases
  case (take g q i)
  with assms(2) show ?thesis by (auto simp: owed_def intro: updated_keeps set_update_memI)
next
  case (finish i g)
  with assms(2,3) show ?thesis by (auto simp: owed_def intro: updated_keeps set_update_memI)
next
  case (die i g)
  then show ?thesis by (auto intro: set_update_memI)
qed (use assms(2) in \<open>auto simp: owed_def\<close>)

lemma idle_step:
  "tidy_step args n exit_of decodes s s' \<Longrightarrow> workers s = [] \<Longrightarrow> owed f s \<Longrightarrow> workers s' = [] \<and> owed f s'"
  by (auto elim!: tidy_stepE simp: owed_def)

lemma never_joined:
  assumes "(tidy_step args n exit_of decodes)\<^sup>*\<^sup>* (tidy_init n files) s" and "f \<in> set files"
    and "\<not> found (files_re args) f \<or> \<not> completes decodes f \<or> n \<le> 0"
  shows "\<not> joined s"
  using assms(3)
proof (elim disjE)
  assume "\<not> found (files_re args) f"
  with assms(1) have "f \<in> set (to_put s)"
    by (induction rule: rtranclp_induct) (use assms(2) in \<open>auto simp: tidy_init_def dest: unmatched_step\<close>)
  then show ?thesis by (auto simp: joined_def)
next
  assume u: "\<not> completes decodes f"
  from assms(1) have "owed f s \<or> Dead \<in> set (workers s)"
  proof (induction rule: rtranclp_induct)
    case base
    then show ?case using assms(2) by (simp add: owed_def tidy_init_def)
  next
    case (step s s')
    from uncompleted_step [OF step(2,3) u] show ?case .
  qed
  then show ?thesis by (auto simp: joined_def owed_def list_all_iff)
next
  assume "n \<le> 0"
  with assms(1) have "workers s = [] \<and> owed f s"
    by (induction rule: rtranclp_induct) (use assms(2) in \<open>auto simp: owed_def tidy_init_def dest: idle_step\<close>)
  then show ?thesis by (auto simp: joined_def owed_def)
qed

section \<open>The properties\<close>

text \<open>One worker and one file, for the concrete runs below.\<close>

definition default_args :: "string list \<Rightarrow> tidy_args" where
  "default_args ps = \<lparr>clang_tidy_binary = ''clang-tidy'', clang_apply_replacements_binary = ''clang-apply-replacements'',
     checks = [], config = [], header_filter = None, export_fixes = [], jobs = 1, file_patterns = ps, fix_it = False,
     format_after = False, style = ''file'', extra_arg = [], extra_arg_before = [], quiet_run = False,
     build_path_arg = Some ''build''\<rparr>"

definition sample_env :: "(string list \<Rightarrow> int) \<Rightarrow> (string list \<Rightarrow> bool) \<Rightarrow> tidy_env" where
  "sample_env exit_of decodes = \<lparr>env_isfile = (\<lambda>_. False), env_realpath = (\<lambda>d. d), env_succeeds = (\<lambda>_. True),
     env_starts = (\<lambda>_. True),
     env_database = (\<lambda>p. if p = ''build/compile_commands.json'' then Inr [(''a.cpp'', ''/w''), (''/w/b.cpp'', ''/w'')]
       else Inl KeyError), env_cpus = 4, env_exit = exit_of, env_decodes = decodes, env_tmpdir = ''/tmp/t'',
     env_tmpfile = (\<lambda>f. ''/tmp/t/x.yaml''),
     env_yaml_files = [], env_writable = (\<lambda>_. True)\<rparr>"

lemma sample_located: "locate_database (default_args ps) env = Some (Inr ''build'')"
  by (simp add: locate_database_def default_args_def)

lemma sample_prepared:
  "tidy_prepare (default_args [''.*'']) (sample_env exit_of decodes) ''build'' = Inr ([''/w/a.cpp'', ''/w/b.cpp''], 1)"
  "tidy_prepare (default_args [''/src/'']) (sample_env exit_of decodes) ''build'' = Inr ([''/w/a.cpp'', ''/w/b.cpp''], 1)"
  by code_simp+

lemma sample_found:
  "found (files_re (default_args [''.*''])) ''/w/a.cpp''" "found (files_re (default_args [''.*''])) ''/w/b.cpp''"
  "\<not> found (files_re (default_args [''/src/''])) ''/w/a.cpp''"
  by code_simp+

lemma sample_kept: "\<not> should_skip ''/w/a.cpp''" "\<not> should_skip ''/w/b.cpp''"
  by code_simp+

lemma one_file_run:
  assumes "found (files_re args) f" and "completes decodes f"
  shows "(tidy_step args 1 exit_of decodes)\<^sup>*\<^sup>* (tidy_init 1 [f])
    \<lparr>to_put = [], task_queue = [], workers = [Idle], failed_files = run_tidy exit_of f []\<rparr>"
proof -
  have 1: "tidy_step args 1 exit_of decodes (tidy_init 1 [f])
      \<lparr>to_put = [], task_queue = [f], workers = [Idle], failed_files = []\<rparr>"
    using tidy_step.put [of "tidy_init 1 [f]" f "[]" args 1 exit_of] assms by (simp add: tidy_init_def has_room_def)
  have 2: "tidy_step args 1 exit_of decodes \<lparr>to_put = [], task_queue = [f], workers = [Idle], failed_files = []\<rparr>
      \<lparr>to_put = [], task_queue = [], workers = [Checking f], failed_files = []\<rparr>"
    using tidy_step.take [of "\<lparr>to_put = [], task_queue = [f], workers = [Idle], failed_files = []\<rparr>" f "[]" 0] by simp
  have 3: "tidy_step args 1 exit_of decodes \<lparr>to_put = [], task_queue = [], workers = [Checking f], failed_files = []\<rparr>
      \<lparr>to_put = [], task_queue = [], workers = [Idle], failed_files = run_tidy exit_of f []\<rparr>"
    using assms(2) tidy_step.finish [of 0 "\<lparr>to_put = [], task_queue = [], workers = [Checking f], failed_files = []\<rparr>" f]
    by simp
  from 1 2 3 show ?thesis by (meson rtranclp.rtrancl_into_rtrancl rtranclp.rtrancl_refl)
qed

text \<open>C11. Whatever the interleaving of the workers, when the queue is joined the failed files are exactly
  those of the database that are not skipped and on which clang-tidy returns a nonzero code.\<close>

theorem tidy_failures_exact:
  assumes "(tidy_step args n exit_of decodes)\<^sup>*\<^sup>* (tidy_init n files) s" and "joined s"
  shows "mset (failed_files s) = filter_mset (fails exit_of) (mset files)"
  by (rule joined_failures [OF assms])

theorem tidy_failures_exact_witness:
  "mset (failed_files \<lparr>to_put = [], task_queue = [], workers = [Idle], failed_files = run_tidy (\<lambda>_. 1) ''/w/a.cpp'' []\<rparr>) =
    filter_mset (fails (\<lambda>_. 1)) (mset [''/w/a.cpp''])"
  by (rule tidy_failures_exact [OF one_file_run [OF sample_found(1), of "\<lambda>_. True"]])
    (simp_all add: joined_def completes_def)

text \<open>C21. When there is a worker, every file matches the file patterns and every output decodes, no
  reachable state is stuck before the join: some step makes progress, and every step does, or it is the
  main thread that found the queue full and tries again.\<close>

theorem tidy_finishes:
  assumes "(tidy_step args n exit_of decodes)\<^sup>*\<^sup>* (tidy_init n files) s" and "0 < n"
    and "\<forall>f \<in> set files. found (files_re args) f \<and> completes decodes f"
  shows "(joined s \<or> (\<exists>s'. tidy_step args n exit_of decodes s s' \<and> tidy_measure s' < tidy_measure s)) \<and>
    (\<forall>s'. tidy_step args n exit_of decodes s s' \<longrightarrow>
      tidy_measure s' < tidy_measure s \<or> s' = s \<and> \<not> has_room n (task_queue s))"
  using smooth_reachable [OF assms] tidy_progress [of args decodes s n exit_of] tidy_step_decreases assms(2) by metis

theorem tidy_finishes_witness:
  "joined (tidy_init 1 [''/w/a.cpp'']) \<or>
    (\<exists>s'. tidy_step (default_args [''.*'']) 1 (\<lambda>_. 0) (\<lambda>_. True) (tidy_init 1 [''/w/a.cpp'']) s' \<and>
      tidy_measure s' < tidy_measure (tidy_init 1 [''/w/a.cpp'']))"
  using tidy_finishes [of "default_args [''.*'']" 1 "\<lambda>_. 0" "\<lambda>_. True" "[''/w/a.cpp'']" "tidy_init 1 [''/w/a.cpp'']"]
    sample_found(1) by (simp add: completes_def)

text \<open>C10. The program from its options to its exit code, under every interleaving: when the database is
  found, clang-tidy runs, there is a worker, every file matches the patterns, every output decodes, no
  fixes are exported and the fixes asked for can be applied, it ends with exactly one code: 1 if clang-tidy
  fails on a file that is not skipped, 0 otherwise.\<close>

theorem tidy_main_verdict:
  assumes "locate_database args env = Some (Inr p)" and "tidy_prepare args env p = Inr (files, n)" and "0 < n"
    and "\<forall>f \<in> set files. found (files_re args) f \<and> completes (tidy_decodes args env p) f"
    and "export_fixes args = []" and "fix_it args \<longrightarrow> env_starts env (apply_fixes args (env_tmpdir env))"
  shows "tidy_main args env c \<longleftrightarrow> c = (if \<exists>f \<in> set files. fails (tidy_code args env p) f then 1 else 0)"
proof -
  let ?steps = "(tidy_step args n (tidy_code args env p) (tidy_decodes args env p))\<^sup>*\<^sup>*"
  have code: "tidy_exit_code args env s = (if \<exists>f \<in> set files. fails (tidy_code args env p) f then 1 else 0)"
    if "?steps (tidy_init n files) s" and "joined s" for s
  proof -
    from joined_failures [OF that] have "failed_files s = [] \<longleftrightarrow> filter_mset (fails (tidy_code args env p)) (mset files) = {#}"
      by (metis mset_zero_iff)
    also have "\<dots> \<longleftrightarrow> \<not> (\<exists>f \<in> set files. fails (tidy_code args env p) f)" by (simp flip: mset_filter add: filter_empty_conv)
    finally show ?thesis using assms(5,6) by (auto simp: tidy_exit_code_def Let_def)
  qed
  have "smooth args (tidy_decodes args env p) (tidy_init n files)" by (rule smooth_init [OF assms(4)])
  moreover have "workers (tidy_init n files) \<noteq> []" using assms(3) by (simp add: tidy_init_def)
  ultimately obtain s where "?steps (tidy_init n files) s" "joined s" using smooth_joins assms(3) by blast
  with code tidy_main.checked [OF assms(1,2)] have "tidy_main args env c"
    if "c = (if \<exists>f \<in> set files. fails (tidy_code args env p) f then 1 else 0)" using that by metis
  moreover from assms(1,2) code have "c = (if \<exists>f \<in> set files. fails (tidy_code args env p) f then 1 else 0)"
    if "tidy_main args env c" using that by (auto elim!: tidy_mainE)
  ultimately show ?thesis by blast
qed

theorem tidy_main_verdict_witness:
  "tidy_main (default_args [''.*''])
    (sample_env (\<lambda>cmd. if cmd = [''clang-tidy'', ''-p=build'', ''/w/b.cpp''] then 1 else 0) (\<lambda>_. True)) 1"
proof -
  let ?args = "default_args [''.*'']"
  let ?env = "sample_env (\<lambda>cmd. if cmd = [''clang-tidy'', ''-p=build'', ''/w/b.cpp''] then 1 else 0) (\<lambda>_. True)"
  have "tidy_main ?args ?env 1 \<longleftrightarrow>
      (1::int) = (if \<exists>f \<in> set [''/w/a.cpp'', ''/w/b.cpp'']. fails (tidy_code ?args ?env ''build'') f then 1 else 0)"
    by (rule tidy_main_verdict [OF sample_located sample_prepared(1)])
      (use sample_found in \<open>simp_all add: completes_def tidy_decodes_def sample_env_def default_args_def\<close>)
  then show ?thesis using sample_kept
    by (simp add: fails_def sample_env_def default_args_def tidy_code_def worker_command_def get_tidy_invocation_def
        needs_tmpdir_def)
qed

text \<open>C22. The program never ends, under any interleaving, once the threads are started with a file in the
  database that does not match the file patterns, with a file that is not skipped and on which the output
  of clang-tidy is not UTF-8, or with any file when the number of jobs is negative.\<close>

theorem tidy_main_hangs:
  assumes "locate_database args env = Some (Inr p)" and "tidy_prepare args env p = Inr (files, n)"
    and "f \<in> set files"
    and "\<not> found (files_re args) f \<or> \<not> should_skip f \<and> \<not> tidy_decodes args env p f \<or> n \<le> 0"
  shows "\<not> tidy_main args env c"
proof
  assume "tidy_main args env c"
  with assms(1,2) obtain s where
    "(tidy_step args n (tidy_code args env p) (tidy_decodes args env p))\<^sup>*\<^sup>* (tidy_init n files) s" "joined s"
    by (auto elim!: tidy_mainE)
  with never_joined assms(3,4) show False by (metis completes_def)
qed

theorem tidy_main_hangs_witness:
  "\<not> tidy_main (default_args [''/src/'']) (sample_env (\<lambda>_. 0) (\<lambda>_. True)) 0"
  by (rule tidy_main_hangs [OF sample_located sample_prepared(2), of "''/w/a.cpp''"]) (use sample_found(3) in simp_all)

section \<open>The compilation database\<close>

definition up :: "nat \<Rightarrow> string" where
  "up k = ''./'' @ concat (replicate k ''../'')"

lemma up_Suc: "up (Suc k) = up k @ ''../''"
proof -
  have "concat (replicate (Suc k) xs) = concat (replicate k xs) @ xs" for xs :: string
    by (induction k) simp_all
  then show ?thesis by (simp add: up_def)
qed

lemma database_loop_from:
  "(\<forall>j. i \<le> j \<and> j < k \<longrightarrow> \<not> isfile (path_join2 (up j) path) \<and> realpath (up j) \<noteq> ''/'') \<Longrightarrow> i \<le> k \<Longrightarrow>
    isfile (path_join2 (up k) path) \<or> realpath (up k) = ''/'' \<Longrightarrow>
    database_loop isfile realpath path (up i) =
      Some (if isfile (path_join2 (up k) path) then Inr (realpath (up k)) else Inl (SystemExit 1))"
proof (induction "k - i" arbitrary: i)
  case 0
  then have "i = k" by simp
  with 0 show ?case by (subst database_loop.simps) auto
next
  case (Suc d)
  then have "i < k" by simp
  with Suc.prems have "database_loop isfile realpath path (up i) = database_loop isfile realpath path (up (Suc i))"
    by (subst database_loop.simps) (auto simp: up_Suc)
  with Suc.hyps(1) [of "Suc i"] Suc.hyps(2) Suc.prems \<open>i < k\<close> show ?case by simp
qed

text \<open>C28. If some number of steps up from the working directory leads to the root or to a directory with
  the database, \<open>find_compilation_database\<close> returns: the nearest directory with the file, or exit code 1
  when the root comes first.\<close>

theorem find_compilation_database_nearest:
  assumes "isfile (path_join2 (up k) path) \<or> realpath (up k) = ''/''"
    and "\<forall>j < k. \<not> isfile (path_join2 (up j) path) \<and> realpath (up j) \<noteq> ''/''"
  shows "find_compilation_database isfile realpath path =
    Some (if isfile (path_join2 (up k) path) then Inr (realpath (up k)) else Inl (SystemExit 1))"
  using database_loop_from [of 0 k isfile path realpath] assms
  by (simp add: find_compilation_database_def up_def)

theorem find_compilation_database_nearest_witness:
  "find_compilation_database (\<lambda>f. f = ''./../db.json'') (\<lambda>d. if d = ''./../'' then ''/work'' else ''/work/src'') ''db.json'' =
    Some (Inr ''/work'')"
  using find_compilation_database_nearest [of "\<lambda>f. f = ''./../db.json''" 1 "''db.json''"
      "\<lambda>d. if d = ''./../'' then ''/work'' else ''/work/src''"]
  by (simp add: up_def path_join2_def startswith_def endswith_def suffix_to_prefix)

section \<open>Exported fixes\<close>

text \<open>Exporting fixes fails as soon as clang-tidy wrote one, or when the output file cannot be written: the
  exit code is 1 even when every file passed.\<close>

theorem export_fixes_always_fails:
  assumes "export_fixes args \<noteq> []" and "env_yaml_files env \<noteq> [] \<or> \<not> env_writable env (export_fixes args)"
  shows "tidy_exit_code args env s = 1"
  using assms by (cases "env_yaml_files env") (simp_all add: tidy_exit_code_def merge_replacement_files_def)

theorem export_fixes_always_fails_witness:
  "tidy_exit_code ((default_args [''.*''])\<lparr>export_fixes := ''out.yaml''\<rparr>)
    ((sample_env (\<lambda>_. 0) (\<lambda>_. True))\<lparr>env_yaml_files := [''/tmp/t/a.yaml'']\<rparr>) (tidy_init 1 []) = 1"
  by (rule export_fixes_always_fails) simp_all

end
