(* ===== verification/Utf8.thy ===== *)
theory Utf8
  imports Main
begin

text \<open>
  \<open>codecs.decode(data, 'utf-8')\<close> with strict errors: bytes and code points are numbers, and \<open>None\<close> is a
  \<open>UnicodeDecodeError\<close>. Overlong forms, surrogates and numbers above the last code point are refused, so
  a text has one encoding and decoding is injective.
\<close>

section \<open>Decoding\<close>

definition continuation :: "nat \<Rightarrow> bool" where
  "continuation b \<longleftrightarrow> 0x80 \<le> b \<and> b < 0xC0"

definition low_bits :: "nat \<Rightarrow> nat" where
  "low_bits b = b - 0x80"

text \<open>One code point, and the bytes that are left.\<close>

fun decode_point :: "nat list \<Rightarrow> (nat \<times> nat list) option" where
  "decode_point [] = None"
| "decode_point (a # s) =
     (if a < 0x80 then Some (a, s)
      else if 0xC2 \<le> a \<and> a < 0xE0 then
        (case s of
           b # r \<Rightarrow>
             if continuation b then Some ((a - 0xC0) * 64 + low_bits b, r) else None
         | _ \<Rightarrow> None)
      else if 0xE0 \<le> a \<and> a < 0xF0 then
        (case s of
           b # c # r \<Rightarrow>
             (let p = (a - 0xE0) * 4096 + low_bits b * 64 + low_bits c in
              if continuation b \<and> continuation c \<and> 0x800 \<le> p \<and> \<not> (0xD800 \<le> p \<and> p < 0xE000)
              then Some (p, r) else None)
         | _ \<Rightarrow> None)
      else if 0xF0 \<le> a \<and> a < 0xF5 then
        (case s of
           b # c # d # r \<Rightarrow>
             (let p = (a - 0xF0) * 262144 + low_bits b * 4096 + low_bits c * 64 + low_bits d in
              if continuation b \<and> continuation c \<and> continuation d \<and> 0x10000 \<le> p \<and> p < 0x110000
              then Some (p, r) else None)
         | _ \<Rightarrow> None)
      else None)"

lemma decode_point_shorter: "decode_point s = Some (p, r) \<Longrightarrow> length r < length s"
  by (cases s) (auto simp: Let_def split: if_splits list.splits)

function utf8_decode :: "nat list \<Rightarrow> nat list option" where
  "utf8_decode [] = Some []"
| "utf8_decode (a # s) =
     (case decode_point (a # s) of
        None \<Rightarrow> None
      | Some (p, r) \<Rightarrow> map_option ((#) p) (utf8_decode r))"
  by pat_completeness auto
termination
  by (relation "measure length") (auto simp del: decode_point.simps dest: decode_point_shorter)

section \<open>Encoding\<close>

definition encode_point :: "nat \<Rightarrow> nat list" where
  "encode_point p =
     (if p < 0x80 then [p]
      else if p < 0x800 then [0xC0 + p div 64, 0x80 + p mod 64]
      else if p < 0x10000 then [0xE0 + p div 4096, 0x80 + p div 64 mod 64, 0x80 + p mod 64]
      else [0xF0 + p div 262144, 0x80 + p div 4096 mod 64, 0x80 + p div 64 mod 64, 0x80 + p mod 64])"

lemma continuationE:
  assumes "continuation b"
  obtains k where "b = 0x80 + k" and "low_bits b = k" and "k < 64"
  using assms that [of "b - 0x80"] by (auto simp: continuation_def low_bits_def)

lemma base64: "k < 64 \<Longrightarrow> (x * 64 + k) div 64 = x \<and> (x * 64 + k) mod 64 = k" for x k :: nat
  by simp

lemma decode_point_encode:
  assumes "decode_point s = Some (p, r)"
  shows "s = encode_point p @ r"
proof (cases s)
  case (Cons a t)
  consider "a < 0x80" | "0xC2 \<le> a" "a < 0xE0" | "0xE0 \<le> a" "a < 0xF0" | "0xF0 \<le> a" "a < 0xF5"
    using assms Cons by (auto split: if_splits)
  then show ?thesis
  proof cases
    case 1
    with assms Cons show ?thesis by (simp add: encode_point_def)
  next
    case 2
    with assms Cons obtain b where t: "t = b # r" and b: "continuation b" and p: "p = (a - 0xC0) * 64 + low_bits b"
      by (auto split: list.splits if_splits)
    from b obtain k where k: "b = 0x80 + k" "low_bits b = k" "k < 64" by (rule continuationE)
    from 2 obtain h where h: "a = 0xC0 + h" "2 \<le> h" "h < 32" using le_Suc_ex [of "0xC0" a] by auto
    have "p = h * 64 + k" using p k h by simp
    then have "p div 64 = h" "p mod 64 = k" "0x80 \<le> p" "p < 0x800" using h k by auto
    with t k h Cons show ?thesis by (simp add: encode_point_def)
  next
    case 3
    with assms Cons obtain b c where t: "t = b # c # r" and bc: "continuation b" "continuation c"
      and p: "p = (a - 0xE0) * 4096 + low_bits b * 64 + low_bits c" "0x800 \<le> p"
      by (auto simp: Let_def split: list.splits if_splits)
    from bc(1) obtain k where k: "b = 0x80 + k" "low_bits b = k" "k < 64" by (rule continuationE)
    from bc(2) obtain l where l: "c = 0x80 + l" "low_bits c = l" "l < 64" by (rule continuationE)
    from 3 obtain h where h: "a = 0xE0 + h" "h < 16" using le_Suc_ex [of "0xE0" a] by auto
    have q: "p = (h * 64 + k) * 64 + l" using p k l h by simp
    then have d: "p div 64 = h * 64 + k" "p mod 64 = l" using base64 [OF l(3), of "h * 64 + k"] by simp_all
    moreover have "p div 4096 = p div 64 div 64" by (simp add: div_mult2_eq [symmetric])
    ultimately have "p div 4096 = h" "p div 64 mod 64 = k" "p mod 64 = l" "p < 0x10000"
      using base64 [OF k(3), of h] k l h q by simp_all
    with p(2) t k l h Cons show ?thesis by (simp add: encode_point_def)
  next
    case 4
    with assms Cons obtain b c d where t: "t = b # c # d # r" and bcd: "continuation b" "continuation c" "continuation d"
      and p: "p = (a - 0xF0) * 262144 + low_bits b * 4096 + low_bits c * 64 + low_bits d" "0x10000 \<le> p"
      by (auto simp: Let_def split: list.splits if_splits)
    from bcd(1) obtain k where k: "b = 0x80 + k" "low_bits b = k" "k < 64" by (rule continuationE)
    from bcd(2) obtain l where l: "c = 0x80 + l" "low_bits c = l" "l < 64" by (rule continuationE)
    from bcd(3) obtain m where m: "d = 0x80 + m" "low_bits d = m" "m < 64" by (rule continuationE)
    from 4 obtain h where h: "a = 0xF0 + h" "h < 5" using le_Suc_ex [of "0xF0" a] by auto
    have q: "p = ((h * 64 + k) * 64 + l) * 64 + m" using p k l m h by simp
    then have 1: "p div 64 = (h * 64 + k) * 64 + l" "p mod 64 = m"
      using base64 [OF m(3), of "(h * 64 + k) * 64 + l"] by simp_all
    then have 2: "p div 64 div 64 = h * 64 + k" "p div 64 mod 64 = l"
      using base64 [OF l(3), of "h * 64 + k"] by simp_all
    then have 3: "p div 64 div 64 div 64 = h" "p div 64 div 64 mod 64 = k"
      using base64 [OF k(3), of h] by simp_all
    have "p div 4096 = p div 64 div 64" "p div 262144 = p div 64 div 64 div 64"
      by (simp_all add: div_mult2_eq [symmetric])
    with 1 2 3 p(2) t k l m h Cons show ?thesis by (simp add: encode_point_def)
  qed
qed (use assms in simp)

lemma utf8_decode_encode: "utf8_decode s = Some t \<Longrightarrow> s = concat (map encode_point t)"
proof (induction s arbitrary: t rule: utf8_decode.induct)
  case (2 a s)
  from 2(2) obtain p r u where "decode_point (a # s) = Some (p, r)" "utf8_decode r = Some u" "t = p # u"
    by (auto simp del: decode_point.simps split: option.splits)
  with 2(1) [OF this(1) refl this(2)] decode_point_encode [OF this(1)] show ?case by simp
qed simp

lemma utf8_decode_inj: "utf8_decode s = Some u \<Longrightarrow> utf8_decode t = Some u \<Longrightarrow> s = t"
  using utf8_decode_encode [of s u] utf8_decode_encode [of t u] by simp

text \<open>Ascii bytes are their own text.\<close>

lemma utf8_decode_ascii: "list_all (\<lambda>b. b < 0x80) s \<Longrightarrow> utf8_decode s = Some s"
  by (induction s) simp_all

end
