(* ===== verification/Format.thy ===== *)
theory Format
  imports Paths Effects Utf8
begin

text \<open>
  \<open>run_clang_format.py\<close>: the selection of the files, the comparison with the formatted text, and the
  main loop over the source directories. The directory walk, the bytes of the files and the answers of
  clang-format are parameters of the record \<open>fmt_world\<close>.
\<close>

section \<open>\<open>fnmatch\<close>\<close>

datatype gitem = GStar | GAny | GChr char | GCls bool "citem list"

text \<open>The inside of a class: characters and ranges.\<close>

fun glob_class :: "string \<Rightarrow> citem list" where
  "glob_class (a # b # c # s) =
     (if b = CHR ''-'' then CRng a c # glob_class s else CChr a # glob_class (b # c # s))"
| "glob_class s = map CChr s"

text \<open>The text after an opening bracket up to the closing one, when there is one: a bracket in the first
  place does not close.\<close>

definition glob_bracket :: "string \<Rightarrow> (bool \<times> string \<times> string) option" where
  "glob_bracket s =
     (let (neg, t) = (case s of [] \<Rightarrow> (False, s) | c # r \<Rightarrow> if c = CHR ''!'' then (True, r) else (False, s));
          (first, u) = (take 1 t, drop 1 t);
          body = takeWhile (\<lambda>c. c \<noteq> CHR '']'') u
      in if t = [] \<or> (first \<noteq> '']'' \<and> CHR '']'' \<notin> set t) \<or> (first = '']'' \<and> CHR '']'' \<notin> set u) then None
         else Some (neg, first @ body, drop (length body + 1) u))"

lemma glob_bracket_shorter: "glob_bracket s = Some (n, b, r) \<Longrightarrow> length r \<le> length s"
  by (auto simp: glob_bracket_def Let_def split: list.splits if_splits prod.splits)

function glob_items :: "string \<Rightarrow> gitem list" where
  "glob_items [] = []"
| "glob_items (c # s) =
     (if c = CHR ''*'' then GStar # glob_items s
      else if c = CHR ''?'' then GAny # glob_items s
      else if c = CHR ''['' then
        (case glob_bracket s of None \<Rightarrow> GChr c # glob_items s
         | Some (neg, body, r) \<Rightarrow> GCls neg (glob_class body) # glob_items r)
      else GChr c # glob_items s)"
  by pat_completeness auto
termination
  by (relation "measure length") (auto dest: glob_bracket_shorter)

fun gitem_has :: "gitem \<Rightarrow> char \<Rightarrow> bool" where
  "gitem_has (GChr d) c = (c = d)"
| "gitem_has (GCls neg items) c = cls_has neg items c"
| "gitem_has _ c = True"

function (sequential) gmatch :: "gitem list \<Rightarrow> string \<Rightarrow> bool" where
  "gmatch [] s = (s = [])"
| "gmatch (GStar # ps) s = (gmatch ps s \<or> (case s of [] \<Rightarrow> False | c # t \<Rightarrow> gmatch (GStar # ps) t))"
| "gmatch (p # ps) [] = False"
| "gmatch (p # ps) (c # s) = (gitem_has p c \<and> gmatch ps s)"
  by pat_completeness auto
termination
  by (relation "measure (\<lambda>(ps, s). length ps + length s)") auto

definition fnmatch :: "string \<Rightarrow> string \<Rightarrow> bool" where
  "fnmatch name pat = gmatch (glob_items pat) name"

section \<open>Files and texts\<close>

text \<open>\<open>splitlines(True)\<close> of a decoded text: the line breaks among the code points.\<close>

definition line_break :: "nat \<Rightarrow> bool" where
  "line_break c \<longleftrightarrow> c \<in> {0x0A, 0x0B, 0x0C, 0x0D, 0x1C, 0x1D, 0x1E, 0x85, 0x2028, 0x2029}"

fun splitlines_from :: "nat list \<Rightarrow> nat list \<Rightarrow> nat list list" where
  "splitlines_from acc [] = (if acc = [] then [] else [rev acc])"
| "splitlines_from acc (c # s) =
     (if line_break c then
        (case s of
           d # s' \<Rightarrow> if c = 0x0D \<and> d = 0x0A then rev (d # c # acc) # splitlines_from [] s'
                    else rev (c # acc) # splitlines_from [] s
         | [] \<Rightarrow> [rev (c # acc)])
      else splitlines_from (c # acc) s)"

definition splitlines :: "nat list \<Rightarrow> nat list list" where
  "splitlines s = splitlines_from [] s"

record fmt_world =
  walk :: "string \<Rightarrow> (string \<times> string list) list"  \<comment> \<open>\<open>os.walk\<close>: directories with their file names\<close>
  globs_file :: "exc + string list"                \<comment> \<open>the lines of the globs file, or the error of reading it\<close>
  content :: "string \<Rightarrow> nat list option"           \<comment> \<open>the bytes; \<open>None\<close>: the file cannot be opened\<close>
  clang_format :: "string \<Rightarrow> exc + nat list"       \<comment> \<open>\<open>check_output\<close>: the bytes, or its error\<close>
  format_in_place :: "string list \<Rightarrow> exc option"   \<comment> \<open>\<open>check_call\<close> with \<open>-i\<close>: its error\<close>

record fmt_args =
  source_dirs :: "string option"                   \<comment> \<open>\<open>None\<close> when not given\<close>
  fmt_fix :: bool
  fmt_quiet :: bool

definition exclude_globs :: "string list \<Rightarrow> string list" where
  "exclude_globs ls = map strip ls"

definition formatted_filenames :: "fmt_world \<Rightarrow> string list \<Rightarrow> string \<Rightarrow> string list" where
  "formatted_filenames w globs source_dir =
     concat (map (\<lambda>(directory, filenames).
       filter (\<lambda>filename. \<not> list_ex (fnmatch filename) globs)
         (filter (\<lambda>x. endswith x ''.h'' \<or> endswith x ''.cpp'') (map (path_join2 directory) filenames)))
       (walk w source_dir))"

text \<open>\<open>difflib.unified_diff\<close> yields nothing exactly for equal lists of lines.\<close>

definition style_issues :: "nat list \<Rightarrow> nat list \<Rightarrow> bool" where
  "style_issues original formatted \<longleftrightarrow> splitlines original \<noteq> splitlines formatted"

text \<open>One file: it is opened, clang-format runs on it, and the two byte strings are decoded, the output of
  clang-format first. A \<open>UnicodeDecodeError\<close> is a \<open>ValueError\<close>.\<close>

definition check_file :: "fmt_world \<Rightarrow> string \<Rightarrow> exc + bool" where
  "check_file w filename =
     (case content w filename of
        None \<Rightarrow> Inl OSError
      | Some bytes \<Rightarrow>
          (case clang_format w filename of
             Inl e \<Rightarrow> Inl e
           | Inr output \<Rightarrow>
               (case utf8_decode output of
                  None \<Rightarrow> Inl ValueError
                | Some formatted \<Rightarrow>
                    (case utf8_decode bytes of
                       None \<Rightarrow> Inl ValueError
                     | Some original \<Rightarrow> Inr (style_issues original formatted)))))"

text \<open>The loop over the files: what it prints, and the error flag.\<close>

fun compare_files :: "fmt_world \<Rightarrow> fmt_args \<Rightarrow> string list \<Rightarrow> string list \<Rightarrow> bool \<Rightarrow> string list \<times> (exc + bool)" where
  "compare_files w args out [] error = (out, Inr error)"
| "compare_files w args out (filename # rest) error =
     (let out1 = (if \<not> fmt_quiet args then out @ [''Checking '' @ filename] else out) in
      case check_file w filename of
        Inl e \<Rightarrow> (out1, Inl e)
      | Inr issues \<Rightarrow>
          (let out2 = (if issues then out1 @ [filename @ '' had clang-format style issues''] else out1)
           in compare_files w args out2 rest (issues \<or> error)))"

definition fcheck :: "fmt_world \<Rightarrow> fmt_args \<Rightarrow> string list \<Rightarrow> string \<Rightarrow> string list \<times> (exc + bool)" where
  "fcheck w args globs source_dir =
     (let files = formatted_filenames w globs source_dir in
      if fmt_fix args then
        (if \<not> fmt_quiet args then [join [newline] (map (\<lambda>x. ''Formatting '' @ x) files)] else [],
         case format_in_place w files of None \<Rightarrow> Inr False | Some e \<Rightarrow> Inl e)
      else compare_files w args [] files False)"

text \<open>The main loop: each directory overwrites \<open>had_err\<close>.\<close>

fun format_dirs :: "fmt_world \<Rightarrow> fmt_args \<Rightarrow> string list \<Rightarrow> string list \<Rightarrow> bool \<Rightarrow> exc + bool" where
  "format_dirs w args globs [] had_err = Inr had_err"
| "format_dirs w args globs (d # ds) had_err =
     (if d = [] then format_dirs w args globs ds had_err
      else case snd (fcheck w args globs d) of Inl e \<Rightarrow> Inl e | Inr b \<Rightarrow> format_dirs w args globs ds b)"

text \<open>Without \<open>--source_dirs\<close> the name is \<open>None\<close>, which has no \<open>split\<close>.\<close>

definition format_main :: "fmt_world \<Rightarrow> fmt_args \<Rightarrow> exc + int" where
  "format_main w args =
     (case globs_file w of
        Inl e \<Rightarrow> Inl e
      | Inr ls \<Rightarrow>
          (case source_dirs args of
             None \<Rightarrow> Inl AttributeError
           | Some dirs \<Rightarrow>
               (case format_dirs w args (exclude_globs ls) (split_on (CHR '','') dirs) False of
                  Inl e \<Rightarrow> Inl e | Inr had_err \<Rightarrow> Inr (if had_err then 1 else 0))))"

section \<open>Facts\<close>

lemma concat_splitlines: "concat (splitlines s) = s"
proof -
  have "concat (splitlines_from acc s) = rev acc @ s" for acc
    by (induction acc s rule: splitlines_from.induct) (auto split: list.splits)
  from this [of "[]"] show ?thesis by (simp add: splitlines_def)
qed

lemma style_issues_iff: "style_issues a b \<longleftrightarrow> a \<noteq> b"
  unfolding style_issues_def by (metis concat_splitlines)

text \<open>Why a file stops the script, and whether it has issues: on the bytes, since decoding is injective.\<close>

definition file_failure :: "fmt_world \<Rightarrow> string \<Rightarrow> exc option" where
  "file_failure w f =
     (case (content w f, clang_format w f) of
        (None, _) \<Rightarrow> Some OSError
      | (_, Inl e) \<Rightarrow> Some e
      | (Some bytes, Inr output) \<Rightarrow>
          if utf8_decode output = None \<or> utf8_decode bytes = None then Some ValueError else None)"

definition file_differs :: "fmt_world \<Rightarrow> string \<Rightarrow> bool" where
  "file_differs w f \<longleftrightarrow> map_option Inr (content w f) \<noteq> Some (clang_format w f)"

lemma check_file_eq:
  "check_file w f = (case file_failure w f of Some e \<Rightarrow> Inl e | None \<Rightarrow> Inr (file_differs w f))"
  by (auto simp: check_file_def file_failure_def file_differs_def style_issues_iff dest: utf8_decode_inj
      split: option.split sum.split)

lemma compare_files_result:
  "snd (compare_files w args out fs e) =
    (case filter (\<lambda>f. file_failure w f \<noteq> None) fs of
       f # _ \<Rightarrow> Inl (the (file_failure w f))
     | [] \<Rightarrow> Inr (e \<or> (\<exists>f \<in> set fs. file_differs w f)))"
  by (induction fs arbitrary: out e) (auto simp: check_file_eq Let_def split: list.split option.split)

text \<open>C29. Without \<open>--fix\<close>, the check of a directory raises the error of the first selected file that cannot
  be opened, that clang-format refuses, or whose bytes or formatted bytes are not UTF-8 (a \<open>ValueError\<close>);
  when there is no such file it returns whether the bytes of some selected file differ from the output of
  clang-format on it.\<close>

theorem fcheck_exact:
  assumes "\<not> fmt_fix args"
  shows "snd (fcheck w args globs d) =
    (case filter (\<lambda>f. file_failure w f \<noteq> None) (formatted_filenames w globs d) of
       f # _ \<Rightarrow> Inl (the (file_failure w f))
     | [] \<Rightarrow> Inr (\<exists>f \<in> set (formatted_filenames w globs d). \<exists>bytes output.
                content w f = Some bytes \<and> clang_format w f = Inr output \<and> bytes \<noteq> output))"
proof -
  have "file_differs w f \<longleftrightarrow> (\<exists>bytes output. content w f = Some bytes \<and> clang_format w f = Inr output \<and> bytes \<noteq> output)"
    if "file_failure w f = None" for f
    using that by (auto simp: file_failure_def file_differs_def split: option.splits sum.splits)
  then have "(\<exists>f \<in> set fs. file_differs w f) \<longleftrightarrow>
      (\<exists>f \<in> set fs. \<exists>bytes output. content w f = Some bytes \<and> clang_format w f = Inr output \<and> bytes \<noteq> output)"
    if "filter (\<lambda>f. file_failure w f \<noteq> None) fs = []" for fs
    using that unfolding filter_empty_conv by blast
  with assms show ?thesis
    by (simp add: fcheck_def Let_def compare_files_result split: list.split)
qed

definition two_dirs :: fmt_world where
  "two_dirs = \<lparr>walk = (\<lambda>d. [(d, [''a.h''])]), globs_file = Inr [], content = (\<lambda>f. Some [0x41]),
     clang_format = (\<lambda>f. Inr (if f = ''bad/a.h'' then [0x42] else if f = ''latin/a.h'' then [0xE9] else [0x41])),
     format_in_place = (\<lambda>_. None)\<rparr>"

definition plain_args :: "string \<Rightarrow> fmt_args" where
  "plain_args ds = \<lparr>source_dirs = Some ds, fmt_fix = False, fmt_quiet = True\<rparr>"

lemma two_dirs_files:
  "formatted_filenames two_dirs [] ''bad'' = [''bad/a.h'']" "formatted_filenames two_dirs [] ''latin'' = [''latin/a.h'']"
  "file_failure two_dirs ''bad/a.h'' = None" "file_failure two_dirs ''latin/a.h'' = Some ValueError"
  by code_simp+

theorem fcheck_exact_witness:
  "snd (fcheck two_dirs (plain_args ''bad'') [] ''bad'') = Inr True \<and>
   snd (fcheck two_dirs (plain_args ''latin'') [] ''latin'') = Inl ValueError"
  using fcheck_exact [of "plain_args ''bad''" two_dirs "[]" "''bad''"]
    fcheck_exact [of "plain_args ''latin''" two_dirs "[]" "''latin''"]
  by (simp add: two_dirs_files) (simp add: two_dirs_def plain_args_def)

lemma split_on_last: "c \<notin> set d \<Longrightarrow> split_on c (ds @ c # d) = split_on c ds @ [d]"
proof (induction ds)
  case Nil
  have "split_on c d = [d]" using Nil by (induction d) auto
  then show ?case by simp
next
  case (Cons x ds)
  moreover have "split_on c ds \<noteq> []" by (cases ds) (auto split: list.splits)
  ultimately show ?case by (auto split: list.splits)
qed

lemma format_dirs_last:
  "\<forall>x \<in> set ds. x \<noteq> [] \<longrightarrow> (\<exists>b. snd (fcheck w args globs x) = Inr b) \<Longrightarrow> d \<noteq> [] \<Longrightarrow>
    format_dirs w args globs (ds @ [d]) e = snd (fcheck w args globs d)"
  by (induction ds arbitrary: e) (auto split: sum.split)

text \<open>C30. The exit code of the script is decided by the last source directory alone. Let the globs file be
  readable and the last name of the comma-separated list be non-empty, and let the checks of all
  non-empty names return, so that no file stops the script with an exception (which would make the exit
  code 1). Then the code is 1 exactly when the check of the last directory found an error: what was found in
  the directories before it is forgotten.\<close>

theorem format_main_last_dir:
  assumes "globs_file w = Inr ls" and "source_dirs args = Some (ds @ '','' @ d)" and "CHR '','' \<notin> set d" and "d \<noteq> []"
    and "\<forall>x \<in> set (split_on (CHR '','') ds). x \<noteq> [] \<longrightarrow> (\<exists>b. snd (fcheck w args (exclude_globs ls) x) = Inr b)"
    and "snd (fcheck w args (exclude_globs ls) d) = Inr b"
  shows "format_main w args = Inr (if b then 1 else 0)"
  using format_dirs_last [OF assms(5,4), of False] assms(1,2,6) split_on_last [OF assms(3), of ds]
  by (simp add: format_main_def)

theorem format_main_last_dir_witness:
  "format_main two_dirs (plain_args ''bad,good'') = Inr 0 \<and>
   snd (fcheck two_dirs (plain_args ''bad,good'') [] ''bad'') = Inr True"
proof -
  have files: "formatted_filenames two_dirs [] ''bad'' = [''bad/a.h'']"
    "formatted_filenames two_dirs [] ''good'' = [''good/a.h'']" by code_simp+
  have "check_file two_dirs ''bad/a.h'' = Inr True" "check_file two_dirs ''good/a.h'' = Inr False"
    by (simp_all add: check_file_def two_dirs_def style_issues_iff)
  with files have checks: "snd (fcheck two_dirs (plain_args ''bad,good'') [] ''bad'') = Inr True"
    "snd (fcheck two_dirs (plain_args ''bad,good'') [] ''good'') = Inr False"
    by (simp_all add: fcheck_def plain_args_def)
  moreover have "globs_file two_dirs = Inr []" "source_dirs (plain_args ''bad,good'') = Some (''bad'' @ '','' @ ''good'')"
    "split_on (CHR '','') ''bad'' = [''bad'']" "exclude_globs [] = []"
    by (simp_all add: two_dirs_def plain_args_def exclude_globs_def)
  ultimately have "format_main two_dirs (plain_args ''bad,good'') = Inr (if False then 1 else 0)"
    by (intro format_main_last_dir [of _ "[]" _ "''bad''" "''good''"]) auto
  with checks show ?thesis by simp
qed

end
