(* ===== verification/Spec2Isabelle.thy ===== *)
theory Spec2Isabelle
  imports Isolation Header_Guard Nesting_Refs Include_Use_Facts Tidy_Facts Format
begin

text \<open>
  A verification development for the Python programs of the repository, the checkers its build runs:
  \<open>src/my_socket/build_support/cpplint.py\<close>, \<open>run_clang_tidy.py\<close> with \<open>run_clang_tidy_extra.py\<close>, and
  \<open>run_clang_format.py\<close>.

  \<^bold>\<open>The program.\<close> \<open>cpplint.py\<close> is a linter. \<open>main\<close> reads the options, expands directories and calls
  \<open>ProcessFile\<close> on each file. \<open>ProcessFile\<close> backs up the filters, lets \<open>ProcessConfigOverrides\<close> apply the
  \<open>CPPLINT.cfg\<close> files of the enclosing directories, reads the file and calls \<open>ProcessFileData\<close>, which
  cleans the text (\<open>CleansedLines\<close>), runs the checks of the file and, through \<open>ProcessLine\<close>, those of
  every line. The checks share three state machines, fed line by line: the stack of open blocks and
  conditionals (\<open>NestingState\<close>), the include blocks (\<open>_IncludeState\<close>), and the counter of function lines
  (\<open>_FunctionState\<close>). A check reports through \<open>Error\<close>, which consults the NOLINT suppressions and the
  filters of the module state and counts. The exit code is 1 if something was counted.
  \<open>run_clang_tidy.py\<close> finds the compilation database and has a pool of threads run clang-tidy on its
  files, over a bounded queue; its exit code is 1 if clang-tidy failed on a file. \<open>run_clang_format.py\<close>
  compares the sources with what clang-format makes of them, or rewrites them.

  \<^bold>\<open>Conventions.\<close> Text is a HOL string: one character is one code point below 256 (in \<open>Format\<close>, where the
  script decodes the texts itself, a text is a list of code points and a file a list of bytes). Literals with
  backslashes are written \<open>raw ''..`s..''\<close>, with a backquote for each backslash; no pattern of the scripts
  has a backquote. Line numbers and positions are of type \<open>int\<close> with Python's meaning of negative
  indices (\<open>py_nth\<close> raises \<open>IndexError\<close>, \<open>slice\<close> clips); Python's integers are unbounded, so there is no
  wrap-around to model. An exception is a value of \<open>exc\<close>, left of a sum. A check is a \<open>run\<close>: the calls of
  \<open>error\<close> and \<open>ParseNolintSuppressions\<close> it makes, in order, and then its value or exception
  (theory \<open>Effects\<close>); the driver replays the calls on the module state, so a NOLINT comment read in the
  middle of a check acts on the reports after it as in the code. Globals are explicit state: the record
  \<open>lint\<close> for the lint state and suppressions, \<open>opts\<close> for the option globals. A Python set is a list in one
  fixed order: the order in which the extensions are joined into a message, and in which the expanded
  directories are linted, is arbitrary in Python. A block of the nesting stack is its contents with an
  identity \<open>oid\<close>, a number the model hands out where the code has the identity of the object;
  \<open>previous_stack_top\<close> is the block as it was when the line began, where the code keeps a reference to it.
\<close>

text \<open>
  \<^bold>\<open>Base layer.\<close>
  \<^item> \<open>Prelude\<close>: the string and list operations of Python the scripts use.
  \<^item> \<open>PyRegex\<close>: the module \<open>re\<close>: pattern syntax, parser (\<open>re_compile\<close>) and backtracking matcher (\<open>ends\<close>
    lists all ways to match in the order of the engine), with \<open>match\<close>, \<open>search\<close>, \<open>finditer\<close>, \<open>sub\<close>,
    \<open>escape\<close>. All patterns of the scripts are kept as the strings of the source.
  \<^item> \<open>Regex_Theory\<close>, \<open>Regex_Groups\<close>: soundness of the matcher: results are later positions of the same
    subject, captures are spans of it, the matcher decides the language of a plain pattern; and what a
    match says of the place, the length and the text of its groups. The totality results rest on these.
  \<^item> \<open>Tables\<close>: the literal tables of \<open>cpplint.py\<close>.
  \<^item> \<open>Matching\<close>: \<open>Match\<close>, \<open>Search\<close>, \<open>ReplaceAll\<close>, and the compile cache behind them, as an instance of the
    locale \<open>memo_table\<close>: with the cache they compute what they compute without.
  \<^item> \<open>Effects\<close>: runs and their laws. \<open>Outcomes\<close>: the calculus \<open>raises_only\<close> for the exceptions of a run.

  \<^bold>\<open>Reporting.\<close> \<open>Lint_State\<close> has \<open>_CppLintState\<close>, the suppressions and \<open>Error\<close>; \<open>Reporting\<close> shows which
  errors are printed, what NOLINT silences, that the counters add up, and that replaying the calls of a check never raises (locale \<open>call_handler\<close>, interpreted on \<open>handle_call\<close>).
  \<open>Junit\<close> has the JUnit report and the module-level accessors.

  \<^bold>\<open>Text.\<close> \<open>Cleansing\<close> has \<open>CleanseRawStrings\<close>, \<open>RemoveMultiLineComments\<close>, \<open>CleanseComments\<close>,
  \<open>_CollapseStrings\<close>, \<open>IsCppString\<close>, \<open>CleansedLines\<close>; \<open>Cleansing_Facts\<close> shows that each returns and keeps the
  lines aligned, and specifies the comment pass and \<open>IsCppString\<close>. \<open>Expressions\<close> has the two bracket
  scanners, \<open>CloseExpression\<close> and \<open>ReverseCloseExpression\<close>; \<open>Expression_Facts\<close> proves them once as the
  locale \<open>bracket_machine\<close>, interpreted for both directions: they are inverse on balanced text.

  \<^bold>\<open>State machines.\<close> \<open>Include_State\<close> (\<open>_IncludeState\<close>: sections move forward, a block is accepted exactly
  when it is sorted), \<open>Function_State\<close> (\<open>_FunctionState\<close>), \<open>Blocks\<close> (\<open>_BlockInfo\<close> and its subclasses),
  \<open>Nesting\<close> (\<open>NestingState\<close>), \<open>Nesting_Facts\<close> (\<open>Update\<close> returns, a conditional restores the stack, braces
  move the depth), \<open>Nesting_Refs\<close> (the same operations on references to blocks in a heap, as the code has
  them: the contents agree after every sequence of operations, because \<open>UpdatePreprocessor\<close> makes deep
  copies; \<open>Update\<close> is shown to be made of these operations).
\<close>

text \<open>
  \<^bold>\<open>Checks.\<close>
  \<^item> \<open>Paths\<close>, \<open>Paths_Facts\<close>: \<open>os.path\<close>, \<open>FileInfo\<close>, the extension options, the header guard names.
  \<^item> \<open>File_Checks\<close>: copyright, header guard, own header, bad characters, final newline;
    \<open>Header_Guard\<close>: the guard the messages ask for is accepted, another one is reported.
  \<^item> \<open>Line_Checks\<close>: comments and strings over several lines, threading, \<open>VLOG\<close>, increments.
  \<^item> \<open>Class_Checks\<close>: \<open>CheckForNonStandardConstructs\<close>, namespace indentation, function lengths.
  \<^item> \<open>Spacing\<close>, \<open>Brace_Spacing\<close>, \<open>Operators\<close>: the whitespace checks.
  \<^item> \<open>Statements\<close>, \<open>Empty_Bodies\<close>, \<open>Style\<close>: \<open>CheckBraces\<close>, \<open>CheckTrailingSemicolon\<close>,
    \<open>CheckEmptyBlockBody\<close>, \<open>CheckStyle\<close>.
  \<^item> \<open>Check_Macros\<close>: \<open>CheckCheck\<close>, \<open>CheckAltTokens\<close>.
  \<^item> \<open>Includes\<close>: \<open>_ClassifyInclude\<close>, \<open>CheckIncludeLine\<close>. \<open>Include_Use\<close>: \<open>CheckForIncludeWhatYouUse\<close>, with its
    specification in \<open>Include_Use_Facts\<close>: the last demand of each header that is not included.
  \<^item> \<open>Casts\<close>, \<open>References\<close>, \<open>Language\<close>, \<open>Member_Checks\<close>: \<open>CheckCasts\<close>, \<open>CheckForNonConstReference\<close>,
    \<open>CheckLanguage\<close>, \<open>virtual\<close>, \<open>override\<close>, C++11 and C++14.

  \<^bold>\<open>Driver.\<close> \<open>Process_File\<close> (\<open>ProcessLine\<close>, \<open>ProcessFileData\<close>), \<open>Config\<close> (\<open>ProcessConfigOverrides\<close>),
  \<open>Driver\<close> (\<open>ProcessFile\<close>, \<open>ParseArguments\<close>, \<open>main\<close>). The exceptions are followed through the whole program:
  \<open>Style_Total\<close> (style checks raise nothing), \<open>Language_Total\<close>, \<open>Declaration_Total\<close> (the checks on language and
  declarations), \<open>Line_Total\<close> (a line, under an invariant on the three state machines that every line
  keeps), \<open>File_Total\<close> (a file), \<open>Driver_Facts\<close> (the program). What is left is an \<open>IndexError\<close> on lines with
  an angle bracket; the two places it comes from are proved to raise. What \<open>--filter\<close> prints and
  what nested configuration files amount to (with the lemmas of \<open>Config_Facts\<close>) is in \<open>Driver_Facts\<close> too. \<open>Isolation\<close> shows that files do not influence each other: the operations commute with
  adding an earlier log and with forgetting the suppressions (two interpretations of the locale
  \<open>printing_map\<close>), so the output and the errors of a run are those of the files linted alone, and the exit
  code is 1 exactly when one of these has an error.

  \<^bold>\<open>The other scripts.\<close> \<open>Tidy\<close> models \<open>run_clang_tidy.py\<close> from its options to its exit code; the main thread
  and the workers are the step relation \<open>tidy_step\<close>, so that \<open>Tidy_Facts\<close> holds for every interleaving: the
  failures are exact, the program ends when it should (\<open>tidy_main_verdict\<close>) and the conditions under which
  it never does (\<open>tidy_main_hangs\<close>). \<open>Format\<close> models \<open>run_clang_format.py\<close>, with the decoding of UTF-8
  (theory \<open>Utf8\<close>: injective, so that texts differ when the bytes do), and shows what the check of a
  directory returns or raises and what the exit code is.

  \<^bold>\<open>Loops.\<close> The functions are total, with termination proved from the text that is left, except two loops
  of the source that may not end: the search up the directories for a \<open>.svn\<close> entry (\<open>svn_top\<close>) and for the
  compilation database (\<open>database_loop\<close>). They are partial functions with \<open>None\<close> for not returning, and it
  is proved when they return. No definition uses fuel.
\<close>

text \<open>
  \<^bold>\<open>Parameters.\<close> The file system (\<open>world\<close>, the contents of files, the files a directory walk yields; for a
  configuration file the lines it yields and whether reading it then fails or stops at undecodable bytes), the
  output of clang-format, clang-tidy and the compilation database (\<open>fmt_world\<close>, \<open>tidy_env\<close>), and the
  serialisation of the element tree of the JUnit report by \<open>xml.etree\<close>.

  \<^bold>\<open>Not modelled.\<close> The C++ server under \<open>src/my_socket/src\<close>, its tests and its earlier versions: they rest on
  epoll, sockets and pthreads and are not Python. In the scripts: the branches for Python 2 and for
  Windows; the usage text (\<open>PrintUsage\<close> is its exit code); the declarations of the options to \<open>argparse\<close>
  (the parsed record \<open>tidy_args\<close> or \<open>fmt_args\<close> is the input); progress output, the unused
  \<open>update_progress\<close>, and keyboard interrupts; code points above 255 in the files \<open>cpplint.py\<close> reads, for which
  \<open>GetLineWidth\<close> would differ; the patterns of a user of \<open>run_clang_tidy.py\<close> outside the syntax of \<open>PyRegex\<close>
  (look-behind, named groups, flags), which \<open>re_compile\<close> refuses as it does invalid ones; errors of writing to
  the terminal; \<open>extra_check_functions\<close>, which \<open>main\<close> leaves empty; and recursion limits and memory.
\<close>

end
